(* ===== verification/Wallet_Prelude.thy ===== *)
theory Wallet_Prelude
  imports Main
begin

text \<open>
  Shared vocabulary of the development: results with error values, Rust's
  machine integers (checked and saturating arithmetic on \<^typ>\<open>int\<close> and \<^typ>\<open>nat\<close> with the
  bounds written out), byte strings with the standard library routines the
  wallet uses on them, and generic facts on lists that several components need.
  A Rust \<^verbatim>\<open>String\<close> is its UTF-8 byte sequence, a \<^typ>\<open>string\<close>.
\<close>

named_theorems machine_bounds \<open>the numeric bounds of the machine integers\<close>

section \<open>Results\<close>

type_synonym ('e, 'a) result = "'e + 'a"

definition res_bind :: "('e, 'a) result \<Rightarrow> ('a \<Rightarrow> ('e, 'b) result) \<Rightarrow> ('e, 'b) result" where
  "res_bind m f = (case m of Inl e \<Rightarrow> Inl e | Inr x \<Rightarrow> f x)"

definition ok_or :: "'e \<Rightarrow> 'a option \<Rightarrow> ('e, 'a) result" where
  "ok_or e x = (case x of None \<Rightarrow> Inl e | Some v \<Rightarrow> Inr v)"

lemma res_bind_simps [simp]:
  "res_bind (Inl e) f = Inl e"
  "res_bind (Inr x) f = f x"
  by (simp_all add: res_bind_def)

lemma res_bind_Inr_iff: "res_bind m f = Inr y \<longleftrightarrow> (\<exists>x. m = Inr x \<and> f x = Inr y)"
  by (cases m) simp_all

lemma res_bind_Inl_iff: "res_bind m f = Inl e \<longleftrightarrow> m = Inl e \<or> (\<exists>x. m = Inr x \<and> f x = Inl e)"
  by (cases m) simp_all

lemma ok_or_simps [simp]:
  "ok_or e None = Inl e"
  "ok_or e (Some v) = Inr v"
  by (simp_all add: ok_or_def)

lemma ok_or_Inr_iff [simp]: "ok_or e x = Inr v \<longleftrightarrow> x = Some v"
  by (cases x) simp_all

section \<open>Machine integers\<close>

definition i64_min :: int where [machine_bounds]: "i64_min = - 9223372036854775808"
definition i64_max :: int where [machine_bounds]: "i64_max = 9223372036854775807"
definition i128_min :: int where
  [machine_bounds]: "i128_min = - 170141183460469231731687303715884105728"
definition i128_max :: int where
  [machine_bounds]: "i128_max = 170141183460469231731687303715884105727"
definition u32_max :: nat where [machine_bounds]: "u32_max = 4294967295"
definition u64_max :: nat where [machine_bounds]: "u64_max = 18446744073709551615"

lemma machine_bounds_pow:
  "i64_min = - (2 ^ 63)" "i64_max = 2 ^ 63 - 1"
  "i128_min = - (2 ^ 127)" "i128_max = 2 ^ 127 - 1"
  "u32_max = 2 ^ 32 - 1" "u64_max = 2 ^ 64 - 1"
  by (simp_all add: machine_bounds)

definition in_range :: "int \<Rightarrow> int \<Rightarrow> int \<Rightarrow> bool" where
  "in_range lo hi x \<longleftrightarrow> lo \<le> x \<and> x \<le> hi"

definition checked :: "int \<Rightarrow> int \<Rightarrow> int \<Rightarrow> int option" where
  "checked lo hi x = (if lo \<le> x \<and> x \<le> hi then Some x else None)"

definition clamp :: "int \<Rightarrow> int \<Rightarrow> int \<Rightarrow> int" where
  "clamp lo hi x = (if x < lo then lo else if hi < x then hi else x)"

abbreviation "in_i64 \<equiv> in_range i64_min i64_max"
abbreviation "in_i128 \<equiv> in_range i128_min i128_max"
abbreviation "checked_i64 \<equiv> checked i64_min i64_max"
abbreviation "checked_i128 \<equiv> checked i128_min i128_max"

definition sat_add_i128 :: "int \<Rightarrow> int \<Rightarrow> int" where
  "sat_add_i128 a b = clamp i128_min i128_max (a + b)"

definition sat_sum_i128 :: "int list \<Rightarrow> int" where
  "sat_sum_i128 xs = foldl sat_add_i128 0 xs"

definition sat_add_u32 :: "nat \<Rightarrow> nat \<Rightarrow> nat" where
  "sat_add_u32 a b = min u32_max (a + b)"

definition sat_add_u64 :: "nat \<Rightarrow> nat \<Rightarrow> nat" where
  "sat_add_u64 a b = min u64_max (a + b)"

definition sat_mul_u64 :: "nat \<Rightarrow> nat \<Rightarrow> nat" where
  "sat_mul_u64 a b = min u64_max (a * b)"

text \<open>The conversion \<^verbatim>\<open>u32::try_from(n).unwrap_or(u32::MAX)\<close>.\<close>

definition to_u32 :: "nat \<Rightarrow> nat" where
  "to_u32 n = min u32_max n"

text \<open>What clamping and checking promise, for every pair of bounds around zero.\<close>

locale machine_int =
  fixes lo hi :: int
  assumes lo_nonpos: "lo \<le> 0" and hi_nonneg: "0 \<le> hi"
begin

lemma clamp_in_range: "in_range lo hi (clamp lo hi x)"
  using lo_nonpos hi_nonneg by (auto simp: clamp_def in_range_def)

lemma clamp_id: "in_range lo hi x \<Longrightarrow> clamp lo hi x = x"
  by (simp add: clamp_def in_range_def)

lemma clamp_mono: "x \<le> y \<Longrightarrow> clamp lo hi x \<le> clamp lo hi y"
  using lo_nonpos hi_nonneg by (auto simp: clamp_def)

lemma clamp_le: "0 \<le> x \<Longrightarrow> clamp lo hi x \<le> x"
  using lo_nonpos by (auto simp: clamp_def)

lemma clamp_nonneg: "0 \<le> x \<Longrightarrow> 0 \<le> clamp lo hi x"
  using lo_nonpos hi_nonneg by (auto simp: clamp_def)

lemma clamp_below_hi: "clamp lo hi x < hi \<Longrightarrow> 0 \<le> x \<Longrightarrow> clamp lo hi x = x"
  using lo_nonpos by (auto simp: clamp_def split: if_splits)

lemma clamp_add_right:
  "0 \<le> x \<Longrightarrow> 0 \<le> y \<Longrightarrow> clamp lo hi (clamp lo hi x + y) = clamp lo hi (x + y)"
  using lo_nonpos hi_nonneg by (auto simp: clamp_def)

lemma checked_Some_iff: "checked lo hi x = Some y \<longleftrightarrow> y = x \<and> in_range lo hi x"
  by (auto simp: checked_def in_range_def)

lemma checked_None_iff: "checked lo hi x = None \<longleftrightarrow> \<not> in_range lo hi x"
  by (auto simp: checked_def in_range_def)

end

interpretation mi64: machine_int i64_min i64_max
  by unfold_locales (simp_all add: machine_bounds)

interpretation mi128: machine_int i128_min i128_max
  by unfold_locales (simp_all add: machine_bounds)

lemma sat_add_i128_range [simp]: "in_i128 (sat_add_i128 a b)"
  by (simp add: sat_add_i128_def mi128.clamp_in_range)

lemma sat_add_i128_nonneg: "0 \<le> a \<Longrightarrow> 0 \<le> b \<Longrightarrow> 0 \<le> sat_add_i128 a b"
  by (simp add: sat_add_i128_def mi128.clamp_nonneg)

lemma sat_sum_i128_Nil [simp]: "sat_sum_i128 [] = 0"
  by (simp add: sat_sum_i128_def)

lemma sat_sum_i128_snoc [simp]: "sat_sum_i128 (xs @ [x]) = sat_add_i128 (sat_sum_i128 xs) x"
  by (simp add: sat_sum_i128_def)

text \<open>
  Folding saturating addition over non-negative summands clamps the exact sum,
  so it does not depend on the order of the summands.
\<close>

lemma sat_sum_i128_nonneg_eq:
  "(\<And>x. x \<in> set xs \<Longrightarrow> 0 \<le> x) \<Longrightarrow> sat_sum_i128 xs = clamp i128_min i128_max (sum_list xs)"
proof (induction xs rule: rev_induct)
  case Nil
  show ?case by (simp add: clamp_def machine_bounds)
next
  case (snoc x xs)
  have "0 \<le> sum_list xs" using snoc.prems by (intro sum_list_nonneg) auto
  then show ?case
    using snoc by (simp add: sat_add_i128_def mi128.clamp_add_right)
qed

lemma sat_sum_i128_range: "in_i128 (sat_sum_i128 xs)"
  by (cases xs rule: rev_cases) (auto simp: in_range_def machine_bounds sat_add_i128_def clamp_def)

lemma sat_sum_i128_nonneg: "(\<And>x. x \<in> set xs \<Longrightarrow> 0 \<le> x) \<Longrightarrow> 0 \<le> sat_sum_i128 xs"
  by (simp add: sat_sum_i128_nonneg_eq mi128.clamp_nonneg sum_list_nonneg)

lemma sat_sum_i128_exact:
  assumes "\<And>x. x \<in> set xs \<Longrightarrow> 0 \<le> x" and "sat_sum_i128 xs < i128_max"
  shows "sat_sum_i128 xs = sum_list xs"
proof -
  have "0 \<le> sum_list xs" using assms(1) by (intro sum_list_nonneg) auto
  moreover have "sat_sum_i128 xs = clamp i128_min i128_max (sum_list xs)"
    using assms(1) by (rule sat_sum_i128_nonneg_eq)
  ultimately show ?thesis using assms(2) mi128.clamp_below_hi by simp
qed

section \<open>Byte strings\<close>

abbreviation byte_of :: "char \<Rightarrow> nat" where
  "byte_of \<equiv> of_char"

definition is_digit :: "char \<Rightarrow> bool" where
  "is_digit c \<longleftrightarrow> 48 \<le> byte_of c \<and> byte_of c \<le> 57"

definition is_ascii_lowercase :: "char \<Rightarrow> bool" where
  "is_ascii_lowercase c \<longleftrightarrow> 97 \<le> byte_of c \<and> byte_of c \<le> 122"

definition is_ascii_uppercase :: "char \<Rightarrow> bool" where
  "is_ascii_uppercase c \<longleftrightarrow> 65 \<le> byte_of c \<and> byte_of c \<le> 90"

definition is_ascii_alphanumeric :: "char \<Rightarrow> bool" where
  "is_ascii_alphanumeric c \<longleftrightarrow> is_digit c \<or> is_ascii_lowercase c \<or> is_ascii_uppercase c"

definition ascii_lower :: "char \<Rightarrow> char" where
  "ascii_lower c = (if is_ascii_uppercase c then char_of (byte_of c + 32) else c)"

definition to_ascii_lowercase :: "string \<Rightarrow> string" where
  "to_ascii_lowercase s = map ascii_lower s"

definition eq_ignore_ascii_case :: "string \<Rightarrow> string \<Rightarrow> bool" where
  "eq_ignore_ascii_case a b \<longleftrightarrow> to_ascii_lowercase a = to_ascii_lowercase b"

definition is_ascii :: "string \<Rightarrow> bool" where
  "is_ascii s \<longleftrightarrow> (\<forall>c\<in>set s. byte_of c < 128)"

definition starts_with :: "string \<Rightarrow> string \<Rightarrow> bool" where
  "starts_with p s \<longleftrightarrow> take (length p) s = p"

text \<open>The delimiter-exclusive split of \<^verbatim>\<open>str::split(c)\<close> and \<^verbatim>\<open>str::split_once(c)\<close>.\<close>

fun split_char :: "char \<Rightarrow> string \<Rightarrow> string list" where
  "split_char c [] = [[]]"
| "split_char c (x # xs) =
     (if x = c then [] # split_char c xs
      else (case split_char c xs of [] \<Rightarrow> [[x]] | w # ws \<Rightarrow> (x # w) # ws))"

fun split_once :: "char \<Rightarrow> string \<Rightarrow> (string \<times> string) option" where
  "split_once c [] = None"
| "split_once c (x # xs) =
     (if x = c then Some ([], xs)
      else (case split_once c xs of None \<Rightarrow> None | Some (a, b) \<Rightarrow> Some (x # a, b)))"

lemma split_char_single [simp]: "c \<notin> set a \<Longrightarrow> split_char c a = [a]"
  by (induction a) auto

lemma split_char_append [simp]: "c \<notin> set a \<Longrightarrow> split_char c (a @ c # b) = a # split_char c b"
  by (induction a) auto

lemma split_once_append:
  "c \<notin> set a \<Longrightarrow> split_once c (a @ c # b) = Some (a, b)"
  by (induction a) auto

lemma split_once_None: "split_once c s = None \<longleftrightarrow> c \<notin> set s"
  by (induction s) (auto split: option.splits)

lemma split_once_SomeD:
  "split_once c s = Some (a, b) \<Longrightarrow> s = a @ c # b \<and> c \<notin> set a"
  by (induction s arbitrary: a) (auto split: if_splits option.splits)

text \<open>
  \<^verbatim>\<open>str::trim\<close> removes leading and trailing characters with the Unicode
  \<^verbatim>\<open>White_Space\<close> property; the list holds their UTF-8 encodings.
\<close>

definition bytes :: "nat list \<Rightarrow> string" where
  "bytes ns = map char_of ns"

definition white_space :: "string list" where
  "white_space =
     map bytes ([[9], [10], [11], [12], [13], [32], [0xC2, 0x85], [0xC2, 0xA0], [0xE1, 0x9A, 0x80]]
       @ map (\<lambda>n. [0xE2, 0x80, 0x80 + n]) [0, 1, 2, 3, 4, 5, 6, 7, 8, 9, 10]
       @ [[0xE2, 0x80, 0xA8], [0xE2, 0x80, 0xA9], [0xE2, 0x80, 0xAF], [0xE2, 0x81, 0x9F],
          [0xE3, 0x80, 0x80]])"

function trim_with :: "string list \<Rightarrow> string \<Rightarrow> string" where
  "trim_with ws s =
     (case find (\<lambda>w. w \<noteq> [] \<and> starts_with w s) ws of
        None \<Rightarrow> s
      | Some w \<Rightarrow> trim_with ws (drop (length w) s))"
  by pat_completeness auto
termination
proof (relation "measure (length \<circ> snd)")
  fix ws s w
  assume "find (\<lambda>w. w \<noteq> [] \<and> starts_with w s) ws = Some w"
  then have "w \<noteq> []" "take (length w) s = w" by (auto simp: find_Some_iff starts_with_def)
  then have "0 < length w" "s \<noteq> []" by auto
  then show "((ws, drop (length w) s), ws, s) \<in> measure (length \<circ> snd)" by simp
qed simp

declare trim_with.simps [simp del]

definition trim :: "string \<Rightarrow> string" where
  "trim s = rev (trim_with (map rev white_space) (rev (trim_with white_space s)))"

definition is_ascii_whitespace :: "char \<Rightarrow> bool" where
  "is_ascii_whitespace c \<longleftrightarrow> byte_of c \<in> {9, 10, 12, 13, 32}"

definition split_ascii_whitespace :: "string \<Rightarrow> string list" where
  "split_ascii_whitespace s =
     filter (\<lambda>w. w \<noteq> []) (split_char (CHR '' '') (map (\<lambda>c. if is_ascii_whitespace c then CHR '' '' else c) s))"

text \<open>Two words with one blank between them split into exactly these words.\<close>

lemma split_ascii_whitespace_pair:
  assumes "a \<noteq> []" "b \<noteq> []" "\<forall>c\<in>set a. \<not> is_ascii_whitespace c" "\<forall>c\<in>set b. \<not> is_ascii_whitespace c"
  shows "split_ascii_whitespace (a @ CHR '' '' # b) = [a, b]"
proof -
  let ?f = "\<lambda>c. if is_ascii_whitespace c then CHR '' '' else c"
  have id: "map ?f a = a" "map ?f b = b" using assms(3,4) by (simp_all add: map_idI)
  have sp: "CHR '' '' \<notin> set a" "CHR '' '' \<notin> set b"
    using assms(3,4) by (auto simp: is_ascii_whitespace_def)
  have "map ?f (a @ CHR '' '' # b) = a @ CHR '' '' # b"
    by (simp only: map_append list.map id) (simp add: is_ascii_whitespace_def)
  then show ?thesis using assms(1,2) sp by (simp add: split_ascii_whitespace_def)
qed

lemma starts_with_Nil [simp]: "starts_with [] s"
  by (simp add: starts_with_def)

lemma starts_with_Cons [simp]:
  "starts_with (p # ps) s \<longleftrightarrow> (\<exists>t. s = p # t \<and> starts_with ps t)"
  by (cases s) (auto simp: starts_with_def)

lemma trim_with_stop:
  "s = c # t \<Longrightarrow> (\<And>w. w \<in> set ws \<Longrightarrow> w \<noteq> [] \<Longrightarrow> hd w \<noteq> c) \<Longrightarrow> trim_with ws s = s"
proof -
  assume s: "s = c # t" and hd: "\<And>w. w \<in> set ws \<Longrightarrow> w \<noteq> [] \<Longrightarrow> hd w \<noteq> c"
  have "find (\<lambda>w. w \<noteq> [] \<and> starts_with w s) ws = None"
    using hd by (fastforce simp: find_None_iff neq_Nil_conv s)
  then show ?thesis by (subst trim_with.simps) simp
qed

lemma trim_with_Nil [simp]: "trim_with ws [] = []"
  by (subst trim_with.simps) (auto simp: find_Some_iff starts_with_def split: option.split)

lemma trim_with_keeps: "c \<in> set s \<Longrightarrow> (\<And>w. w \<in> set ws \<Longrightarrow> c \<notin> set w) \<Longrightarrow> c \<in> set (trim_with ws s)"
proof (induction ws s rule: trim_with.induct)
  case (1 ws s)
  show ?case
  proof (cases "find (\<lambda>w. w \<noteq> [] \<and> starts_with w s) ws")
    case None
    then show ?thesis using "1.prems"(1) by (simp add: trim_with.simps)
  next
    case (Some w)
    then have w: "w \<in> set ws" "take (length w) s = w" by (auto simp: find_Some_iff starts_with_def)
    then have "c \<in> set (drop (length w) s)"
      using "1.prems" append_take_drop_id[of "length w" s] by (metis Un_iff set_append)
    then have "c \<in> set (trim_with ws (drop (length w) s))" by (rule "1.IH"[OF Some]) (rule "1.prems"(2))
    then show ?thesis using Some by (simp add: trim_with.simps[of ws s])
  qed
qed

lemma trim_Nil [simp]: "trim [] = []"
  by (simp add: trim_def)

text \<open>
  A string that starts with a printable ASCII byte and ends with one is its own
  trimming.
\<close>

definition graphic :: "char \<Rightarrow> bool" where
  "graphic c \<longleftrightarrow> 33 \<le> byte_of c \<and> byte_of c < 127"

lemma of_char_bytes: "n < 256 \<Longrightarrow> byte_of (char_of n :: char) = n"
  by (simp add: of_char_of)

lemma white_space_hd:
  "w \<in> set white_space \<Longrightarrow> byte_of (hd w) \<in> {9, 10, 11, 12, 13, 32, 0xC2, 0xE1, 0xE2, 0xE3}"
  by (simp add: white_space_def bytes_def) (elim disjE; simp)

lemma white_space_last:
  "w \<in> set (map rev white_space) \<Longrightarrow>
   byte_of (hd w) \<in> {9, 10, 11, 12, 13, 32} \<or> 128 \<le> byte_of (hd w)"
  by (simp add: white_space_def bytes_def) (elim disjE; simp)

lemma trim_graphic:
  assumes "s \<noteq> []" "graphic (hd s)" "graphic (last s)"
  shows "trim s = s"
proof -
  obtain c t where s: "s = c # t" using assms(1) by (cases s) auto
  have 1: "trim_with white_space s = s"
    using assms white_space_hd
    by (intro trim_with_stop[OF s]) (fastforce simp: graphic_def s)
  obtain d u where r: "rev s = d # u" using assms(1) by (cases "rev s") auto
  then have "last s = d" by (metis hd_rev list.sel(1))
  then have 2: "trim_with (map rev white_space) (rev s) = rev s"
    using assms white_space_last
    by (intro trim_with_stop[OF r]) (fastforce simp: graphic_def)
  show ?thesis by (simp add: trim_def 1 2)
qed

section \<open>Decimal numerals\<close>

definition digit_val :: "char \<Rightarrow> nat" where
  "digit_val c = byte_of c - 48"

definition digit_char :: "nat \<Rightarrow> char" where
  "digit_char n = char_of (n + 48)"

definition nat_of_digits :: "string \<Rightarrow> nat" where
  "nat_of_digits ds = foldl (\<lambda>acc c. acc * 10 + digit_val c) 0 ds"

fun show_nat :: "nat \<Rightarrow> string" where
  "show_nat n = (if n < 10 then [digit_char n] else show_nat (n div 10) @ [digit_char (n mod 10)])"

declare show_nat.simps [simp del]

definition show_int :: "int \<Rightarrow> string" where
  "show_int i = (if i < 0 then CHR ''-'' # show_nat (nat (- i)) else show_nat (nat i))"

definition pad_zero :: "nat \<Rightarrow> string \<Rightarrow> string" where
  "pad_zero w s = replicate (w - length s) (CHR ''0'') @ s"

text \<open>
  \<^verbatim>\<open>str::parse\<close> of the standard library at a signed and at an unsigned type:
  an optional sign (\<^verbatim>\<open>-\<close> only when signed), at least one digit, a range check.
\<close>

definition parse_signed :: "int \<Rightarrow> int \<Rightarrow> string \<Rightarrow> int option" where
  "parse_signed lo hi s =
     (case s of
        [] \<Rightarrow> None
      | c # t \<Rightarrow>
          let neg = (c = CHR ''-''); ds = (if c = CHR ''-'' \<or> c = CHR ''+'' then t else s) in
          if ds = [] \<or> \<not> list_all is_digit ds then None
          else checked lo hi (if neg then - int (nat_of_digits ds) else int (nat_of_digits ds)))"

definition parse_unsigned :: "nat \<Rightarrow> string \<Rightarrow> nat option" where
  "parse_unsigned hi s =
     (case s of
        [] \<Rightarrow> None
      | c # t \<Rightarrow>
          let ds = (if c = CHR ''+'' then t else s) in
          if ds = [] \<or> \<not> list_all is_digit ds then None
          else if nat_of_digits ds \<le> hi then Some (nat_of_digits ds) else None)"

lemma digit_char_props [simp]:
  assumes "n < 10"
  shows "is_digit (digit_char n)" "digit_val (digit_char n) = n"
  using assms by (simp_all add: is_digit_def digit_val_def digit_char_def of_char_bytes)

lemma is_digit_ne [simp]:
  "is_digit c \<Longrightarrow> c \<noteq> CHR ''-''" "is_digit c \<Longrightarrow> c \<noteq> CHR ''+''"
  "is_digit c \<Longrightarrow> c \<noteq> CHR ''.''" "is_digit c \<Longrightarrow> c \<noteq> CHR '' ''"
  "is_digit c \<Longrightarrow> c \<noteq> CHR '':''"
  by (auto simp: is_digit_def)

lemma not_is_digit [simp]:
  "\<not> is_digit (CHR ''-'')" "\<not> is_digit (CHR ''+'')" "\<not> is_digit (CHR ''.'')"
  "\<not> is_digit (CHR '' '')" "\<not> is_digit (CHR '':'')"
  by (simp_all add: is_digit_def)

lemma digit_val_less: "is_digit c \<Longrightarrow> digit_val c < 10"
  unfolding is_digit_def digit_val_def by linarith

lemma digit_graphic: "is_digit c \<Longrightarrow> graphic c"
  by (simp add: is_digit_def graphic_def)

lemma nat_of_digits_snoc [simp]: "nat_of_digits (ds @ [c]) = nat_of_digits ds * 10 + digit_val c"
  by (simp add: nat_of_digits_def)

lemma nat_of_digits_Nil [simp]: "nat_of_digits [] = 0"
  by (simp add: nat_of_digits_def)

lemma show_nat_digits: "list_all is_digit (show_nat n)"
  by (induction n rule: show_nat.induct) (subst show_nat.simps, simp)

lemma show_nat_nonempty [simp]: "show_nat n \<noteq> []"
  by (subst show_nat.simps) simp

lemma nat_of_digits_show_nat [simp]: "nat_of_digits (show_nat n) = n"
proof (induction n rule: show_nat.induct)
  case (1 n)
  show ?case
  proof (cases "n < 10")
    case True
    then show ?thesis using nat_of_digits_snoc[of "[]" "digit_char n"]
      by (subst show_nat.simps) simp
  next
    case False
    then show ?thesis using 1 by (subst show_nat.simps) simp
  qed
qed

lemma show_nat_hd_last:
  "is_digit (hd (show_nat n))" "is_digit (last (show_nat n))"
  using show_nat_digits[of n] by (simp_all add: list_all_iff)

lemma nat_of_digits_append:
  "nat_of_digits (xs @ ys) = nat_of_digits xs * 10 ^ length ys + nat_of_digits ys"
proof (induction ys rule: rev_induct)
  case (snoc y ys)
  then show ?case
    using nat_of_digits_snoc[of "xs @ ys" y] by (simp add: algebra_simps)
qed simp

lemma nat_of_digits_bound: "list_all is_digit ds \<Longrightarrow> nat_of_digits ds < 10 ^ length ds"
proof (induction ds rule: rev_induct)
  case (snoc d ds)
  then show ?case using digit_val_less[of d] by simp
qed simp

lemma nat_of_digits_zeros [simp]: "nat_of_digits (replicate k (CHR ''0'')) = 0"
proof (induction k)
  case (Suc k)
  have "replicate (Suc k) (CHR ''0'') = replicate k (CHR ''0'') @ [CHR ''0'']"
    by (simp add: replicate_append_same)
  then show ?case using Suc by (simp add: digit_val_def del: replicate.simps)
qed simp

lemma nat_of_digits_pad [simp]: "nat_of_digits (pad_zero w s) = nat_of_digits s"
  by (simp add: pad_zero_def nat_of_digits_append)

lemma show_nat_length: "n < 10 ^ k \<Longrightarrow> 0 < k \<Longrightarrow> length (show_nat n) \<le> k"
proof (induction n arbitrary: k rule: show_nat.induct)
  case (1 n)
  show ?case
  proof (cases "n < 10")
    case True
    then show ?thesis using 1 by (subst show_nat.simps) simp
  next
    case False
    then obtain j where k: "k = Suc j" "0 < j" using 1 by (cases k; cases "k = 1") auto
    then have "n div 10 < 10 ^ j" using 1 by simp
    then show ?thesis using 1 False k by (subst show_nat.simps) simp
  qed
qed

lemma parse_signed_show_int:
  assumes "in_range lo hi i"
  shows "parse_signed lo hi (show_int i) = Some i"
proof -
  obtain c t where s: "show_nat (nat \<bar>i\<bar>) = c # t" by (cases "show_nat (nat \<bar>i\<bar>)") auto
  have "is_digit c" "list_all is_digit (c # t)"
    using show_nat_digits[of "nat \<bar>i\<bar>"] by (simp_all add: s)
  moreover have "nat_of_digits (c # t) = nat \<bar>i\<bar>" by (metis s nat_of_digits_show_nat)
  ultimately show ?thesis
    using assms s
    by (auto simp: show_int_def parse_signed_def in_range_def checked_def split: if_splits)
qed

lemma parse_unsigned_show_nat:
  assumes "n \<le> hi"
  shows "parse_unsigned hi (show_nat n) = Some n"
proof -
  obtain c t where s: "show_nat n = c # t" by (cases "show_nat n") auto
  have "is_digit c" "list_all is_digit (c # t)"
    using show_nat_digits[of n] by (simp_all add: s)
  moreover have "nat_of_digits (c # t) = n" by (metis s nat_of_digits_show_nat)
  ultimately show ?thesis
    using assms s by (auto simp: parse_unsigned_def)
qed

lemma parse_signed_range: "parse_signed lo hi s = Some i \<Longrightarrow> in_range lo hi i"
  by (auto simp: parse_signed_def checked_def in_range_def Let_def split: list.splits if_splits)

end
