(* ===== verification/Amount.thy ===== *)
theory Amount
  imports Wallet_Prelude
begin

text \<open>
  Decimal-strict amounts (\<^verbatim>\<open>stellar-agent-core/src/amount.rs\<close>): the stroop amount
  with its unit-carrying and base-unit parsers and its printer, the
  asset-agnostic anchor amount, the memo cap, and the stroop reader of
  \<^verbatim>\<open>wire_stroops.rs\<close>.  Stroops are \<^typ>\<open>int\<close> values in the \<^verbatim>\<open>i64\<close> range; the parser's
  wider accumulators are checked at their own width.
\<close>

section \<open>Constants, errors and the amount type\<close>

definition STELLAR_DECIMALS :: nat where "STELLAR_DECIMALS = 7"
definition STROOPS_PER_XLM :: int where "STROOPS_PER_XLM = 10000000"

datatype validation_error =
    AmountUnitsRequired
  | AmountPrecisionExceeded string
  | AmountMalformed string
  | AmountUnitMismatch (ue_input: string) (ue_expected: string) (ue_supplied: string)
  | AmountOutOfRange string

record stellar_amount =
  stroops :: int

definition from_stroops :: "int \<Rightarrow> stellar_amount" where
  "from_stroops n = \<lparr>stroops = n\<rparr>"

definition amount_ok :: "stellar_amount \<Rightarrow> bool" where
  "amount_ok a \<longleftrightarrow> in_i64 (stroops a)"

section \<open>Digit parsers\<close>

definition u128_max :: int where "u128_max = 2 ^ 128 - 1"

text \<open>
  Both digit parsers run the same loop: the accumulator is checked at its own
  width \<^term>\<open>(lo, hi)\<close> and the running value against the result type's maximum.
\<close>

fun digits_loop ::
  "int \<Rightarrow> int \<Rightarrow> int \<Rightarrow> string \<Rightarrow> int \<Rightarrow> string \<Rightarrow> (validation_error, int) result" where
  "digits_loop lo hi maxv original acc [] = Inr acc"
| "digits_loop lo hi maxv original acc (b # bs) =
     res_bind
       (ok_or (AmountOutOfRange original)
         (Option.bind (checked lo hi (acc * 10)) (\<lambda>v. checked lo hi (v + int (digit_val b)))))
       (\<lambda>acc'. if maxv < acc' then Inl (AmountOutOfRange original)
               else digits_loop lo hi maxv original acc' bs)"

definition parse_digits_to_i64 :: "string \<Rightarrow> string \<Rightarrow> (validation_error, int) result" where
  "parse_digits_to_i64 digits original =
     (if digits = [] \<or> \<not> list_all is_digit digits then Inl (AmountMalformed original)
      else digits_loop i128_min i128_max i64_max original 0 digits)"

definition parse_digits_to_u64 :: "string \<Rightarrow> string \<Rightarrow> (validation_error, int) result" where
  "parse_digits_to_u64 digits original =
     (if digits = [] \<or> \<not> list_all is_digit digits then Inl (AmountMalformed original)
      else digits_loop 0 u128_max (int u64_max) original 0 digits)"

section \<open>Decimal parser and printer\<close>

definition strip_minus :: "string \<Rightarrow> bool \<times> string" where
  "strip_minus s = (case s of [] \<Rightarrow> (False, []) | c # t \<Rightarrow> if c = CHR ''-'' then (True, t) else (False, s))"

definition looks_like_bare_number :: "string \<Rightarrow> bool" where
  "looks_like_bare_number s =
     (if s = [] then False
      else let u = snd (strip_minus s) in
           u \<noteq> [] \<and> list_all (\<lambda>b. is_digit b \<or> b = CHR ''.'') u)"

definition format_stroops_as_xlm :: "int \<Rightarrow> string" where
  "format_stroops_as_xlm n =
     (let abs = nat \<bar>n\<bar>;
          whole = abs div nat STROOPS_PER_XLM;
          frac = abs mod nat STROOPS_PER_XLM;
          body = show_nat whole @ ''.'' @ pad_zero 7 (show_nat frac)
      in if n < 0 then ''-'' @ body else body)"

definition as_xlm_decimal_string :: "stellar_amount \<Rightarrow> string" where
  "as_xlm_decimal_string a = format_stroops_as_xlm (stroops a)"

definition display_amount :: "stellar_amount \<Rightarrow> string" where
  "display_amount a = format_stroops_as_xlm (stroops a) @ '' XLM''"

definition pad_frac :: "string \<Rightarrow> string" where
  "pad_frac s = s @ replicate (STELLAR_DECIMALS - length s) (CHR ''0'')"

definition parse_decimal_to_stroops ::
  "string \<Rightarrow> string \<Rightarrow> (validation_error, stellar_amount) result" where
  "parse_decimal_to_stroops numeric original =
     (if numeric = [] then Inl (AmountMalformed original)
      else if hd numeric = CHR ''+'' then Inl (AmountMalformed original)
      else
        let (negative, unsigned) = strip_minus numeric in
        if unsigned = [] then Inl (AmountMalformed original)
        else
          let (integer_part, frac_raw) =
                (case split_once (CHR ''.'') unsigned of None \<Rightarrow> (unsigned, []) | Some p \<Rightarrow> p) in
          if CHR ''.'' \<in> set frac_raw then Inl (AmountMalformed original)
          else if \<not> list_all is_digit integer_part \<or> \<not> list_all is_digit frac_raw
          then Inl (AmountMalformed original)
          else if integer_part = [] then Inl (AmountMalformed original)
          else if STELLAR_DECIMALS < length frac_raw then Inl (AmountPrecisionExceeded original)
          else
            res_bind (parse_digits_to_i64 integer_part original) (\<lambda>int_val.
            res_bind (parse_digits_to_i64 (pad_frac frac_raw) original) (\<lambda>frac_val.
            res_bind
              (ok_or (AmountOutOfRange original)
                (Option.bind (checked_i64 (int_val * STROOPS_PER_XLM)) (\<lambda>v. checked_i64 (v + frac_val))))
              (\<lambda>abs_stroops.
                 if negative
                 then map_sum id from_stroops (ok_or (AmountOutOfRange original) (checked_i64 (- abs_stroops)))
                 else Inr (from_stroops abs_stroops)))))"

definition parse_unit :: "string \<Rightarrow> string \<Rightarrow> bool \<Rightarrow> (validation_error, stellar_amount) result" where
  "parse_unit input expected_unit case_insensitive =
     (case split_ascii_whitespace (trim input) of
        [numeric, unit] \<Rightarrow>
          if (if case_insensitive then eq_ignore_ascii_case unit expected_unit else unit = expected_unit)
          then parse_decimal_to_stroops numeric input
          else Inl (AmountUnitMismatch input expected_unit unit)
      | [numeric] \<Rightarrow>
          if looks_like_bare_number numeric then Inl AmountUnitsRequired
          else Inl (AmountMalformed input)
      | _ \<Rightarrow> Inl (AmountMalformed input))"

definition parse_with_unit :: "string \<Rightarrow> (validation_error, stellar_amount) result" where
  "parse_with_unit s = parse_unit s ''XLM'' True"

definition parse_with_unit_for :: "string \<Rightarrow> string \<Rightarrow> (validation_error, stellar_amount) result" where
  "parse_with_unit_for s expected_unit = parse_unit s expected_unit False"

definition parse_stroops :: "string \<Rightarrow> (validation_error, stellar_amount) result" where
  "parse_stroops s0 =
     (let s = trim s0 in
      if s = [] then Inl (AmountMalformed s)
      else
        let (negative, digits) = strip_minus s in
        if digits = [] \<or> \<not> list_all is_digit digits then Inl (AmountMalformed s)
        else
          res_bind (parse_digits_to_u64 digits s) (\<lambda>abs_val.
            if negative then
              let min_abs = i64_max + 1 in
              if min_abs < abs_val then Inl (AmountOutOfRange s)
              else if abs_val = min_abs then Inr (from_stroops i64_min)
              else Inr (from_stroops (- abs_val))
            else if i64_max < abs_val then Inl (AmountOutOfRange s)
            else Inr (from_stroops abs_val)))"

section \<open>Memo text and anchor amounts\<close>

definition MCP_MEMO_TEXT_MAX_BYTES :: nat where "MCP_MEMO_TEXT_MAX_BYTES = 28"

datatype memo_error = MemoTooLong (memo_max: nat) (memo_actual: nat)

definition memo_text_new :: "string \<Rightarrow> (memo_error, string) result" where
  "memo_text_new v =
     (if MCP_MEMO_TEXT_MAX_BYTES < length v
      then Inl (MemoTooLong MCP_MEMO_TEXT_MAX_BYTES (length v)) else Inr v)"

definition ANCHOR_AMOUNT_MAX_LEN :: nat where "ANCHOR_AMOUNT_MAX_LEN = 40"
definition ANCHOR_AMOUNT_MAX_DECIMAL_PLACES :: nat where "ANCHOR_AMOUNT_MAX_DECIMAL_PLACES = 18"

datatype anchor_amount_error =
    AnchorEmpty
  | LeadingSign
  | ScientificNotation
  | InvalidChar string
  | MultipleDots
  | LeadingDot
  | TrailingDot
  | AnchorZero
  | AnchorTooLong nat nat
  | TooManyDecimals nat nat

text \<open>The UTF-8 encoding of the first character of a string.\<close>

definition utf8_head :: "string \<Rightarrow> string" where
  "utf8_head s =
     (case s of [] \<Rightarrow> []
      | c # _ \<Rightarrow>
          take (if byte_of c < 128 then 1 else if byte_of c < 224 then 2 else if byte_of c < 240 then 3 else 4) s)"

fun anchor_scan :: "nat \<Rightarrow> bool \<Rightarrow> string \<Rightarrow> (anchor_amount_error, nat \<times> bool) result" where
  "anchor_scan dots last_dot [] = Inr (dots, last_dot)"
| "anchor_scan dots last_dot (ch # s) =
     (if ch = CHR ''e'' \<or> ch = CHR ''E'' then Inl ScientificNotation
      else if ch = CHR ''.'' then
        (if 1 < dots + 1 then Inl MultipleDots else anchor_scan (dots + 1) True s)
      else if is_digit ch then anchor_scan dots False s
      else Inl (InvalidChar (utf8_head (ch # s))))"

definition anchor_amount_parse :: "string \<Rightarrow> (anchor_amount_error, string) result" where
  "anchor_amount_parse s =
     (if s = [] then Inl AnchorEmpty
      else if ANCHOR_AMOUNT_MAX_LEN < length s then Inl (AnchorTooLong ANCHOR_AMOUNT_MAX_LEN (length s))
      else if hd s = CHR ''+'' \<or> hd s = CHR ''-'' then Inl LeadingSign
      else
        res_bind (anchor_scan 0 False s) (\<lambda>(dot_count, last_is_dot).
          if hd s = CHR ''.'' then Inl LeadingDot
          else if last_is_dot then Inl TrailingDot
          else
            let dp = (case split_char (CHR ''.'') s of _ # f # _ \<Rightarrow> length f | _ \<Rightarrow> 0) in
            if 0 < dot_count \<and> ANCHOR_AMOUNT_MAX_DECIMAL_PLACES < dp
            then Inl (TooManyDecimals ANCHOR_AMOUNT_MAX_DECIMAL_PLACES dp)
            else if list_all (\<lambda>b. b = CHR ''0'') (filter is_digit s) then Inl AnchorZero
            else Inr s))"

text \<open>The published pattern \<^verbatim>\<open>^[0-9]+(\.[0-9]{1,18})?$\<close> of the anchor amount schema.\<close>

definition anchor_pattern :: "string \<Rightarrow> bool" where
  "anchor_pattern s =
     (case split_char (CHR ''.'') s of
        [i] \<Rightarrow> i \<noteq> [] \<and> list_all is_digit i
      | [i, f] \<Rightarrow> i \<noteq> [] \<and> list_all is_digit i \<and> 1 \<le> length f \<and> length f \<le> 18 \<and> list_all is_digit f
      | _ \<Rightarrow> False)"

section \<open>Digit parsing is exact\<close>

lemma nat_of_digits_Cons: "nat_of_digits (b # bs) = digit_val b * 10 ^ length bs + nat_of_digits bs"
  using nat_of_digits_append[of "[b]" bs] nat_of_digits_snoc[of "[]" b] by simp

lemma digits_loop_eq:
  assumes "lo \<le> 0" "maxv * 10 + 9 \<le> hi" "0 \<le> acc" "acc \<le> maxv" "list_all is_digit ds"
  shows "digits_loop lo hi maxv original acc ds =
    (let v = acc * 10 ^ length ds + int (nat_of_digits ds) in
     if v \<le> maxv then Inr v else Inl (AmountOutOfRange original))"
  using assms(3-5)
proof (induction ds arbitrary: acc)
  case (Cons b bs)
  let ?v = "acc * 10 + int (digit_val b)"
  have d: "digit_val b < 10" using Cons.prems by (simp add: digit_val_less)
  have chk: "checked lo hi (acc * 10) = Some (acc * 10)" "checked lo hi ?v = Some ?v"
    using Cons.prems assms(1,2) d by (auto simp: checked_def)
  have total: "acc * 10 ^ length (b # bs) + int (nat_of_digits (b # bs))
      = ?v * 10 ^ length bs + int (nat_of_digits bs)"
    by (simp add: nat_of_digits_Cons algebra_simps)
  have "maxv < ?v * 10 ^ length bs + int (nat_of_digits bs)" if "maxv < ?v"
  proof -
    have "?v * 1 \<le> ?v * 10 ^ length bs" using Cons.prems by (intro mult_left_mono) auto
    then show ?thesis using that by simp
  qed
  then show ?case
    using Cons.IH[of ?v] Cons.prems
    by (simp only: digits_loop.simps total) (auto simp: chk Let_def)
qed simp

lemma parse_digits_to_i64_eq:
  "ds \<noteq> [] \<Longrightarrow> list_all is_digit ds \<Longrightarrow>
   parse_digits_to_i64 ds original =
     (if int (nat_of_digits ds) \<le> i64_max then Inr (int (nat_of_digits ds))
      else Inl (AmountOutOfRange original))"
  by (simp add: parse_digits_to_i64_def digits_loop_eq machine_bounds)

lemma parse_digits_to_u64_eq:
  "ds \<noteq> [] \<Longrightarrow> list_all is_digit ds \<Longrightarrow>
   parse_digits_to_u64 ds original =
     (if nat_of_digits ds \<le> u64_max then Inr (int (nat_of_digits ds))
      else Inl (AmountOutOfRange original))"
  by (simp add: parse_digits_to_u64_def digits_loop_eq machine_bounds u128_max_def)

section \<open>The decimal grammar\<close>

text \<open>
  The value a decimal numeral denotes, in stroops: integer and fraction digits
  with the fraction scaled to seven places.
\<close>

definition decimal_value :: "string \<Rightarrow> string \<Rightarrow> int" where
  "decimal_value ip fp =
     int (nat_of_digits ip) * STROOPS_PER_XLM + int (nat_of_digits fp * 10 ^ (7 - length fp))"

definition decimal_text :: "bool \<Rightarrow> string \<Rightarrow> bool \<Rightarrow> string \<Rightarrow> string" where
  "decimal_text neg ip dot fp = (if neg then ''-'' else []) @ ip @ (if dot then ''.'' @ fp else [])"

lemma pad_frac_props:
  assumes "list_all is_digit fp" "length fp \<le> 7"
  shows "list_all is_digit (pad_frac fp)" "pad_frac fp \<noteq> []"
    "nat_of_digits (pad_frac fp) = nat_of_digits fp * 10 ^ (7 - length fp)"
    "nat_of_digits (pad_frac fp) < 10 ^ 7"
proof -
  show d: "list_all is_digit (pad_frac fp)"
    using assms(1) by (auto simp: pad_frac_def list_all_iff set_replicate_conv_if is_digit_def)
  show "pad_frac fp \<noteq> []" using assms by (cases fp) (simp_all add: pad_frac_def STELLAR_DECIMALS_def)
  show "nat_of_digits (pad_frac fp) = nat_of_digits fp * 10 ^ (7 - length fp)"
    by (simp add: pad_frac_def nat_of_digits_append STELLAR_DECIMALS_def)
  have "length (pad_frac fp) = 7" using assms by (simp add: pad_frac_def STELLAR_DECIMALS_def)
  then show "nat_of_digits (pad_frac fp) < 10 ^ 7" using nat_of_digits_bound[OF d] by simp
qed

lemma decimal_value_nonneg: "0 \<le> decimal_value ip fp"
  by (simp add: decimal_value_def STROOPS_PER_XLM_def)

text \<open>On every numeral of the grammar the parser returns the denoted value or a range error.\<close>

lemma parse_decimal_grammar:
  assumes ip: "ip \<noteq> []" "list_all is_digit ip" and fp: "list_all is_digit fp" "length fp \<le> 7"
    and dot: "\<not> dot \<longrightarrow> fp = []"
  shows "parse_decimal_to_stroops (decimal_text neg ip dot fp) original =
    (if decimal_value ip fp \<le> i64_max
     then Inr (from_stroops (if neg then - decimal_value ip fp else decimal_value ip fp))
     else Inl (AmountOutOfRange original))"
proof -
  let ?u = "ip @ (if dot then ''.'' @ fp else [])"
  have nodot: "CHR ''.'' \<notin> set ip" "CHR ''.'' \<notin> set fp"
    using ip(2) fp(1) by (auto simp: list_all_iff is_digit_def)
  have split: "(case split_once (CHR ''.'') ?u of None \<Rightarrow> (?u, []) | Some p \<Rightarrow> p) = (ip, fp)"
    using nodot dot split_once_append[OF nodot(1), of fp] split_once_None[of "CHR ''.''" ip]
    by auto
  have hd: "is_digit (hd ip)" using ip by (cases ip) auto
  have strip: "strip_minus (decimal_text neg ip dot fp) = (neg, ?u)"
    using ip(1) hd by (cases ip) (auto simp: strip_minus_def decimal_text_def)
  have pre: "decimal_text neg ip dot fp \<noteq> []" "hd (decimal_text neg ip dot fp) \<noteq> CHR ''+''" "?u \<noteq> []"
    using ip(1) hd by (auto simp: decimal_text_def)
  note pf = pad_frac_props[OF fp]
  have "int (nat_of_digits (pad_frac fp)) \<le> i64_max" using pf(4) by (simp add: machine_bounds)
  then have frac: "parse_digits_to_i64 (pad_frac fp) original = Inr (int (nat_of_digits fp * 10 ^ (7 - length fp)))"
    using pf by (simp add: parse_digits_to_i64_eq)
  have neg_ok: "checked_i64 (- decimal_value ip fp) = Some (- decimal_value ip fp)"
    if "decimal_value ip fp \<le> i64_max"
    using that decimal_value_nonneg[of ip fp] by (simp add: checked_def machine_bounds)
  have body: "parse_decimal_to_stroops (decimal_text neg ip dot fp) original =
      res_bind (parse_digits_to_i64 ip original) (\<lambda>int_val.
        res_bind
          (ok_or (AmountOutOfRange original)
            (Option.bind (checked_i64 (int_val * STROOPS_PER_XLM))
              (\<lambda>v. checked_i64 (v + int (nat_of_digits fp * 10 ^ (7 - length fp))))))
          (\<lambda>abs_stroops.
             if neg
             then map_sum id from_stroops (ok_or (AmountOutOfRange original) (checked_i64 (- abs_stroops)))
             else Inr (from_stroops abs_stroops)))"
    unfolding parse_decimal_to_stroops_def strip
    using pre nodot ip fp split by (simp add: frac STELLAR_DECIMALS_def del: split_paired_All)
  define F where "F = int (nat_of_digits fp * 10 ^ (7 - length fp))"
  have "0 \<le> F" by (simp add: F_def)
  then show ?thesis
    unfolding body parse_digits_to_i64_eq[OF ip] F_def[symmetric]
    using neg_ok decimal_value_nonneg[of ip fp]
    unfolding decimal_value_def F_def[symmetric]
    by (auto simp: checked_def STROOPS_PER_XLM_def machine_bounds)
qed

text \<open>Conversely, whatever the parser accepts is a numeral of the grammar.\<close>

lemma parse_decimal_accepts:
  assumes "parse_decimal_to_stroops s original = Inr a"
  obtains neg ip dot fp where "s = decimal_text neg ip dot fp" "ip \<noteq> []" "list_all is_digit ip"
    "list_all is_digit fp" "length fp \<le> 7" "\<not> dot \<longrightarrow> fp = []"
proof -
  obtain neg u where su: "strip_minus s = (neg, u)" by fastforce
  have s: "s = (if neg then ''-'' else []) @ u"
    using su by (auto simp: strip_minus_def split: list.splits if_splits)
  obtain ip fp where sp: "(case split_once (CHR ''.'') u of None \<Rightarrow> (u, []) | Some p \<Rightarrow> p) = (ip, fp)"
    by fastforce
  define dot where "dot = (split_once (CHR ''.'') u \<noteq> None)"
  have u: "u = ip @ (if dot then ''.'' @ fp else [])" and d: "\<not> dot \<longrightarrow> fp = []"
    using sp by (auto simp: dot_def split: option.splits dest: split_once_SomeD)
  have "ip \<noteq> []" "list_all is_digit ip" "list_all is_digit fp" "length fp \<le> 7"
    using assms unfolding parse_decimal_to_stroops_def su
    by (auto simp: sp STELLAR_DECIMALS_def split: if_splits)
  moreover have "s = decimal_text neg ip dot fp" by (simp add: decimal_text_def s u)
  ultimately show ?thesis using that d by blast
qed

lemma format_stroops_grammar:
  "format_stroops_as_xlm n =
     decimal_text (n < 0) (show_nat (nat \<bar>n\<bar> div 10000000)) True (pad_zero 7 (show_nat (nat \<bar>n\<bar> mod 10000000)))"
  by (simp add: format_stroops_as_xlm_def decimal_text_def STROOPS_PER_XLM_def Let_def)

lemma pad_zero_props:
  assumes "m < 10 ^ 7"
  shows "length (pad_zero 7 (show_nat m)) = 7" "list_all is_digit (pad_zero 7 (show_nat m))"
proof -
  have "length (show_nat m) \<le> 7" using assms by (intro show_nat_length) auto
  then show "length (pad_zero 7 (show_nat m)) = 7" by (simp add: pad_zero_def)
  show "list_all is_digit (pad_zero 7 (show_nat m))"
    using show_nat_digits[of m]
    by (auto simp: pad_zero_def list_all_iff set_replicate_conv_if is_digit_def)
qed

lemma format_stroops_value:
  fixes n :: int
  defines "m \<equiv> nat \<bar>n\<bar>"
  shows "decimal_value (show_nat (m div 10000000)) (pad_zero 7 (show_nat (m mod 10000000))) = \<bar>n\<bar>"
proof -
  have "int (m div 10000000) * 10000000 + int (m mod 10000000) = int m"
    using arg_cong[OF div_mult_mod_eq[of m 10000000], of int]
    by (simp only: of_nat_add of_nat_mult of_nat_numeral)
  then show ?thesis
    using pad_zero_props(1)[of "m mod 10000000"]
    by (simp add: decimal_value_def STROOPS_PER_XLM_def m_def)
qed

lemma parse_decimal_format:
  "parse_decimal_to_stroops (format_stroops_as_xlm n) original =
     (if \<bar>n\<bar> \<le> i64_max then Inr (from_stroops n) else Inl (AmountOutOfRange original))"
proof -
  have m: "nat \<bar>n\<bar> mod 10000000 < 10 ^ 7" by simp
  note g = parse_decimal_grammar[OF show_nat_nonempty show_nat_digits pad_zero_props(2)[OF m]]
  show ?thesis
    unfolding format_stroops_grammar
    by (subst g) (simp_all only: pad_zero_props(1)[OF m] format_stroops_value, auto)
qed

section \<open>Words of an amount string\<close>

lemma decimal_text_chars:
  "list_all is_digit ip \<Longrightarrow> list_all is_digit fp \<Longrightarrow>
   c \<in> set (decimal_text neg ip dot fp) \<Longrightarrow> graphic c"
  by (auto simp: decimal_text_def list_all_iff digit_graphic split: if_splits) (simp_all add: graphic_def)

lemma graphic_not_whitespace: "graphic c \<Longrightarrow> \<not> is_ascii_whitespace c"
  by (auto simp: graphic_def is_ascii_whitespace_def)

lemma format_stroops_graphic: "c \<in> set (format_stroops_as_xlm n) \<Longrightarrow> graphic c"
  unfolding format_stroops_grammar
  by (rule decimal_text_chars[OF show_nat_digits pad_zero_props(2)]) simp_all

lemma format_stroops_nonempty: "format_stroops_as_xlm n \<noteq> []"
  by (simp add: format_stroops_as_xlm_def Let_def)

lemma display_tokens:
  "split_ascii_whitespace (trim (display_amount a)) = [format_stroops_as_xlm (stroops a), ''XLM'']"
proof -
  let ?f = "format_stroops_as_xlm (stroops a)"
  have "graphic (hd ?f)" using format_stroops_graphic format_stroops_nonempty hd_in_set by blast
  then have "trim (display_amount a) = display_amount a"
    by (intro trim_graphic) (simp_all add: display_amount_def format_stroops_nonempty graphic_def)
  then show ?thesis
    using split_ascii_whitespace_pair[of ?f "''XLM''"] format_stroops_nonempty
      format_stroops_graphic graphic_not_whitespace
    by (simp add: display_amount_def is_ascii_whitespace_def)
qed

section \<open>Properties of amounts\<close>

text \<open>
  C33. Printing an amount and parsing the text back returns the amount for every
  \<^verbatim>\<open>i64\<close> stroop value but the smallest one, whose printed magnitude exceeds
  \<^verbatim>\<open>i64::MAX\<close> and is refused as out of range.
\<close>

theorem display_parse_roundtrip:
  assumes "amount_ok a"
  shows "parse_with_unit (display_amount a) =
    (if stroops a = i64_min then Inl (AmountOutOfRange (display_amount a)) else Inr a)"
proof -
  have "\<bar>stroops a\<bar> \<le> i64_max \<longleftrightarrow> stroops a \<noteq> i64_min"
    using assms by (auto simp: amount_ok_def in_range_def machine_bounds)
  then show ?thesis
    by (simp add: parse_with_unit_def parse_unit_def display_tokens parse_decimal_format
        eq_ignore_ascii_case_def from_stroops_def)
qed

theorem display_parse_roundtrip_witness:
  "amount_ok (from_stroops (-15000001)) \<and>
   parse_with_unit (display_amount (from_stroops (-15000001))) = Inr (from_stroops (-15000001))"
proof -
  have ok: "amount_ok (from_stroops (-15000001))"
    by (simp add: amount_ok_def from_stroops_def in_range_def machine_bounds)
  then show ?thesis
    using display_parse_roundtrip[OF ok] by (simp add: from_stroops_def machine_bounds)
qed



lemma show_int_graphic: "c \<in> set (show_int n) \<Longrightarrow> graphic c"
  using show_nat_digits[of "nat n"] show_nat_digits[of "nat (- n)"]
  by (auto simp: show_int_def list_all_iff digit_graphic split: if_splits) (simp add: graphic_def)

lemma show_int_nonempty [simp]: "show_int n \<noteq> []"
  by (simp add: show_int_def)

lemma trim_show_int [simp]: "trim (show_int n) = show_int n"
  by (rule trim_graphic[OF show_int_nonempty show_int_graphic[OF hd_in_set[OF show_int_nonempty]]
        show_int_graphic[OF last_in_set[OF show_int_nonempty]]])

lemma strip_minus_show_int: "strip_minus (show_int n) = (n < 0, show_nat (nat \<bar>n\<bar>))"
proof -
  obtain c t where s: "show_nat (nat n) = c # t" by (cases "show_nat (nat n)") auto
  have "is_digit c" using show_nat_digits[of "nat n"] by (simp add: s)
  then show ?thesis by (auto simp: strip_minus_def show_int_def s)
qed

text \<open>
  The base-unit form round-trips on the whole \<^verbatim>\<open>i64\<close> range, \<^verbatim>\<open>i64::MIN\<close> included:
  parsing the decimal rendering of a stroop count returns that count.
\<close>

theorem parse_stroops_roundtrip:
  assumes "amount_ok a"
  shows "parse_stroops (show_int (stroops a)) = Inr a"
proof -
  let ?m = "nat \<bar>stroops a\<bar>"
  have "int ?m \<le> i64_max + 1" "i64_min \<le> stroops a" "stroops a \<le> i64_max"
    using assms by (auto simp: amount_ok_def in_range_def machine_bounds)
  moreover from this have "?m \<le> u64_max" by (simp add: machine_bounds)
  ultimately show ?thesis
    by (auto simp: parse_stroops_def strip_minus_show_int show_nat_digits parse_digits_to_u64_eq
        from_stroops_def Let_def machine_bounds)
qed

theorem parse_stroops_roundtrip_witness:
  "amount_ok (from_stroops i64_min) \<and> parse_stroops (show_int i64_min) = Inr (from_stroops i64_min)"
proof -
  have ok: "amount_ok (from_stroops i64_min)"
    by (simp add: amount_ok_def from_stroops_def in_range_def machine_bounds)
  then show ?thesis using parse_stroops_roundtrip[OF ok] by (simp add: from_stroops_def)
qed

section \<open>Anchor amounts follow their published pattern\<close>

lemma anchor_scan_eq:
  "anchor_scan d l s = Inr (d', l') \<longleftrightarrow>
     list_all (\<lambda>c. is_digit c \<or> c = CHR ''.'') s \<and> d' = d + count_list s (CHR ''.'') \<and>
     (CHR ''.'' \<in> set s \<longrightarrow> d' \<le> 1) \<and>
     l' = (if s = [] then l else last s = CHR ''.'')"
proof (induction s arbitrary: d l)
  case (Cons c s)
  have "is_digit c \<Longrightarrow> c \<noteq> CHR ''e''" "is_digit c \<Longrightarrow> c \<noteq> CHR ''E''" by (auto simp: is_digit_def)
  moreover have "d + Suc (count_list s (CHR ''.'')) \<le> 1 \<longleftrightarrow> d = 0 \<and> CHR ''.'' \<notin> set s"
    by (auto simp: count_list_0_iff)
  ultimately show ?case
    by (auto simp: Cons.IH count_list_0_iff)
qed auto

lemma split_char_nonempty [simp]: "split_char c s \<noteq> []"
  by (cases s) (auto split: list.split)

lemma split_char_many: "c \<in> set s \<Longrightarrow> \<exists>a b r. split_char c s = a # b # r"
proof (induction s)
  case (Cons x s)
  obtain w ws where "split_char c s = w # ws" by (cases "split_char c s") auto
  then show ?case using Cons by auto
qed simp

definition anchor_decimals :: "string \<Rightarrow> nat" where
  "anchor_decimals s = (case split_char (CHR ''.'') s of _ # f # _ \<Rightarrow> length f | _ \<Rightarrow> 0)"

lemma anchor_amount_parse_Inr:
  "anchor_amount_parse s = Inr t \<longleftrightarrow>
     t = s \<and> s \<noteq> [] \<and> length s \<le> ANCHOR_AMOUNT_MAX_LEN \<and> hd s \<notin> {CHR ''+'', CHR ''-'', CHR ''.''} \<and>
     (\<exists>d. anchor_scan 0 False s = Inr (d, False) \<and> (0 < d \<longrightarrow> anchor_decimals s \<le> 18)) \<and>
     (\<exists>c\<in>set s. is_digit c \<and> c \<noteq> CHR ''0'')"
  unfolding anchor_amount_parse_def anchor_decimals_def[symmetric]
  by (cases "anchor_scan 0 False s")
     (auto simp: ANCHOR_AMOUNT_MAX_DECIMAL_PLACES_def list_all_iff Let_def split: if_splits)

lemma anchor_shape_no_dot:
  assumes nd: "CHR ''.'' \<notin> set s"
  shows "(\<exists>d. anchor_scan 0 False s = Inr (d, False) \<and> (0 < d \<longrightarrow> anchor_decimals s \<le> 18))
    \<longleftrightarrow> list_all is_digit s"
proof -
  have "list_all (\<lambda>c. is_digit c \<or> c = CHR ''.'') s = list_all is_digit s"
    using nd by (auto simp: list_all_iff)
  moreover have "s \<noteq> [] \<Longrightarrow> last s \<noteq> CHR ''.''" using nd last_in_set by metis
  ultimately show ?thesis using nd by (auto simp: anchor_scan_eq count_list_0_iff)
qed

lemma anchor_shape_dot:
  assumes i: "CHR ''.'' \<notin> set i"
  shows "(\<exists>d. anchor_scan 0 False (i @ CHR ''.'' # f) = Inr (d, False) \<and>
              (0 < d \<longrightarrow> anchor_decimals (i @ CHR ''.'' # f) \<le> 18))
    \<longleftrightarrow> CHR ''.'' \<notin> set f \<and> list_all is_digit i \<and> list_all is_digit f \<and> 1 \<le> length f \<and> length f \<le> 18"
proof (cases "CHR ''.'' \<in> set f")
  case True
  then have "anchor_scan 0 False (i @ CHR ''.'' # f) \<noteq> Inr (d, l)" for d l
    by (auto simp: anchor_scan_eq count_list_0_iff)
  then show ?thesis using True by auto
next
  case False
  then have "f \<noteq> [] \<Longrightarrow> last f \<noteq> CHR ''.''" using last_in_set by metis
  moreover have "list_all (\<lambda>c. is_digit c \<or> c = CHR ''.'') (i @ CHR ''.'' # f)
      = (list_all is_digit i \<and> list_all is_digit f)"
    using i False by (auto simp: list_all_iff)
  moreover have "count_list i (CHR ''.'') = 0" "count_list f (CHR ''.'') = 0"
    using i False by (simp_all add: count_list_0_iff)
  ultimately show ?thesis
    using i False by (cases f) (auto simp: anchor_scan_eq anchor_decimals_def)
qed

text \<open>
  The anchor amount parser accepts exactly the strings of the pattern its
  JSON schema publishes that have at most 40 bytes and a non-zero digit, and
  returns them unchanged.
\<close>

theorem anchor_amount_parse_iff:
  "anchor_amount_parse s = Inr t \<longleftrightarrow>
     t = s \<and> length s \<le> ANCHOR_AMOUNT_MAX_LEN \<and> anchor_pattern s \<and>
     (\<exists>c\<in>set s. is_digit c \<and> c \<noteq> CHR ''0'')"
proof (cases "split_once (CHR ''.'') s")
  case None
  then have nd: "CHR ''.'' \<notin> set s" by (simp add: split_once_None)
  show ?thesis
    unfolding anchor_amount_parse_Inr anchor_shape_no_dot[OF nd]
    using nd by (cases s) (auto simp: anchor_pattern_def)
next
  case (Some p)
  then obtain i f where s: "s = i @ CHR ''.'' # f" and i: "CHR ''.'' \<notin> set i"
    by (cases p) (auto dest: split_once_SomeD)
  have pat: "anchor_pattern s \<longleftrightarrow> i \<noteq> [] \<and> CHR ''.'' \<notin> set f \<and> list_all is_digit i \<and>
      list_all is_digit f \<and> 1 \<le> length f \<and> length f \<le> 18"
    using i split_char_many[of "CHR ''.''" f]
    by (cases "CHR ''.'' \<in> set f") (auto simp: anchor_pattern_def s)
  have hd: "i \<noteq> [] \<Longrightarrow> list_all is_digit i \<Longrightarrow> hd i \<notin> {CHR ''+'', CHR ''-'', CHR ''.''}"
    by (cases i) auto
  show ?thesis
    unfolding anchor_amount_parse_Inr pat
    unfolding s anchor_shape_dot[OF i]
    using hd by (cases i) auto
qed

end
