(* ===== verification/Policy_Types.thy ===== *)
theory Policy_Types
  imports Amount
begin

text \<open>
  Vocabulary of the policy engine (\<^verbatim>\<open>policy/mod.rs\<close>, \<^verbatim>\<open>profile/caip2.rs\<close>,
  \<^verbatim>\<open>asset_id.rs\<close>): JSON arguments, tool descriptors, decisions, deny reasons and
  engine errors with their wire codes, approval requests, the pass-through
  engine, canonical asset identities.  Diagnostic \<^verbatim>\<open>detail\<close> texts are replaced by
  constructors that name the site and the values the text is built from; every
  other field is kept.
\<close>

section \<open>JSON values\<close>

text \<open>
  A \<^verbatim>\<open>serde_json::Value\<close>.  An integer is kept as such, any other number as its
  text; the keys of an object are unique.
\<close>

datatype json =
    JNull
  | JBool bool
  | JInt int
  | JFloat string
  | JStr string
  | JArr "json list"
  | JObj "(string \<times> json) list"

definition json_get :: "string \<Rightarrow> json \<Rightarrow> json option" where
  "json_get k v = (case v of JObj kvs \<Rightarrow> map_of kvs k | _ \<Rightarrow> None)"

definition json_str :: "json \<Rightarrow> string option" where
  "json_str v = (case v of JStr s \<Rightarrow> Some s | _ \<Rightarrow> None)"

definition json_i64 :: "json \<Rightarrow> int option" where
  "json_i64 v = (case v of JInt i \<Rightarrow> checked_i64 i | _ \<Rightarrow> None)"

definition json_u64 :: "json \<Rightarrow> int option" where
  "json_u64 v = (case v of JInt i \<Rightarrow> checked 0 (int u64_max) i | _ \<Rightarrow> None)"

definition get_str :: "string \<Rightarrow> json \<Rightarrow> string option" where
  "get_str k v = Option.bind (json_get k v) json_str"

text \<open>Decoding a stroop field out of a JSON value (\<^verbatim>\<open>wire_stroops.rs\<close>).\<close>

definition value_as_stroops_i64 :: "json \<Rightarrow> int option" where
  "value_as_stroops_i64 v =
     Option.bind
       (case v of JStr s \<Rightarrow> parse_signed i64_min i64_max s | _ \<Rightarrow> json_i64 v)
       (\<lambda>parsed. if 0 \<le> parsed then Some parsed else None)"

section \<open>Chains\<close>

datatype caip2 = Testnet | Mainnet

definition is_mainnet :: "caip2 \<Rightarrow> bool" where
  "is_mainnet c = (c = Mainnet)"

definition caip2_str :: "caip2 \<Rightarrow> string" where
  "caip2_str c = (case c of Testnet \<Rightarrow> ''stellar:testnet'' | Mainnet \<Rightarrow> ''stellar:mainnet'')"

definition network_passphrase :: "caip2 \<Rightarrow> string" where
  "network_passphrase c =
     (case c of Testnet \<Rightarrow> ''Test SDF Network ; September 2015''
      | Mainnet \<Rightarrow> ''Public Global Stellar Network ; September 2015'')"

definition from_passphrase :: "string \<Rightarrow> caip2 option" where
  "from_passphrase p =
     (if p = ''Test SDF Network ; September 2015'' then Some Testnet
      else if p = ''Public Global Stellar Network ; September 2015'' then Some Mainnet
      else None)"

datatype chain_id_error = Caip2Unknown string | ChainMismatch string string

definition caip2_from_str :: "string \<Rightarrow> (chain_id_error, caip2) result" where
  "caip2_from_str s =
     (if s = ''stellar:testnet'' then Inr Testnet
      else if s = ''stellar:mainnet'' then Inr Mainnet
      else Inl (Caip2Unknown s))"

text \<open>The profile fields the policy layer reads.\<close>

record profile =
  chain_id :: caip2
  signer_account :: string

definition validate_chain_id_matches_profile :: "string \<Rightarrow> profile \<Rightarrow> (chain_id_error, unit) result" where
  "validate_chain_id_matches_profile arg p =
     res_bind (caip2_from_str arg) (\<lambda>parsed.
       if parsed \<noteq> chain_id p then Inl (ChainMismatch arg (caip2_str (chain_id p))) else Inr ())"

section \<open>Tools\<close>

datatype tool_value_kind = KReadOnly | MovesValue | OpaqueSign

record tool_registration =
  reg_name :: string
  reg_destructive_hint :: bool
  reg_read_only_hint :: bool
  reg_chain_id_required :: bool
  reg_value_kind :: tool_value_kind

record tool_descriptor =
  tool_name :: string
  destructive_hint :: bool
  read_only_hint :: bool
  chain_id_required :: bool
  tool_chain_id :: string
  value_kind :: tool_value_kind

definition from_registration :: "tool_registration \<Rightarrow> tool_descriptor" where
  "from_registration r =
     \<lparr>tool_name = reg_name r, destructive_hint = reg_destructive_hint r,
      read_only_hint = reg_read_only_hint r, chain_id_required = reg_chain_id_required r,
      tool_chain_id = '''', value_kind = reg_value_kind r\<rparr>"

section \<open>Decisions, deny reasons, errors\<close>

text \<open>Why a value effect could not be sized; both texts carry the tool name.\<close>

datatype unsizable = OpaqueMaterial string | NoResolvedEffects string

datatype deny_reason =
    PerTxCapExceeded string int int
  | ApprovalAboveExceeded string int int
  | PerPeriodCapExceeded string string int int int
  | RateLimitExceeded string nat nat
  | CounterpartyDenied string string
  | MinimumReserveBreached int int
  | OwnerSignatureStale string
  | NoMatchingRule
  | ExplicitRuleDeny
  | CounterpartyKindUnsupported string
  | EvaluationError string
  | UnsizableValueEffect unsizable
  | InnerInvocationCountCapExceeded nat nat
  | BundleAggregateCapExceeded "string option" int int
  | BundleContainsGenericKind nat
  | BundleDenied nat deny_reason
  | QuorumNotSatisfied "string list" string
  | HomeDomainNotResolved string
  | Sep10SessionMissing string
  | Sep45SessionMissing string

record approval_request =
  nonce :: string
  ttl_seconds :: nat
  reason :: "string option"
  approval_url :: "string option"

definition approval_request_new :: "string \<Rightarrow> nat \<Rightarrow> approval_request" where
  "approval_request_new n ttl = \<lparr>nonce = n, ttl_seconds = ttl, reason = None, approval_url = None\<rparr>"

definition with_reason :: "string \<Rightarrow> approval_request \<Rightarrow> approval_request" where
  "with_reason r req = req\<lparr>reason := Some r\<rparr>"

datatype decision =
    Allow
  | Deny deny_reason
  | RequireApproval approval_request

primrec deny_code :: "deny_reason \<Rightarrow> string" where
  "deny_code (PerTxCapExceeded a m x) = ''per_tx_cap_exceeded''"
| "deny_code (ApprovalAboveExceeded a m x) = ''approval_above_exceeded''"
| "deny_code (PerPeriodCapExceeded a w m x u) = ''per_period_cap_exceeded''"
| "deny_code (RateLimitExceeded w m c) = ''rate_limit_exceeded''"
| "deny_code (CounterpartyDenied k v) = ''counterparty_denied''"
| "deny_code (MinimumReserveBreached r b) = ''minimum_reserve_breached''"
| "deny_code (OwnerSignatureStale t) = ''owner_signature_stale''"
| "deny_code NoMatchingRule = ''no_matching_rule''"
| "deny_code ExplicitRuleDeny = ''explicit_rule_deny''"
| "deny_code (CounterpartyKindUnsupported k) = ''counterparty_kind_unsupported''"
| "deny_code (EvaluationError d) = ''evaluation_error''"
| "deny_code (UnsizableValueEffect d) = ''unsizable_value_effect''"
| "deny_code (InnerInvocationCountCapExceeded m a) = ''inner_invocation_count_cap_exceeded''"
| "deny_code (BundleAggregateCapExceeded a m s) = ''bundle_aggregate_cap_exceeded''"
| "deny_code (BundleContainsGenericKind i) = ''bundle_contains_generic_kind''"
| "deny_code (BundleDenied i r) = ''bundle_denied''"
| "deny_code (QuorumNotSatisfied g c) = ''quorum_not_satisfied''"
| "deny_code (HomeDomainNotResolved h) = ''home_domain_not_resolved''"
| "deny_code (Sep10SessionMissing a) = ''sep10.session_missing''"
| "deny_code (Sep45SessionMissing c) = ''sep45.session_missing''"

text \<open>The wire code is spelled out per variant in the source, not derived from the code.\<close>

primrec deny_wire_code :: "deny_reason \<Rightarrow> string" where
  "deny_wire_code (PerTxCapExceeded a m x) = ''policy.deny.per_tx_cap_exceeded''"
| "deny_wire_code (ApprovalAboveExceeded a m x) = ''policy.deny.approval_above_exceeded''"
| "deny_wire_code (PerPeriodCapExceeded a w m x u) = ''policy.deny.per_period_cap_exceeded''"
| "deny_wire_code (RateLimitExceeded w m c) = ''policy.deny.rate_limit_exceeded''"
| "deny_wire_code (CounterpartyDenied k v) = ''policy.deny.counterparty_denied''"
| "deny_wire_code (MinimumReserveBreached r b) = ''policy.deny.minimum_reserve_breached''"
| "deny_wire_code (OwnerSignatureStale t) = ''policy.deny.owner_signature_stale''"
| "deny_wire_code NoMatchingRule = ''policy.deny.no_matching_rule''"
| "deny_wire_code ExplicitRuleDeny = ''policy.deny.explicit_rule_deny''"
| "deny_wire_code (CounterpartyKindUnsupported k) = ''policy.deny.counterparty_kind_unsupported''"
| "deny_wire_code (EvaluationError d) = ''policy.deny.evaluation_error''"
| "deny_wire_code (UnsizableValueEffect d) = ''policy.deny.unsizable_value_effect''"
| "deny_wire_code (InnerInvocationCountCapExceeded m a) = ''policy.deny.inner_invocation_count_cap_exceeded''"
| "deny_wire_code (BundleAggregateCapExceeded a m s) = ''policy.deny.bundle_aggregate_cap_exceeded''"
| "deny_wire_code (BundleContainsGenericKind i) = ''policy.deny.bundle_contains_generic_kind''"
| "deny_wire_code (BundleDenied i r) = ''policy.deny.bundle_denied''"
| "deny_wire_code (QuorumNotSatisfied g c) = ''policy.deny.quorum_not_satisfied''"
| "deny_wire_code (HomeDomainNotResolved h) = ''policy.deny.home_domain_not_resolved''"
| "deny_wire_code (Sep10SessionMissing a) = ''policy.deny.sep10.session_missing''"
| "deny_wire_code (Sep45SessionMissing c) = ''policy.deny.sep45.session_missing''"

text \<open>Sites of a state-store failure and of a criterion's own evaluation failure.\<close>

datatype state_store_error =
    LockPoisoned
  | ClockSkewExceeded (skew_entry_ts_ms: nat) (skew_now_ms: nat)

datatype amount_error = AmountError validation_error | AssetInvalid string

datatype eval_failure =
    DebitLegWithoutAsset string string
  | UnresolvableAmount string string
  | ClockBeforeEpoch string
  | StateStoreFailed string state_store_error
  | AggregateOverflow
  | AccountViewMissing string
  | BalanceUnavailable string string
  | QuorumViewMissing string
  | IdentityViewMissing string
  | CounterpartyCacheMissing string string
  | Sep10ViewMissing string
  | Sep45ViewMissing string
  | StroopFieldInvalid string string
  | PaymentAssetNotIssued
  | PaymentAssetInvalid string
  | LegacyAmountUnparsable string string amount_error
  | MissingStringField string string
  | AssetNotCodeIssuer string string
  | InvalidStrkey string string

datatype policy_error =
    NotImplemented
  | PolicyFileLoadFailed string
  | PolicyFileParseFailed string
  | OwnerSignatureInvalid string "nat list"
  | MissingOwnerKey string
  | ScopeResolutionFailed string
  | CriterionEvaluationFailed eval_failure

primrec policy_error_code :: "policy_error \<Rightarrow> string" where
  "policy_error_code NotImplemented = ''policy.engine_required''"
| "policy_error_code (PolicyFileLoadFailed d) = ''policy.policy_file_load_failed''"
| "policy_error_code (PolicyFileParseFailed d) = ''policy.policy_file_parse_failed''"
| "policy_error_code (OwnerSignatureInvalid p rs) = ''policy.owner_signature_invalid''"
| "policy_error_code (MissingOwnerKey p) = ''policy.missing_owner_key''"
| "policy_error_code (ScopeResolutionFailed d) = ''policy.scope_resolution_failed''"
| "policy_error_code (CriterionEvaluationFailed d) = ''policy.criterion_evaluation_failed''"

section \<open>The pass-through engine\<close>

definition noop_evaluate :: "tool_descriptor \<Rightarrow> profile \<Rightarrow> (policy_error, decision) result" where
  "noop_evaluate tool p =
     (if \<not> is_mainnet (chain_id p) then Inr Allow
      else if \<not> destructive_hint tool then Inr Allow
      else Inl NotImplemented)"

section \<open>Canonical assets\<close>

text \<open>
  The \<^verbatim>\<open>stellar_strkey\<close> crate: decoding and encoding of account (\<^verbatim>\<open>G...\<close>) and contract
  (\<^verbatim>\<open>C...\<close>) addresses, as a parameter of the definitions that use it.
\<close>

record strkey =
  g_decode :: "string \<Rightarrow> string option"
  g_encode :: "string \<Rightarrow> string"
  c_decode :: "string \<Rightarrow> string option"
  c_encode :: "string \<Rightarrow> string"

datatype canonical_asset =
    Native
  | Classic string string
  | Contract string

datatype asset_id_error = NativeKey | BadForm | BadCode | BadIssuer | BadContract

definition asset_classic :: "strkey \<Rightarrow> string \<Rightarrow> string \<Rightarrow> (asset_id_error, canonical_asset) result" where
  "asset_classic sk code issuer =
     (if code = [] \<or> 12 < length code \<or> \<not> list_all is_ascii_alphanumeric code then Inl BadCode
      else case g_decode sk issuer of
             None \<Rightarrow> Inl BadIssuer
           | Some key \<Rightarrow> if g_encode sk key \<noteq> issuer then Inl BadIssuer else Inr (Classic code issuer))"

definition asset_contract :: "strkey \<Rightarrow> string \<Rightarrow> (asset_id_error, canonical_asset) result" where
  "asset_contract sk addr =
     (case c_decode sk addr of
        None \<Rightarrow> Inl BadContract
      | Some key \<Rightarrow> if c_encode sk key \<noteq> addr then Inl BadContract else Inr (Contract addr))"

definition parse_threshold_key :: "strkey \<Rightarrow> string \<Rightarrow> (asset_id_error, canonical_asset) result" where
  "parse_threshold_key sk key =
     (if eq_ignore_ascii_case key ''native'' \<or> eq_ignore_ascii_case key ''xlm'' then Inl NativeKey
      else case split_once (CHR '':'') key of
             Some (code, issuer) \<Rightarrow> asset_classic sk code issuer
           | None \<Rightarrow> if starts_with ''C'' key then asset_contract sk key else Inl BadForm)"

definition display_asset :: "canonical_asset \<Rightarrow> string" where
  "display_asset a =
     (case a of Native \<Rightarrow> ''native'' | Classic code issuer \<Rightarrow> code @ '':'' @ issuer | Contract addr \<Rightarrow> addr)"

definition asset_parse_amount :: "canonical_asset \<Rightarrow> string \<Rightarrow> (amount_error, stellar_amount) result" where
  "asset_parse_amount a input =
     (case a of
        Native \<Rightarrow> map_sum AmountError id (parse_with_unit input)
      | Classic code _ \<Rightarrow> map_sum AmountError id (parse_with_unit_for input code)
      | Contract _ \<Rightarrow> Inl (AssetInvalid (display_asset a)))"

text \<open>The serde form of an asset identity: what \<^verbatim>\<open>Deserialize\<close> accepts.\<close>

definition deserialize_asset :: "strkey \<Rightarrow> string \<Rightarrow> (asset_id_error, canonical_asset) result" where
  "deserialize_asset sk text = (if text = ''native'' then Inr Native else parse_threshold_key sk text)"

text \<open>The unit-carrying form first, the bare stroop form second; the first error is the one   reported.\<close>

definition parse_amount_or_stroops ::
  "canonical_asset \<Rightarrow> string \<Rightarrow> (amount_error, stellar_amount) result" where
  "parse_amount_or_stroops a v =
     (case asset_parse_amount a v of
        Inr x \<Rightarrow> Inr x
      | Inl error \<Rightarrow> (case parse_stroops v of Inr x \<Rightarrow> Inr x | Inl _ \<Rightarrow> Inl error))"

end
