(* ===== verification/Profile_Name.thy ===== *)
theory Profile_Name
  imports Policy_Types
begin

text \<open>
  Profile names (\<^verbatim>\<open>profile/name.rs\<close>) and the keyring coordinates a profile
  carries (\<^verbatim>\<open>profile/schema.rs\<close>): which names may become path components, how a name
  is selected and when a mainnet profile must be named explicitly, and how a name
  is recovered from the owner-key coordinate.
\<close>

record keyring_entry_ref =
  service :: string
  account :: string

definition generation_account :: "string \<Rightarrow> string" where
  "generation_account acc = acc @ ''-generation''"

definition OWNER_KEY_SERVICE_PREFIX :: string where
  "OWNER_KEY_SERVICE_PREFIX = ''stellar-agent-owner-''"

definition default_owner_key :: "string \<Rightarrow> keyring_entry_ref" where
  "default_owner_key name = \<lparr>service = OWNER_KEY_SERVICE_PREFIX @ name, account = ''default''\<rparr>"

record keyed_profile = profile +
  policy_window_state_key_id :: keyring_entry_ref
  policy_owner_key_id :: keyring_entry_ref

definition strip_prefix :: "string \<Rightarrow> string \<Rightarrow> string option" where
  "strip_prefix p s = (if starts_with p s then Some (drop (length p) s) else None)"

definition derive_profile_name_from_owner_key :: "keyed_profile \<Rightarrow> string option" where
  "derive_profile_name_from_owner_key p = strip_prefix OWNER_KEY_SERVICE_PREFIX (service (policy_owner_key_id p))"

definition profile_name_for_approval :: "keyed_profile \<Rightarrow> string" where
  "profile_name_for_approval p =
     (case derive_profile_name_from_owner_key p of None \<Rightarrow> ''default'' | Some n \<Rightarrow> n)"

record profile_name_mismatch =
  pm_requested :: string
  pm_derived :: "string option"
  pm_service :: string

definition profile_name_mismatch_refusal :: "keyed_profile \<Rightarrow> string \<Rightarrow> profile_name_mismatch option" where
  "profile_name_mismatch_refusal p requested =
     (let derived = derive_profile_name_from_owner_key p in
      if derived = Some requested then None
      else Some \<lparr>pm_requested = requested, pm_derived = derived, pm_service = service (policy_owner_key_id p)\<rparr>)"

section \<open>Selecting a profile\<close>

datatype profile_name_source = SourceFlag | SourceEnv | SourceDefault

record resolved_profile_name =
  rp_name :: string
  rp_source :: profile_name_source

definition resolve_from_parts :: "string option \<Rightarrow> string option \<Rightarrow> resolved_profile_name" where
  "resolve_from_parts arg env_value =
     (case arg of
        Some n \<Rightarrow> \<lparr>rp_name = n, rp_source = SourceFlag\<rparr>
      | None \<Rightarrow>
          (case env_value of
             Some n \<Rightarrow> \<lparr>rp_name = n, rp_source = SourceEnv\<rparr>
           | None \<Rightarrow> \<lparr>rp_name = ''default'', rp_source = SourceDefault\<rparr>))"

text \<open>The refusal \<^verbatim>\<open>MainnetRequiresExplicitProfile\<close> with the name and its source.\<close>

definition check_mainnet_selection ::
  "keyed_profile \<Rightarrow> resolved_profile_name \<Rightarrow> (string \<times> profile_name_source, unit) result" where
  "check_mainnet_selection p resolved =
     (if is_mainnet (chain_id p) then
        (case rp_source resolved of
           SourceFlag \<Rightarrow> Inr ()
         | src \<Rightarrow> Inl (rp_name resolved, src))
      else Inr ())"

section \<open>Names as path components\<close>

definition WINDOWS_RESERVED_DEVICES :: "string list" where
  "WINDOWS_RESERVED_DEVICES =
     [''CON'', ''PRN'', ''AUX'', ''NUL'', ''COM1'', ''COM2'', ''COM3'', ''COM4'', ''COM5'', ''COM6'',
      ''COM7'', ''COM8'', ''COM9'', ''LPT1'', ''LPT2'', ''LPT3'', ''LPT4'', ''LPT5'', ''LPT6'', ''LPT7'',
      ''LPT8'', ''LPT9'']"

definition WINDOWS_CONSOLE_DEVICES :: "string list" where
  "WINDOWS_CONSOLE_DEVICES = [''CONIN$'', ''CONOUT$'']"

definition quoted :: "string \<Rightarrow> string" where
  "quoted s = [CHR 0x27] @ s @ [CHR 0x27]"

definition device_refusal :: "string \<Rightarrow> string \<Rightarrow> string" where
  "device_refusal kind device = ''must not be the Windows '' @ kind @ '' device name '' @ quoted device"

definition trim_end_blanks :: "string \<Rightarrow> string" where
  "trim_end_blanks s = rev (dropWhile (\<lambda>c. c = CHR '' '') (rev s))"

definition device_stem :: "string \<Rightarrow> string" where
  "device_stem name = trim_end_blanks (takeWhile (\<lambda>c. c \<noteq> CHR ''.'' \<and> c \<noteq> CHR '':'') name)"

definition windows_reserved_device_refusal :: "string \<Rightarrow> string option" where
  "windows_reserved_device_refusal name =
     map_option (device_refusal ''reserved'')
       (find (\<lambda>device. eq_ignore_ascii_case (device_stem name) device) WINDOWS_RESERVED_DEVICES)"

definition windows_console_device_refusal :: "string \<Rightarrow> string option" where
  "windows_console_device_refusal name =
     map_option (device_refusal ''console'')
       (find (\<lambda>device. eq_ignore_ascii_case name device) WINDOWS_CONSOLE_DEVICES)"

fun component_chars :: "string \<Rightarrow> (string, unit) result" where
  "component_chars [] = Inr ()"
| "component_chars (c # cs) =
     (if 128 \<le> byte_of c \<or> byte_of c < 32 \<or> byte_of c = 127
      then Inl ''must contain only printable ASCII characters''
      else if c = CHR ''/'' \<or> c = CHR 0x5C \<or> c = CHR '':''
      then Inl (''must not contain '' @ quoted ''/'' @ '', '' @ quoted [CHR 0x5C] @ '', or '' @ quoted '':'' @ '' characters'')
      else component_chars cs)"

fun has_dotdot :: "string \<Rightarrow> bool" where
  "has_dotdot (a # b # cs) \<longleftrightarrow> (a = CHR ''.'' \<and> b = CHR ''.'') \<or> has_dotdot (b # cs)"
| "has_dotdot _ \<longleftrightarrow> False"

definition validate_path_component_ascii_safe :: "string \<Rightarrow> (string, unit) result" where
  "validate_path_component_ascii_safe s =
     (if s = [] then Inl ''must not be empty''
      else if 64 < length s then Inl ''must be at most 64 characters''
      else if s = ''.'' \<or> s = ''..'' then Inl (''must not be '' @ quoted ''.'' @ '' or '' @ quoted ''..'')
      else case component_chars s of
        Inl e \<Rightarrow> Inl e
      | Inr _ \<Rightarrow>
          if has_dotdot s then Inl (''must not contain '' @ quoted ''..'' @ '' (path traversal)'')
          else if starts_with ''-'' s then Inl (''must not begin with '' @ quoted ''-'')
          else case windows_reserved_device_refusal s of
            Some refusal \<Rightarrow> Inl refusal
          | None \<Rightarrow>
              (case windows_console_device_refusal s of
                 Some refusal \<Rightarrow> Inl refusal
               | None \<Rightarrow> Inr ()))"

section \<open>Properties\<close>

lemma component_chars_ok:
  "component_chars s = Inr () \<longleftrightarrow>
     (\<forall>c\<in>set s. 32 \<le> byte_of c \<and> byte_of c < 127 \<and> c \<noteq> CHR ''/'' \<and> c \<noteq> CHR 0x5C \<and> c \<noteq> CHR '':'')"
  by (induction s) (auto simp: not_le)

lemma device_stem_extension: "CHR '':'' \<notin> set s \<Longrightarrow> device_stem (s @ CHR ''.'' # ext) = device_stem s"
proof -
  assume colon: "CHR '':'' \<notin> set s"
  have "takeWhile (\<lambda>c. c \<noteq> CHR ''.'' \<and> c \<noteq> CHR '':'') (s @ CHR ''.'' # ext) =
      takeWhile (\<lambda>c. c \<noteq> CHR ''.'' \<and> c \<noteq> CHR '':'') s"
    by (induction s) simp_all
  then show ?thesis by (simp add: device_stem_def)
qed



text \<open>
  A mainnet profile is served only when it was named on the command line: a
  selection from the environment or by default is refused, whatever the name.
\<close>

theorem mainnet_needs_explicit_flag:
  "check_mainnet_selection p (resolve_from_parts arg env_value) = Inr () \<longleftrightarrow>
     chain_id p = Testnet \<or> (\<exists>name. arg = Some name)"
  by (cases "chain_id p"; cases arg; cases env_value)
     (simp_all add: check_mainnet_selection_def resolve_from_parts_def is_mainnet_def)

text \<open>
  The owner coordinate written for a name is accepted for exactly that name.
\<close>

theorem owner_coordinate_names_one_profile:
  "profile_name_mismatch_refusal (p\<lparr>policy_owner_key_id := default_owner_key name\<rparr>) requested = None \<longleftrightarrow>
     requested = name"
  by (auto simp: profile_name_mismatch_refusal_def derive_profile_name_from_owner_key_def default_owner_key_def
      strip_prefix_def starts_with_def)

end
