(* ===== verification/Keyring.thy ===== *)
theory Keyring
  imports Profile_Name
begin

text \<open>
  The credential store as the wallet uses it: reading and minting the 32-byte HMAC
  keys (\<^verbatim>\<open>stellar-agent-network/src/keyring.rs\<close>) and refusing a key that is the
  profile's owner public key (\<^verbatim>\<open>profile/owner_key.rs\<close>).  The store itself, base64 and
  the strkey codec are third-party: a slot per coordinate, and the functions of
  \<^verbatim>\<open>secret_codec\<close>.
\<close>

datatype slot = NoEntry | Secret string | StoreFault string

type_synonym keyring = "keyring_entry_ref \<Rightarrow> slot"

record secret_codec =
  b64_encode :: "string \<Rightarrow> string"
  b64_decode :: "string \<Rightarrow> string option"
  sc_strkey :: strkey

datatype keyring_error =
    KeyringNotFound string
  | KeyringPlatformError string
  | UnexpectedState string
  | KeyMatchesOwner string

definition load_hmac_key_32 :: "secret_codec \<Rightarrow> keyring \<Rightarrow> keyring_entry_ref \<Rightarrow> (keyring_error, string) result" where
  "load_hmac_key_32 sc kr r =
     (case kr r of
        NoEntry \<Rightarrow> Inl (KeyringNotFound (service r))
      | StoreFault e \<Rightarrow> Inl (KeyringPlatformError e)
      | Secret secret_b64 \<Rightarrow>
          (case b64_decode sc secret_b64 of
             None \<Rightarrow> Inl (UnexpectedState ''audit.key_decode_failed: keyring HMAC key is not valid base64'')
           | Some decoded \<Rightarrow>
               if length decoded \<noteq> 32
               then Inl (UnexpectedState (''audit.key_length_error: keyring HMAC key must be 32 bytes, got '' @
                      show_nat (length decoded)))
               else Inr decoded))"

section \<open>Owner keys\<close>

datatype owner_key_form = FormStrkey | FormOlderBase64

definition decode_owner_public_key :: "secret_codec \<Rightarrow> string \<Rightarrow> (string \<times> owner_key_form) option" where
  "decode_owner_public_key sc raw =
     (let trimmed = trim raw in
      case g_decode (sc_strkey sc) trimmed of
        Some key \<Rightarrow> Some (key, FormStrkey)
      | None \<Rightarrow>
          (case b64_decode sc trimmed of
             None \<Rightarrow> None
           | Some key \<Rightarrow> if length key = 32 then Some (key, FormOlderBase64) else None))"

definition refuse_owner_key_coordinate :: "keyring_entry_ref \<Rightarrow> string \<Rightarrow> (keyring_error, unit) result" where
  "refuse_owner_key_coordinate r field =
     (if starts_with OWNER_KEY_SERVICE_PREFIX (service r) then Inl (KeyMatchesOwner field) else Inr ())"

type_synonym owner_key_context = "keyring_entry_ref list"

definition context_for_profile_name :: "string \<Rightarrow> owner_key_context" where
  "context_for_profile_name name = [default_owner_key name]"

definition context_for_profile :: "string \<Rightarrow> keyed_profile \<Rightarrow> owner_key_context" where
  "context_for_profile name p =
     (let context = context_for_profile_name name in
      if policy_owner_key_id p \<notin> set context then context @ [policy_owner_key_id p] else context)"

definition context_for_loaded_profile :: "keyed_profile \<Rightarrow> owner_key_context" where
  "context_for_loaded_profile p = context_for_profile (profile_name_for_approval p) p"

fun refuse_owner_public_key ::
  "secret_codec \<Rightarrow> keyring \<Rightarrow> string \<Rightarrow> owner_key_context \<Rightarrow> string \<Rightarrow> (keyring_error, unit) result" where
  "refuse_owner_public_key sc kr key [] field = Inr ()"
| "refuse_owner_public_key sc kr key (coordinate # rest) field =
     (case kr coordinate of
        NoEntry \<Rightarrow> refuse_owner_public_key sc kr key rest field
      | StoreFault e \<Rightarrow> Inl (KeyringPlatformError e)
      | Secret raw \<Rightarrow>
          (case decode_owner_public_key sc raw of
             None \<Rightarrow> refuse_owner_public_key sc kr key rest field
           | Some (owner_key, _) \<Rightarrow>
               if key = owner_key then Inl (KeyMatchesOwner field)
               else refuse_owner_public_key sc kr key rest field))"

lemma load_hmac_key_length: "load_hmac_key_32 sc kr r = Inr key \<Longrightarrow> length key = 32"
  by (auto simp: load_hmac_key_32_def split: slot.splits option.splits if_splits)

text \<open>
  C36. A key that passes the owner check differs from every decodable owner key stored
  under the profile's owner coordinates, in either stored form.
\<close>

theorem accepted_key_is_not_owner_key:
  assumes "refuse_owner_public_key sc kr key (context_for_profile name p) field = Inr ()"
    and "coordinate \<in> {default_owner_key name, policy_owner_key_id p}"
    and "kr coordinate = Secret raw" "decode_owner_public_key sc raw = Some (owner_key, form)"
  shows "key \<noteq> owner_key"
proof -
  have step: "refuse_owner_public_key sc kr key ctx field = Inr () \<Longrightarrow> coordinate \<in> set ctx \<Longrightarrow> key \<noteq> owner_key" for ctx
    using assms(3,4) by (induction ctx) (auto split: slot.splits option.splits if_splits)
  have "coordinate \<in> set (context_for_profile name p)"
    using assms(2) by (auto simp: context_for_profile_def context_for_profile_name_def Let_def)
  then show ?thesis using step assms(1) by blast
qed

definition sample_codec :: secret_codec where
  "sample_codec =
     \<lparr>b64_encode = id, b64_decode = Some,
      sc_strkey = \<lparr>g_decode = (\<lambda>_. None), g_encode = id, c_decode = (\<lambda>_. None), c_encode = id\<rparr>\<rparr>"

definition sample_keyed_profile :: keyed_profile where
  "sample_keyed_profile =
     \<lparr>chain_id = Testnet, signer_account = ''G1'',
      policy_window_state_key_id = \<lparr>service = ''stellar-agent-window-a'', account = ''default''\<rparr>,
      policy_owner_key_id = default_owner_key ''a''\<rparr>"

theorem accepted_key_is_not_owner_key_witness:
  "replicate 32 (CHR ''k'') \<noteq> replicate 32 (CHR ''o'')"
proof -
  let ?raw = "''oooooooooooooooooooooooooooooooo''"
  let ?kr = "\<lambda>r. if r = default_owner_key ''a'' then Secret ?raw else NoEntry"
  have "trim ?raw = ?raw" by code_simp
  then have d: "decode_owner_public_key sample_codec ?raw = Some (?raw, FormOlderBase64)"
    by (simp add: decode_owner_public_key_def sample_codec_def)
  have r: "refuse_owner_public_key sample_codec ?kr (replicate 32 (CHR ''k'')) (context_for_profile ''a'' sample_keyed_profile)
      ''f'' = Inr ()"
    using d
    by (simp add: context_for_profile_def context_for_profile_name_def sample_keyed_profile_def numeral_eq_Suc)
  show ?thesis
    using accepted_key_is_not_owner_key[OF r, of "default_owner_key ''a''" ?raw ?raw FormOlderBase64] d
    by (simp add: numeral_eq_Suc)
qed

end
