(* ===== verification/Nonce.thy ===== *)
theory Nonce
  imports Keyring
begin

text \<open>
  Wallet-issued nonces (\<^verbatim>\<open>stellar-agent-nonce\<close>) and their commit step
  (\<^verbatim>\<open>stellar-agent-mcp/src/tools/common.rs\<close>): a nonce is a 16-byte salt followed by
  the tag of what it was minted for, and a replay window consumes it.  HMAC and
  SHA-256 are the functions of \<^verbatim>\<open>nonce_crypto\<close>; the tool catalogue, the boot nonce,
  the salt and the clock are arguments.
\<close>

datatype nonce_error =
    HmacMismatch
  | Expired
  | Replayed
  | InvalidTool string
  | InvalidEnvelope
  | ChainMismatch string string
  | TtlExceeded nat nat
  | TtlTooShort nat nat
  | NonceKeyringError keyring_error
  | KeyTooShort nat
  | KeyTooLong nat
  | NonceKeyMatchesOwner
  | InputTooLong string nat
  | SerialiseFailed string

definition wire_code :: "nonce_error \<Rightarrow> string" where
  "wire_code e =
     (case e of
        Replayed \<Rightarrow> ''nonce.replayed''
      | Expired \<Rightarrow> ''nonce.expired''
      | HmacMismatch \<Rightarrow> ''nonce.expired''
      | InvalidTool _ \<Rightarrow> ''tool.unknown''
      | InvalidEnvelope \<Rightarrow> ''nonce.invalid_envelope''
      | ChainMismatch _ _ \<Rightarrow> ''nonce.chain_mismatch''
      | TtlExceeded _ _ \<Rightarrow> ''nonce.ttl_exceeded''
      | TtlTooShort _ _ \<Rightarrow> ''nonce.ttl_too_short''
      | NonceKeyringError _ \<Rightarrow> ''keyring.error''
      | KeyTooShort _ \<Rightarrow> ''nonce.key_too_short''
      | KeyTooLong _ \<Rightarrow> ''nonce.key_too_long''
      | NonceKeyMatchesOwner \<Rightarrow> ''validation.key_matches_owner_public_key''
      | InputTooLong _ _ \<Rightarrow> ''nonce.input_too_long''
      | SerialiseFailed _ \<Rightarrow> ''nonce.serialise_failed'')"

record nonce_crypto = secret_codec +
  nc_hmac :: "string \<Rightarrow> string \<Rightarrow> string"
  nc_sha256 :: "string \<Rightarrow> string"

text \<open>The tool and the fields every request binds.\<close>

record binding =
  b_envelope :: string
  b_expiry :: nat
  b_tool :: string
  b_chain :: string

record nonce_mint =
  nm_entry_ref :: keyring_entry_ref
  nm_owner :: owner_key_context
  nm_chain_id :: string
  nm_max_ttl_ms :: nat

text \<open>The process a mint lives in: the platform keyring and the boot nonce.\<close>

record nonce_host = nonce_mint +
  nm_keyring :: keyring
  nm_boot :: string

definition MAX_TTL_MS :: nat where "MAX_TTL_MS = 300000"
definition MIN_TTL_MS :: nat where "MIN_TTL_MS = 30000"

record nonce_profile = keyed_profile +
  mcp_nonce_key_alias :: keyring_entry_ref

definition nonce_mint_from_profile :: "nonce_profile \<Rightarrow> string \<Rightarrow> nonce_mint" where
  "nonce_mint_from_profile p name =
     \<lparr>nm_entry_ref = mcp_nonce_key_alias p,
      nm_owner = context_for_profile name (keyed_profile.truncate p),
      nm_chain_id = caip2_str (chain_id p),
      nm_max_ttl_ms = MAX_TTL_MS\<rparr>"

section \<open>Tags\<close>

primrec be_bytes :: "nat \<Rightarrow> nat \<Rightarrow> string" where
  "be_bytes 0 n = []"
| "be_bytes (Suc k) n = be_bytes k (n div 256) @ [char_of (n mod 256)]"

definition length_prefix_u32 :: "string \<Rightarrow> nat \<Rightarrow> (nonce_error, nat) result" where
  "length_prefix_u32 field len = (if len \<le> u32_max then Inr len else Inl (InputTooLong field len))"

definition tag_message :: "string \<Rightarrow> string \<Rightarrow> binding \<Rightarrow> (nonce_error, string) result" where
  "tag_message boot envelope_hash b =
     res_bind (length_prefix_u32 ''tool_name'' (length (b_tool b))) (\<lambda>tool_len.
     res_bind (length_prefix_u32 ''chain_id'' (length (b_chain b))) (\<lambda>chain_len.
     Inr (boot @ envelope_hash @ be_bytes 8 (b_expiry b) @ be_bytes 4 tool_len @ b_tool b @
          be_bytes 4 chain_len @ b_chain b)))"

definition nonce_tag :: "nonce_crypto \<Rightarrow> string \<Rightarrow> string \<Rightarrow> binding \<Rightarrow> (nonce_error, string) result" where
  "nonce_tag cr key boot b =
     res_bind (tag_message boot (nc_sha256 cr (b_envelope b)) b) (\<lambda>msg. Inr (nc_hmac cr key msg))"

definition load_key :: "nonce_crypto \<Rightarrow> nonce_host \<Rightarrow> (nonce_error, string) result" where
  "load_key cr nm =
     (case refuse_owner_key_coordinate (nm_entry_ref nm) ''mcp_nonce_key_alias'' of
        Inl _ \<Rightarrow> Inl NonceKeyMatchesOwner
      | Inr _ \<Rightarrow>
          (case nm_keyring nm (nm_entry_ref nm) of
             NoEntry \<Rightarrow> Inl (NonceKeyringError (KeyringNotFound (service (nm_entry_ref nm))))
           | StoreFault e \<Rightarrow> Inl (NonceKeyringError (KeyringPlatformError e))
           | Secret raw \<Rightarrow>
               (case b64_decode cr raw of
                  None \<Rightarrow> Inl (SerialiseFailed ''nonce key base64 decode error'')
                | Some decoded \<Rightarrow>
                    if length decoded < 32 then Inl (KeyTooShort (length decoded))
                    else if 32 < length decoded then Inl (KeyTooLong (length decoded))
                    else case refuse_owner_public_key (secret_codec.truncate cr) (nm_keyring nm) decoded (nm_owner nm)
                                ''mcp_nonce_key_alias'' of
                      Inl (KeyMatchesOwner _) \<Rightarrow> Inl NonceKeyMatchesOwner
                    | Inl e \<Rightarrow> Inl (NonceKeyringError e)
                    | Inr _ \<Rightarrow> Inr decoded)))"

section \<open>Minting and verifying\<close>

definition mint ::
  "nonce_crypto \<Rightarrow> nonce_host \<Rightarrow> (string \<Rightarrow> bool) \<Rightarrow> string \<Rightarrow> nat \<Rightarrow> binding \<Rightarrow> (nonce_error, string) result" where
  "mint cr nm is_registered salt now b =
     (if \<not> is_registered (b_tool b) then Inl (InvalidTool (b_tool b))
      else if b_envelope b = [] then Inl InvalidEnvelope
      else if b_chain b \<noteq> nm_chain_id nm then Inl (ChainMismatch (nm_chain_id nm) (b_chain b))
      else if b_expiry b < now then Inl Expired
      else
        let ttl = b_expiry b - now in
        if nm_max_ttl_ms nm < ttl then Inl (TtlExceeded (nm_max_ttl_ms nm) ttl)
        else if ttl < MIN_TTL_MS then Inl (TtlTooShort MIN_TTL_MS ttl)
        else
          res_bind (load_key cr nm) (\<lambda>key.
          res_bind (nonce_tag cr key (nm_boot nm) b) (\<lambda>tag.
          Inr (salt @ tag))))"

definition nonce_from_base64 :: "nonce_crypto \<Rightarrow> string \<Rightarrow> (nonce_error, string) result" where
  "nonce_from_base64 cr s =
     (case b64_decode cr s of
        None \<Rightarrow> Inl (SerialiseFailed ''base64 decode error'')
      | Some raw \<Rightarrow>
          if length raw \<noteq> 48 then Inl (SerialiseFailed (''expected 48 bytes, got '' @ show_nat (length raw)))
          else Inr raw)"

type_synonym replay_window = "string \<Rightarrow> nat option"

definition check_not_replayed :: "replay_window \<Rightarrow> string \<Rightarrow> (nonce_error, unit) result" where
  "check_not_replayed rw n = (if rw n \<noteq> None then Inl Replayed else Inr ())"

definition replay_record :: "replay_window \<Rightarrow> string \<Rightarrow> nat \<Rightarrow> (nonce_error, unit) result \<times> replay_window" where
  "replay_record rw n expiry = (case rw n of None \<Rightarrow> (Inr (), rw(n \<mapsto> expiry)) | Some _ \<Rightarrow> (Inl Replayed, rw))"

definition evict_expired :: "nat \<Rightarrow> replay_window \<Rightarrow> replay_window" where
  "evict_expired now rw = (\<lambda>n. case rw n of None \<Rightarrow> None | Some expiry \<Rightarrow> if now < expiry then Some expiry else None)"

definition verify_hmac_only :: "nonce_crypto \<Rightarrow> nonce_host \<Rightarrow> string \<Rightarrow> nat \<Rightarrow> binding \<Rightarrow> (nonce_error, unit) result" where
  "verify_hmac_only cr nm n now b =
     (if b_expiry b \<le> now then Inl Expired
      else if b_chain b \<noteq> nm_chain_id nm then Inl (ChainMismatch (nm_chain_id nm) (b_chain b))
      else
        res_bind (load_key cr nm) (\<lambda>key.
        res_bind (nonce_tag cr key (nm_boot nm) b) (\<lambda>recomputed.
        if recomputed \<noteq> drop 16 n then Inl HmacMismatch else Inr ())))"

definition verify ::
  "nonce_crypto \<Rightarrow> nonce_host \<Rightarrow> replay_window \<Rightarrow> string \<Rightarrow> nat \<Rightarrow> binding \<Rightarrow> (nonce_error, unit) result \<times> replay_window" where
  "verify cr nm rw n now b =
     (if b_expiry b \<le> now then (Inl Expired, rw)
      else if b_chain b \<noteq> nm_chain_id nm then (Inl (ChainMismatch (nm_chain_id nm) (b_chain b)), rw)
      else case check_not_replayed rw n of
        Inl e \<Rightarrow> (Inl e, rw)
      | Inr _ \<Rightarrow>
          (case res_bind (load_key cr nm) (\<lambda>key. nonce_tag cr key (nm_boot nm) b) of
             Inl e \<Rightarrow> (Inl e, rw)
           | Inr recomputed \<Rightarrow>
               if recomputed \<noteq> drop 16 n then (Inl HmacMismatch, rw) else replay_record rw n (b_expiry b)))"

definition record_verified_nonce :: "replay_window \<Rightarrow> string \<Rightarrow> nat \<Rightarrow> (nonce_error, unit) result \<times> replay_window" where
  "record_verified_nonce rw n expiry = replay_record rw n expiry"

text \<open>
  The commit step of the tools: verification outside the lock, then eviction and
  recording under it.  The model keeps the public error code; an expired and a
  mismatched nonce give the same one.
\<close>

definition nonce_verification_error_result :: "nonce_error \<Rightarrow> string" where
  "nonce_verification_error_result e =
     (case e of Expired \<Rightarrow> ''nonce.expired'' | HmacMismatch \<Rightarrow> ''nonce.expired'' | other \<Rightarrow> wire_code other)"

definition commit_envelope_and_verify_nonce ::
  "nonce_crypto \<Rightarrow> nonce_host \<Rightarrow> replay_window \<Rightarrow> string \<Rightarrow> nat \<Rightarrow> binding \<Rightarrow> (string, unit) result \<times> replay_window" where
  "commit_envelope_and_verify_nonce cr nm rw n now b =
     (case verify_hmac_only cr nm n now b of
        Inl e \<Rightarrow> (Inl (nonce_verification_error_result e), rw)
      | Inr _ \<Rightarrow>
          (case record_verified_nonce (evict_expired now rw) n (b_expiry b) of
             (Inl _, rw') \<Rightarrow> (Inl ''nonce.replayed'', rw')
           | (Inr _, rw') \<Rightarrow> (Inr (), rw')))"

section \<open>The tag message is unambiguous\<close>

lemma length_be_bytes [simp]: "length (be_bytes k n) = k"
  by (induction k arbitrary: n) auto

lemma be_bytes_inject: "be_bytes k m = be_bytes k n \<Longrightarrow> m < 256 ^ k \<Longrightarrow> n < 256 ^ k \<Longrightarrow> m = n"
proof (induction k arbitrary: m n)
  case (Suc k)
  have "be_bytes k (m div 256) = be_bytes k (n div 256)" and c: "(char_of (m mod 256) :: char) = char_of (n mod 256)"
    using Suc.prems(1) by simp_all
  moreover have "m div 256 < 256 ^ k" "n div 256 < 256 ^ k"
    using Suc.prems(2,3) by (simp_all add: less_mult_imp_div_less mult.commute)
  ultimately have "m div 256 = n div 256" using Suc.IH by blast
  moreover have "m mod 256 = n mod 256"
    using arg_cong[OF c, of "of_char :: char \<Rightarrow> nat"] by simp
  ultimately show ?case by (metis div_mult_mod_eq)
qed simp

lemma length_prefix_u32_Inr [simp]: "length_prefix_u32 f n = Inr k \<longleftrightarrow> k = n \<and> n \<le> u32_max"
  by (auto simp: length_prefix_u32_def)

lemma tag_message_Inr:
  "tag_message boot h b = Inr msg \<longleftrightarrow>
     length (b_tool b) \<le> u32_max \<and> length (b_chain b) \<le> u32_max \<and>
     msg = boot @ h @ be_bytes 8 (b_expiry b) @ be_bytes 4 (length (b_tool b)) @ b_tool b @
           be_bytes 4 (length (b_chain b)) @ b_chain b"
  by (auto simp: tag_message_def length_prefix_u32_def)

lemma tag_message_inject:
  assumes a: "tag_message boot h b = Inr msg" and a': "tag_message boot h' b' = Inr msg"
    and h: "length h = 32" "length h' = 32" and e: "b_expiry b \<le> u64_max" "b_expiry b' \<le> u64_max"
  shows "h = h' \<and> b_expiry b = b_expiry b' \<and> b_tool b = b_tool b' \<and> b_chain b = b_chain b'"
proof -
  let ?tail = "\<lambda>b. be_bytes 4 (length (b_tool b)) @ b_tool b @ be_bytes 4 (length (b_chain b)) @ b_chain b"
  have eq: "h @ be_bytes 8 (b_expiry b) @ ?tail b = h' @ be_bytes 8 (b_expiry b') @ ?tail b'"
    and len: "length (b_tool b) \<le> u32_max" "length (b_tool b') \<le> u32_max"
    using a a' by (simp_all add: tag_message_Inr)
  then have hh: "h = h'" and ee: "be_bytes 8 (b_expiry b) = be_bytes 8 (b_expiry b')"
    and tl: "be_bytes 4 (length (b_tool b)) = be_bytes 4 (length (b_tool b'))"
    and rest: "b_tool b @ be_bytes 4 (length (b_chain b)) @ b_chain b =
               b_tool b' @ be_bytes 4 (length (b_chain b')) @ b_chain b'"
    using h by simp_all
  have "b_expiry b = b_expiry b'" using be_bytes_inject[OF ee] e by (simp add: u64_max_def)
  moreover have "length (b_tool b) = length (b_tool b')"
    using be_bytes_inject[OF tl] len by (simp add: u32_max_def)
  then have "b_tool b = b_tool b'" "b_chain b = b_chain b'" using rest by simp_all
  ultimately show ?thesis using hh by blast
qed

lemma nonce_tag_Inr:
  "nonce_tag cr key boot b = Inr t \<longleftrightarrow>
     (\<exists>msg. tag_message boot (nc_sha256 cr (b_envelope b)) b = Inr msg \<and> t = nc_hmac cr key msg)"
  by (auto simp: nonce_tag_def res_bind_def split: sum.splits)

text \<open>
  HMAC maps the distinct messages of two requests to one tag under the mint's key.  It is
  decided by the two messages, so it does not hold merely because some collision exists.
\<close>

definition tag_collision :: "nonce_crypto \<Rightarrow> nonce_host \<Rightarrow> binding \<Rightarrow> binding \<Rightarrow> bool" where
  "tag_collision cr nm b b' =
     (case (load_key cr nm, tag_message (nm_boot nm) (nc_sha256 cr (b_envelope b)) b,
            tag_message (nm_boot nm) (nc_sha256 cr (b_envelope b')) b') of
        (Inr key, Inr m, Inr m') \<Rightarrow> m \<noteq> m' \<and> nc_hmac cr key m = nc_hmac cr key m'
      | _ \<Rightarrow> False)"

lemma equal_tags_equal_bindings:
  assumes "load_key cr nm = Inr key" "nonce_tag cr key (nm_boot nm) b = Inr t" "nonce_tag cr key (nm_boot nm) b' = Inr t"
    and "\<And>x. length (nc_sha256 cr x) = 32" and "b_expiry b \<le> u64_max" "b_expiry b' \<le> u64_max"
    and "\<not> tag_collision cr nm b b'"
  shows "nc_sha256 cr (b_envelope b) = nc_sha256 cr (b_envelope b') \<and> b_expiry b = b_expiry b' \<and>
    b_tool b = b_tool b' \<and> b_chain b = b_chain b'"
proof -
  obtain m m' where m: "tag_message (nm_boot nm) (nc_sha256 cr (b_envelope b)) b = Inr m" "t = nc_hmac cr key m"
    and m': "tag_message (nm_boot nm) (nc_sha256 cr (b_envelope b')) b' = Inr m'" "t = nc_hmac cr key m'"
    using assms(2,3) by (auto simp: nonce_tag_Inr)
  then have "m = m'" using assms(1,7) by (auto simp: tag_collision_def)
  then show ?thesis using tag_message_inject[OF m(1), of _ b'] m'(1) assms(4-6) by simp
qed

lemma verify_hmac_only_Inr:
  "verify_hmac_only cr nm n now b = Inr () \<longleftrightarrow>
     now < b_expiry b \<and> b_chain b = nm_chain_id nm \<and>
     (\<exists>key. load_key cr nm = Inr key \<and> nonce_tag cr key (nm_boot nm) b = Inr (drop 16 n))"
  by (auto simp: verify_hmac_only_def res_bind_def split: sum.splits if_splits)

lemma mint_Inr:
  "mint cr nm reg salt now b = Inr n \<longleftrightarrow>
     reg (b_tool b) \<and> b_envelope b \<noteq> [] \<and> b_chain b = nm_chain_id nm \<and>
     now + MIN_TTL_MS \<le> b_expiry b \<and> b_expiry b \<le> now + nm_max_ttl_ms nm \<and>
     (\<exists>key tag. load_key cr nm = Inr key \<and> nonce_tag cr key (nm_boot nm) b = Inr tag \<and> n = salt @ tag)"
  by (auto simp: mint_def Let_def res_bind_def MIN_TTL_MS_def split: sum.splits if_splits)

text \<open>
  C38. A nonce minted for one request and accepted for another was accepted for the
  same envelope hash, expiry, tool and chain, and before that expiry, or else HMAC gives
  the distinct messages of the two requests one tag under the mint's key.
\<close>

theorem minted_nonce_binds_request:
  assumes "mint cr nm reg salt now b = Inr n" "length salt = 16"
    and "verify_hmac_only cr nm n later b' = Inr ()"
    and "\<And>x. length (nc_sha256 cr x) = 32" "b_expiry b \<le> u64_max" "b_expiry b' \<le> u64_max"
  shows "(nc_sha256 cr (b_envelope b') = nc_sha256 cr (b_envelope b) \<and> b_expiry b' = b_expiry b \<and>
      b_tool b' = b_tool b \<and> b_chain b' = b_chain b \<and> later < b_expiry b) \<or>
    tag_collision cr nm b' b"
proof -
  obtain key tag where k: "load_key cr nm = Inr key" "nonce_tag cr key (nm_boot nm) b = Inr tag" "n = salt @ tag"
    using assms(1) by (auto simp: mint_Inr)
  then have v: "nonce_tag cr key (nm_boot nm) b' = Inr tag" "later < b_expiry b'"
    using assms(2,3) by (auto simp: verify_hmac_only_Inr)
  show ?thesis
  proof (cases "tag_collision cr nm b' b")
    case False
    from equal_tags_equal_bindings[OF k(1) v(1) k(2) assms(4) assms(6) assms(5) False] v(2) show ?thesis by simp
  qed simp
qed

section \<open>Commit runs\<close>

text \<open>
  One process serves commits in the order it takes the replay lock.  A request names
  the nonce, the clock reading and the binding; the run returns the outcomes.
\<close>

fun commit_run ::
  "nonce_crypto \<Rightarrow> nonce_host \<Rightarrow> replay_window \<Rightarrow> (string \<times> nat \<times> binding) list \<Rightarrow> (string, unit) result list \<times> replay_window" where
  "commit_run cr nm rw [] = ([], rw)"
| "commit_run cr nm rw ((n, now, b) # reqs) =
     (let (r, rw') = commit_envelope_and_verify_nonce cr nm rw n now b;
          (rs, rw'') = commit_run cr nm rw' reqs
      in (r # rs, rw''))"

fun accepted :: "string \<Rightarrow> (string \<times> nat \<times> binding) list \<Rightarrow> (string, unit) result list \<Rightarrow> nat" where
  "accepted n (req # reqs) (r # rs) = (if fst req = n \<and> r = Inr () then 1 else 0) + accepted n reqs rs"
| "accepted n _ _ = 0"

lemma commit_Inr:
  "fst (commit_envelope_and_verify_nonce cr nm rw n now b) = Inr () \<longleftrightarrow>
     verify_hmac_only cr nm n now b = Inr () \<and> evict_expired now rw n = None"
  by (auto simp: commit_envelope_and_verify_nonce_def record_verified_nonce_def replay_record_def split: sum.splits option.splits)

lemma commit_window:
  "snd (commit_envelope_and_verify_nonce cr nm rw n now b) =
     (if verify_hmac_only cr nm n now b = Inr () then
        (evict_expired now rw)(n := Some (case evict_expired now rw n of None \<Rightarrow> b_expiry b | Some e \<Rightarrow> e))
      else rw)"
  by (auto simp: commit_envelope_and_verify_nonce_def record_verified_nonce_def replay_record_def split: sum.splits option.splits)

lemma commit_run_Cons:
  "commit_run cr nm rw ((n, now, b) # reqs) =
     (fst (commit_envelope_and_verify_nonce cr nm rw n now b) #
        fst (commit_run cr nm (snd (commit_envelope_and_verify_nonce cr nm rw n now b)) reqs),
      snd (commit_run cr nm (snd (commit_envelope_and_verify_nonce cr nm rw n now b)) reqs))"
  by (simp add: case_prod_unfold Let_def)

text \<open>
  The binding a nonce was consumed for shares its expiry with every binding the nonce
  verifies for, so the window entry outlives every later attempt.
\<close>

lemma consumed_stays_consumed:
  assumes "load_key cr nm = Inr key" "nonce_tag cr key (nm_boot nm) b0 = Inr (drop 16 n)"
    and "\<And>x. length (nc_sha256 cr x) = 32" "b_expiry b0 \<le> u64_max"
    and "\<And>now b. (n, now, b) \<in> set reqs \<Longrightarrow> b_expiry b \<le> u64_max \<and> \<not> tag_collision cr nm b0 b"
    and "sorted (map (\<lambda>req. fst (snd req)) reqs)"
    and "rw n = Some (b_expiry b0) \<or> (\<forall>req \<in> set reqs. b_expiry b0 \<le> fst (snd req))"
  shows "accepted n reqs (fst (commit_run cr nm rw reqs)) = 0"
  using assms(5-7)
proof (induction reqs arbitrary: rw)
  case (Cons req reqs)
  obtain m now b where req: "req = (m, now, b)" by (cases req)
  let ?c = "commit_envelope_and_verify_nonce cr nm rw m now b"
  have same: "b_expiry b = b_expiry b0" if "m = n" "verify_hmac_only cr nm m now b = Inr ()"
  proof -
    have "nonce_tag cr key (nm_boot nm) b = Inr (drop 16 n)"
      using that assms(1) by (auto simp: verify_hmac_only_Inr)
    moreover have "b_expiry b \<le> u64_max \<and> \<not> tag_collision cr nm b0 b" using Cons.prems(1)[of now b] that(1) req by simp
    ultimately show ?thesis using equal_tags_equal_bindings[OF assms(1,2) _ assms(3,4), of b] by simp
  qed
  have live: "verify_hmac_only cr nm m now b = Inr () \<Longrightarrow> now < b_expiry b" by (simp add: verify_hmac_only_Inr)
  have refused: "\<not> (m = n \<and> fst ?c = Inr ())"
  proof
    assume a: "m = n \<and> fst ?c = Inr ()"
    then have "now < b_expiry b0" "evict_expired now rw n = None" using same live by (auto simp: commit_Inr)
    moreover from this have "rw n = Some (b_expiry b0)" using Cons.prems(3) by (auto simp: req)
    ultimately show False by (simp add: evict_expired_def)
  qed
  have next_consumed: "snd ?c n = Some (b_expiry b0) \<or> (\<forall>req \<in> set reqs. b_expiry b0 \<le> fst (snd req))"
  proof (cases "b_expiry b0 \<le> now")
    case True
    then show ?thesis using Cons.prems(2) by (auto simp: req dest: order_trans)
  next
    case False
    then have "rw n = Some (b_expiry b0)" using Cons.prems(3) by (auto simp: req)
    then show ?thesis using False by (auto simp: commit_window evict_expired_def)
  qed
  have "accepted n reqs (fst (commit_run cr nm (snd ?c) reqs)) = 0"
  proof (rule Cons.IH)
    show "\<And>now b. (n, now, b) \<in> set reqs \<Longrightarrow> b_expiry b \<le> u64_max \<and> \<not> tag_collision cr nm b0 b"
      using Cons.prems(1) by (meson list.set_intros(2))
    show "sorted (map (\<lambda>req. fst (snd req)) reqs)" using Cons.prems(2) by simp
  qed (rule next_consumed)
  then show ?case using refused by (auto simp: req commit_run_Cons simp del: commit_run.simps)
qed simp

text \<open>
  C37. While the clock does not run backwards, a process accepts a nonce at most once,
  whatever requests it is sent with and whatever is evicted in between, or else HMAC gives
  the distinct messages of two of those requests one tag.
\<close>

theorem nonce_accepted_once:
  assumes "\<And>x. length (nc_sha256 cr x) = 32"
    and "\<And>now b. (n, now, b) \<in> set reqs \<Longrightarrow> b_expiry b \<le> u64_max"
    and "sorted (map (\<lambda>req. fst (snd req)) reqs)"
  shows "accepted n reqs (fst (commit_run cr nm rw reqs)) \<le> 1 \<or>
    (\<exists>now b now' b'. (n, now, b) \<in> set reqs \<and> (n, now', b') \<in> set reqs \<and> tag_collision cr nm b b')"
  using assms(2,3)
proof (induction reqs arbitrary: rw)
  case (Cons req reqs)
  obtain m now b where req: "req = (m, now, b)" by (cases req)
  let ?c = "commit_envelope_and_verify_nonce cr nm rw m now b"
  show ?case
  proof (cases "m = n \<and> fst ?c = Inr ()")
    case False
    have "accepted n reqs (fst (commit_run cr nm (snd ?c) reqs)) \<le> 1 \<or>
      (\<exists>now b now' b'. (n, now, b) \<in> set reqs \<and> (n, now', b') \<in> set reqs \<and> tag_collision cr nm b b')"
      by (rule Cons.IH) (use Cons.prems(1) in \<open>meson list.set_intros(2)\<close>, use Cons.prems(2) in simp)
    then show ?thesis using False by (auto simp: req commit_run_Cons simp del: commit_run.simps)
  next
    case True
    then obtain key where key: "load_key cr nm = Inr key" "nonce_tag cr key (nm_boot nm) b = Inr (drop 16 n)"
      and rec: "snd ?c n = Some (b_expiry b)"
      by (auto simp: commit_Inr commit_window verify_hmac_only_Inr)
    show ?thesis
    proof (cases "\<exists>now' b'. (n, now', b') \<in> set reqs \<and> tag_collision cr nm b b'")
      case False
      have "accepted n reqs (fst (commit_run cr nm (snd ?c) reqs)) = 0"
      proof (rule consumed_stays_consumed[OF key assms(1)])
        show "b_expiry b \<le> u64_max" using Cons.prems(1)[of now b] req True by simp
        show "\<And>now' b'. (n, now', b') \<in> set reqs \<Longrightarrow> b_expiry b' \<le> u64_max \<and> \<not> tag_collision cr nm b b'"
          using Cons.prems(1) False by (meson list.set_intros(2))
        show "sorted (map (\<lambda>req. fst (snd req)) reqs)" using Cons.prems(2) by simp
      qed (use rec in simp)
      then show ?thesis by (simp add: req commit_run_Cons del: commit_run.simps)
    qed (use True req in auto)
  qed
qed simp

text \<open>
  C39. A minted nonce commits at any time before its expiry in a process that has not
  seen it, and the process then holds it until the expiry; a lifetime outside the
  30-second and maximum bounds is never minted.
\<close>

theorem minted_nonce_commits:
  assumes "mint cr nm reg salt now b = Inr n" "length salt = 16" "rw n = None"
  shows "now + 30000 \<le> b_expiry b \<and> b_expiry b \<le> now + nm_max_ttl_ms nm \<and>
    (later < b_expiry b \<longrightarrow>
       commit_envelope_and_verify_nonce cr nm rw n later b = (Inr (), (evict_expired later rw)(n \<mapsto> b_expiry b))) \<and>
    (b_expiry b \<le> later \<longrightarrow> commit_envelope_and_verify_nonce cr nm rw n later b = (Inl ''nonce.expired'', rw))"
proof -
  obtain key tag where k: "load_key cr nm = Inr key" "nonce_tag cr key (nm_boot nm) b = Inr tag" "n = salt @ tag"
    and c: "b_chain b = nm_chain_id nm" "now + 30000 \<le> b_expiry b" "b_expiry b \<le> now + nm_max_ttl_ms nm"
    using assms(1) by (auto simp: mint_Inr MIN_TTL_MS_def)
  have v: "later < b_expiry b \<Longrightarrow> verify_hmac_only cr nm n later b = Inr ()"
    using k c assms(2) by (simp add: verify_hmac_only_Inr)
  have e: "evict_expired later rw n = None" using assms(3) by (simp add: evict_expired_def)
  have x: "b_expiry b \<le> later \<Longrightarrow> verify_hmac_only cr nm n later b = Inl Expired" by (simp add: verify_hmac_only_def)
  show ?thesis
    using c v e x
    by (auto simp: commit_envelope_and_verify_nonce_def record_verified_nonce_def replay_record_def
        nonce_verification_error_result_def)
qed

text \<open>
  C40. The salt is no part of the tag: after a commit succeeds, replacing the first
  sixteen bytes of the nonce by any the process has not seen gives a nonce that the same
  request commits with again.
\<close>

theorem changed_salt_commits_again:
  assumes "commit_envelope_and_verify_nonce cr nm rw n now b = (Inr (), rw')"
    and "length salt' = 16" "salt' @ drop 16 n \<noteq> n" "rw (salt' @ drop 16 n) = None" "later < b_expiry b"
  shows "fst (commit_envelope_and_verify_nonce cr nm rw' (salt' @ drop 16 n) later b) = Inr ()"
proof -
  let ?n' = "salt' @ drop 16 n"
  have v: "verify_hmac_only cr nm n now b = Inr ()" and rw': "rw' = snd (commit_envelope_and_verify_nonce cr nm rw n now b)"
    using assms(1) commit_Inr[of cr nm rw n now b] by simp_all
  then have "verify_hmac_only cr nm ?n' later b = Inr ()"
    using assms(2,5) by (simp add: verify_hmac_only_Inr)
  moreover have "evict_expired later rw' ?n' = None"
    using assms(3,4) v by (simp add: rw' commit_window evict_expired_def)
  ultimately show ?thesis by (simp add: commit_Inr)
qed

text \<open>
  The clock hypothesis is needed: a commit reads the clock before it waits for the replay
  lock.  Where a commit of another nonce read the clock at or after the expiry and evicted
  first, a replay that read it before the expiry is accepted.
\<close>

theorem stale_clock_readmits:
  assumes "verify_hmac_only cr nm n t b = Inr ()" "verify_hmac_only cr nm m u c = Inr ()" "m \<noteq> n" "b_expiry b \<le> u"
    and "rw n = None"
  shows "accepted n [(n, t, b), (m, u, c), (n, t, b)] (fst (commit_run cr nm rw [(n, t, b), (m, u, c), (n, t, b)])) = 2"
  using assms
  by (simp add: commit_run_Cons commit_Inr commit_window evict_expired_def del: commit_run.simps(2))

section \<open>A concrete process\<close>

definition sample_crypto :: nonce_crypto where
  "sample_crypto =
     \<lparr>b64_encode = id, b64_decode = Some,
      sc_strkey = \<lparr>g_decode = (\<lambda>_. None), g_encode = id, c_decode = (\<lambda>_. None), c_encode = id\<rparr>,
      nc_hmac = (\<lambda>key msg. msg), nc_sha256 = (\<lambda>x. take 32 (x @ replicate 32 CHR ''.''))\<rparr>"

definition sample_host :: nonce_host where
  "sample_host =
     \<lparr>nm_entry_ref = \<lparr>service = ''stellar-agent-nonce-a'', account = ''default''\<rparr>, nm_owner = [],
      nm_chain_id = ''stellar:testnet'', nm_max_ttl_ms = MAX_TTL_MS,
      nm_keyring = (\<lambda>_. Secret (replicate 32 CHR ''k'')), nm_boot = replicate 16 CHR ''b''\<rparr>"

definition sample_binding :: binding where
  "sample_binding = \<lparr>b_envelope = ''AAAA'', b_expiry = 60000, b_tool = ''stellar_pay'', b_chain = ''stellar:testnet''\<rparr>"

definition sample_nonce :: string where
  "sample_nonce = replicate 16 CHR ''s'' @ replicate 16 CHR ''b'' @ ''AAAA'' @ replicate 28 CHR ''.'' @
     be_bytes 8 60000 @ be_bytes 4 (length ''stellar_pay'') @ ''stellar_pay'' @
     be_bytes 4 (length ''stellar:testnet'') @ ''stellar:testnet''"

lemma sample_key: "load_key sample_crypto sample_host = Inr (replicate 32 CHR ''k'')"
  by (simp add: load_key_def sample_crypto_def sample_host_def refuse_owner_key_coordinate_def
      OWNER_KEY_SERVICE_PREFIX_def starts_with_def)

lemma sample_tag: "nonce_tag sample_crypto key (nm_boot sample_host) sample_binding = Inr (drop 16 sample_nonce)"
  by (simp add: nonce_tag_Inr tag_message_Inr sample_crypto_def sample_host_def sample_binding_def sample_nonce_def
      u32_max_def)

lemma sample_verify: "now < 60000 \<Longrightarrow> verify_hmac_only sample_crypto sample_host (s @ drop 16 sample_nonce) now sample_binding = Inr ()"
  if "length s = 16" for s
  using that sample_tag sample_key by (simp add: verify_hmac_only_Inr) (simp add: sample_host_def sample_binding_def)

lemma sample_mint: "mint sample_crypto sample_host (\<lambda>_. True) (replicate 16 CHR ''s'') 0 sample_binding = Inr sample_nonce"
  by (simp add: mint_Inr sample_key sample_tag) (simp add: sample_host_def sample_binding_def MIN_TTL_MS_def MAX_TTL_MS_def sample_nonce_def)

lemma sample_sha_length: "length (nc_sha256 sample_crypto x) = 32"
  by (simp add: sample_crypto_def)

lemma sample_not_collision: "\<not> tag_collision sample_crypto nm b b'"
  by (auto simp: tag_collision_def sample_crypto_def split: sum.splits)

lemma sample_expiry: "b_expiry sample_binding \<le> u64_max"
  by (simp add: sample_binding_def u64_max_def)

theorem minted_nonce_binds_request_witness:
  "\<not> tag_collision sample_crypto sample_host sample_binding sample_binding \<and> (5::nat) < b_expiry sample_binding"
proof -
  have v: "verify_hmac_only sample_crypto sample_host sample_nonce 5 sample_binding = Inr ()"
    using sample_verify[of "take 16 sample_nonce" 5] by (simp add: sample_nonce_def)
  show ?thesis
    using minted_nonce_binds_request[OF sample_mint _ v sample_sha_length sample_expiry sample_expiry] sample_not_collision
    by simp
qed

theorem nonce_accepted_once_witness:
  "accepted sample_nonce [(sample_nonce, 5, sample_binding), (sample_nonce, 6, sample_binding)]
     (fst (commit_run sample_crypto sample_host (\<lambda>_. None)
        [(sample_nonce, 5, sample_binding), (sample_nonce, 6, sample_binding)])) \<le> 1"
proof -
  let ?reqs = "[(sample_nonce, 5::nat, sample_binding), (sample_nonce, 6, sample_binding)]"
  have "accepted sample_nonce ?reqs (fst (commit_run sample_crypto sample_host (\<lambda>_. None) ?reqs)) \<le> 1 \<or>
    (\<exists>now b now' b'. (sample_nonce, now, b) \<in> set ?reqs \<and> (sample_nonce, now', b') \<in> set ?reqs \<and>
      tag_collision sample_crypto sample_host b b')"
    by (rule nonce_accepted_once[OF sample_sha_length]) (use sample_expiry in auto)
  then show ?thesis using sample_not_collision by blast
qed

theorem minted_nonce_commits_witness:
  "commit_envelope_and_verify_nonce sample_crypto sample_host (\<lambda>_. None) sample_nonce 5 sample_binding =
     (Inr (), (evict_expired 5 (\<lambda>_. None))(sample_nonce \<mapsto> b_expiry sample_binding))"
proof -
  have "(5::nat) < b_expiry sample_binding" by (simp add: sample_binding_def)
  then show ?thesis using minted_nonce_commits[OF sample_mint, of "\<lambda>_. None" 5] by simp
qed

theorem changed_salt_commits_again_witness:
  "fst (commit_envelope_and_verify_nonce sample_crypto sample_host
     ((evict_expired 5 (\<lambda>_. None))(sample_nonce \<mapsto> b_expiry sample_binding))
     (replicate 16 CHR ''t'' @ drop 16 sample_nonce) 6 sample_binding) = Inr ()"
proof -
  have v: "verify_hmac_only sample_crypto sample_host sample_nonce 5 sample_binding = Inr ()"
    using sample_verify[of "take 16 sample_nonce" 5] by (simp add: sample_nonce_def)
  have c: "commit_envelope_and_verify_nonce sample_crypto sample_host (\<lambda>_. None) sample_nonce 5 sample_binding =
    (Inr (), (evict_expired 5 (\<lambda>_. None))(sample_nonce \<mapsto> b_expiry sample_binding))"
    using v by (simp add: commit_envelope_and_verify_nonce_def record_verified_nonce_def replay_record_def evict_expired_def)
  have l: "(6::nat) < b_expiry sample_binding" by (simp add: sample_binding_def)
  have "take 1 (replicate 16 CHR ''t'' @ drop 16 sample_nonce) \<noteq> take 1 sample_nonce" by (simp add: sample_nonce_def)
  then have d: "replicate 16 CHR ''t'' @ drop 16 sample_nonce \<noteq> sample_nonce" by metis
  show ?thesis using changed_salt_commits_again[OF c _ d _ l] by simp
qed

end
