(* ===== verification/Hex.thy ===== *)
theory Hex
  imports Wallet_Prelude
begin

text \<open>
  Lowercase hex encoding and the 32-byte decoder (\<^verbatim>\<open>stellar-agent-core/src/hex.rs\<close>):
  digests, transaction hashes and reservation identifiers pass through it.
\<close>

datatype hex_decode_error =
    InvalidLength nat nat
  | InvalidChar nat char

definition nibble_to_char :: "nat \<Rightarrow> char" where
  "nibble_to_char n = (if n < 10 then char_of (48 + n) else char_of (87 + n))"

definition hex_byte :: "char \<Rightarrow> string" where
  "hex_byte c = [nibble_to_char (byte_of c div 16), nibble_to_char (byte_of c mod 16)]"

definition hex_encode :: "string \<Rightarrow> string" where
  "hex_encode bs = foldl (\<lambda>acc b. acc @ hex_byte b) [] bs"

definition char_to_nibble :: "char \<Rightarrow> nat option" where
  "char_to_nibble c =
     (let b = byte_of c in
      if 48 \<le> b \<and> b \<le> 57 then Some (b - 48)
      else if 97 \<le> b \<and> b \<le> 102 then Some (b - 97 + 10)
      else if 65 \<le> b \<and> b \<le> 70 then Some (b - 65 + 10)
      else None)"

fun decode_chunks :: "nat \<Rightarrow> string \<Rightarrow> (hex_decode_error, string) result" where
  "decode_chunks i (h # l # rest) =
     (case char_to_nibble h of
        None \<Rightarrow> Inl (InvalidChar (i * 2) h)
      | Some hi \<Rightarrow>
          (case char_to_nibble l of
             None \<Rightarrow> Inl (InvalidChar (i * 2 + 1) l)
           | Some lo \<Rightarrow>
               (case decode_chunks (i + 1) rest of
                  Inl e \<Rightarrow> Inl e
                | Inr out \<Rightarrow> Inr (char_of (hi * 16 + lo) # out))))"
| "decode_chunks i _ = Inr []"

definition decode_hex32 :: "string \<Rightarrow> (hex_decode_error, string) result" where
  "decode_hex32 hex =
     (if length hex \<noteq> 64 then Inl (InvalidLength 32 (length hex)) else decode_chunks 0 hex)"

section \<open>Nibbles\<close>

lemma char_to_nibble_of [simp]: "n < 16 \<Longrightarrow> char_to_nibble (nibble_to_char n) = Some n"
  by (auto simp: char_to_nibble_def nibble_to_char_def of_char_bytes Let_def)

lemma nibble_lower:
  "char_to_nibble c = Some n \<longleftrightarrow> n < 16 \<and> ascii_lower c = nibble_to_char n"
proof
  assume *: "char_to_nibble c = Some n"
  then have "byte_of (ascii_lower c) = byte_of (nibble_to_char n)"
    by (auto simp: char_to_nibble_def Let_def ascii_lower_def is_ascii_uppercase_def nibble_to_char_def
        of_char_bytes split: if_splits)
  then show "n < 16 \<and> ascii_lower c = nibble_to_char n"
    using * by (auto simp: char_to_nibble_def Let_def split: if_splits)
next
  assume *: "n < 16 \<and> ascii_lower c = nibble_to_char n"
  then have "byte_of (ascii_lower c) = byte_of (nibble_to_char n)" by simp
  then have "(if is_ascii_uppercase c then byte_of c + 32 else byte_of c) = (if n < 10 then 48 + n else 87 + n)"
    using * by (auto simp: ascii_lower_def is_ascii_uppercase_def nibble_to_char_def of_char_bytes split: if_splits)
  then show "char_to_nibble c = Some n"
    using * by (auto simp: char_to_nibble_def Let_def is_ascii_uppercase_def split: if_splits)
qed

lemma nibble_bound: "char_to_nibble c = Some n \<Longrightarrow> n < 16"
  using nibble_lower by blast

lemma hex_encode_simps [simp]:
  "hex_encode [] = []"
  "hex_encode (c # bs) = hex_byte c @ hex_encode bs"
proof -
  have "foldl (\<lambda>acc b. acc @ hex_byte b) a xs = a @ concat (map hex_byte xs)" for a xs
    by (induction xs arbitrary: a) simp_all
  then show "hex_encode [] = []" "hex_encode (c # bs) = hex_byte c @ hex_encode bs"
    by (simp_all add: hex_encode_def)
qed

lemma hex_encode_length [simp]: "length (hex_encode bs) = 2 * length bs"
  by (induction bs) (simp_all add: hex_byte_def)

lemma hex_byte_of_nibbles:
  assumes "hi < 16" "lo < 16"
  shows "hex_byte (char_of (hi * 16 + lo)) = [nibble_to_char hi, nibble_to_char lo]"
  using assms by (simp add: hex_byte_def of_char_bytes)

lemma decode_chunks_iff:
  "even (length s) \<Longrightarrow> decode_chunks i s = Inr bs \<longleftrightarrow> to_ascii_lowercase s = hex_encode bs"
proof (induction i s arbitrary: bs rule: decode_chunks.induct)
  case (1 i h l rest)
  have IH: "decode_chunks (i + 1) rest = Inr out \<longleftrightarrow> to_ascii_lowercase rest = hex_encode out"
    if "char_to_nibble h = Some hi" "char_to_nibble l = Some lo" for hi lo out
    using 1 that by simp
  show ?case
  proof (cases bs)
    case Nil
    then show ?thesis by (auto simp: to_ascii_lowercase_def split: option.splits sum.splits)
  next
    case (Cons b out)
    let ?hi = "byte_of b div 16" and ?lo = "byte_of b mod 16"
    have small: "?hi < 16" "?lo < 16" by (simp_all add: less_mult_imp_div_less)
    have b: "char_of (?hi * 16 + ?lo) = b" by simp
    have nib: "char_of (hi * 16 + lo) = b \<longleftrightarrow> hi = ?hi \<and> lo = ?lo" if "hi < 16" "lo < 16" for hi lo
    proof
      assume "char_of (hi * 16 + lo) = b"
      then have "byte_of b = hi * 16 + lo" using that of_char_bytes[of "hi * 16 + lo"] by auto
      then show "hi = ?hi \<and> lo = ?lo" using that by simp
    qed (use b in simp)
    have "decode_chunks i (h # l # rest) = Inr bs \<longleftrightarrow>
        char_to_nibble h = Some ?hi \<and> char_to_nibble l = Some ?lo \<and> decode_chunks (i + 1) rest = Inr out"
      using nib nibble_bound small Cons by (auto split: option.splits sum.splits)
    also have "\<dots> \<longleftrightarrow> ascii_lower h = nibble_to_char ?hi \<and> ascii_lower l = nibble_to_char ?lo \<and>
        to_ascii_lowercase rest = hex_encode out"
      using IH[of ?hi ?lo out] nibble_lower[of h ?hi] nibble_lower[of l ?lo] small by blast
    finally show ?thesis using Cons by (simp add: to_ascii_lowercase_def hex_byte_def)
  qed
next
  case "2_1"
  then show ?case by (cases bs) (simp_all add: to_ascii_lowercase_def hex_byte_def)
next
  case "2_2"
  then show ?case by simp
qed

text \<open>
  The decoder accepts exactly the 64-character strings that are, up to letter
  case, the encoding of 32 bytes, and returns those bytes; in particular it
  inverts the encoder.
\<close>

theorem decode_hex32_iff:
  "decode_hex32 hex = Inr bs \<longleftrightarrow> length bs = 32 \<and> to_ascii_lowercase hex = hex_encode bs"
proof -
  have "to_ascii_lowercase hex = hex_encode bs \<Longrightarrow> length hex = 2 * length bs"
    by (metis hex_encode_length length_map to_ascii_lowercase_def)
  then show ?thesis using decode_chunks_iff[of hex 0 bs] by (auto simp: decode_hex32_def)
qed

lemma hex_encode_lower [simp]: "to_ascii_lowercase (hex_encode bs) = hex_encode bs"
proof -
  have "ascii_lower (nibble_to_char n) = nibble_to_char n" if "n < 16" for n
    using nibble_lower[of "nibble_to_char n" n] that by simp
  then show ?thesis
    by (induction bs) (simp_all add: hex_byte_def to_ascii_lowercase_def less_mult_imp_div_less)
qed

end
