(* ===== verification/Timefmt.thy ===== *)
theory Timefmt
  imports Wallet_Prelude
begin

text \<open>
  Calendar times: the formatter (\<^verbatim>\<open>timefmt.rs\<close>) and the timestamp parser of the
  audit verifier (\<^verbatim>\<open>audit_log/verify.rs\<close>).  The clock reading is an argument.
\<close>

definition is_leap_year :: "nat \<Rightarrow> bool" where
  "is_leap_year year \<longleftrightarrow> 4 dvd year \<and> \<not> 100 dvd year \<or> 400 dvd year"

section \<open>Formatting\<close>

definition year_days :: "nat \<Rightarrow> nat" where
  "year_days year = (if is_leap_year year then 366 else 365)"

function year_loop :: "nat \<Rightarrow> nat \<Rightarrow> nat \<times> nat" where
  "year_loop year days = (if days < year_days year then (year, days) else year_loop (Suc year) (days - year_days year))"
  by pat_completeness auto

termination by (relation "measure snd") (auto simp: year_days_def split: if_splits)

fun month_loop :: "nat list \<Rightarrow> nat \<Rightarrow> nat \<Rightarrow> nat \<times> nat" where
  "month_loop [] month days = (month, days)"
| "month_loop (dim # rest) month days = (if days < dim then (month, days) else month_loop rest (Suc month) (days - dim))"

definition month_lengths :: "nat \<Rightarrow> nat list" where
  "month_lengths year = [31, if is_leap_year year then 29 else 28, 31, 30, 31, 30, 31, 31, 30, 31, 30, 31]"

type_synonym datetime = "nat \<times> nat \<times> nat \<times> nat \<times> nat \<times> nat"

definition epoch_to_datetime :: "nat \<Rightarrow> datetime" where
  "epoch_to_datetime secs =
     (let sec = secs mod 60; mins = secs div 60; minute = mins mod 60; hours = mins div 60; hour = hours mod 24;
          (year, days) = year_loop 1970 ((hours div 24) mod 2 ^ 32);
          (month, days) = month_loop (month_lengths year) 0 days
      in (year, month + 1, days + 1, hour, minute, sec))"

definition format_seconds :: "datetime \<Rightarrow> string" where
  "format_seconds dt =
     (case dt of (year, month, day, hour, minute, sec) \<Rightarrow>
        pad_zero 4 (show_nat year) @ ''-'' @ pad_zero 2 (show_nat month) @ ''-'' @ pad_zero 2 (show_nat day) @ ''T'' @
        pad_zero 2 (show_nat hour) @ '':'' @ pad_zero 2 (show_nat minute) @ '':'' @ pad_zero 2 (show_nat sec))"

definition format_rfc3339_utc :: "nat \<Rightarrow> string" where
  "format_rfc3339_utc secs = format_seconds (epoch_to_datetime secs) @ ''Z''"

definition current_iso8601_utc :: "nat \<Rightarrow> string" where
  "current_iso8601_utc now_ms =
     format_seconds (epoch_to_datetime (now_ms div 1000)) @ ''.'' @ pad_zero 3 (show_nat (now_ms mod 1000)) @ ''Z''"

section \<open>Parsing\<close>

definition days_in_month :: "nat \<Rightarrow> nat \<Rightarrow> nat" where
  "days_in_month year month =
     (if month \<in> {1, 3, 5, 7, 8, 10, 12} then 31
      else if month \<in> {4, 6, 9, 11} then 30
      else if month = 2 then (if is_leap_year year then 29 else 28)
      else 0)"

definition slice :: "string \<Rightarrow> nat \<Rightarrow> nat \<Rightarrow> string" where
  "slice ts start stop = take (stop - start) (drop start ts)"

definition parse_decimal_u32 :: "string \<Rightarrow> nat \<Rightarrow> nat \<Rightarrow> string \<Rightarrow> (string, nat) result" where
  "parse_decimal_u32 ts start stop field =
     (let s = slice ts start stop in
      if \<not> list_all is_digit s then Inl (''timestamp '' @ field @ '' contains non-decimal digits'')
      else ok_or (''timestamp '' @ field @ '' is out of range'') (parse_unsigned u32_max s))"

definition datetime_seconds :: "datetime \<Rightarrow> nat" where
  "datetime_seconds dt =
     (case dt of (year, month, day, hour, minute, second) \<Rightarrow>
        (let days = sum_list (map year_days [1970..<year]) + sum_list (map (days_in_month year) [1..<month]) + (day - 1)
         in days * 86400 + hour * 3600 + minute * 60 + second))"

definition parse_utc_date_time_seconds :: "string \<Rightarrow> (string, nat) result" where
  "parse_utc_date_time_seconds ts =
     res_bind (parse_decimal_u32 ts 0 4 ''year'') (\<lambda>year.
     res_bind (parse_decimal_u32 ts 5 7 ''month'') (\<lambda>month.
     res_bind (parse_decimal_u32 ts 8 10 ''day'') (\<lambda>day.
     res_bind (parse_decimal_u32 ts 11 13 ''hour'') (\<lambda>hour.
     res_bind (parse_decimal_u32 ts 14 16 ''minute'') (\<lambda>minute.
     res_bind (parse_decimal_u32 ts 17 19 ''second'') (\<lambda>second.
     if year < 1970 \<or> 2099 < year \<or> month < 1 \<or> 12 < month \<or> 23 < hour \<or> 59 < minute \<or> 59 < second
     then Inl ''timestamp component out of supported range''
     else if day = 0 \<or> days_in_month year month < day then Inl ''timestamp day out of range for month''
     else Inr (datetime_seconds (year, month, day, hour, minute, second))))))))"

definition byte_at :: "string \<Rightarrow> nat \<Rightarrow> char \<Rightarrow> bool" where
  "byte_at s i c \<longleftrightarrow> i < length s \<and> s ! i = c"

definition parse_audit_timestamp_ms :: "string \<Rightarrow> (string, nat) result" where
  "parse_audit_timestamp_ms ts =
     (if length ts \<noteq> 24 \<or> \<not> byte_at ts 4 (CHR ''-'') \<or> \<not> byte_at ts 7 (CHR ''-'') \<or> \<not> byte_at ts 10 (CHR ''T'') \<or>
         \<not> byte_at ts 13 (CHR '':'') \<or> \<not> byte_at ts 16 (CHR '':'') \<or> \<not> byte_at ts 19 (CHR ''.'') \<or>
         \<not> byte_at ts 23 (CHR ''Z'')
      then Inl ''timestamp must match YYYY-MM-DDTHH:MM:SS.mmmZ''
      else
        res_bind (parse_utc_date_time_seconds ts) (\<lambda>seconds.
        res_bind (parse_decimal_u32 ts 20 23 ''millisecond'') (\<lambda>millis.
        if 999 < millis then Inl ''timestamp component out of supported range''
        else Inr (seconds * 1000 + millis))))"

definition parse_rfc3339_utc_seconds :: "string \<Rightarrow> (string, nat) result" where
  "parse_rfc3339_utc_seconds ts =
     (if length ts \<noteq> 20 \<or> \<not> byte_at ts 4 (CHR ''-'') \<or> \<not> byte_at ts 7 (CHR ''-'') \<or> \<not> byte_at ts 10 (CHR ''T'') \<or>
         \<not> byte_at ts 13 (CHR '':'') \<or> \<not> byte_at ts 16 (CHR '':'') \<or> \<not> byte_at ts 19 (CHR ''Z'')
      then Inl ''timestamp must match YYYY-MM-DDTHH:MM:SSZ''
      else parse_utc_date_time_seconds ts)"

section \<open>The calendar is a bijection\<close>

declare year_loop.simps [simp del]

definition valid_datetime :: "datetime \<Rightarrow> bool" where
  "valid_datetime dt =
     (case dt of (year, month, day, hour, minute, second) \<Rightarrow>
        1970 \<le> year \<and> year \<le> 2099 \<and> 1 \<le> month \<and> month \<le> 12 \<and> 1 \<le> day \<and> day \<le> days_in_month year month \<and>
        hour \<le> 23 \<and> minute \<le> 59 \<and> second \<le> 59)"

definition days_to_year :: "nat \<Rightarrow> nat \<Rightarrow> nat" where
  "days_to_year from to = sum_list (map year_days [from..<to])"

lemma days_to_year_same [simp]: "days_to_year y y = 0"
  by (simp add: days_to_year_def)

lemma days_to_year_Cons: "y < y' \<Longrightarrow> days_to_year y y' = year_days y + days_to_year (Suc y) y'"
  by (simp add: days_to_year_def upt_conv_Cons)

lemma days_to_year_Suc: "y \<le> y' \<Longrightarrow> days_to_year y (Suc y') = days_to_year y y' + year_days y'"
  by (simp add: days_to_year_def)

lemma year_loop_exact: "y \<le> y' \<Longrightarrow> d < year_days y' \<Longrightarrow> year_loop y (days_to_year y y' + d) = (y', d)"
proof (induction "y' - y" arbitrary: y)
  case 0
  then show ?case by (simp add: year_loop.simps)
next
  case (Suc k)
  then have "days_to_year y y' = year_days y + days_to_year (Suc y) y'" by (simp add: days_to_year_Cons)
  then show ?case using Suc by (subst year_loop.simps) simp
qed

lemma year_loop_split:
  "year_loop y days = (y', d) \<Longrightarrow> y \<le> y' \<and> d < year_days y' \<and> days = days_to_year y y' + d"
proof (induction y days rule: year_loop.induct)
  case (1 y days)
  show ?case
  proof (cases "days < year_days y")
    case False
    then have "Suc y \<le> y' \<and> d < year_days y' \<and> days - year_days y = days_to_year (Suc y) y' + d"
      using 1 by (simp add: year_loop.simps[of y days])
    then show ?thesis using False days_to_year_Cons[of y y'] by linarith
  qed (use 1(2) in \<open>simp add: year_loop.simps[of y days]\<close>)
qed

lemma days_to_2100: "days_to_year 1970 2100 = 47482"
  by (simp add: days_to_year_def year_days_def is_leap_year_def)

lemma days_to_year_le: "y \<le> y' \<Longrightarrow> days_to_year 1970 y \<le> days_to_year 1970 y'"
proof (induction y' rule: dec_induct)
  case (step n)
  then show ?case by (cases "1970 \<le> n") (simp_all add: days_to_year_Suc, simp add: days_to_year_def)
qed simp

lemma month_loop_exact: "k < length xs \<Longrightarrow> d < xs ! k \<Longrightarrow> month_loop xs m (sum_list (take k xs) + d) = (m + k, d)"
  by (induction xs arbitrary: m k) (auto simp: nth_Cons take_Cons split: nat.splits)

lemma sum_list_split: "d < sum_list xs \<Longrightarrow> \<exists>k < length xs. \<exists>e < xs ! k. d = sum_list (take k xs) + (e::nat)"
proof (induction xs arbitrary: d)
  case (Cons x xs)
  show ?case
  proof (cases "d < x")
    case False
    then have "d - x < sum_list xs" using Cons.prems by simp
    with Cons.IH obtain k e where "k < length xs" "e < xs ! k" "d - x = sum_list (take k xs) + e" by blast
    then show ?thesis using False by (intro exI[of _ "Suc k"]) auto
  qed force
qed simp

lemma month_lengths_days: "1 \<le> m \<Longrightarrow> m \<le> 12 \<Longrightarrow> month_lengths y ! (m - 1) = days_in_month y m"
  by (auto simp: month_lengths_def days_in_month_def numeral_eq_Suc le_Suc_eq nth_Cons split: nat.splits)

lemma month_lengths_sum: "sum_list (month_lengths y) = year_days y"
  by (simp add: month_lengths_def year_days_def)

lemma length_month_lengths [simp]: "length (month_lengths y) = 12"
  by (simp add: month_lengths_def)

lemma month_offset:
  assumes "1 \<le> m" "m \<le> 12"
  shows "sum_list (map (days_in_month y) [1..<m]) = sum_list (take (m - 1) (month_lengths y))"
proof -
  have "map (days_in_month y) [1..<m] = take (m - 1) (month_lengths y)"
    by (rule nth_equalityI) (use assms month_lengths_days[of "Suc _" y] in auto)
  then show ?thesis by simp
qed

lemma day_of_year_less:
  assumes "1 \<le> m" "m \<le> 12" "d < days_in_month y m"
  shows "sum_list (take (m - 1) (month_lengths y)) + d < year_days y"
proof -
  have "month_lengths y = take (m - 1) (month_lengths y) @ month_lengths y ! (m - 1) # drop m (month_lengths y)"
    using id_take_nth_drop[of "m - 1" "month_lengths y"] assms(1,2) by simp
  from arg_cong[OF this, of sum_list] have "sum_list (month_lengths y) =
      sum_list (take (m - 1) (month_lengths y)) + (month_lengths y ! (m - 1) + sum_list (drop m (month_lengths y)))"
    by (simp only: sum_list_append sum_list.Cons)
  then show ?thesis using assms month_lengths_days[of m y] by (simp add: month_lengths_sum)
qed

lemma datetime_seconds_eq:
  "1 \<le> m \<Longrightarrow> m \<le> 12 \<Longrightarrow>
   datetime_seconds (y, m, d, h, mi, s) =
     (days_to_year 1970 y + sum_list (take (m - 1) (month_lengths y)) + (d - 1)) * 86400 + h * 3600 + mi * 60 + s"
  by (simp add: datetime_seconds_def Let_def month_offset days_to_year_def del: One_nat_def)

lemma valid_datetime_days:
  assumes "valid_datetime (y, m, d, h, mi, s)"
  shows "days_to_year 1970 y + sum_list (take (m - 1) (month_lengths y)) + (d - 1) < 47482"
proof -
  have "d - 1 < days_in_month y m" "1 \<le> m" "m \<le> 12" "1970 \<le> y" "Suc y \<le> 2100"
    using assms by (auto simp: valid_datetime_def)
  moreover from this have "days_to_year 1970 y + year_days y \<le> days_to_year 1970 2100"
    using days_to_year_le[of "Suc y" 2100] days_to_year_Suc[of 1970 y] by linarith
  ultimately show ?thesis using day_of_year_less[of m "d - 1" y] by (simp add: days_to_2100)
qed

lemma clock_fields:
  assumes "h \<le> 23" "mi \<le> 59" "s \<le> (59::nat)"
  shows "(D * 86400 + h * 3600 + mi * 60 + s) mod 60 = s" "(D * 86400 + h * 3600 + mi * 60 + s) div 60 mod 60 = mi"
    "(D * 86400 + h * 3600 + mi * 60 + s) div 60 div 60 mod 24 = h" "(D * 86400 + h * 3600 + mi * 60 + s) div 60 div 60 div 24 = D"
proof -
  have a: "D * 86400 + h * 3600 + mi * 60 + s = s + 60 * (mi + 60 * (h + 24 * D))" by simp
  have b: "(s + 60 * x) div 60 = x" "(s + 60 * x) mod 60 = s" for x using assms(3) by simp_all
  have c: "(mi + 60 * x) div 60 = x" "(mi + 60 * x) mod 60 = mi" for x using assms(2) by simp_all
  have e: "(h + 24 * x) div 24 = x" "(h + 24 * x) mod 24 = h" for x using assms(1) by simp_all
  show "(D * 86400 + h * 3600 + mi * 60 + s) mod 60 = s" "(D * 86400 + h * 3600 + mi * 60 + s) div 60 mod 60 = mi"
    "(D * 86400 + h * 3600 + mi * 60 + s) div 60 div 60 mod 24 = h" "(D * 86400 + h * 3600 + mi * 60 + s) div 60 div 60 div 24 = D"
    unfolding a b c e by simp_all
qed

lemma clock_join:
  "t = q * 60 + s \<Longrightarrow> q = r * 60 + mi \<Longrightarrow> r = D * 24 + h \<Longrightarrow> D * 86400 + h * 3600 + mi * 60 + s = (t :: nat)"
  by simp

lemma epoch_to_datetime_inverse: "valid_datetime dt \<Longrightarrow> epoch_to_datetime (datetime_seconds dt) = dt"
proof -
  obtain y m d h mi s where dt: "dt = (y, m, d, h, mi, s)" by (cases dt)
  assume v: "valid_datetime dt"
  then have b: "h \<le> 23" "mi \<le> 59" "s \<le> 59" "1 \<le> m" "m \<le> 12" "1970 \<le> y" "1 \<le> d" "d - 1 < days_in_month y m"
    by (auto simp: dt valid_datetime_def)
  let ?D = "days_to_year 1970 y + sum_list (take (m - 1) (month_lengths y)) + (d - 1)"
  have "?D mod 2 ^ 32 = ?D" using valid_datetime_days[of y m d h mi s] v by (simp add: dt)
  moreover have "year_loop 1970 ?D = (y, sum_list (take (m - 1) (month_lengths y)) + (d - 1))"
    using year_loop_exact[OF b(6) day_of_year_less[OF b(4,5,8)]] by (simp add: add.assoc)
  moreover have "month_loop (month_lengths y) 0 (sum_list (take (m - 1) (month_lengths y)) + (d - 1)) = (m - 1, d - 1)"
    using month_loop_exact[of "m - 1" "month_lengths y" "d - 1" 0] b month_lengths_days[of m y] by simp
  moreover have "datetime_seconds dt = ?D * 86400 + h * 3600 + mi * 60 + s"
    unfolding dt by (rule datetime_seconds_eq[OF b(4,5)])
  ultimately show ?thesis
    unfolding epoch_to_datetime_def Let_def using b(4,7) by (simp only: clock_fields[OF b(1-3)]) (simp add: dt)
qed

lemma datetime_seconds_inverse:
  assumes "secs < 4102444800"
  shows "valid_datetime (epoch_to_datetime secs) \<and> datetime_seconds (epoch_to_datetime secs) = secs"
proof -
  let ?D = "secs div 60 div 60 div 24"
  have D: "?D < 47482" using assms by simp
  obtain y e where ye: "year_loop 1970 ?D = (y, e)" by (cases "year_loop 1970 ?D")
  note y = year_loop_split[OF ye]
  have "y \<le> 2099"
  proof (rule ccontr)
    assume "\<not> y \<le> 2099"
    then have "47482 \<le> days_to_year 1970 y" using days_to_year_le[of 2100 y] days_to_2100 by simp
    then show False using y D by simp
  qed
  obtain k f where kf: "k < 12" "f < month_lengths y ! k" "e = sum_list (take k (month_lengths y)) + f"
    using sum_list_split[of e "month_lengths y"] y by (auto simp: month_lengths_sum)
  have m: "month_loop (month_lengths y) 0 e = (k, f)" using month_loop_exact[of k "month_lengths y" f 0] kf by simp
  have dt: "epoch_to_datetime secs = (y, k + 1, f + 1, secs div 60 div 60 mod 24, secs div 60 mod 60, secs mod 60)"
    using D ye m by (simp add: epoch_to_datetime_def Let_def)
  have "?D * 86400 + (secs div 60 div 60 mod 24) * 3600 + (secs div 60 mod 60) * 60 + secs mod 60 = secs"
    by (rule clock_join; simp only: div_mult_mod_eq)
  moreover have "?D = days_to_year 1970 y + sum_list (take k (month_lengths y)) + f" using y kf(3) by simp
  ultimately have "datetime_seconds (epoch_to_datetime secs) = secs"
    using kf(1) by (simp add: dt datetime_seconds_eq)
  moreover have "f < days_in_month y (k + 1)" using kf month_lengths_days[of "k + 1" y] by simp
  ultimately show ?thesis
    using y \<open>y \<le> 2099\<close> kf(1) by (simp add: valid_datetime_def dt less_Suc_eq_le[symmetric])
qed

lemma valid_datetime_bound: "valid_datetime dt \<Longrightarrow> datetime_seconds dt < 4102444800"
proof -
  obtain y m d h mi s where dt: "dt = (y, m, d, h, mi, s)" by (cases dt)
  assume v: "valid_datetime dt"
  then have "1 \<le> m" "m \<le> 12" "h \<le> 23" "mi \<le> 59" "s \<le> 59" by (simp_all add: dt valid_datetime_def)
  then show ?thesis using valid_datetime_days[of y m d h mi s] v by (simp add: dt datetime_seconds_eq)
qed

section \<open>Timestamps\<close>

abbreviation fixed :: "nat \<Rightarrow> nat \<Rightarrow> string" where
  "fixed w n \<equiv> pad_zero w (show_nat n)"

lemma digit_val_inject: "is_digit a \<Longrightarrow> is_digit b \<Longrightarrow> digit_val a = digit_val b \<Longrightarrow> a = b"
  by (auto simp: digit_val_def is_digit_def) (metis diff_diff_cancel diff_le_self eq_diff_iff of_char_eq_iff)

lemma nat_of_digits_inject:
  "length a = length b \<Longrightarrow> list_all is_digit a \<Longrightarrow> list_all is_digit b \<Longrightarrow> nat_of_digits a = nat_of_digits b \<Longrightarrow> a = b"
proof (induction a arbitrary: b rule: rev_induct)
  case (snoc x xs)
  then obtain y ys where b: "b = ys @ [y]" by (cases b rule: rev_cases) auto
  have d: "is_digit x" "is_digit y" using snoc.prems b by simp_all
  then have "digit_val x < 10" "digit_val y < 10" by (simp_all add: digit_val_less)
  then have "nat_of_digits xs = nat_of_digits ys \<and> digit_val x = digit_val y"
    using snoc.prems(4) b by simp presburger
  then show ?case using snoc.IH[of ys] snoc.prems b d digit_val_inject by auto
qed simp

lemma fixed_digits [simp]: "list_all is_digit (fixed w n)"
  by (simp add: pad_zero_def show_nat_digits list_all_iff is_digit_def) (use show_nat_digits[of n] in \<open>auto simp: list_all_iff is_digit_def\<close>)

lemma length_fixed: "n < 10 ^ w \<Longrightarrow> 0 < w \<Longrightarrow> length (fixed w n) = w"
  using show_nat_length[of n w] by (simp add: pad_zero_def)

lemma fixed_nat_of_digits:
  assumes "list_all is_digit s" "0 < length s"
  shows "fixed (length s) (nat_of_digits s) = s"
  using assms nat_of_digits_bound[OF assms(1)] by (intro nat_of_digits_inject) (simp_all add: length_fixed)

lemma parse_unsigned_digits:
  "list_all is_digit s \<Longrightarrow> s \<noteq> [] \<Longrightarrow> nat_of_digits s \<le> hi \<Longrightarrow> parse_unsigned hi s = Some (nat_of_digits s)"
  by (cases s) (auto simp: parse_unsigned_def)

lemma parse_decimal_u32_Inr:
  assumes "slice ts start stop = s" "0 < length s" "length s \<le> 4"
  shows "parse_decimal_u32 ts start stop field = Inr n \<longleftrightarrow> list_all is_digit s \<and> n = nat_of_digits s"
proof (cases "list_all is_digit s")
  case True
  have "(10::nat) ^ length s \<le> 10 ^ 4" using assms(3) by (intro power_increasing) simp_all
  then have "nat_of_digits s \<le> u32_max" using nat_of_digits_bound[OF True] by (simp add: u32_max_def)
  then show ?thesis using True assms parse_unsigned_digits[of s u32_max] by (auto simp: parse_decimal_u32_def Let_def)
qed (use assms in \<open>simp add: parse_decimal_u32_def Let_def\<close>)

text \<open>The nineteen bytes that the two timestamp forms share, as their fields.\<close>

definition layout :: "string \<times> string \<times> string \<times> string \<times> string \<times> string \<Rightarrow> string" where
  "layout f = (case f of (y, m, d, h, mi, s) \<Rightarrow> y @ ''-'' @ m @ ''-'' @ d @ ''T'' @ h @ '':'' @ mi @ '':'' @ s)"

definition widths :: "string \<times> string \<times> string \<times> string \<times> string \<times> string \<Rightarrow> bool" where
  "widths f = (case f of (y, m, d, h, mi, s) \<Rightarrow>
     length y = 4 \<and> length m = 2 \<and> length d = 2 \<and> length h = 2 \<and> length mi = 2 \<and> length s = 2)"

definition digits6 :: "string \<times> string \<times> string \<times> string \<times> string \<times> string \<Rightarrow> bool" where
  "digits6 f = (case f of (y, m, d, h, mi, s) \<Rightarrow> list_all (list_all is_digit) [y, m, d, h, mi, s])"

definition values6 :: "string \<times> string \<times> string \<times> string \<times> string \<times> string \<Rightarrow> datetime" where
  "values6 f = (case f of (y, m, d, h, mi, s) \<Rightarrow>
     (nat_of_digits y, nat_of_digits m, nat_of_digits d, nat_of_digits h, nat_of_digits mi, nat_of_digits s))"

lemma layout_slices:
  assumes "widths (y, m, d, h, mi, s)"
  shows "slice (layout (y, m, d, h, mi, s) @ r) 0 4 = y" "slice (layout (y, m, d, h, mi, s) @ r) 5 7 = m"
    "slice (layout (y, m, d, h, mi, s) @ r) 8 10 = d" "slice (layout (y, m, d, h, mi, s) @ r) 11 13 = h"
    "slice (layout (y, m, d, h, mi, s) @ r) 14 16 = mi" "slice (layout (y, m, d, h, mi, s) @ r) 17 19 = s"
    "length (layout (y, m, d, h, mi, s)) = 19"
  using assms by (simp_all add: slice_def layout_def widths_def)

lemma parse_layout_Inr:
  assumes "widths f"
  shows "parse_utc_date_time_seconds (layout f @ r) = Inr n \<longleftrightarrow>
    digits6 f \<and> valid_datetime (values6 f) \<and> n = datetime_seconds (values6 f)"
proof -
  obtain y m d h mi s where f: "f = (y, m, d, h, mi, s)" by (cases f)
  have w: "length y = 4" "length m = 2" "length d = 2" "length h = 2" "length mi = 2" "length s = 2"
    using assms by (simp_all add: f widths_def)
  note sl = layout_slices(1-6)[OF assms[unfolded f], of r]
  have p:
    "parse_decimal_u32 (layout f @ r) 0 4 ''year'' = Inr k \<longleftrightarrow> list_all is_digit y \<and> k = nat_of_digits y"
    "parse_decimal_u32 (layout f @ r) 5 7 ''month'' = Inr k \<longleftrightarrow> list_all is_digit m \<and> k = nat_of_digits m"
    "parse_decimal_u32 (layout f @ r) 8 10 ''day'' = Inr k \<longleftrightarrow> list_all is_digit d \<and> k = nat_of_digits d"
    "parse_decimal_u32 (layout f @ r) 11 13 ''hour'' = Inr k \<longleftrightarrow> list_all is_digit h \<and> k = nat_of_digits h"
    "parse_decimal_u32 (layout f @ r) 14 16 ''minute'' = Inr k \<longleftrightarrow> list_all is_digit mi \<and> k = nat_of_digits mi"
    "parse_decimal_u32 (layout f @ r) 17 19 ''second'' = Inr k \<longleftrightarrow> list_all is_digit s \<and> k = nat_of_digits s" for k
    unfolding f by (rule parse_decimal_u32_Inr, rule sl, use w in simp, use w in simp)+
  show ?thesis
    unfolding parse_utc_date_time_seconds_def res_bind_Inr_iff p
    by (auto simp: f digits6_def values6_def valid_datetime_def split: if_splits)
qed

lemma length_19:
  assumes "length xs = 19"
  obtains c0 c1 c2 c3 c4 c5 c6 c7 c8 c9 c10 c11 c12 c13 c14 c15 c16 c17 c18 where
    "xs = [c0, c1, c2, c3, c4, c5, c6, c7, c8, c9, c10, c11, c12, c13, c14, c15, c16, c17, c18]"
  using assms by (auto simp: numeral_eq_Suc length_Suc_conv)

lemma layout_exists:
  assumes "19 \<le> length ts" "byte_at ts 4 (CHR ''-'')" "byte_at ts 7 (CHR ''-'')" "byte_at ts 10 (CHR ''T'')"
    "byte_at ts 13 (CHR '':'')" "byte_at ts 16 (CHR '':'')"
  obtains f where "widths f" "ts = layout f @ drop 19 ts"
proof -
  have "length (take 19 ts) = 19" using assms(1) by simp
  then obtain c0 c1 c2 c3 c4 c5 c6 c7 c8 c9 c10 c11 c12 c13 c14 c15 c16 c17 c18 where
    c: "take 19 ts = [c0, c1, c2, c3, c4, c5, c6, c7, c8, c9, c10, c11, c12, c13, c14, c15, c16, c17, c18]"
    by (rule length_19)
  have nth: "i < 19 \<Longrightarrow> ts ! i = take 19 ts ! i" for i by simp
  have "c4 = CHR ''-''" "c7 = CHR ''-''" "c10 = CHR ''T''" "c13 = CHR '':''" "c16 = CHR '':''"
    using assms(2-) nth[of 4] nth[of 7] nth[of 10] nth[of 13] nth[of 16] by (simp_all add: byte_at_def c)
  then have "take 19 ts = layout ([c0, c1, c2, c3], [c5, c6], [c8, c9], [c11, c12], [c14, c15], [c17, c18])"
    by (simp add: c layout_def)
  then have "ts = layout ([c0, c1, c2, c3], [c5, c6], [c8, c9], [c11, c12], [c14, c15], [c17, c18]) @ drop 19 ts"
    by (metis append_take_drop_id)
  then show ?thesis by (rule that[rotated]) (simp add: widths_def)
qed

lemma format_layout:
  assumes "widths f" "digits6 f"
  shows "format_seconds (values6 f) = layout f"
proof -
  obtain y m d h mi s where f: "f = (y, m, d, h, mi, s)" by (cases f)
  have "list_all is_digit x \<Longrightarrow> length x = w \<Longrightarrow> 0 < w \<Longrightarrow> fixed w (nat_of_digits x) = x" for x w
    using fixed_nat_of_digits[of x] by simp
  then show ?thesis using assms by (simp add: f format_seconds_def layout_def values6_def widths_def digits6_def)
qed

lemma layout_of_valid:
  assumes "valid_datetime dt"
  obtains f where "widths f" "digits6 f" "values6 f = dt" "format_seconds dt = layout f"
proof -
  obtain y m d h mi s where dt: "dt = (y, m, d, h, mi, s)" by (cases dt)
  have "d \<le> 31" using assms by (auto simp: dt valid_datetime_def days_in_month_def split: if_splits)
  then have "widths (fixed 4 y, fixed 2 m, fixed 2 d, fixed 2 h, fixed 2 mi, fixed 2 s)"
    using assms by (simp add: dt valid_datetime_def widths_def length_fixed)
  then show ?thesis
    by (rule that) (simp_all add: dt digits6_def values6_def format_seconds_def layout_def)
qed

text \<open>
  C29. The timestamp parser of the audit verifier inverts the formatter that writes
  them: it accepts exactly the strings the formatter gives for the instants before the
  year 2100, and returns that instant.
\<close>

theorem parse_audit_timestamp_iff:
  "parse_audit_timestamp_ms ts = Inr n \<longleftrightarrow> n < 4102444800000 \<and> ts = current_iso8601_utc n"
proof
  assume p: "parse_audit_timestamp_ms ts = Inr n"
  then have len: "length ts = 24" and at: "byte_at ts 4 (CHR ''-'')" "byte_at ts 7 (CHR ''-'')" "byte_at ts 10 (CHR ''T'')"
      "byte_at ts 13 (CHR '':'')" "byte_at ts 16 (CHR '':'')" "byte_at ts 19 (CHR ''.'')" "byte_at ts 23 (CHR ''Z'')"
    by (auto simp: parse_audit_timestamp_ms_def split: if_splits)
  obtain f where f: "widths f" "ts = layout f @ drop 19 ts" by (rule layout_exists[OF _ at(1-5)]) (use len in auto)
  define mil where "mil = slice ts 20 23"
  have mil: "length mil = 3" using len by (simp add: mil_def slice_def)
  obtain secs millis where s: "parse_utc_date_time_seconds ts = Inr secs"
    "parse_decimal_u32 ts 20 23 ''millisecond'' = Inr millis" "millis \<le> 999" "n = secs * 1000 + millis"
    using p by (auto simp: parse_audit_timestamp_ms_def res_bind_Inr_iff split: if_splits)
  have v: "digits6 f" "valid_datetime (values6 f)" "secs = datetime_seconds (values6 f)"
    using s(1) parse_layout_Inr[OF f(1), of "drop 19 ts" secs] f(2) by simp_all
  have m: "list_all is_digit mil" "millis = nat_of_digits mil"
    using s(2) parse_decimal_u32_Inr[OF mil_def[symmetric], of "''millisecond''" millis] mil by simp_all
  have "drop 19 ts = ts ! 19 # drop 20 ts" "drop 23 ts = [ts ! 23]" "drop 20 ts = mil @ drop 23 ts"
    using Cons_nth_drop_Suc[of 19 ts] Cons_nth_drop_Suc[of 23 ts] append_take_drop_id[of 3 "drop 20 ts"] len
    by (simp_all add: mil_def slice_def)
  then have "drop 19 ts = ''.'' @ mil @ ''Z''" using at(6,7) by (simp add: byte_at_def)
  moreover have "mil = fixed 3 millis" using fixed_nat_of_digits[OF m(1)] m(2) mil by simp
  moreover have "layout f = format_seconds (epoch_to_datetime secs)"
    using format_layout[OF f(1) v(1)] epoch_to_datetime_inverse[OF v(2)] v(3) by simp
  ultimately show "n < 4102444800000 \<and> ts = current_iso8601_utc n"
    using s(3,4) valid_datetime_bound[OF v(2)] v(3) f(2) by (simp add: current_iso8601_utc_def)
next
  assume n: "n < 4102444800000 \<and> ts = current_iso8601_utc n"
  then have "n div 1000 < 4102444800" by (simp add: less_mult_imp_div_less)
  then have dt: "valid_datetime (epoch_to_datetime (n div 1000))" "datetime_seconds (epoch_to_datetime (n div 1000)) = n div 1000"
    using datetime_seconds_inverse[of "n div 1000"] by simp_all
  obtain f where f: "widths f" "digits6 f" "values6 f = epoch_to_datetime (n div 1000)"
    "format_seconds (epoch_to_datetime (n div 1000)) = layout f" by (rule layout_of_valid[OF dt(1)])
  obtain y m d h mi s where ff: "f = (y, m, d, h, mi, s)" by (cases f)
  have mil: "length (fixed 3 (n mod 1000)) = 3" by (rule length_fixed) simp_all
  have ts: "ts = layout f @ ''.'' @ fixed 3 (n mod 1000) @ ''Z''" using n f(4) by (simp add: current_iso8601_utc_def)
  have l: "length (layout f) = 19" using layout_slices(7)[of y m d h mi s] f(1) ff by simp
  have "slice ts 20 23 = fixed 3 (n mod 1000)" using l mil by (simp add: ts slice_def)
  then have "parse_decimal_u32 ts 20 23 ''millisecond'' = Inr (n mod 1000)"
    using mil by (simp add: parse_decimal_u32_Inr)
  moreover have "parse_utc_date_time_seconds ts = Inr (n div 1000)"
    unfolding ts using parse_layout_Inr[OF f(1)] f(2,3) dt by simp
  moreover have "length ts = 24 \<and> byte_at ts 4 (CHR ''-'') \<and> byte_at ts 7 (CHR ''-'') \<and> byte_at ts 10 (CHR ''T'') \<and>
      byte_at ts 13 (CHR '':'') \<and> byte_at ts 16 (CHR '':'') \<and> byte_at ts 19 (CHR ''.'') \<and> byte_at ts 23 (CHR ''Z'')"
    using f(1) mil by (simp add: ts ff layout_def widths_def byte_at_def nth_append)
  ultimately show "parse_audit_timestamp_ms ts = Inr n"
    by (simp add: parse_audit_timestamp_ms_def less_Suc_eq_le[symmetric])
qed

end
