(* ===== verification/Audit_Log.thy ===== *)
theory Audit_Log
  imports Hex Timefmt "HOL-Library.List_Lexorder" "HOL-Library.Char_ord"
begin

text \<open>
  The hash-chained audit log (\<^verbatim>\<open>stellar-agent-core/src/audit_log\<close>): entries, the chain
  (\<^verbatim>\<open>chain.rs\<close>), the offline verifier (\<^verbatim>\<open>verify.rs\<close>) and the tip anchor.  A directory is
  the list of its names with their contents; the verifier reads one snapshot of it.
  JSON, SHA-256 and HMAC are the functions of \<^verbatim>\<open>audit_codec\<close>.
\<close>

section \<open>Entries\<close>

definition MAX_ENTRY_BYTES :: nat where "MAX_ENTRY_BYTES = 4096"
definition MAX_ARG_KEYS :: nat where "MAX_ARG_KEYS = 64"

datatype audit_decision = AuditAllow | AuditDeny string | AuditRequireApproval

datatype tip_anchor_reason = Adopted | RollbackAcknowledged | BindingChanged

text \<open>The verifier tells only the hand-off apart; the payload of any other kind is opaque.\<close>

datatype event_kind =
    AuditRotationHandoff string
  | AuditTipAnchored tip_anchor_reason nat "string option" "nat option"
  | OtherEvent string

record audit_entry =
  ae_ts :: string
  ae_tool :: string
  ae_chain_id :: "string option"
  ae_arg_keys :: "string list"
  ae_arg_keys_truncated :: "nat option"
  ae_truncated :: bool
  ae_envelope_hash :: "string option"
  ae_nonce_id :: "string option"
  ae_policy_decision :: audit_decision
  ae_decision_reason :: "string option"
  ae_request_id :: string
  ae_event_kind :: event_kind
  ae_previous_entry_hash :: string

record audit_codec =
  to_vec :: "audit_entry \<Rightarrow> (string, string) result"
  from_slice :: "string \<Rightarrow> (string, audit_entry) result"
  utf8_error :: "string \<Rightarrow> string"
  ac_sha256 :: "string \<Rightarrow> string"
  ac_hmac :: "string \<Rightarrow> string \<Rightarrow> string"

definition internal_entry :: "string \<Rightarrow> string \<Rightarrow> string \<Rightarrow> event_kind \<Rightarrow> audit_entry" where
  "internal_entry ts tool request_id kind =
     \<lparr>ae_ts = ts, ae_tool = tool, ae_chain_id = None, ae_arg_keys = [], ae_arg_keys_truncated = None,
      ae_truncated = False, ae_envelope_hash = None, ae_nonce_id = None, ae_policy_decision = AuditAllow,
      ae_decision_reason = None, ae_request_id = request_id, ae_event_kind = kind, ae_previous_entry_hash = []\<rparr>"

definition new_rotation_handoff :: "string \<Rightarrow> string \<Rightarrow> string \<Rightarrow> audit_entry" where
  "new_rotation_handoff ts next_file_name request_id =
     internal_entry ts ''audit.rotation_handoff_to'' request_id (AuditRotationHandoff next_file_name)"

definition new_audit_tip_anchored ::
  "string \<Rightarrow> tip_anchor_reason \<Rightarrow> nat \<Rightarrow> string option \<Rightarrow> nat option \<Rightarrow> string \<Rightarrow> audit_entry" where
  "new_audit_tip_anchored ts why count previous_anchor reanchor_count request_id =
     internal_entry ts ''audit.tip_anchored'' request_id (AuditTipAnchored why count previous_anchor reanchor_count)"

definition canonical_json_body :: "audit_codec \<Rightarrow> audit_entry \<Rightarrow> (string, string) result" where
  "canonical_json_body ac e = to_vec ac (e\<lparr>ae_previous_entry_hash := []\<rparr>)"

definition drop_arg_key :: "audit_entry \<Rightarrow> audit_entry" where
  "drop_arg_key e =
     e\<lparr>ae_arg_keys := butlast (ae_arg_keys e),
       ae_arg_keys_truncated := Some (case_option 0 id (ae_arg_keys_truncated e) + 1), ae_truncated := True\<rparr>"

function shrink_entry :: "audit_codec \<Rightarrow> audit_entry \<Rightarrow> (string, audit_entry) result" where
  "shrink_entry ac e =
     (case to_vec ac e of
        Inl err \<Rightarrow> Inl err
      | Inr bs \<Rightarrow>
          if length bs \<le> MAX_ENTRY_BYTES then Inr e
          else if ae_arg_keys e = [] then Inr (e\<lparr>ae_truncated := True\<rparr>)
          else shrink_entry ac (drop_arg_key e))"
  by pat_completeness auto

termination by (relation "measure (\<lambda>(_, e). length (ae_arg_keys e))") (auto simp: drop_arg_key_def)

declare shrink_entry.simps [simp del]

definition truncate_arg_keys_if_needed :: "audit_codec \<Rightarrow> audit_entry \<Rightarrow> (string, audit_entry) result" where
  "truncate_arg_keys_if_needed ac e =
     shrink_entry ac
       (if MAX_ARG_KEYS < length (ae_arg_keys e) then
          e\<lparr>ae_arg_keys := take MAX_ARG_KEYS (ae_arg_keys e),
            ae_arg_keys_truncated :=
              Some (case_option 0 id (ae_arg_keys_truncated e) + (length (ae_arg_keys e) - MAX_ARG_KEYS)),
            ae_truncated := True\<rparr>
        else e)"

section \<open>The chain\<close>

datatype hash_error = InvalidFormat | InvalidHex

datatype hmac_error = InvalidTagFormat | TagMismatch

definition ZERO_BLOCK_HASH :: string where
  "ZERO_BLOCK_HASH = ''sha256:66687aadf862bd776c8fc18b8e9f8e20089714856ee233b3902a591d0d5f2925''"

definition hash_prefix :: string where "hash_prefix = ''sha256:''"

definition hex_nibble :: "char \<Rightarrow> nat option" where
  "hex_nibble c =
     (let b = byte_of c in
      if 48 \<le> b \<and> b \<le> 57 then Some (b - 48) else if 97 \<le> b \<and> b \<le> 102 then Some (b - 97 + 10) else None)"

fun decode_to_slice :: "string \<Rightarrow> string option" where
  "decode_to_slice (h # l # rest) =
     (case hex_nibble h of
        None \<Rightarrow> None
      | Some hi \<Rightarrow>
          (case hex_nibble l of
             None \<Rightarrow> None
           | Some lo \<Rightarrow> map_option (\<lambda>out. char_of (hi * 16 + lo) # out) (decode_to_slice rest)))"
| "decode_to_slice _ = Some []"

definition decode_hash :: "string \<Rightarrow> (hash_error, string) result" where
  "decode_hash s =
     (if \<not> starts_with hash_prefix s then Inl InvalidFormat
      else let hex_part = drop (length hash_prefix) s in
        if length hex_part \<noteq> 64 then Inl InvalidFormat else ok_or InvalidHex (decode_to_slice hex_part))"

definition compute_entry_hash :: "audit_codec \<Rightarrow> string \<Rightarrow> string \<Rightarrow> (hash_error, string) result" where
  "compute_entry_hash ac body previous =
     res_bind (decode_hash previous) (\<lambda>prev_bytes. Inr (hash_prefix @ hex_encode (ac_sha256 ac (body @ prev_bytes))))"

definition sign_chain_root :: "audit_codec \<Rightarrow> string \<Rightarrow> string \<Rightarrow> string" where
  "sign_chain_root ac key body = hash_prefix @ hex_encode (ac_hmac ac key body)"

definition verify_chain_root :: "audit_codec \<Rightarrow> string \<Rightarrow> string \<Rightarrow> string \<Rightarrow> (hmac_error, unit) result" where
  "verify_chain_root ac key body tag =
     (case decode_hash tag of
        Inl _ \<Rightarrow> Inl InvalidTagFormat
      | Inr tag_bytes \<Rightarrow> if ac_hmac ac key body = tag_bytes then Inr () else Inl TagMismatch)"

section \<open>Files\<close>

datatype node = Regular string | Special

type_synonym audit_dir = "(string \<times> node) list"

definition ROTATION_THRESHOLD_BYTES :: nat where "ROTATION_THRESHOLD_BYTES = 10 * 1024 * 1024"
definition MAX_ROTATED_FILES :: nat where "MAX_ROTATED_FILES = 10"
definition ROTATED_FILE_CHAIN_CAP :: nat where "ROTATED_FILE_CHAIN_CAP = MAX_ROTATED_FILES * 2 + 1"
definition BACKWARD_TS_WARN_THRESHOLD_MS :: nat where "BACKWARD_TS_WARN_THRESHOLD_MS = 60000"

definition hmac_sidecar_path :: "string \<Rightarrow> string" where
  "hmac_sidecar_path name = name @ ''.root_hmac''"

definition compact_stamp :: "string \<Rightarrow> bool" where
  "compact_stamp base \<longleftrightarrow>
     (length base = 15 \<or> length base = 18) \<and> list_all is_digit (take 8 base) \<and> base ! 8 = CHR ''T'' \<and>
     list_all is_digit (drop 9 base)"

definition is_rotated_sibling :: "string \<Rightarrow> string \<Rightarrow> bool" where
  "is_rotated_sibling stem name =
     (if \<not> starts_with (stem @ ''.'') name then False
      else
        let suffix = drop (length stem + 1) name in
        case split_once (CHR ''-'') suffix of
          None \<Rightarrow> compact_stamp suffix
        | Some (base, collision) \<Rightarrow>
            collision \<noteq> [] \<and> list_all is_digit collision \<and> length base = 18 \<and> compact_stamp base)"

datatype verify_error =
    ChainBroken nat string string
  | RotationGap string
  | ChainRootMismatch string
  | HmacSidecarMissing string
  | TooManyRotatedFiles nat nat
  | NonRegularFileLogPath string
  | AuditParseError nat string
  | LogNotFound string
  | VerifyIo string
  | TipAnchorMismatch nat nat nat nat string

definition collect_file_chain :: "audit_dir \<Rightarrow> string \<Rightarrow> (verify_error, string list) result" where
  "collect_file_chain dir stem =
     (let rotated = filter (is_rotated_sibling stem) (map fst dir) in
      if ROTATED_FILE_CHAIN_CAP < length rotated
      then Inl (TooManyRotatedFiles (ROTATED_FILE_CHAIN_CAP + 1) ROTATED_FILE_CHAIN_CAP)
      else Inr (sort rotated @ [stem]))"

definition open_regular_file :: "audit_dir \<Rightarrow> string \<Rightarrow> (verify_error, string) result" where
  "open_regular_file dir name =
     (case map_of dir name of
        None \<Rightarrow> Inl (VerifyIo ''No such file or directory'')
      | Some Special \<Rightarrow> Inl (NonRegularFileLogPath name)
      | Some (Regular contents) \<Rightarrow> Inr contents)"

section \<open>Lines\<close>

definition newline :: char where "newline = CHR 0x0A"
definition carriage_return :: char where "carriage_return = CHR 0x0D"

text \<open>What successive calls of \<^verbatim>\<open>read_until\<close> at a newline return.\<close>

fun raw_lines :: "string \<Rightarrow> string list" where
  "raw_lines [] = []"
| "raw_lines (c # cs) =
     (if c = newline then [c] # raw_lines cs
      else case raw_lines cs of [] \<Rightarrow> [[c]] | l # ls \<Rightarrow> (c # l) # ls)"

definition strip_last :: "char \<Rightarrow> string \<Rightarrow> string" where
  "strip_last c s = (if s \<noteq> [] \<and> last s = c then butlast s else s)"

definition strip_line_terminator :: "string \<Rightarrow> string" where
  "strip_line_terminator raw = strip_last carriage_return (strip_last newline raw)"

text \<open>\<^verbatim>\<open>str::from_utf8\<close>: the well-formed byte sequences of Unicode, one code point at a time.\<close>

definition in_bytes :: "nat \<Rightarrow> nat \<Rightarrow> string \<Rightarrow> nat \<Rightarrow> bool" where
  "in_bytes lo hi s i \<longleftrightarrow> i < length s \<and> lo \<le> byte_of (s ! i) \<and> byte_of (s ! i) \<le> hi"

definition utf8_width :: "string \<Rightarrow> nat option" where
  "utf8_width s =
     (if in_bytes 0x00 0x7F s 0 then Some 1
      else if in_bytes 0xC2 0xDF s 0 \<and> in_bytes 0x80 0xBF s 1 then Some 2
      else if (in_bytes 0xE0 0xE0 s 0 \<and> in_bytes 0xA0 0xBF s 1 \<or> in_bytes 0xE1 0xEC s 0 \<and> in_bytes 0x80 0xBF s 1 \<or>
               in_bytes 0xED 0xED s 0 \<and> in_bytes 0x80 0x9F s 1 \<or> in_bytes 0xEE 0xEF s 0 \<and> in_bytes 0x80 0xBF s 1) \<and>
              in_bytes 0x80 0xBF s 2 then Some 3
      else if (in_bytes 0xF0 0xF0 s 0 \<and> in_bytes 0x90 0xBF s 1 \<or> in_bytes 0xF1 0xF3 s 0 \<and> in_bytes 0x80 0xBF s 1 \<or>
               in_bytes 0xF4 0xF4 s 0 \<and> in_bytes 0x80 0x8F s 1) \<and>
              in_bytes 0x80 0xBF s 2 \<and> in_bytes 0x80 0xBF s 3 then Some 4
      else None)"

lemma utf8_width_pos: "utf8_width s = Some k \<Longrightarrow> 0 < k \<and> s \<noteq> []"
  by (auto simp: utf8_width_def in_bytes_def split: if_splits)

function utf8_valid :: "string \<Rightarrow> bool" where
  "utf8_valid s = (s = [] \<or> (case utf8_width s of None \<Rightarrow> False | Some k \<Rightarrow> utf8_valid (drop k s)))"
  by pat_completeness auto

termination by (relation "measure length") (use utf8_width_pos in force)+

declare utf8_valid.simps [simp del]

section \<open>Verifying one file\<close>

datatype verify_warning = BackwardTimestampJump string string nat nat nat

record file_context =
  fc_name :: string
  fc_hmac_key :: "string option"
  fc_initial_prev :: "string option"
  fc_this_basename :: "string option"
  fc_is_last :: bool
  fc_stem :: string
  fc_index :: nat
  fc_previous_timestamp :: "(string \<times> nat) option"

record walk =
  wk_prev_hash :: string
  wk_entries :: nat
  wk_end_offset :: nat
  wk_first :: bool
  wk_handoff :: "string option"
  wk_timestamp :: "(string \<times> nat) option"
  wk_warnings :: "verify_warning list"
  wk_consumed :: nat
  wk_line :: nat

definition walk_start :: "file_context \<Rightarrow> walk" where
  "walk_start fc =
     \<lparr>wk_prev_hash = (case fc_initial_prev fc of None \<Rightarrow> ZERO_BLOCK_HASH | Some h \<Rightarrow> h), wk_entries = 0,
      wk_end_offset = 0, wk_first = True, wk_handoff = None, wk_timestamp = fc_previous_timestamp fc,
      wk_warnings = [], wk_consumed = 0, wk_line = 0\<rparr>"

definition backward_warnings :: "file_context \<Rightarrow> walk \<Rightarrow> string \<Rightarrow> nat \<Rightarrow> verify_warning list" where
  "backward_warnings fc wk ts ms =
     (case wk_timestamp wk of
        Some (previous_ts, previous_ms) \<Rightarrow>
          if ms < previous_ms \<and> BACKWARD_TS_WARN_THRESHOLD_MS < previous_ms - ms
          then [BackwardTimestampJump previous_ts ts (previous_ms - ms) (fc_index fc) (wk_entries wk)]
          else []
      | None \<Rightarrow> [])"

definition read_regular_file_to_string :: "audit_dir \<Rightarrow> string \<Rightarrow> (verify_error, string) result" where
  "read_regular_file_to_string dir name =
     res_bind (open_regular_file dir name) (\<lambda>contents.
     if utf8_valid contents then Inr contents else Inl (VerifyIo ''stream did not contain valid UTF-8''))"

definition verify_root_tag :: "audit_codec \<Rightarrow> audit_dir \<Rightarrow> file_context \<Rightarrow> string \<Rightarrow> (verify_error, unit) result" where
  "verify_root_tag ac dir fc body =
     (case fc_hmac_key fc of
        None \<Rightarrow> Inr ()
      | Some key \<Rightarrow>
          (let sidecar = hmac_sidecar_path (fc_name fc) in
           if map_of dir sidecar = None then Inl (HmacSidecarMissing (fc_name fc))
           else
             res_bind (read_regular_file_to_string dir sidecar) (\<lambda>tag.
             case verify_chain_root ac key body (trim tag) of
               Inl _ \<Rightarrow> Inl (ChainRootMismatch (fc_name fc))
             | Inr _ \<Rightarrow> Inr ())))"

definition note_handoff :: "file_context \<Rightarrow> nat \<Rightarrow> event_kind \<Rightarrow> string option \<Rightarrow> (verify_error, string option) result" where
  "note_handoff fc line kind handoff =
     (case kind of
        AuditRotationHandoff next_file_name \<Rightarrow>
          if fc_is_last fc then Inl (ChainBroken line (fc_name fc) ''rotation_handoff_in_active_file'')
          else Inr (Some next_file_name)
      | _ \<Rightarrow> Inr handoff)"

definition quoted :: "string \<Rightarrow> string" where "quoted s = [CHR 0x27] @ s @ [CHR 0x27]"

definition hash_error_text :: "hash_error \<Rightarrow> string" where
  "hash_error_text e =
     (case e of
        InvalidFormat \<Rightarrow> ''invalid hash format: expected '' @ quoted ''sha256:<64-hex-chars>''
      | InvalidHex \<Rightarrow> ''invalid hex in hash string'')"

definition verify_entry ::
  "audit_codec \<Rightarrow> audit_dir \<Rightarrow> file_context \<Rightarrow> walk \<Rightarrow> nat \<Rightarrow> nat \<Rightarrow> audit_entry \<Rightarrow> (verify_error, walk) result" where
  "verify_entry ac dir fc wk line consumed e =
     (case parse_audit_timestamp_ms (ae_ts e) of
        Inl detail \<Rightarrow> Inl (AuditParseError line detail)
      | Inr ms \<Rightarrow>
          if ae_previous_entry_hash e \<noteq> wk_prev_hash wk
          then Inl (ChainBroken line (fc_name fc) ''previous_entry_hash_mismatch'')
          else case canonical_json_body ac e of
            Inl detail \<Rightarrow> Inl (AuditParseError line detail)
          | Inr body \<Rightarrow>
              (case compute_entry_hash ac body (wk_prev_hash wk) of
                 Inl detail \<Rightarrow> Inl (AuditParseError line (hash_error_text detail))
               | Inr current_hash \<Rightarrow>
                   res_bind (if wk_first wk then verify_root_tag ac dir fc body else Inr ()) (\<lambda>_.
                   res_bind (note_handoff fc line (ae_event_kind e) (wk_handoff wk)) (\<lambda>handoff.
                   Inr \<lparr>wk_prev_hash = current_hash, wk_entries = wk_entries wk + 1, wk_end_offset = consumed,
                        wk_first = False, wk_handoff = handoff, wk_timestamp = Some (ae_ts e, ms),
                        wk_warnings = wk_warnings wk @ backward_warnings fc wk (ae_ts e) ms,
                        wk_consumed = consumed, wk_line = line\<rparr>))))"

definition verify_line ::
  "audit_codec \<Rightarrow> audit_dir \<Rightarrow> file_context \<Rightarrow> walk \<Rightarrow> string \<Rightarrow> (verify_error, walk) result" where
  "verify_line ac dir fc wk raw =
     (let consumed = sat_add_u64 (wk_consumed wk) (length raw); line = wk_line wk + 1; text = strip_line_terminator raw in
      if \<not> utf8_valid text then Inl (AuditParseError line (''line is not valid UTF-8: '' @ utf8_error ac text))
      else if trim text = [] then Inr (wk\<lparr>wk_consumed := consumed, wk_line := line\<rparr>)
      else case from_slice ac text of
        Inl detail \<Rightarrow> Inl (AuditParseError line detail)
      | Inr e \<Rightarrow> verify_entry ac dir fc wk line consumed e)"

fun verify_lines ::
  "audit_codec \<Rightarrow> audit_dir \<Rightarrow> file_context \<Rightarrow> walk \<Rightarrow> string list \<Rightarrow> (verify_error, walk) result" where
  "verify_lines ac dir fc wk [] = Inr wk"
| "verify_lines ac dir fc wk (raw # raws) =
     (case verify_line ac dir fc wk raw of Inl e \<Rightarrow> Inl e | Inr wk' \<Rightarrow> verify_lines ac dir fc wk' raws)"

definition sanitize_handoff_next_file_name :: "string \<Rightarrow> string \<Rightarrow> string" where
  "sanitize_handoff_next_file_name stem name =
     (if is_rotated_sibling stem name then name else ''<invalid: '' @ show_nat (length name) @ '' bytes>'')"

definition check_handoff :: "file_context \<Rightarrow> string option \<Rightarrow> (verify_error, unit) result" where
  "check_handoff fc handoff =
     (case fc_this_basename fc of
        None \<Rightarrow> Inr ()
      | Some basename \<Rightarrow>
          (case handoff of
             Some actual \<Rightarrow>
               if actual = basename then Inr ()
               else Inl (RotationGap (''handoff names '' @ quoted (sanitize_handoff_next_file_name (fc_stem fc) actual) @
                      '' but file is '' @ quoted basename))
           | None \<Rightarrow>
               Inl (RotationGap (''no handoff entry in '' @ quoted (fc_name fc) @ '' (expected archive name '' @
                      quoted basename @ '')''))))"

definition verify_single_file :: "audit_codec \<Rightarrow> audit_dir \<Rightarrow> file_context \<Rightarrow> (verify_error, walk) result" where
  "verify_single_file ac dir fc =
     res_bind (open_regular_file dir (fc_name fc)) (\<lambda>contents.
     res_bind (verify_lines ac dir fc (walk_start fc) (raw_lines contents)) (\<lambda>wk.
     res_bind (check_handoff fc (wk_handoff wk)) (\<lambda>_. Inr wk)))"

section \<open>Verifying the log\<close>

record verified_tip =
  vt_entry_count :: nat
  vt_tip_hash :: string
  vt_end_offset :: nat

record verify_ok =
  vo_entries :: nat
  vo_files :: nat
  vo_per_file :: "(string \<times> nat \<times> bool option) list"
  vo_warnings :: "verify_warning list"
  vo_hmac_verified :: bool
  vo_active_tip :: "verified_tip option"

definition verify_start :: "string option \<Rightarrow> verify_ok" where
  "verify_start key =
     \<lparr>vo_entries = 0, vo_files = 0, vo_per_file = [], vo_warnings = [], vo_hmac_verified = (key \<noteq> None),
      vo_active_tip = None\<rparr>"

fun verify_files ::
  "audit_codec \<Rightarrow> audit_dir \<Rightarrow> string \<Rightarrow> string option \<Rightarrow> nat \<Rightarrow> string option \<Rightarrow> (string \<times> nat) option \<Rightarrow> verify_ok \<Rightarrow>
   string list \<Rightarrow> (verify_error, verify_ok) result" where
  "verify_files ac dir stem key i prev ts vo [] = Inr vo"
| "verify_files ac dir stem key i prev ts vo (name # names) =
     (if map_of dir name = None then Inl (if i = 0 then LogNotFound name else RotationGap name)
      else
        res_bind (verify_single_file ac dir
          \<lparr>fc_name = name, fc_hmac_key = key, fc_initial_prev = prev,
           fc_this_basename = (if names \<noteq> [] then Some name else None), fc_is_last = (names = []), fc_stem = stem,
           fc_index = i, fc_previous_timestamp = ts\<rparr>) (\<lambda>wk.
        verify_files ac dir stem key (i + 1) (Some (wk_prev_hash wk)) (wk_timestamp wk)
          \<lparr>vo_entries = vo_entries vo + wk_entries wk, vo_files = vo_files vo + 1,
           vo_per_file = vo_per_file vo @ [(name, wk_entries wk, map_option (\<lambda>_. True) key)],
           vo_warnings = vo_warnings vo @ wk_warnings wk, vo_hmac_verified = (vo_hmac_verified vo \<and> key \<noteq> None),
           vo_active_tip =
             (if names = []
              then Some \<lparr>vt_entry_count = wk_entries wk, vt_tip_hash = wk_prev_hash wk, vt_end_offset = wk_end_offset wk\<rparr>
              else vo_active_tip vo)\<rparr> names))"

definition verify_log :: "audit_codec \<Rightarrow> audit_dir \<Rightarrow> string \<Rightarrow> string option \<Rightarrow> (verify_error, verify_ok) result" where
  "verify_log ac dir stem key =
     res_bind (collect_file_chain dir stem) (\<lambda>chain. verify_files ac dir stem key 0 None None (verify_start key) chain)"

section \<open>The tip anchor\<close>

record tip_anchor =
  ta_entry_count :: nat
  ta_tip_hash :: string
  ta_end_offset :: nat

datatype tip_anchor_parse_error = FieldCount | EntryCount | TipHash | EndOffset | EmptyAnchor

definition tip_parse_decimal_u64 :: "string \<Rightarrow> nat option" where
  "tip_parse_decimal_u64 s =
     (if s = [] \<or> \<not> list_all is_digit s then None
      else if 1 < length s \<and> starts_with ''0'' s then None
      else parse_unsigned u64_max s)"

definition is_lower_hex :: "char \<Rightarrow> bool" where
  "is_lower_hex c \<longleftrightarrow> is_digit c \<or> (97 \<le> byte_of c \<and> byte_of c \<le> 102)"

definition tip_anchor_parse :: "string \<Rightarrow> (tip_anchor_parse_error, tip_anchor) result" where
  "tip_anchor_parse value =
     (case split_char (CHR '':'') value of
        [count, hash, offset] \<Rightarrow>
          res_bind (ok_or EntryCount (tip_parse_decimal_u64 count)) (\<lambda>n.
          if n = 0 then Inl EmptyAnchor
          else if length hash \<noteq> 64 \<or> \<not> list_all is_lower_hex hash then Inl TipHash
          else
            res_bind (ok_or EndOffset (tip_parse_decimal_u64 offset)) (\<lambda>off.
            Inr \<lparr>ta_entry_count = n, ta_tip_hash = hash_prefix @ hash, ta_end_offset = off\<rparr>))
      | _ \<Rightarrow> Inl FieldCount)"

definition to_keyring_value :: "tip_anchor \<Rightarrow> string" where
  "to_keyring_value ta =
     (let hex = (if starts_with hash_prefix (ta_tip_hash ta) then drop (length hash_prefix) (ta_tip_hash ta) else ta_tip_hash ta) in
      show_nat (ta_entry_count ta) @ '':'' @ hex @ '':'' @ show_nat (ta_end_offset ta))"

definition matches_tip :: "tip_anchor \<Rightarrow> verified_tip \<Rightarrow> bool" where
  "matches_tip ta vt \<longleftrightarrow>
     ta_entry_count ta = vt_entry_count vt \<and> ta_end_offset ta = vt_end_offset vt \<and> ta_tip_hash ta = vt_tip_hash vt"

definition coordinates :: "tip_anchor \<Rightarrow> string" where
  "coordinates ta = show_nat (ta_entry_count ta) @ '':'' @ show_nat (ta_end_offset ta)"

datatype stored_tip_anchor = Absent | Usable tip_anchor | Unusable string

section \<open>Reading a log from its end\<close>

datatype writer_error =
    WriterIo string
  | Serialise string
  | WriterHash hash_error
  | PartialRotation string
  | ChainBrokenAtOpen nat string string
  | IntegrityViolation verify_error
  | WriterAnchorMismatch nat nat nat string
  | AnchorStoreFailed string
  | AnchorUnavailable
  | RotationBridgeUnusable string string
  | OutboxUnusable string

definition apostrophe_s :: string where "apostrophe_s = [CHR 0x27, CHR ''s'']"

definition SCAN_CHUNK :: nat where "SCAN_CHUNK = 4096"

definition rstrip :: "string \<Rightarrow> string" where
  "rstrip s = rev (dropWhile is_ascii_whitespace (rev s))"

definition after_last_newline :: "string \<Rightarrow> string" where
  "after_last_newline s = rev (takeWhile (\<lambda>c. c \<noteq> newline) (rev s))"

function scan_back :: "string \<Rightarrow> nat \<Rightarrow> string \<Rightarrow> string option" where
  "scan_back contents scan_end buf =
     (let chunk_size = min SCAN_CHUNK scan_end;
          chunk_start = scan_end - chunk_size;
          buf' = rstrip (take chunk_size (drop chunk_start contents) @ buf)
      in if buf' = [] then (if chunk_start = 0 then None else scan_back contents chunk_start [])
         else if newline \<in> set buf' then Some (strip_line_terminator (after_last_newline buf'))
         else if chunk_start = 0 then Some (strip_line_terminator buf')
         else scan_back contents chunk_start buf')"
  by pat_completeness auto

termination by (relation "measure (\<lambda>(_, e, _). e)") (auto simp: SCAN_CHUNK_def)

declare scan_back.simps [simp del]

definition read_last_line_before :: "string \<Rightarrow> nat \<Rightarrow> string option" where
  "read_last_line_before contents end_offset =
     (let scan_end = min end_offset (length contents) in
      if scan_end = 0 then None else scan_back contents scan_end [])"

definition compute_entry_hash_streamed :: "audit_codec \<Rightarrow> audit_entry \<Rightarrow> string \<Rightarrow> (writer_error, string) result" where
  "compute_entry_hash_streamed ac e previous =
     (case decode_hash previous of
        Inl err \<Rightarrow> Inl (WriterHash err)
      | Inr prev_bytes \<Rightarrow>
          (case canonical_json_body ac e of
             Inl err \<Rightarrow> Inl (Serialise err)
           | Inr body \<Rightarrow> Inr (hash_prefix @ hex_encode (ac_sha256 ac (body @ prev_bytes)))))"

record chain_scan =
  cs_last_hash :: string
  cs_entry_count :: nat
  cs_end_offset :: nat

fun scan_lines ::
  "audit_codec \<Rightarrow> nat \<Rightarrow> chain_scan \<Rightarrow> string list \<Rightarrow> (writer_error, chain_scan) result" where
  "scan_lines ac consumed cs [] = Inr cs"
| "scan_lines ac consumed cs (raw # raws) =
     (let consumed' = sat_add_u64 consumed (length raw); line = strip_line_terminator raw in
      if list_all is_ascii_whitespace line then scan_lines ac consumed' cs raws
      else case from_slice ac line of
        Inl err \<Rightarrow> Inl (Serialise err)
      | Inr e \<Rightarrow>
          if ae_previous_entry_hash e \<noteq> cs_last_hash cs
          then Inl (ChainBrokenAtOpen (cs_entry_count cs + 1) (cs_last_hash cs) (ae_previous_entry_hash e))
          else case compute_entry_hash_streamed ac e (ae_previous_entry_hash e) of
            Inl err \<Rightarrow> Inl err
          | Inr hash \<Rightarrow>
              scan_lines ac consumed'
                \<lparr>cs_last_hash = hash, cs_entry_count = cs_entry_count cs + 1, cs_end_offset = consumed'\<rparr> raws)"

definition read_and_verify_entry_chain ::
  "audit_codec \<Rightarrow> string \<Rightarrow> nat \<Rightarrow> string \<Rightarrow> (writer_error, chain_scan) result" where
  "read_and_verify_entry_chain ac contents start_offset seed =
     scan_lines ac start_offset \<lparr>cs_last_hash = seed, cs_entry_count = 0, cs_end_offset = start_offset\<rparr>
       (raw_lines (drop start_offset contents))"

definition initial_chain_seed :: "audit_codec \<Rightarrow> audit_dir \<Rightarrow> string \<Rightarrow> (writer_error, string) result" where
  "initial_chain_seed ac dir stem =
     (case collect_file_chain dir stem of
        Inl err \<Rightarrow> Inl (IntegrityViolation err)
      | Inr chain \<Rightarrow>
          if length chain < 2 then Inr ZERO_BLOCK_HASH
          else
            let archive_name = chain ! (length chain - 2) in
            case map_of dir archive_name of
              None \<Rightarrow> Inr ZERO_BLOCK_HASH
            | Some Special \<Rightarrow> Inl (WriterIo ''not a regular file'')
            | Some (Regular contents) \<Rightarrow>
                (case read_last_line_before contents (length contents) of
                   None \<Rightarrow> Inr ZERO_BLOCK_HASH
                 | Some line \<Rightarrow>
                     (case from_slice ac line of
                        Inl _ \<Rightarrow> Inl (RotationBridgeUnusable archive_name
                           (''the archive'' @ apostrophe_s @ '' last line is not a parseable audit entry''))
                      | Inr e \<Rightarrow>
                          (case ae_event_kind e of
                             AuditRotationHandoff next_file_name \<Rightarrow>
                               if next_file_name = archive_name
                               then compute_entry_hash_streamed ac e (ae_previous_entry_hash e)
                               else Inl (RotationBridgeUnusable archive_name
                                 (''the archive'' @ apostrophe_s @ '' handoff entry names a different archive''))
                           | _ \<Rightarrow> Inl (RotationBridgeUnusable archive_name
                               ''the archive does not end with a rotation handoff entry'')))))"

section \<open>The anchor against a walk\<close>

definition anchor_names_the_rotation_handoff :: "audit_codec \<Rightarrow> audit_dir \<Rightarrow> string \<Rightarrow> tip_anchor \<Rightarrow> bool" where
  "anchor_names_the_rotation_handoff ac dir stem ta \<longleftrightarrow> initial_chain_seed ac dir stem = Inr (ta_tip_hash ta)"

definition anchored_entry_is_intact :: "audit_codec \<Rightarrow> audit_dir \<Rightarrow> string \<Rightarrow> tip_anchor \<Rightarrow> (verify_error, bool) result" where
  "anchored_entry_is_intact ac dir stem ta =
     res_bind (open_regular_file dir stem) (\<lambda>contents.
     case read_last_line_before contents (ta_end_offset ta) of
       None \<Rightarrow> Inr False
     | Some line \<Rightarrow>
         (case from_slice ac line of
            Inl _ \<Rightarrow> Inr False
          | Inr e \<Rightarrow>
              (case canonical_json_body ac e of
                 Inl _ \<Rightarrow> Inr False
               | Inr body \<Rightarrow>
                   (case compute_entry_hash ac body (ae_previous_entry_hash e) of
                      Inl _ \<Rightarrow> Inr False
                    | Inr hash \<Rightarrow> Inr (hash = ta_tip_hash ta)))))"

definition check_anchor_against_walk ::
  "audit_codec \<Rightarrow> audit_dir \<Rightarrow> string \<Rightarrow> tip_anchor \<Rightarrow> verified_tip option \<Rightarrow> (verify_error, unit) result" where
  "check_anchor_against_walk ac dir stem ta active_tip =
     (case active_tip of
        None \<Rightarrow> Inl (TipAnchorMismatch (ta_entry_count ta) (ta_end_offset ta) 0 0 ''no active file was walked'')
      | Some tip \<Rightarrow>
          let mismatch = (\<lambda>why. TipAnchorMismatch (ta_entry_count ta) (ta_end_offset ta) (vt_entry_count tip) (vt_end_offset tip) why) in
          if matches_tip ta tip then Inr ()
          else if anchor_names_the_rotation_handoff ac dir stem ta then Inr ()
          else if vt_end_offset tip < ta_end_offset ta
          then Inl (mismatch (''the active file'' @ apostrophe_s @ '' verified prefix is shorter than the anchor''))
          else
            res_bind (anchored_entry_is_intact ac dir stem ta) (\<lambda>intact.
            if \<not> intact then Inl (mismatch ''the entry at the anchored offset is not the anchored entry'')
            else if vt_end_offset tip = ta_end_offset ta
            then Inl (mismatch (''the active file'' @ apostrophe_s @ '' tip is not the anchored tip''))
            else Inr ()))"

definition stored_anchor_disagrees_with_walk ::
  "audit_codec \<Rightarrow> audit_dir \<Rightarrow> string \<Rightarrow> stored_tip_anchor \<Rightarrow> verified_tip option \<Rightarrow> (verify_error, bool) result" where
  "stored_anchor_disagrees_with_walk ac dir stem stored active_tip =
     (case stored of
        Absent \<Rightarrow> Inr False
      | Unusable _ \<Rightarrow> Inr True
      | Usable ta \<Rightarrow>
          (case check_anchor_against_walk ac dir stem ta active_tip of
             Inr _ \<Rightarrow> Inr False
           | Inl (TipAnchorMismatch _ _ _ _ _) \<Rightarrow> Inr True
           | Inl err \<Rightarrow> Inl err))"

definition verify_log_with_anchor ::
  "audit_codec \<Rightarrow> audit_dir \<Rightarrow> string \<Rightarrow> string option \<Rightarrow> tip_anchor option \<Rightarrow> (verify_error, verify_ok) result" where
  "verify_log_with_anchor ac dir stem key anchor =
     res_bind (verify_log ac dir stem key) (\<lambda>vo.
     case anchor of
       None \<Rightarrow> Inr vo
     | Some ta \<Rightarrow> res_bind (check_anchor_against_walk ac dir stem ta (vo_active_tip vo)) (\<lambda>_. Inr vo))"

section \<open>Pruning archives\<close>

definition pruned_names :: "string \<Rightarrow> string list \<Rightarrow> string list" where
  "pruned_names stem names =
     (let rotated = filter (is_rotated_sibling stem) names in
      if length rotated \<le> MAX_ROTATED_FILES then [] else take (length rotated - MAX_ROTATED_FILES) (sort rotated))"

definition prune_rotated_files :: "string \<Rightarrow> (string \<times> 'a) list \<Rightarrow> (string \<times> 'a) list" where
  "prune_rotated_files stem dir =
     (let old = pruned_names stem (map fst dir) in
      filter (\<lambda>(name, _). name \<notin> set old \<and> name \<notin> set (map hmac_sidecar_path old)) dir)"

end
