(* ===== verification/Audit_Chain.thy ===== *)
theory Audit_Chain
  imports Audit_Log
begin

text \<open>
  What the audit verifier establishes: a verified log is one hash chain across its files,
  its tip hash determines every entry, the stored anchor keeps every anchored entry in
  place, and the backward line scan does not depend on its chunk size.
\<close>

section \<open>The backward scan\<close>

definition last_line_before :: "string \<Rightarrow> nat \<Rightarrow> string option" where
  "last_line_before contents end_offset =
     (let kept = rstrip (take end_offset contents) in
      if kept = [] then None else Some (strip_line_terminator (after_last_newline kept)))"

lemma rstrip_append: "rstrip (a @ b) = (if rstrip b = [] then rstrip a else a @ rstrip b)"
proof (cases "dropWhile is_ascii_whitespace (rev b) = []")
  case True
  then have "\<forall>x \<in> set (rev b). is_ascii_whitespace x" by (simp only: dropWhile_eq_Nil_conv)
  then have "dropWhile is_ascii_whitespace (rev b @ rev a) = dropWhile is_ascii_whitespace (rev a)"
    by (intro dropWhile_append2) blast
  then show ?thesis using True by (simp add: rstrip_def)
next
  case False
  then obtain x where "x \<in> set (rev b)" "\<not> is_ascii_whitespace x" by (auto simp: dropWhile_eq_Nil_conv)
  then have "dropWhile is_ascii_whitespace (rev b @ rev a) = dropWhile is_ascii_whitespace (rev b) @ rev a"
    by (rule dropWhile_append1)
  then have "rstrip (a @ b) = a @ rstrip b" by (simp add: rstrip_def)
  moreover have "rstrip b \<noteq> []" using False by (simp only: rstrip_def rev_is_Nil_conv simp_thms)
  ultimately show ?thesis by simp
qed

lemma rstrip_idem [simp]: "rstrip (rstrip s) = rstrip s"
  by (simp add: rstrip_def)

lemma rstrip_Nil [simp]: "rstrip [] = []"
  by (simp add: rstrip_def)

lemma after_last_newline_append:
  "after_last_newline (a @ b) = (if newline \<in> set b then after_last_newline b else after_last_newline a @ b)"
proof (cases "newline \<in> set b")
  case True
  then show ?thesis by (simp add: after_last_newline_def takeWhile_append1[of newline])
next
  case False
  then have "takeWhile (\<lambda>c. c \<noteq> newline) (rev b @ rev a) = rev b @ takeWhile (\<lambda>c. c \<noteq> newline) (rev a)"
    by (intro takeWhile_append2) auto
  then show ?thesis using False by (simp add: after_last_newline_def)
qed

lemma after_last_newline_id: "newline \<notin> set s \<Longrightarrow> after_last_newline s = s"
  using after_last_newline_append[of "[]" s] by (simp add: after_last_newline_def)

lemma scan_back_eq:
  assumes "rstrip buf = buf" "newline \<notin> set buf" "scan_end \<le> length contents"
  shows "scan_back contents scan_end buf =
    (let kept = rstrip (take scan_end contents @ buf) in
     if kept = [] then None else Some (strip_line_terminator (after_last_newline kept)))"
  using assms
proof (induction contents scan_end buf rule: scan_back.induct)
  case (1 contents scan_end buf)
  define size where "size = min SCAN_CHUNK scan_end"
  define start where "start = scan_end - size"
  define chunk where "chunk = take size (drop start contents)"
  have split: "take scan_end contents = take start contents @ chunk"
    using take_add[of start size contents] by (simp add: start_def size_def chunk_def)
  have zero: "start = 0 \<Longrightarrow> take scan_end contents = chunk" using split by simp
  have step: "scan_back contents scan_end buf =
      (if rstrip (chunk @ buf) = [] then (if start = 0 then None else scan_back contents start [])
       else if newline \<in> set (rstrip (chunk @ buf)) then Some (strip_line_terminator (after_last_newline (rstrip (chunk @ buf))))
       else if start = 0 then Some (strip_line_terminator (rstrip (chunk @ buf)))
       else scan_back contents start (rstrip (chunk @ buf)))"
    by (subst scan_back.simps) (simp add: Let_def size_def start_def chunk_def)
  have le: "start \<le> length contents" using "1.prems"(3) by (simp add: start_def)
  have whole: "rstrip (take scan_end contents @ buf) =
      (if rstrip (chunk @ buf) = [] then rstrip (take start contents) else take start contents @ rstrip (chunk @ buf))"
    using rstrip_append[of "take start contents" "chunk @ buf"] by (simp add: split)
  consider (blank) "rstrip (chunk @ buf) = []" | (found) "rstrip (chunk @ buf) \<noteq> []" "newline \<in> set (rstrip (chunk @ buf))"
    | (more) "rstrip (chunk @ buf) \<noteq> []" "newline \<notin> set (rstrip (chunk @ buf))" by blast
  then show ?case
  proof cases
    case blank
    show ?thesis
    proof (cases "start = 0")
      case False
      have "scan_back contents start [] =
          (let kept = rstrip (take start contents @ []) in
           if kept = [] then None else Some (strip_line_terminator (after_last_newline kept)))"
        by (rule "1.IH"(1)[OF size_def start_def]) (use blank False le in \<open>simp_all add: chunk_def\<close>)
      then show ?thesis unfolding step whole using blank False by simp
    qed (simp add: step whole blank)
  next
    case found
    then show ?thesis unfolding step whole by (simp add: Let_def after_last_newline_append)
  next
    case more
    show ?thesis
    proof (cases "start = 0")
      case False
      have "scan_back contents start (rstrip (chunk @ buf)) =
          (let kept = rstrip (take start contents @ rstrip (chunk @ buf)) in
           if kept = [] then None else Some (strip_line_terminator (after_last_newline kept)))"
        by (rule "1.IH"(2)[OF size_def start_def]) (use more False le in \<open>simp_all add: chunk_def\<close>)
      then show ?thesis unfolding step whole using more False rstrip_append[of "take start contents" "rstrip (chunk @ buf)"] by (simp add: Let_def)
    qed (use more in \<open>simp add: step whole Let_def after_last_newline_id\<close>)
  qed
qed

lemma read_last_line_before_spec: "read_last_line_before contents end_offset = last_line_before contents end_offset"
proof -
  have "take (min end_offset (length contents)) contents = take end_offset contents" by (simp add: min_def)
  then show ?thesis
    using scan_back_eq[of "[]" "min end_offset (length contents)" contents]
    by (auto simp: read_last_line_before_def last_line_before_def Let_def min_def)
qed

text \<open>
  C28. The chunked backward scan ends, and for every file and offset it returns the
  last line before the offset that is not blank, or nothing where there is none:
  where the chunks fall does not matter.
\<close>

theorem read_last_line_before_eq: "read_last_line_before contents end_offset = last_line_before contents end_offset"
  by (rule read_last_line_before_spec)

section \<open>Hash strings\<close>

lemma hex_nibble_iff: "hex_nibble c = Some n \<longleftrightarrow> n < 16 \<and> c = nibble_to_char n"
proof
  assume *: "hex_nibble c = Some n"
  then have "byte_of c = byte_of (nibble_to_char n)"
    by (auto simp: hex_nibble_def Let_def nibble_to_char_def of_char_bytes split: if_splits)
  then show "n < 16 \<and> c = nibble_to_char n" using * by (auto simp: hex_nibble_def Let_def split: if_splits)
next
  assume "n < 16 \<and> c = nibble_to_char n"
  then show "hex_nibble c = Some n" by (auto simp: hex_nibble_def nibble_to_char_def of_char_bytes Let_def)
qed

lemma hex_nibble_bound: "hex_nibble c = Some n \<Longrightarrow> n < 16"
  by (simp add: hex_nibble_iff)

lemma decode_to_slice_iff: "even (length s) \<Longrightarrow> decode_to_slice s = Some bs \<longleftrightarrow> s = hex_encode bs"
proof (induction s arbitrary: bs rule: decode_to_slice.induct)
  case (1 h l rest)
  have IH: "decode_to_slice rest = Some out \<longleftrightarrow> rest = hex_encode out"
    if "hex_nibble h = Some hi" "hex_nibble l = Some lo" for hi lo out
    using 1 that by simp
  show ?case
  proof (cases bs)
    case Nil
    then show ?thesis by (auto split: option.splits)
  next
    case (Cons b out)
    let ?hi = "byte_of b div 16" and ?lo = "byte_of b mod 16"
    have small: "?hi < 16" "?lo < 16" by (simp_all add: less_mult_imp_div_less)
    have nib: "char_of (hi * 16 + lo) = b \<longleftrightarrow> hi = ?hi \<and> lo = ?lo" if "hi < 16" "lo < 16" for hi lo
    proof
      assume "char_of (hi * 16 + lo) = b"
      then have "byte_of b = hi * 16 + lo" using that of_char_bytes[of "hi * 16 + lo"] by auto
      then show "hi = ?hi \<and> lo = ?lo" using that by simp
    qed simp
    have "decode_to_slice (h # l # rest) = Some bs \<longleftrightarrow>
        hex_nibble h = Some ?hi \<and> hex_nibble l = Some ?lo \<and> decode_to_slice rest = Some out"
      using nib hex_nibble_bound small Cons by (auto split: option.splits)
    also have "\<dots> \<longleftrightarrow> h = nibble_to_char ?hi \<and> l = nibble_to_char ?lo \<and> rest = hex_encode out"
      using IH[of ?hi ?lo out] small by (auto simp: hex_nibble_iff)
    finally show ?thesis using Cons by (simp add: hex_byte_def)
  qed
next
  case "2_1"
  then show ?case by (cases bs) (simp_all add: hex_byte_def)
next
  case "2_2"
  then show ?case by simp
qed

lemma decode_hash_iff: "decode_hash s = Inr bs \<longleftrightarrow> length bs = 32 \<and> s = hash_prefix @ hex_encode bs"
proof
  assume d: "decode_hash s = Inr bs"
  then have p: "starts_with hash_prefix s" and l: "length (drop (length hash_prefix) s) = 64"
    and b: "decode_to_slice (drop (length hash_prefix) s) = Some bs"
    by (auto simp: decode_hash_def Let_def split: if_splits)
  have "drop (length hash_prefix) s = hex_encode bs" using b l by (subst (asm) decode_to_slice_iff) simp_all
  then show "length bs = 32 \<and> s = hash_prefix @ hex_encode bs"
    using p l append_take_drop_id[of "length hash_prefix" s] by (simp add: starts_with_def)
next
  assume "length bs = 32 \<and> s = hash_prefix @ hex_encode bs"
  then show "decode_hash s = Inr bs" by (simp add: decode_hash_def starts_with_def Let_def decode_to_slice_iff)
qed

lemma hex_encode_inject [simp]: "hex_encode a = hex_encode b \<longleftrightarrow> a = b"
proof
  assume "hex_encode a = hex_encode b"
  then have "decode_to_slice (hex_encode a) = Some b" by (simp add: decode_to_slice_iff)
  moreover have "decode_to_slice (hex_encode a) = Some a" by (simp add: decode_to_slice_iff)
  ultimately show "a = b" by simp
qed simp

section \<open>A verified log is one chain\<close>

definition next_hash :: "audit_codec \<Rightarrow> string \<Rightarrow> audit_entry \<Rightarrow> string option" where
  "next_hash ac h e =
     (if ae_previous_entry_hash e \<noteq> h then None
      else case canonical_json_body ac e of
        Inl _ \<Rightarrow> None
      | Inr body \<Rightarrow> (case compute_entry_hash ac body h of Inl _ \<Rightarrow> None | Inr h' \<Rightarrow> Some h'))"

fun chain_end :: "audit_codec \<Rightarrow> string \<Rightarrow> audit_entry list \<Rightarrow> string option" where
  "chain_end ac h [] = Some h"
| "chain_end ac h (e # es) = (case next_hash ac h e of None \<Rightarrow> None | Some h' \<Rightarrow> chain_end ac h' es)"

definition line_entries :: "audit_codec \<Rightarrow> string \<Rightarrow> audit_entry list" where
  "line_entries ac raw =
     (let text = strip_line_terminator raw in
      if trim text = [] then [] else case from_slice ac text of Inl _ \<Rightarrow> [] | Inr e \<Rightarrow> [e])"

definition file_entries :: "audit_codec \<Rightarrow> string \<Rightarrow> audit_entry list" where
  "file_entries ac contents = concat (map (line_entries ac) (raw_lines contents))"

definition entries_of :: "audit_codec \<Rightarrow> audit_dir \<Rightarrow> string list \<Rightarrow> audit_entry list" where
  "entries_of ac dir names =
     concat (map (\<lambda>name. case map_of dir name of Some (Regular contents) \<Rightarrow> file_entries ac contents | _ \<Rightarrow> []) names)"

definition log_entries :: "audit_codec \<Rightarrow> audit_dir \<Rightarrow> string \<Rightarrow> audit_entry list" where
  "log_entries ac dir stem =
     (case collect_file_chain dir stem of Inl _ \<Rightarrow> [] | Inr chain \<Rightarrow> entries_of ac dir chain)"

lemma chain_end_append:
  "chain_end ac h (es @ fs) = (case chain_end ac h es of None \<Rightarrow> None | Some h' \<Rightarrow> chain_end ac h' fs)"
  by (induction es arbitrary: h) (auto split: option.splits)

lemma verify_entry_chain:
  assumes "verify_entry ac dir fc wk line consumed e = Inr wk'"
  shows "next_hash ac (wk_prev_hash wk) e = Some (wk_prev_hash wk')" "wk_entries wk' = wk_entries wk + 1"
  using assms
  by (auto simp: verify_entry_def next_hash_def res_bind_Inr_iff split: sum.splits if_splits)

lemma verify_line_chain:
  assumes "verify_line ac dir fc wk raw = Inr wk'"
  shows "chain_end ac (wk_prev_hash wk) (line_entries ac raw) = Some (wk_prev_hash wk') \<and>
    wk_entries wk' = wk_entries wk + length (line_entries ac raw)"
  using assms verify_entry_chain[of ac dir fc wk]
  by (auto simp: verify_line_def line_entries_def Let_def split: if_splits sum.splits)

lemma verify_lines_chain:
  "verify_lines ac dir fc wk raws = Inr wk' \<Longrightarrow>
   chain_end ac (wk_prev_hash wk) (concat (map (line_entries ac) raws)) = Some (wk_prev_hash wk') \<and>
   wk_entries wk' = wk_entries wk + length (concat (map (line_entries ac) raws))"
proof (induction raws arbitrary: wk)
  case (Cons raw raws)
  then obtain wk1 where wk1: "verify_line ac dir fc wk raw = Inr wk1" "verify_lines ac dir fc wk1 raws = Inr wk'"
    by (auto split: sum.splits)
  from verify_line_chain[OF wk1(1)] Cons.IH[OF wk1(2)] show ?case by (simp add: chain_end_append)
qed simp

lemma verify_single_file_chain:
  assumes "verify_single_file ac dir fc = Inr wk"
  obtains contents where "map_of dir (fc_name fc) = Some (Regular contents)"
    "verify_lines ac dir fc (walk_start fc) (raw_lines contents) = Inr wk"
    "chain_end ac (case fc_initial_prev fc of None \<Rightarrow> ZERO_BLOCK_HASH | Some h \<Rightarrow> h) (file_entries ac contents) =
       Some (wk_prev_hash wk)"
    "wk_entries wk = length (file_entries ac contents)"
proof -
  obtain contents where c: "map_of dir (fc_name fc) = Some (Regular contents)"
    "verify_lines ac dir fc (walk_start fc) (raw_lines contents) = Inr wk"
    using assms by (auto simp: verify_single_file_def open_regular_file_def res_bind_Inr_iff split: option.splits node.splits)
  from verify_lines_chain[OF c(2)] show ?thesis
    using that[OF c] by (simp add: walk_start_def file_entries_def)
qed

lemma verify_files_chain:
  "verify_files ac dir stem key i prev ts vo names = Inr vo' \<Longrightarrow> names \<noteq> [] \<Longrightarrow>
   \<exists>tip. vo_active_tip vo' = Some tip \<and>
     chain_end ac (case prev of None \<Rightarrow> ZERO_BLOCK_HASH | Some h \<Rightarrow> h) (entries_of ac dir names) = Some (vt_tip_hash tip) \<and>
     vo_entries vo' = vo_entries vo + length (entries_of ac dir names)"
proof (induction names arbitrary: i prev ts vo)
  case (Cons name names)
  then obtain fc wk vo1 where wk: "verify_single_file ac dir fc = Inr wk" "fc_name fc = name" "fc_initial_prev fc = prev"
    and rest: "verify_files ac dir stem key (i + 1) (Some (wk_prev_hash wk)) (wk_timestamp wk) vo1 names = Inr vo'"
    and vo1: "vo_entries vo1 = vo_entries vo + wk_entries wk"
      "names = [] \<Longrightarrow> vo_active_tip vo1 =
         Some \<lparr>vt_entry_count = wk_entries wk, vt_tip_hash = wk_prev_hash wk, vt_end_offset = wk_end_offset wk\<rparr>"
    by (auto simp: res_bind_Inr_iff split: if_splits)
  obtain contents where c: "map_of dir name = Some (Regular contents)"
    "chain_end ac (case prev of None \<Rightarrow> ZERO_BLOCK_HASH | Some h \<Rightarrow> h) (file_entries ac contents) = Some (wk_prev_hash wk)"
    "wk_entries wk = length (file_entries ac contents)"
    using verify_single_file_chain[OF wk(1)] wk(2,3) by metis
  show ?case
  proof (cases names)
    case Nil
    then show ?thesis using rest vo1 c by (simp add: entries_of_def)
  next
    case (Cons a b)
    then show ?thesis using Cons.IH[OF rest] vo1(1) c by (auto simp: entries_of_def chain_end_append)
  qed
qed simp

lemma verify_log_chain:
  assumes "verify_log ac dir stem key = Inr vo"
  obtains chain tip where "collect_file_chain dir stem = Inr chain"
    "verify_files ac dir stem key 0 None None (verify_start key) chain = Inr vo"
    "log_entries ac dir stem = entries_of ac dir chain" "vo_active_tip vo = Some tip"
    "chain_end ac ZERO_BLOCK_HASH (log_entries ac dir stem) = Some (vt_tip_hash tip)"
    "vo_entries vo = length (log_entries ac dir stem)"
proof -
  obtain chain where c: "collect_file_chain dir stem = Inr chain"
    "verify_files ac dir stem key 0 None None (verify_start key) chain = Inr vo"
    using assms by (auto simp: verify_log_def res_bind_Inr_iff)
  then have "chain \<noteq> []" by (auto simp: collect_file_chain_def Let_def split: if_splits)
  from verify_files_chain[OF c(2) this] that[OF c] c(1) show ?thesis
    by (auto simp: log_entries_def verify_start_def)
qed

text \<open>
  A log verifies only where its entries, read across the archives and the active
  file, form one hash chain from the fixed starting value to the reported tip, and the
  reported count is the number of these entries.
\<close>

theorem verified_log_is_one_chain:
  assumes "verify_log ac dir stem key = Inr vo"
  shows "\<exists>tip. vo_active_tip vo = Some tip \<and>
    chain_end ac ZERO_BLOCK_HASH (log_entries ac dir stem) = Some (vt_tip_hash tip) \<and>
    vo_entries vo = length (log_entries ac dir stem)"
  using verify_log_chain[OF assms] by metis

section \<open>The tip determines the log\<close>

definition hash_input :: "audit_codec \<Rightarrow> audit_entry \<Rightarrow> string option" where
  "hash_input ac e =
     (case canonical_json_body ac e of
        Inl _ \<Rightarrow> None
      | Inr body \<Rightarrow> (case decode_hash (ae_previous_entry_hash e) of Inl _ \<Rightarrow> None | Inr p \<Rightarrow> Some (body @ p)))"

text \<open>
  SHA-256 fails on two entries of the given logs: their hashed bytes differ and have one
  digest, or an entry hashes to the fixed starting value of a chain.
\<close>

definition hash_clash :: "audit_codec \<Rightarrow> audit_entry list \<Rightarrow> audit_entry list \<Rightarrow> bool" where
  "hash_clash ac es fs \<longleftrightarrow>
     (\<exists>e \<in> set es. \<exists>f \<in> set fs. \<exists>x y. hash_input ac e = Some x \<and> hash_input ac f = Some y \<and> x \<noteq> y \<and>
        ac_sha256 ac x = ac_sha256 ac y) \<or>
     (\<exists>e \<in> set es \<union> set fs. \<exists>x. hash_input ac e = Some x \<and> hash_prefix @ hex_encode (ac_sha256 ac x) = ZERO_BLOCK_HASH)"

lemma next_hash_Some:
  "next_hash ac h e = Some t \<longleftrightarrow>
     (\<exists>body p. ae_previous_entry_hash e = h \<and> canonical_json_body ac e = Inr body \<and> decode_hash h = Inr p \<and>
        hash_input ac e = Some (body @ p) \<and> t = hash_prefix @ hex_encode (ac_sha256 ac (body @ p)))"
  by (auto simp: next_hash_def hash_input_def compute_entry_hash_def res_bind_def split: sum.splits if_splits)

lemma chain_end_snoc:
  "chain_end ac h (es @ [e]) = Some t \<longleftrightarrow> (\<exists>m. chain_end ac h es = Some m \<and> next_hash ac m e = Some t)"
  by (auto simp: chain_end_append split: option.splits)

lemma hash_clash_mono: "hash_clash ac es fs \<Longrightarrow> set es \<subseteq> set es' \<Longrightarrow> set fs \<subseteq> set fs' \<Longrightarrow> hash_clash ac es' fs'"
  unfolding hash_clash_def by blast

lemma same_end_same_bodies:
  "chain_end ac ZERO_BLOCK_HASH es = Some t \<Longrightarrow> chain_end ac ZERO_BLOCK_HASH fs = Some t \<Longrightarrow>
   map (canonical_json_body ac) es = map (canonical_json_body ac) fs \<or> hash_clash ac es fs"
proof (induction es arbitrary: fs t rule: rev_induct)
  case Nil
  show ?case
  proof (cases fs rule: rev_cases)
    case (snoc gs g)
    then obtain x where "hash_input ac g = Some x" "hash_prefix @ hex_encode (ac_sha256 ac x) = ZERO_BLOCK_HASH"
      using Nil by (auto simp: chain_end_snoc next_hash_Some)
    then show ?thesis using snoc by (auto simp: hash_clash_def)
  qed simp
next
  case (snoc e es)
  then obtain m where m: "chain_end ac ZERO_BLOCK_HASH es = Some m" "next_hash ac m e = Some t"
    by (auto simp: chain_end_snoc)
  show ?case
  proof (cases fs rule: rev_cases)
    case Nil
    then obtain x where "hash_input ac e = Some x" "hash_prefix @ hex_encode (ac_sha256 ac x) = ZERO_BLOCK_HASH"
      using m(2) snoc.prems(2) by (auto simp: next_hash_Some)
    then show ?thesis using Nil by (auto simp: hash_clash_def)
  next
    case (snoc gs g)
    then obtain k where k: "chain_end ac ZERO_BLOCK_HASH gs = Some k" "next_hash ac k g = Some t"
      using snoc.prems(2) by (auto simp: chain_end_snoc)
    obtain body p where e: "canonical_json_body ac e = Inr body" "decode_hash m = Inr p"
      "hash_input ac e = Some (body @ p)" "t = hash_prefix @ hex_encode (ac_sha256 ac (body @ p))"
      using m(2) by (auto simp: next_hash_Some)
    obtain body' p' where g: "canonical_json_body ac g = Inr body'" "decode_hash k = Inr p'"
      "hash_input ac g = Some (body' @ p')" "t = hash_prefix @ hex_encode (ac_sha256 ac (body' @ p'))"
      using k(2) by (auto simp: next_hash_Some)
    show ?thesis
    proof (cases "body @ p = body' @ p'")
      case False
      then have "hash_clash ac [e] [g]" using e g by (auto simp: hash_clash_def)
      then show ?thesis using hash_clash_mono[of ac "[e]" "[g]"] snoc by auto
    next
      case True
      then have "body = body'" "p = p'" using e(2) g(2) by (auto simp: decode_hash_iff)
      then have "m = k" using e(2) g(2) by (simp add: decode_hash_iff)
      then have "map (canonical_json_body ac) es = map (canonical_json_body ac) gs \<or> hash_clash ac es gs"
        using snoc.IH[OF m(1)] k(1) by simp
      then show ?thesis
        using \<open>body = body'\<close> e(1) g(1) snoc hash_clash_mono[of ac es gs "es @ [e]" fs] by auto
    qed
  qed
qed

text \<open>
  C26. Two logs that verify and report the same tip hash hold the same entries in the
  same order (equal canonical bodies), whatever their files, or SHA-256 fails on entries
  of these logs.
\<close>

theorem tip_hash_determines_log:
  assumes "verify_log ac dir stem key = Inr vo" "vo_active_tip vo = Some tip"
    and "verify_log ac dir' stem' key' = Inr vo'" "vo_active_tip vo' = Some tip'"
    and "vt_tip_hash tip = vt_tip_hash tip'"
  shows "map (canonical_json_body ac) (log_entries ac dir stem) = map (canonical_json_body ac) (log_entries ac dir' stem') \<or>
    hash_clash ac (log_entries ac dir stem) (log_entries ac dir' stem')"
proof -
  have "chain_end ac ZERO_BLOCK_HASH (log_entries ac dir stem) = Some (vt_tip_hash tip)"
    using verify_log_chain[OF assms(1)] assms(2) by (metis option.inject)
  moreover have "chain_end ac ZERO_BLOCK_HASH (log_entries ac dir' stem') = Some (vt_tip_hash tip)"
    using verify_log_chain[OF assms(3)] assms(4,5) by (metis option.inject)
  ultimately show ?thesis by (rule same_end_same_bodies)
qed

section \<open>The anchored entries stay\<close>

text \<open>
  What the anchor check relies on of the JSON parser for entries: an entry is an object,
  and a text that parses has no shorter prefix that parses as another entry.
\<close>

definition json_laws :: "audit_codec \<Rightarrow> bool" where
  "json_laws ac \<longleftrightarrow>
     (\<forall>s e. from_slice ac s = Inr e \<longrightarrow> CHR ''{'' \<in> set s) \<and>
     (\<forall>s e k e'. from_slice ac s = Inr e \<longrightarrow> from_slice ac (take k s) = Inr e' \<longrightarrow> e' = e)"

lemma brace_not_blank: "CHR ''{'' \<in> set s \<Longrightarrow> trim s \<noteq> []"
proof -
  assume s: "CHR ''{'' \<in> set s"
  have w: "CHR ''{'' \<notin> set w" if "w \<in> set white_space" for w
  proof -
    have "list_all (\<lambda>w. CHR ''{'' \<notin> set w) white_space" by code_simp
    then show ?thesis using that by (simp add: list_all_iff)
  qed
  then have "CHR ''{'' \<in> set (trim s)"
    unfolding trim_def using s by (auto intro!: trim_with_keeps)
  then show ?thesis by auto
qed

lemma raw_lines_append: "A = [] \<or> last A = newline \<Longrightarrow> raw_lines (A @ s) = raw_lines A @ raw_lines s"
proof (induction A)
  case (Cons c A)
  show ?case
  proof (cases "c = newline")
    case False
    then have "A \<noteq> []" "last A = newline" using Cons.prems by (auto split: if_splits)
    then have "raw_lines A \<noteq> []" "raw_lines (A @ s) = raw_lines A @ raw_lines s"
      using Cons.IH by (cases A; auto split: list.splits)+
    then show ?thesis using False by (auto simp: neq_Nil_conv)
  qed (use Cons in \<open>auto split: if_splits\<close>)
qed simp

lemma raw_lines_fragment:
  "newline \<notin> set frag \<Longrightarrow> frag \<noteq> [] \<Longrightarrow> \<exists>B1 rest. raw_lines (frag @ B) = (frag @ B1) # rest"
proof (induction frag)
  case (Cons c frag)
  show ?case
  proof (cases "frag = []")
    case True
    then show ?thesis using Cons.prems by (auto split: list.splits)
  next
    case False
    then obtain B1 rest where "raw_lines (frag @ B) = (frag @ B1) # rest" using Cons by auto
    then show ?thesis using Cons.prems by auto
  qed
qed simp

lemma strip_last_append: "frag \<noteq> [] \<Longrightarrow> last frag \<noteq> c \<Longrightarrow> strip_last c (frag @ B) = frag @ strip_last c B"
  by (auto simp: strip_last_def butlast_append)

lemma strip_fragment:
  "frag \<noteq> [] \<Longrightarrow> \<not> is_ascii_whitespace (last frag) \<Longrightarrow> \<exists>B2. strip_line_terminator (frag @ B) = frag @ B2"
proof -
  assume f: "frag \<noteq> []" "\<not> is_ascii_whitespace (last frag)"
  then have "last frag \<noteq> newline" "last frag \<noteq> carriage_return"
    by (auto simp: is_ascii_whitespace_def newline_def carriage_return_def)
  then show ?thesis using f(1) by (auto simp: strip_line_terminator_def strip_last_append)
qed

lemma strip_clean: "frag \<noteq> [] \<Longrightarrow> \<not> is_ascii_whitespace (last frag) \<Longrightarrow> strip_line_terminator frag = frag"
  by (auto simp: strip_line_terminator_def strip_last_def is_ascii_whitespace_def newline_def carriage_return_def)

lemma rstrip_split:
  assumes "rstrip s \<noteq> []"
  obtains A frag B where "s = A @ frag @ B" "frag = after_last_newline (rstrip s)" "A = [] \<or> last A = newline"
    "newline \<notin> set frag" "frag \<noteq> []" "\<not> is_ascii_whitespace (last frag)"
proof -
  define kept where "kept = rstrip s"
  have "rev s = takeWhile is_ascii_whitespace (rev s) @ rev kept" by (simp add: kept_def rstrip_def)
  then have s: "s = kept @ rev (takeWhile is_ascii_whitespace (rev s))"
    by (metis rev_append rev_rev_ident)
  have last: "\<not> is_ascii_whitespace (last kept)"
    using assms hd_dropWhile[of is_ascii_whitespace "rev s"] by (simp add: kept_def rstrip_def last_rev)
  define A where "A = rev (dropWhile (\<lambda>c. c \<noteq> newline) (rev kept))"
  have "rev kept = takeWhile (\<lambda>c. c \<noteq> newline) (rev kept) @ rev A" by (simp add: A_def)
  then have kept: "kept = A @ after_last_newline kept" unfolding after_last_newline_def by (metis rev_append rev_rev_ident)
  have A: "A = [] \<or> last A = newline"
    using hd_dropWhile[of "\<lambda>c. c \<noteq> newline" "rev kept"] by (auto simp: A_def last_rev)
  have frag: "after_last_newline kept \<noteq> []"
  proof
    assume "after_last_newline kept = []"
    then have "kept = A" using kept by simp
    then show False using A last assms by (auto simp: kept_def is_ascii_whitespace_def newline_def)
  qed
  have no: "newline \<notin> set (after_last_newline kept)"
    by (auto simp: after_last_newline_def dest: set_takeWhileD)
  have "s = A @ after_last_newline kept @ rev (takeWhile is_ascii_whitespace (rev s))"
    using s kept by (metis append.assoc)
  then show ?thesis
    using that[of A "after_last_newline kept"] A no frag last kept
    by (metis (no_types, lifting) kept_def last_appendR)
qed

definition lines_parse :: "audit_codec \<Rightarrow> string \<Rightarrow> bool" where
  "lines_parse ac contents \<longleftrightarrow>
     (\<forall>raw \<in> set (raw_lines contents). trim (strip_line_terminator raw) = [] \<or> (\<exists>e. from_slice ac (strip_line_terminator raw) = Inr e))"

lemma last_line_is_entry:
  assumes "json_laws ac" "lines_parse ac contents" "last_line_before contents off = Some line" "from_slice ac line = Inr e"
  shows "e \<in> set (file_entries ac contents)"
proof -
  let ?s = "take off contents"
  have nonblank: "rstrip ?s \<noteq> []" and line: "line = strip_line_terminator (after_last_newline (rstrip ?s))"
    using assms(3) by (auto simp: last_line_before_def Let_def split: if_splits)
  obtain A frag B where s: "?s = A @ frag @ B" "frag = after_last_newline (rstrip ?s)" "A = [] \<or> last A = newline"
    "newline \<notin> set frag" "frag \<noteq> []" "\<not> is_ascii_whitespace (last frag)" by (rule rstrip_split[OF nonblank])
  have lf: "line = frag" unfolding line s(2)[symmetric] by (rule strip_clean[OF s(5,6)])
  have "contents = A @ frag @ (B @ drop off contents)"
    using s(1) append_take_drop_id[of off contents] by (metis append.assoc)
  moreover obtain B1 rest where "raw_lines (frag @ (B @ drop off contents)) = (frag @ B1) # rest"
    using raw_lines_fragment[OF s(4,5)] by blast
  ultimately have raw: "frag @ B1 \<in> set (raw_lines contents)"
    using raw_lines_append[OF s(3), of "frag @ (B @ drop off contents)"] by (metis in_set_conv_decomp)
  obtain B3 where body: "strip_line_terminator (frag @ B1) = frag @ B3" using strip_fragment[OF s(5,6)] by blast
  have brace: "CHR ''{'' \<in> set frag" using assms(1,4) lf by (auto simp: json_laws_def)
  then have nb: "trim (frag @ B3) \<noteq> []" by (intro brace_not_blank) simp
  then obtain e0 where e0: "from_slice ac (frag @ B3) = Inr e0"
    using assms(2) raw body by (fastforce simp: lines_parse_def)
  have "e = e0"
    using assms(1,4) e0 lf unfolding json_laws_def by (metis append_eq_conv_conj)
  then have "line_entries ac (frag @ B1) = [e]" using nb e0 body by (simp add: line_entries_def Let_def)
  then show ?thesis using raw by (force simp: file_entries_def)
qed

lemma verify_line_parses:
  "verify_line ac dir fc wk raw = Inr wk' \<Longrightarrow>
   trim (strip_line_terminator raw) = [] \<or> (\<exists>e. from_slice ac (strip_line_terminator raw) = Inr e)"
  by (auto simp: verify_line_def Let_def split: if_splits sum.splits)

lemma verify_lines_parse:
  "verify_lines ac dir fc wk raws = Inr wk' \<Longrightarrow>
   \<forall>raw \<in> set raws. trim (strip_line_terminator raw) = [] \<or> (\<exists>e. from_slice ac (strip_line_terminator raw) = Inr e)"
proof (induction raws arbitrary: wk)
  case (Cons raw raws)
  then obtain wk1 where wk1: "verify_line ac dir fc wk raw = Inr wk1" "verify_lines ac dir fc wk1 raws = Inr wk'"
    by (auto split: sum.splits)
  from verify_line_parses[OF wk1(1)] Cons.IH[OF wk1(2)] show ?case by simp
qed simp

lemma verify_files_parse:
  "verify_files ac dir stem key i prev ts vo names = Inr vo' \<Longrightarrow> name \<in> set names \<Longrightarrow>
   \<exists>contents. map_of dir name = Some (Regular contents) \<and> lines_parse ac contents"
proof (induction names arbitrary: i prev ts vo)
  case (Cons a names)
  then obtain fc wk vo1 where wk: "verify_single_file ac dir fc = Inr wk" "fc_name fc = a"
    and rest: "verify_files ac dir stem key (i + 1) (Some (wk_prev_hash wk)) (wk_timestamp wk) vo1 names = Inr vo'"
    by (auto simp: res_bind_Inr_iff split: if_splits)
  obtain contents where "map_of dir a = Some (Regular contents)"
    "verify_lines ac dir fc (walk_start fc) (raw_lines contents) = Inr wk"
    using verify_single_file_chain[OF wk(1)] wk(2) by metis
  then have "map_of dir a = Some (Regular contents) \<and> lines_parse ac contents"
    using verify_lines_parse unfolding lines_parse_def by blast
  then show ?case using Cons.IH[OF rest] Cons.prems(2) by auto
qed simp

lemma chain_prefix_at:
  assumes "chain_end ac h es = Some t" "e \<in> set es" "next_hash ac (ae_previous_entry_hash e) e = Some u"
  shows "\<exists>pre post. es = pre @ post \<and> chain_end ac h pre = Some u"
proof -
  obtain a b where es: "es = a @ e # b" using assms(2) by (meson split_list)
  then obtain m v where m: "chain_end ac h a = Some m" "next_hash ac m e = Some v"
    using assms(1) by (auto simp: chain_end_append split: option.splits)
  then have "ae_previous_entry_hash e = m" by (auto simp: next_hash_def split: if_splits)
  then have "chain_end ac h (a @ [e]) = Some u" using m assms(3) by (simp add: chain_end_append)
  then show ?thesis using es by (intro exI[of _ "a @ [e]"] exI[of _ b]) simp
qed

lemma streamed_hash:
  "compute_entry_hash_streamed ac e (ae_previous_entry_hash e) = Inr u \<longleftrightarrow> next_hash ac (ae_previous_entry_hash e) e = Some u"
  by (auto simp: compute_entry_hash_streamed_def next_hash_def compute_entry_hash_def split: sum.splits)

lemma anchored_entry_intactD:
  assumes "anchored_entry_is_intact ac dir stem ta = Inr True"
  obtains contents line e where "map_of dir stem = Some (Regular contents)"
    "read_last_line_before contents (ta_end_offset ta) = Some line" "from_slice ac line = Inr e"
    "next_hash ac (ae_previous_entry_hash e) e = Some (ta_tip_hash ta)"
proof -
  note defs = anchored_entry_is_intact_def open_regular_file_def
  obtain contents where c: "map_of dir stem = Some (Regular contents)"
    using assms by (cases "map_of dir stem") (auto simp: defs split: node.splits)
  obtain line where l: "read_last_line_before contents (ta_end_offset ta) = Some line"
    using assms c by (cases "read_last_line_before contents (ta_end_offset ta)") (auto simp: defs)
  obtain e where e: "from_slice ac line = Inr e"
    using assms c l by (cases "from_slice ac line") (auto simp: defs)
  have "next_hash ac (ae_previous_entry_hash e) e = Some (ta_tip_hash ta)"
    using assms c l e by (auto simp: defs next_hash_def split: sum.splits)
  then show ?thesis using that c l e by blast
qed

lemma accepted_anchor_in_chain:
  assumes laws: "json_laws ac" and v: "verify_log ac dir stem key = Inr vo"
    and ok: "check_anchor_against_walk ac dir stem ta (vo_active_tip vo) = Inr ()"
  shows "\<exists>pre post. log_entries ac dir stem = pre @ post \<and> chain_end ac ZERO_BLOCK_HASH pre = Some (ta_tip_hash ta)"
proof -
  obtain chain tip where c: "collect_file_chain dir stem = Inr chain"
    "verify_files ac dir stem key 0 None None (verify_start key) chain = Inr vo"
    "log_entries ac dir stem = entries_of ac dir chain" "vo_active_tip vo = Some tip"
    "chain_end ac ZERO_BLOCK_HASH (log_entries ac dir stem) = Some (vt_tip_hash tip)"
    by (rule verify_log_chain[OF v])
  have found: ?thesis if "name \<in> set chain" "map_of dir name = Some (Regular contents)"
    "read_last_line_before contents off = Some line" "from_slice ac line = Inr e"
    "next_hash ac (ae_previous_entry_hash e) e = Some (ta_tip_hash ta)" for name contents off line e
  proof -
    have "lines_parse ac contents" using verify_files_parse[OF c(2) that(1)] that(2) by auto
    then have "e \<in> set (file_entries ac contents)"
      using last_line_is_entry[OF laws] that(3,4) by (simp add: read_last_line_before_spec)
    then have "e \<in> set (log_entries ac dir stem)" using that(1,2) unfolding c(3) entries_of_def by force
    then show ?thesis by (rule chain_prefix_at[OF c(5) _ that(5)])
  qed
  have start: ?thesis if "ta_tip_hash ta = ZERO_BLOCK_HASH"
    using that by (intro exI[of _ "[]"] exI[of _ "log_entries ac dir stem"]) simp
  have stem: "stem \<in> set chain" using c(1) by (auto simp: collect_file_chain_def Let_def split: if_splits)
  consider (tip) "matches_tip ta tip" | (handoff) "anchor_names_the_rotation_handoff ac dir stem ta"
    | (intact) "anchored_entry_is_intact ac dir stem ta = Inr True"
    using ok c(4) by (auto simp: check_anchor_against_walk_def Let_def res_bind_Inr_iff split: if_splits)
  then show ?thesis
  proof cases
    case tip
    then show ?thesis using c(5) by (intro exI[of _ "log_entries ac dir stem"] exI[of _ "[]"]) (simp add: matches_tip_def)
  next
    case intact
    then obtain contents line e where "map_of dir stem = Some (Regular contents)"
      "read_last_line_before contents (ta_end_offset ta) = Some line" "from_slice ac line = Inr e"
      "next_hash ac (ae_previous_entry_hash e) e = Some (ta_tip_hash ta)"
      by (rule anchored_entry_intactD)
    then show ?thesis by (rule found[OF stem])
  next
    case handoff
    then have seed: "initial_chain_seed ac dir stem = Inr (ta_tip_hash ta)"
      by (simp add: anchor_names_the_rotation_handoff_def)
    show ?thesis
    proof (cases "ta_tip_hash ta = ZERO_BLOCK_HASH")
      case False
      then have two: "\<not> length chain < 2" using seed c(1) by (auto simp: initial_chain_seed_def)
      let ?name = "chain ! (length chain - 2)"
      have "?name \<in> set chain" using two by (intro nth_mem) simp
      moreover obtain contents line e where "map_of dir ?name = Some (Regular contents)"
        "read_last_line_before contents (length contents) = Some line" "from_slice ac line = Inr e"
        "compute_entry_hash_streamed ac e (ae_previous_entry_hash e) = Inr (ta_tip_hash ta)"
        using seed c(1) two False
        by (auto simp: initial_chain_seed_def Let_def split: option.splits node.splits sum.splits event_kind.splits if_splits)
      ultimately show ?thesis using found by (simp add: streamed_hash)
    qed (rule start)
  qed
qed

text \<open>
  C25. Once an anchor records the tip of a verified log, every later log that verifies
  against the anchor starts with exactly the entries of that log: none of them can be
  removed, changed or reordered, through appends and rotations, unless SHA-256 fails on
  entries of the two logs.
\<close>

theorem anchored_entries_stay:
  assumes "json_laws ac"
    and "verify_log ac dir stem key = Inr vo" "vo_active_tip vo = Some tip" "ta_tip_hash ta = vt_tip_hash tip"
    and "verify_log_with_anchor ac dir' stem' key' (Some ta) = Inr vo'"
  shows "(\<exists>later. map (canonical_json_body ac) (log_entries ac dir' stem') =
      map (canonical_json_body ac) (log_entries ac dir stem) @ later) \<or>
    hash_clash ac (log_entries ac dir stem) (log_entries ac dir' stem')"
proof -
  have "verify_log ac dir' stem' key' = Inr vo'" "check_anchor_against_walk ac dir' stem' ta (vo_active_tip vo') = Inr ()"
    using assms(5) by (auto simp: verify_log_with_anchor_def res_bind_Inr_iff)
  then obtain pre post where p: "log_entries ac dir' stem' = pre @ post" "chain_end ac ZERO_BLOCK_HASH pre = Some (ta_tip_hash ta)"
    using accepted_anchor_in_chain[OF assms(1)] by blast
  have "chain_end ac ZERO_BLOCK_HASH (log_entries ac dir stem) = Some (ta_tip_hash ta)"
    using verify_log_chain[OF assms(2)] assms(3,4) by (metis option.inject)
  from same_end_same_bodies[OF this p(2)] show ?thesis
  proof
    assume "hash_clash ac (log_entries ac dir stem) pre"
    then show ?thesis using hash_clash_mono[of ac _ pre _ "pre @ post"] p(1) by auto
  qed (use p(1) in auto)
qed

section \<open>Pruning and the chain\<close>

lemma sibling_name: "is_rotated_sibling stem name \<Longrightarrow> \<exists>suffix. name = stem @ CHR ''.'' # suffix"
proof -
  assume "is_rotated_sibling stem name"
  then have "starts_with (stem @ ''.'') name" by (auto simp: is_rotated_sibling_def split: if_splits)
  then have "name = (stem @ ''.'') @ drop (length stem + 1) name"
    using append_take_drop_id[of "length stem + 1" name] by (simp add: starts_with_def)
  then show ?thesis by auto
qed

lemma stem_not_sibling: "\<not> is_rotated_sibling stem stem"
proof
  assume "is_rotated_sibling stem stem"
  from sibling_name[OF this] show False by auto
qed

lemma sidecar_not_sibling:
  assumes "is_rotated_sibling stem name"
  shows "\<not> is_rotated_sibling stem (hmac_sidecar_path name)"
proof -
  obtain suffix where n: "name = stem @ CHR ''.'' # suffix" using sibling_name[OF assms] by blast
  let ?s = "suffix @ ''.root_hmac''"
  have sib: "is_rotated_sibling stem (hmac_sidecar_path name) \<longleftrightarrow>
      (case split_once (CHR ''-'') ?s of
         None \<Rightarrow> compact_stamp ?s
       | Some (base, collision) \<Rightarrow>
           collision \<noteq> [] \<and> list_all is_digit collision \<and> length base = 18 \<and> compact_stamp base)"
    by (simp add: n is_rotated_sibling_def hmac_sidecar_path_def starts_with_def Let_def)
  have c: "\<not> is_digit (CHR ''c'')" by (simp add: is_digit_def)
  show ?thesis
  proof (cases "split_once (CHR ''-'') ?s")
    case None
    have "\<not> compact_stamp ?s"
    proof
      assume "compact_stamp ?s"
      then have "list_all is_digit (drop 9 ?s)" "15 \<le> length ?s" by (auto simp: compact_stamp_def)
      moreover from this(2) have "drop 9 ?s \<noteq> []" unfolding drop_eq_Nil by linarith
      moreover from \<open>15 \<le> length ?s\<close> have "last (drop 9 ?s) = CHR ''c''" by (subst last_drop) simp_all
      ultimately show False using c last_in_set[of "drop 9 ?s"] unfolding list_all_iff by fastforce
    qed
    then show ?thesis using sib None by simp
  next
    case (Some p)
    then obtain base collision where p: "p = (base, collision)" "?s = base @ CHR ''-'' # collision"
      by (cases p) (auto dest: split_once_SomeD)
    have "collision \<noteq> [] \<Longrightarrow> last collision = CHR ''c''"
      using arg_cong[OF p(2), of last] by simp
    then show ?thesis using sib Some p(1) c by (auto simp: list_all_iff dest: last_in_set)
  qed
qed

lemma pruned_chain:
  assumes "distinct (map fst dir)" "collect_file_chain dir stem = Inr chain"
  shows "collect_file_chain (prune_rotated_files stem dir) stem = Inr (drop (length (pruned_names stem (map fst dir))) chain)"
    and "chain = pruned_names stem (map fst dir) @ drop (length (pruned_names stem (map fst dir))) chain"
proof -
  let ?rot = "filter (is_rotated_sibling stem) (map fst dir)" and ?old = "pruned_names stem (map fst dir)"
  define k where "k = (if length ?rot \<le> MAX_ROTATED_FILES then 0 else length ?rot - MAX_ROTATED_FILES)"
  have k: "?old = take k (sort ?rot)" "k \<le> length (sort ?rot)"
    by (simp_all add: pruned_names_def Let_def k_def)
  have chain: "chain = sort ?rot @ [stem]" and cap: "length ?rot \<le> ROTATED_FILE_CHAIN_CAP"
    using assms(2) by (auto simp: collect_file_chain_def Let_def split: if_splits)
  show "chain = ?old @ drop (length ?old) chain" using k by (simp add: chain)
  have sib: "set ?old \<subseteq> {n. is_rotated_sibling stem n}" using k(1) set_take_subset[of k "sort ?rot"] by auto
  have names: "map fst (prune_rotated_files stem dir) =
      filter (\<lambda>n. n \<notin> set ?old \<and> n \<notin> set (map hmac_sidecar_path ?old)) (map fst dir)"
    by (simp add: prune_rotated_files_def Let_def filter_map comp_def case_prod_unfold)
  have "filter (is_rotated_sibling stem) (map fst (prune_rotated_files stem dir)) = filter (\<lambda>n. n \<notin> set ?old) ?rot"
    unfolding names filter_filter by (rule filter_cong[OF refl]) (use sib sidecar_not_sibling in auto)
  moreover have "sort (filter (\<lambda>n. n \<notin> set ?old) ?rot) = filter (\<lambda>n. n \<notin> set ?old) (sort ?rot)"
    by (simp only: filter_sort)
  moreover have "filter (\<lambda>n. n \<notin> set (take k (sort ?rot))) (sort ?rot) = drop k (sort ?rot)"
  proof -
    have "distinct (take k (sort ?rot) @ drop k (sort ?rot))" using assms(1) by (simp add: distinct_map_filter)
    then have "filter (\<lambda>n. n \<notin> set (take k (sort ?rot))) (take k (sort ?rot) @ drop k (sort ?rot)) = drop k (sort ?rot)"
      by (auto simp: filter_id_conv simp del: append_take_drop_id)
    then show ?thesis by simp
  qed
  moreover have "length (filter (\<lambda>n. n \<notin> set ?old) ?rot) \<le> length ?rot" by (rule length_filter_le)
  ultimately show "collect_file_chain (prune_rotated_files stem dir) stem = Inr (drop (length ?old) chain)"
    using cap k by (simp add: collect_file_chain_def Let_def chain)
qed

lemma map_of_filter_name: "P name \<Longrightarrow> map_of (filter (\<lambda>(n, _). P n) dir) name = map_of dir name"
  by (induction dir) auto

lemma verify_lines_mismatch:
  "verify_lines ac dir fc wk raws = Inr wk' \<Longrightarrow> concat (map (line_entries ac) raws) \<noteq> [] \<Longrightarrow>
   wk_prev_hash wk1 \<noteq> wk_prev_hash wk \<Longrightarrow>
   \<exists>line. verify_lines ac dir1 fc1 wk1 raws = Inl (ChainBroken line (fc_name fc1) ''previous_entry_hash_mismatch'')"
proof (induction raws arbitrary: wk wk1)
  case (Cons raw raws)
  then obtain wk2 where wk2: "verify_line ac dir fc wk raw = Inr wk2" "verify_lines ac dir fc wk2 raws = Inr wk'"
    by (auto split: sum.splits)
  let ?text = "strip_line_terminator raw"
  have utf8: "utf8_valid ?text" using wk2(1) by (auto simp: verify_line_def Let_def split: if_splits)
  show ?case
  proof (cases "trim ?text = []")
    case True
    then have "wk_prev_hash wk2 = wk_prev_hash wk" using wk2(1) utf8 by (auto simp: verify_line_def Let_def)
    moreover have "concat (map (line_entries ac) raws) \<noteq> []" using Cons.prems(2) True by (simp add: line_entries_def)
    ultimately show ?thesis
      using True utf8 Cons.IH[OF wk2(2), of "wk1\<lparr>wk_consumed := sat_add_u64 (wk_consumed wk1) (length raw), wk_line := wk_line wk1 + 1\<rparr>"]
        Cons.prems(3) by (simp add: verify_line_def Let_def)
  next
    case False
    then obtain e where e: "from_slice ac ?text = Inr e" using verify_line_parses[OF wk2(1)] by blast
    then obtain ms where "parse_audit_timestamp_ms (ae_ts e) = Inr ms" "ae_previous_entry_hash e = wk_prev_hash wk"
      using wk2(1) utf8 False by (auto simp: verify_line_def verify_entry_def Let_def split: sum.splits if_splits)
    then have "verify_line ac dir1 fc1 wk1 raw = Inl (ChainBroken (wk_line wk1 + 1) (fc_name fc1) ''previous_entry_hash_mismatch'')"
      using e utf8 False Cons.prems(3) by (simp add: verify_line_def verify_entry_def Let_def)
    then show ?thesis by simp
  qed
qed simp

lemma verify_files_at:
  "verify_files ac dir stem key i prev ts vo (old @ b # rest) = Inr vo' \<Longrightarrow>
   \<exists>prev' fc wk j. chain_end ac (case prev of None \<Rightarrow> ZERO_BLOCK_HASH | Some h \<Rightarrow> h) (entries_of ac dir old) =
       Some (case prev' of None \<Rightarrow> ZERO_BLOCK_HASH | Some h \<Rightarrow> h) \<and>
     fc_name fc = b \<and> fc_initial_prev fc = prev' \<and> verify_single_file ac dir fc = Inr wk"
proof (induction old arbitrary: i prev ts vo)
  case Nil
  then obtain fc wk where "verify_single_file ac dir fc = Inr wk" "fc_name fc = b" "fc_initial_prev fc = prev"
    by (auto simp: res_bind_Inr_iff split: if_splits)
  then show ?case by (force simp: entries_of_def)
next
  case (Cons a old)
  then obtain fc wk vo1 where wk: "verify_single_file ac dir fc = Inr wk" "fc_name fc = a" "fc_initial_prev fc = prev"
    and rest: "verify_files ac dir stem key (i + 1) (Some (wk_prev_hash wk)) (wk_timestamp wk) vo1 (old @ b # rest) = Inr vo'"
    by (auto simp: res_bind_Inr_iff split: if_splits)
  obtain contents where "map_of dir a = Some (Regular contents)"
    "chain_end ac (case prev of None \<Rightarrow> ZERO_BLOCK_HASH | Some h \<Rightarrow> h) (file_entries ac contents) = Some (wk_prev_hash wk)"
    using verify_single_file_chain[OF wk(1)] wk(2,3) by metis
  then show ?case using Cons.IH[OF rest] by (simp add: entries_of_def chain_end_append)
qed

lemma archive_has_entry:
  assumes "verify_single_file ac dir fc = Inr wk" "fc_this_basename fc \<noteq> None"
  shows "wk_entries wk \<noteq> 0"
proof
  assume none: "wk_entries wk = 0"
  have keep: "verify_lines ac dir fc wk0 raws = Inr wk1 \<Longrightarrow> wk_entries wk1 = 0 \<Longrightarrow> wk_handoff wk1 = wk_handoff wk0" for raws wk0 wk1
  proof (induction raws arbitrary: wk0)
    case (Cons raw raws)
    then obtain wk2 where wk2: "verify_line ac dir fc wk0 raw = Inr wk2" "verify_lines ac dir fc wk2 raws = Inr wk1"
      by (auto split: sum.splits)
    have "wk_entries wk2 = 0" using verify_lines_chain[OF wk2(2)] Cons.prems(2) by simp
    then have "wk_handoff wk2 = wk_handoff wk0"
      using wk2(1) verify_entry_chain(2)[of ac dir fc wk0]
      by (fastforce simp: verify_line_def Let_def split: if_splits sum.splits)
    then show ?case using Cons.IH[OF wk2(2)] Cons.prems(2) by simp
  qed simp
  obtain contents where "verify_lines ac dir fc (walk_start fc) (raw_lines contents) = Inr wk"
    "check_handoff fc (wk_handoff wk) = Inr ()"
    using assms(1) by (auto simp: verify_single_file_def res_bind_Inr_iff)
  then show False using keep none assms(2) by (auto simp: walk_start_def check_handoff_def split: option.splits)
qed

lemma chain_end_not_start:
  assumes "chain_end ac ZERO_BLOCK_HASH es = Some ZERO_BLOCK_HASH" "es \<noteq> []"
  shows "hash_clash ac es fs"
proof -
  obtain ds e where es: "es = ds @ [e]" using assms(2) by (cases es rule: rev_cases) auto
  then obtain x where "hash_input ac e = Some x" "hash_prefix @ hex_encode (ac_sha256 ac x) = ZERO_BLOCK_HASH"
    using assms(1) by (auto simp: chain_end_snoc next_hash_Some)
  then show ?thesis using es by (auto simp: hash_clash_def)
qed

lemma pruned_keeps:
  assumes "collect_file_chain (prune_rotated_files stem dir) stem = Inr (b # rest)"
  shows "b \<notin> set (pruned_names stem (map fst dir)) \<and> b \<notin> set (map hmac_sidecar_path (pruned_names stem (map fst dir)))"
proof -
  have sib: "n \<in> set (pruned_names stem (map fst dir)) \<Longrightarrow> is_rotated_sibling stem n" for n
    by (auto simp: pruned_names_def Let_def split: if_splits dest!: in_set_takeD)
  have "b = stem \<or> b \<in> fst ` set (prune_rotated_files stem dir)"
  proof -
    have "sort (filter (is_rotated_sibling stem) (map fst (prune_rotated_files stem dir))) @ [stem] = b # rest"
      using assms by (auto simp: collect_file_chain_def Let_def split: if_splits)
    then have "b \<in> set (sort (filter (is_rotated_sibling stem) (map fst (prune_rotated_files stem dir))) @ [stem])" by simp
    then show ?thesis by auto
  qed
  then show ?thesis
  proof
    assume "b = stem"
    moreover have "stem \<noteq> hmac_sidecar_path n" if "is_rotated_sibling stem n" for n
      using sibling_name[OF that] by (auto simp: hmac_sidecar_path_def)
    ultimately show ?thesis using sib stem_not_sibling by auto
  qed (auto simp: prune_rotated_files_def Let_def)
qed

definition first_context :: "string \<Rightarrow> string option \<Rightarrow> string \<Rightarrow> bool \<Rightarrow> file_context" where
  "first_context name key stem only =
     \<lparr>fc_name = name, fc_hmac_key = key, fc_initial_prev = None, fc_this_basename = (if only then None else Some name),
      fc_is_last = only, fc_stem = stem, fc_index = 0, fc_previous_timestamp = None\<rparr>"

text \<open>
  C27. Pruning an archive breaks verification: where a log verifies, holds more than ten
  archives and the oldest archive that pruning keeps has an entry, the pruned log is
  reported as a broken chain at that archive, although no entry was tampered with, unless
  an entry hashes to the fixed starting value.
\<close>

theorem pruning_breaks_verification:
  assumes v: "verify_log ac dir stem key = Inr vo" and names: "distinct (map fst dir)"
    and old: "pruned_names stem (map fst dir) \<noteq> []"
    and b: "collect_file_chain (prune_rotated_files stem dir) stem = Inr (b # rest)"
    and entry: "entries_of ac dir [b] \<noteq> []"
  shows "(\<exists>line. verify_log ac (prune_rotated_files stem dir) stem key =
      Inl (ChainBroken line b ''previous_entry_hash_mismatch'')) \<or> hash_clash ac (log_entries ac dir stem) []"
proof -
  let ?old = "pruned_names stem (map fst dir)" and ?dir = "prune_rotated_files stem dir"
  obtain chain where c: "collect_file_chain dir stem = Inr chain" "log_entries ac dir stem = entries_of ac dir chain"
    "verify_files ac dir stem key 0 None None (verify_start key) chain = Inr vo" by (rule verify_log_chain[OF v])
  have chain: "chain = ?old @ b # rest" using pruned_chain[OF names c(1)] b by simp
  obtain prev fc wk where at: "chain_end ac ZERO_BLOCK_HASH (entries_of ac dir ?old) =
      Some (case prev of None \<Rightarrow> ZERO_BLOCK_HASH | Some h \<Rightarrow> h)"
    "fc_name fc = b" "fc_initial_prev fc = prev" "verify_single_file ac dir fc = Inr wk"
    using verify_files_at[OF c(3)[unfolded chain]] by auto
  obtain contents where contents: "map_of dir b = Some (Regular contents)"
    "verify_lines ac dir fc (walk_start fc) (raw_lines contents) = Inr wk"
    using verify_single_file_chain[OF at(4)] at(2) by metis
  obtain a ds where a: "?old = a # ds" using old by (cases ?old) auto
  show ?thesis
  proof (cases "(case prev of None \<Rightarrow> ZERO_BLOCK_HASH | Some h \<Rightarrow> h) = ZERO_BLOCK_HASH")
    case True
    obtain fc0 wk0 where f: "verify_single_file ac dir fc0 = Inr wk0" "fc_name fc0 = a" "fc_this_basename fc0 \<noteq> None"
      using c(3) unfolding chain a by (auto simp: res_bind_Inr_iff split: if_splits)
    obtain contents0 where "map_of dir a = Some (Regular contents0)" "wk_entries wk0 = length (file_entries ac contents0)"
      using verify_single_file_chain[OF f(1)] f(2) by metis
    then have "entries_of ac dir ?old \<noteq> []" using archive_has_entry[OF f(1,3)] a by (simp add: entries_of_def)
    then have "hash_clash ac (entries_of ac dir ?old) []" using chain_end_not_start at(1) True by simp
    then show ?thesis using hash_clash_mono[of ac "entries_of ac dir ?old" "[]"] by (simp add: c(2) chain entries_of_def)
  next
    case False
    have "map_of ?dir b = map_of dir b"
      unfolding prune_rotated_files_def Let_def by (rule map_of_filter_name) (use pruned_keeps[OF b] in simp)
    then have look: "map_of ?dir b = Some (Regular contents)" using contents(1) by simp
    have "concat (map (line_entries ac) (raw_lines contents)) \<noteq> []"
      using entry contents(1) by (simp add: entries_of_def file_entries_def)
    moreover have "wk_prev_hash (walk_start fc) \<noteq> ZERO_BLOCK_HASH" using False at(3) by (simp add: walk_start_def)
    ultimately have bad: "\<exists>line. verify_lines ac ?dir fc1 (walk_start fc1) (raw_lines contents) =
        Inl (ChainBroken line (fc_name fc1) ''previous_entry_hash_mismatch'')" if "fc_initial_prev fc1 = None" for fc1
      using verify_lines_mismatch[OF contents(2)] that by (simp add: walk_start_def)
    obtain line where "verify_lines ac ?dir (first_context b key stem (rest = [])) (walk_start (first_context b key stem (rest = [])))
        (raw_lines contents) = Inl (ChainBroken line b ''previous_entry_hash_mismatch'')"
      using bad[of "first_context b key stem (rest = [])"] by (auto simp: first_context_def)
    then have "verify_files ac ?dir stem key 0 None None (verify_start key) (b # rest) =
        Inl (ChainBroken line b ''previous_entry_hash_mismatch'')"
      using look by (cases rest) (simp_all add: verify_single_file_def open_regular_file_def first_context_def)
    then show ?thesis using b by (auto simp: verify_log_def)
  qed
qed

end
