(* ===== verification/Audit_Witness.thy ===== *)
theory Audit_Witness
  imports Audit_Chain
begin

text \<open>
  A concrete codec and concrete logs for the properties of the audit verifier.  An entry
  is an object that holds its identifier and the previous hash.
\<close>

section \<open>A codec\<close>

definition sample_ts :: string where "sample_ts = ''1970-01-01T00:00:00.000Z''"

definition sample_entry :: "string \<Rightarrow> string \<Rightarrow> audit_entry" where
  "sample_entry ident prev =
     (internal_entry sample_ts ''t'' ident
        (if starts_with ''h:'' ident then AuditRotationHandoff (drop 2 ident) else OtherEvent ident))
     \<lparr>ae_previous_entry_hash := prev\<rparr>"

definition sample_text :: "string \<Rightarrow> string \<Rightarrow> string" where
  "sample_text ident prev = CHR ''{'' # ident @ CHR '' '' # prev @ ''}''"

definition sample_from_slice :: "string \<Rightarrow> (string, audit_entry) result" where
  "sample_from_slice s =
     (case s of
        [] \<Rightarrow> Inl ''eof''
      | c # rest \<Rightarrow>
          if c \<noteq> CHR ''{'' \<or> rest = [] \<or> last rest \<noteq> CHR ''}'' \<or> CHR ''}'' \<in> set (butlast rest) then Inl ''syntax''
          else case split_once (CHR '' '') (butlast rest) of
            None \<Rightarrow> Inl ''syntax''
          | Some (ident, prev) \<Rightarrow> Inr (sample_entry ident prev))"

definition sample_audit_codec :: "(string \<Rightarrow> string) \<Rightarrow> audit_codec" where
  "sample_audit_codec sha =
     \<lparr>to_vec = (\<lambda>e. Inr (sample_text (ae_request_id e) (ae_previous_entry_hash e))),
      from_slice = sample_from_slice, utf8_error = id, ac_sha256 = sha, ac_hmac = (\<lambda>key body. replicate 32 CHR ''m'')\<rparr>"

lemma sample_from_slice_take:
  assumes "sample_from_slice s = Inr e" "sample_from_slice (take k s) = Inr e'"
  shows "e' = e"
proof -
  obtain rest where s: "s = CHR ''{'' # rest" "rest \<noteq> []" "CHR ''}'' \<notin> set (butlast rest)"
    using assms(1) by (auto simp: sample_from_slice_def split: list.splits if_splits)
  obtain j where j: "k = Suc j" using assms(2) s(1) by (cases k) (auto simp: sample_from_slice_def)
  then have t: "take j rest \<noteq> []" "last (take j rest) = CHR ''}''"
    using assms(2) s(1) by (auto simp: sample_from_slice_def split: if_splits)
  have "\<not> j < length rest"
  proof
    assume "j < length rest"
    then have "take j rest = take j (butlast rest)" by (simp add: take_butlast)
    then have "last (take j rest) \<in> set (butlast rest)" using t(1) last_in_set in_set_takeD by metis
    then show False using t(2) s(3) by simp
  qed
  then have "take k s = s" using j s(1) by simp
  then show ?thesis using assms by simp
qed

lemma sample_json_laws: "json_laws (sample_audit_codec sha)"
  unfolding json_laws_def
proof (intro conjI allI impI)
  fix s e assume "from_slice (sample_audit_codec sha) s = Inr e"
  then show "CHR ''{'' \<in> set s"
    by (auto simp: sample_audit_codec_def sample_from_slice_def split: list.splits if_splits)
next
  fix s e k e' assume "from_slice (sample_audit_codec sha) s = Inr e" "from_slice (sample_audit_codec sha) (take k s) = Inr e'"
  then show "e' = e" by (simp add: sample_audit_codec_def sample_from_slice_take)
qed

section \<open>Lines of plain text\<close>

lemma ascii_utf8_valid: "(\<And>c. c \<in> set s \<Longrightarrow> byte_of c < 128) \<Longrightarrow> utf8_valid s"
proof (induction s)
  case (Cons c s)
  have "byte_of c < 128" using Cons.prems by simp
  then have "utf8_width (c # s) = Some 1" by (simp add: utf8_width_def in_bytes_def)
  then show ?case using Cons by (subst utf8_valid.simps) simp
qed (simp add: utf8_valid.simps)

lemma raw_line_single: "newline \<notin> set t \<Longrightarrow> raw_lines (t @ newline # rest) = (t @ [newline]) # raw_lines rest"
  by (induction t) auto

definition plain :: "string \<Rightarrow> bool" where
  "plain s \<longleftrightarrow> list_all (\<lambda>c. byte_of c < 128 \<and> c \<noteq> newline \<and> c \<noteq> CHR '' '' \<and> c \<noteq> CHR ''}'') s"

lemma plain_append [simp]: "plain (a @ b) \<longleftrightarrow> plain a \<and> plain b"
  by (simp add: plain_def)

lemma sample_parse:
  assumes "plain ident" "plain prev"
  shows "sample_from_slice (sample_text ident prev) = Inr (sample_entry ident prev)"
proof -
  have "CHR '' '' \<notin> set ident" "CHR ''}'' \<notin> set ident" "CHR ''}'' \<notin> set prev"
    using assms by (auto simp: plain_def list_all_iff)
  then show ?thesis by (simp add: sample_from_slice_def sample_text_def butlast_append split_once_append)
qed

lemma sample_text_line:
  assumes "plain ident" "plain prev"
  shows "newline \<notin> set (sample_text ident prev)"
    "strip_line_terminator (sample_text ident prev @ [newline]) = sample_text ident prev"
    "utf8_valid (sample_text ident prev)" "trim (sample_text ident prev) \<noteq> []"
proof -
  have n: "newline \<notin> set ident" "newline \<notin> set prev" using assms by (auto simp: plain_def list_all_iff)
  then show "newline \<notin> set (sample_text ident prev)" by (simp add: sample_text_def newline_def)
  have last: "last (sample_text ident prev) = CHR ''}''" by (simp add: sample_text_def)
  show "strip_line_terminator (sample_text ident prev @ [newline]) = sample_text ident prev"
    using last by (simp add: strip_line_terminator_def strip_last_def carriage_return_def)
  have byte: "c \<in> set ident \<Longrightarrow> byte_of c < 128" "c \<in> set prev \<Longrightarrow> byte_of c < 128" for c
    using assms by (simp_all add: plain_def list_all_iff)
  show "utf8_valid (sample_text ident prev)"
  proof (rule ascii_utf8_valid)
    fix c assume "c \<in> set (sample_text ident prev)"
    then consider "c \<in> set ident" | "c \<in> set prev" | "c \<in> {CHR ''{'', CHR '' '', CHR ''}''}" by (auto simp: sample_text_def)
    then show "byte_of c < 128" by cases (simp add: byte, simp add: byte, auto)
  qed
  show "trim (sample_text ident prev) \<noteq> []" by (rule brace_not_blank) (simp add: sample_text_def)
qed

lemma sample_timestamp: "parse_audit_timestamp_ms sample_ts = Inr 0"
  by (simp add: parse_audit_timestamp_ms_def parse_utc_date_time_seconds_def parse_decimal_u32_def sample_ts_def byte_at_def
      slice_def parse_unsigned_def is_digit_def nat_of_digits_def digit_val_def u32_max_def datetime_seconds_def
      days_in_month_def Let_def)

definition sample_hash :: "(string \<Rightarrow> string) \<Rightarrow> string \<Rightarrow> string \<Rightarrow> string" where
  "sample_hash sha ident prev_bytes = hash_prefix @ hex_encode (sha (sample_text ident [] @ prev_bytes))"

lemma sample_verify_line:
  assumes "plain ident" "plain prev" "decode_hash prev = Inr p" "wk_prev_hash wk = prev" "fc_hmac_key fc = None"
    and "starts_with ''h:'' ident \<Longrightarrow> \<not> fc_is_last fc"
  shows "verify_line (sample_audit_codec sha) dir fc wk (sample_text ident prev @ [newline]) =
    Inr \<lparr>wk_prev_hash = sample_hash sha ident p, wk_entries = wk_entries wk + 1,
         wk_end_offset = sat_add_u64 (wk_consumed wk) (length (sample_text ident prev) + 1), wk_first = False,
         wk_handoff = (if starts_with ''h:'' ident then Some (drop 2 ident) else wk_handoff wk),
         wk_timestamp = Some (sample_ts, 0),
         wk_warnings = wk_warnings wk @ backward_warnings fc wk sample_ts 0,
         wk_consumed = sat_add_u64 (wk_consumed wk) (length (sample_text ident prev) + 1), wk_line = wk_line wk + 1\<rparr>"
proof -
  note t = sample_text_line[OF assms(1,2)] sample_parse[OF assms(1,2)]
  have tag: "verify_root_tag (sample_audit_codec sha) dir fc body = Inr ()" for body
    using assms(5) by (simp add: verify_root_tag_def)
  let ?ac = "sample_audit_codec sha" and ?e = "sample_entry ident prev"
  have e: "ae_ts ?e = sample_ts" "ae_previous_entry_hash ?e = prev"
    "ae_event_kind ?e = (if starts_with ''h:'' ident then AuditRotationHandoff (drop 2 ident) else OtherEvent ident)"
    "canonical_json_body ?ac ?e = Inr (sample_text ident [])"
    by (simp_all only: canonical_json_body_def) (simp_all add: sample_entry_def internal_entry_def sample_audit_codec_def)
  have hash: "compute_entry_hash ?ac (sample_text ident []) prev = Inr (sample_hash sha ident p)"
    using assms(3) by (simp add: compute_entry_hash_def sample_hash_def sample_audit_codec_def)
  have slice: "from_slice ?ac (sample_text ident prev) = Inr ?e" using t(5) by (simp add: sample_audit_codec_def)
  have hand: "note_handoff fc line (ae_event_kind ?e) h = Inr (if starts_with ''h:'' ident then Some (drop 2 ident) else h)" for line h
    using assms(6) e(3) by (cases "starts_with ''h:'' ident") (simp_all add: note_handoff_def del: starts_with_Cons)
  have "verify_line ?ac dir fc wk (sample_text ident prev @ [newline]) =
      verify_entry ?ac dir fc wk (wk_line wk + 1) (sat_add_u64 (wk_consumed wk) (length (sample_text ident prev) + 1)) ?e"
    using t(2-4) slice by (simp add: verify_line_def Let_def)
  then show ?thesis
    using e(1,2,4) hash hand tag assms(4) by (simp add: verify_entry_def sample_timestamp del: starts_with_Cons)
qed

section \<open>Logs of one and two entries\<close>

lemma plain_hash: "plain (hash_prefix @ hex_encode bs)"
proof -
  have byte: "48 \<le> byte_of c \<Longrightarrow> byte_of c \<le> 102 \<Longrightarrow> plain [c]" for c
    by (auto simp: plain_def newline_def)
  have "n < 16 \<Longrightarrow> plain [nibble_to_char n]" for n
    by (rule byte) (simp_all add: nibble_to_char_def of_char_bytes)
  then have "plain (hex_byte c)" for c
    by (simp add: hex_byte_def plain_def less_mult_imp_div_less)
  then have "plain (hex_encode bs)" by (induction bs) (simp_all add: plain_def)
  moreover have "plain hash_prefix" by (simp add: plain_def hash_prefix_def newline_def)
  ultimately show ?thesis by simp
qed

lemma zero_hash_decodes: "\<exists>p. decode_hash ZERO_BLOCK_HASH = Inr p \<and> length p = 32"
proof -
  have "\<not> isl (decode_hash ZERO_BLOCK_HASH)" by code_simp
  then show ?thesis by (cases "decode_hash ZERO_BLOCK_HASH") (auto simp: decode_hash_iff)
qed

definition zero_bytes :: string where
  "zero_bytes = (case decode_hash ZERO_BLOCK_HASH of Inr p \<Rightarrow> p | Inl _ \<Rightarrow> [])"

lemma zero_bytes: "decode_hash ZERO_BLOCK_HASH = Inr zero_bytes" "length zero_bytes = 32" "plain ZERO_BLOCK_HASH"
proof -
  show z: "decode_hash ZERO_BLOCK_HASH = Inr zero_bytes" "length zero_bytes = 32"
    using zero_hash_decodes by (auto simp: zero_bytes_def)
  show "plain ZERO_BLOCK_HASH" using z plain_hash[of zero_bytes] by (simp add: decode_hash_iff)
qed

definition sample_sha :: "string \<Rightarrow> string" where
  "sample_sha x = take 32 (x @ replicate 32 CHR ''.'')"

definition line_1 :: string where "line_1 = sample_text ''1'' ZERO_BLOCK_HASH @ [newline]"
definition hash_1 :: string where "hash_1 = sample_hash sample_sha ''1'' zero_bytes"
definition line_2 :: string where "line_2 = sample_text ''2'' hash_1 @ [newline]"

definition log_1 :: audit_dir where "log_1 = [(''a.jsonl'', Regular line_1)]"
definition log_1_blank :: audit_dir where "log_1_blank = [(''b.jsonl'', Regular (line_1 @ [newline]))]"
definition log_2 :: audit_dir where "log_2 = [(''a.jsonl'', Regular (line_1 @ line_2))]"

lemma plain_id: "plain ''1''" "plain ''2''"
  by (simp_all add: plain_def newline_def)

lemma hash_1: "plain hash_1" "decode_hash hash_1 = Inr (sample_sha (sample_text ''1'' [] @ zero_bytes))" "hash_1 \<noteq> ZERO_BLOCK_HASH"
proof -
  show "plain hash_1" unfolding hash_1_def sample_hash_def by (rule plain_hash)
  show "decode_hash hash_1 = Inr (sample_sha (sample_text ''1'' [] @ zero_bytes))"
    by (simp add: decode_hash_iff hash_1_def sample_hash_def sample_sha_def)
  have "take 8 hash_1 = ''sha256:7''"
    by code_simp
  moreover have "take 8 ZERO_BLOCK_HASH = ''sha256:6''" by (simp add: ZERO_BLOCK_HASH_def)
  ultimately show "hash_1 \<noteq> ZERO_BLOCK_HASH" by auto
qed

lemma single_chain: "collect_file_chain [(stem, n)] stem = Inr [stem]"
  by (simp add: collect_file_chain_def stem_not_sibling)

abbreviation "sac \<equiv> sample_audit_codec sample_sha"

lemma verify_line_1:
  assumes "wk_prev_hash wk = ZERO_BLOCK_HASH" "fc_hmac_key fc = None"
  shows "\<exists>wk'. verify_line sac dir fc wk line_1 = Inr wk' \<and> wk_prev_hash wk' = hash_1 \<and> wk_handoff wk' = wk_handoff wk \<and>
    wk_end_offset wk' = sat_add_u64 (wk_consumed wk) (length line_1) \<and> wk_consumed wk' = wk_end_offset wk'"
  using sample_verify_line[OF plain_id(1) zero_bytes(3,1) assms, of sample_sha dir]
  by (simp add: line_1_def hash_1_def)

lemma verify_line_2:
  assumes "wk_prev_hash wk = hash_1" "fc_hmac_key fc = None"
  shows "\<exists>wk'. verify_line sac dir fc wk line_2 = Inr wk' \<and> wk_handoff wk' = wk_handoff wk \<and> wk_entries wk' = wk_entries wk + 1 \<and>
    wk_end_offset wk' = sat_add_u64 (wk_consumed wk) (length line_2)"
  using sample_verify_line[OF plain_id(2) hash_1(1,2) assms, of sample_sha dir]
  by (simp add: line_2_def)

lemma raw_lines_1: "raw_lines line_1 = [line_1]" "raw_lines (line_1 @ [newline]) = [line_1, [newline]]"
  "raw_lines (line_1 @ line_2) = [line_1, line_2]"
  using sample_text_line(1)[OF plain_id(1) zero_bytes(3)] sample_text_line(1)[OF plain_id(2) hash_1(1)]
    raw_line_single[of "sample_text ''2'' hash_1" "[]"]
  by (simp_all add: line_1_def line_2_def raw_line_single)

lemma verify_log_1:
  "\<exists>vo tip. verify_log sac log_1 ''a.jsonl'' None = Inr vo \<and> vo_active_tip vo = Some tip \<and> vt_tip_hash tip = hash_1"
proof -
  let ?fc = "first_context ''a.jsonl'' None ''a.jsonl'' True"
  obtain wk where wk: "verify_line sac log_1 ?fc (walk_start ?fc) line_1 = Inr wk" "wk_prev_hash wk = hash_1"
    using verify_line_1[of "walk_start ?fc" ?fc log_1] by (auto simp: walk_start_def first_context_def)
  then have "verify_single_file sac log_1 ?fc = Inr wk"
    by (simp add: verify_single_file_def open_regular_file_def log_1_def first_context_def raw_lines_1 check_handoff_def)
  then show ?thesis using wk(2)
    by (simp add: verify_log_def log_1_def single_chain first_context_def)
qed

lemma verify_blank_line: "verify_line ac dir fc wk [newline] = Inr (wk\<lparr>wk_consumed := sat_add_u64 (wk_consumed wk) 1, wk_line := wk_line wk + 1\<rparr>)"
  by (simp add: verify_line_def strip_line_terminator_def strip_last_def utf8_valid.simps Let_def)

lemma verify_log_1_blank:
  "\<exists>vo tip. verify_log sac log_1_blank ''b.jsonl'' None = Inr vo \<and> vo_active_tip vo = Some tip \<and> vt_tip_hash tip = hash_1"
proof -
  let ?fc = "first_context ''b.jsonl'' None ''b.jsonl'' True"
  obtain wk where wk: "verify_line sac log_1_blank ?fc (walk_start ?fc) line_1 = Inr wk" "wk_prev_hash wk = hash_1"
    using verify_line_1[of "walk_start ?fc" ?fc log_1_blank] by (auto simp: walk_start_def first_context_def)
  then have "\<exists>wk'. verify_single_file sac log_1_blank ?fc = Inr wk' \<and> wk_prev_hash wk' = hash_1"
    by (simp add: verify_single_file_def open_regular_file_def log_1_blank_def first_context_def raw_lines_1 check_handoff_def
        verify_blank_line)
  then show ?thesis by (auto simp: verify_log_def log_1_blank_def single_chain first_context_def)
qed

section \<open>Witnesses\<close>

lemma log_entries_1:
  "log_entries sac log_1 ''a.jsonl'' = [sample_entry ''1'' ZERO_BLOCK_HASH]"
  "log_entries sac log_1_blank ''b.jsonl'' = [sample_entry ''1'' ZERO_BLOCK_HASH]"
  "log_entries sac log_2 ''a.jsonl'' = [sample_entry ''1'' ZERO_BLOCK_HASH, sample_entry ''2'' hash_1]"
proof -
  have l1: "line_entries sac line_1 = [sample_entry ''1'' ZERO_BLOCK_HASH]"
    using sample_text_line(2,4)[OF plain_id(1) zero_bytes(3)] sample_parse[OF plain_id(1) zero_bytes(3)]
    by (simp add: line_entries_def line_1_def sample_audit_codec_def Let_def)
  have l2: "line_entries sac line_2 = [sample_entry ''2'' hash_1]"
    using sample_text_line(2,4)[OF plain_id(2) hash_1(1)] sample_parse[OF plain_id(2) hash_1(1)]
    by (simp add: line_entries_def line_2_def sample_audit_codec_def Let_def)
  have lb: "line_entries sac [newline] = []"
    by (simp add: line_entries_def strip_line_terminator_def strip_last_def)
  show "log_entries sac log_1 ''a.jsonl'' = [sample_entry ''1'' ZERO_BLOCK_HASH]"
    "log_entries sac log_1_blank ''b.jsonl'' = [sample_entry ''1'' ZERO_BLOCK_HASH]"
    "log_entries sac log_2 ''a.jsonl'' = [sample_entry ''1'' ZERO_BLOCK_HASH, sample_entry ''2'' hash_1]"
    by (simp_all add: log_entries_def log_1_def log_1_blank_def log_2_def single_chain entries_of_def file_entries_def
        raw_lines_1 l1 l2 lb)
qed

lemma sample_hash_input:
  "decode_hash prev = Inr p \<Longrightarrow> hash_input (sample_audit_codec sha) (sample_entry ident prev) = Some (sample_text ident [] @ p)"
  by (simp add: hash_input_def canonical_json_body_def sample_audit_codec_def sample_entry_def internal_entry_def)

definition input_1 :: string where "input_1 = sample_text ''1'' [] @ zero_bytes"
definition input_2 :: string where "input_2 = sample_text ''2'' [] @ sample_sha input_1"

lemma sample_inputs:
  "hash_input sac (sample_entry ''1'' ZERO_BLOCK_HASH) = Some input_1"
  "hash_input sac (sample_entry ''2'' hash_1) = Some input_2"
  using sample_hash_input[OF zero_bytes(1)] sample_hash_input[OF hash_1(2)] by (simp_all add: input_1_def input_2_def)

lemma sample_digests:
  "sample_sha input_1 \<noteq> sample_sha input_2"
  "hash_prefix @ hex_encode (sample_sha input_1) \<noteq> ZERO_BLOCK_HASH"
  "hash_prefix @ hex_encode (sample_sha input_2) \<noteq> ZERO_BLOCK_HASH"
proof -
  show "sample_sha input_1 \<noteq> sample_sha input_2" by (simp add: sample_sha_def input_1_def input_2_def sample_text_def)
  have z: "ZERO_BLOCK_HASH = hash_prefix @ hex_encode zero_bytes" using zero_bytes(1) by (simp add: decode_hash_iff)
  have "zero_bytes ! 0 \<noteq> CHR ''{''" by code_simp
  moreover have "sample_sha input_1 ! 0 = CHR ''{''" "sample_sha input_2 ! 0 = CHR ''{''"
    by (simp_all add: sample_sha_def input_1_def input_2_def sample_text_def)
  ultimately show "hash_prefix @ hex_encode (sample_sha input_1) \<noteq> ZERO_BLOCK_HASH"
    "hash_prefix @ hex_encode (sample_sha input_2) \<noteq> ZERO_BLOCK_HASH" unfolding z by auto
qed

lemma sample_no_clash:
  "\<not> hash_clash sac [sample_entry ''1'' ZERO_BLOCK_HASH] [sample_entry ''1'' ZERO_BLOCK_HASH]"
  "\<not> hash_clash sac [sample_entry ''1'' ZERO_BLOCK_HASH] [sample_entry ''1'' ZERO_BLOCK_HASH, sample_entry ''2'' hash_1]"
proof -
  have sha: "ac_sha256 sac = sample_sha" by (simp add: sample_audit_codec_def)
  show "\<not> hash_clash sac [sample_entry ''1'' ZERO_BLOCK_HASH] [sample_entry ''1'' ZERO_BLOCK_HASH]"
    "\<not> hash_clash sac [sample_entry ''1'' ZERO_BLOCK_HASH] [sample_entry ''1'' ZERO_BLOCK_HASH, sample_entry ''2'' hash_1]"
    using sample_digests unfolding hash_clash_def sha by (simp_all add: sample_inputs)
qed

theorem verified_log_is_one_chain_witness:
  "\<exists>vo tip. verify_log sac log_1 ''a.jsonl'' None = Inr vo \<and> vo_active_tip vo = Some tip \<and>
     chain_end sac ZERO_BLOCK_HASH [sample_entry ''1'' ZERO_BLOCK_HASH] = Some (vt_tip_hash tip) \<and> vo_entries vo = 1"
proof -
  obtain vo where "verify_log sac log_1 ''a.jsonl'' None = Inr vo" using verify_log_1 by blast
  then show ?thesis using verified_log_is_one_chain[of sac log_1 "''a.jsonl''" None vo] by (auto simp: log_entries_1)
qed

theorem tip_hash_determines_log_witness:
  "map (canonical_json_body sac) (log_entries sac log_1 ''a.jsonl'') =
   map (canonical_json_body sac) (log_entries sac log_1_blank ''b.jsonl'')"
proof -
  obtain vo tip where v: "verify_log sac log_1 ''a.jsonl'' None = Inr vo" "vo_active_tip vo = Some tip" "vt_tip_hash tip = hash_1"
    using verify_log_1 by blast
  obtain vo' tip' where v': "verify_log sac log_1_blank ''b.jsonl'' None = Inr vo'" "vo_active_tip vo' = Some tip'"
    "vt_tip_hash tip' = hash_1" using verify_log_1_blank by blast
  show ?thesis
    using tip_hash_determines_log[OF v(1,2) v'(1,2)] v(3) v'(3) sample_no_clash(1) by (simp add: log_entries_1)
qed

definition anchor_1 :: tip_anchor where
  "anchor_1 = \<lparr>ta_entry_count = 1, ta_tip_hash = hash_1, ta_end_offset = length line_1\<rparr>"

lemma line_lengths: "length line_1 < length (line_1 @ line_2)" "length (line_1 @ line_2) \<le> u64_max"
proof -
  have "decode_hash h = Inr p \<Longrightarrow> length h = 71" for h p by (clarsimp simp: decode_hash_iff) (simp add: hash_prefix_def)
  then have "length ZERO_BLOCK_HASH = 71" "length hash_1 = 71" using zero_bytes(1) hash_1(2) by blast+
  then show "length line_1 < length (line_1 @ line_2)" "length (line_1 @ line_2) \<le> u64_max"
    by (simp_all add: line_1_def line_2_def sample_text_def u64_max_def)
qed

lemma verify_log_2:
  "\<exists>vo tip. verify_log sac log_2 ''a.jsonl'' None = Inr vo \<and> vo_active_tip vo = Some tip \<and> vt_end_offset tip = length (line_1 @ line_2)"
proof -
  let ?fc = "first_context ''a.jsonl'' None ''a.jsonl'' True"
  obtain wk where wk: "verify_line sac log_2 ?fc (walk_start ?fc) line_1 = Inr wk" "wk_prev_hash wk = hash_1"
    "wk_consumed wk = length line_1"
    using verify_line_1[of "walk_start ?fc" ?fc log_2] line_lengths
    by (auto simp: walk_start_def first_context_def sat_add_u64_def)
  obtain wk2 where wk2: "verify_line sac log_2 ?fc wk line_2 = Inr wk2" "wk_end_offset wk2 = length (line_1 @ line_2)"
    using verify_line_2[OF wk(2), of ?fc log_2] wk(3) line_lengths by (auto simp: first_context_def sat_add_u64_def)
  then have "verify_single_file sac log_2 ?fc = Inr wk2"
    using wk(1) by (simp add: verify_single_file_def open_regular_file_def log_2_def first_context_def raw_lines_1 check_handoff_def)
  then show ?thesis using wk2(2)
    by (simp add: verify_log_def log_2_def single_chain first_context_def)
qed

lemma last_line_of_1: "read_last_line_before (line_1 @ line_2) (length line_1) = Some (sample_text ''1'' ZERO_BLOCK_HASH)"
proof -
  let ?t = "sample_text ''1'' ZERO_BLOCK_HASH"
  have "rstrip [CHR ''}''] = [CHR ''}'']" "rstrip [newline] = []" by (simp_all add: rstrip_def is_ascii_whitespace_def newline_def)
  then have "rstrip (?t @ [newline]) = ?t"
    by (simp add: sample_text_def rstrip_append flip: append_Cons append_assoc)
  moreover have "after_last_newline ?t = ?t"
    by (rule after_last_newline_id) (rule sample_text_line(1)[OF plain_id(1) zero_bytes(3)])
  moreover have "strip_line_terminator ?t = ?t"
    by (rule strip_clean) (simp_all add: sample_text_def is_ascii_whitespace_def)
  moreover have "?t \<noteq> []" by (simp add: sample_text_def)
  ultimately show ?thesis by (simp add: read_last_line_before_spec last_line_before_def line_1_def)
qed

lemma anchor_1_intact: "anchored_entry_is_intact sac log_2 ''a.jsonl'' anchor_1 = Inr True"
proof -
  have "from_slice sac (sample_text ''1'' ZERO_BLOCK_HASH) = Inr (sample_entry ''1'' ZERO_BLOCK_HASH)"
    using sample_parse[OF plain_id(1) zero_bytes(3)] by (simp add: sample_audit_codec_def)
  moreover have "canonical_json_body sac (sample_entry ''1'' ZERO_BLOCK_HASH) = Inr (sample_text ''1'' [])"
    "ae_previous_entry_hash (sample_entry ''1'' ZERO_BLOCK_HASH) = ZERO_BLOCK_HASH"
    by (simp_all add: canonical_json_body_def sample_audit_codec_def sample_entry_def internal_entry_def)
  moreover have "compute_entry_hash sac (sample_text ''1'' []) ZERO_BLOCK_HASH = Inr hash_1"
    by (simp add: compute_entry_hash_def zero_bytes(1) hash_1_def sample_hash_def sample_audit_codec_def)
  ultimately show ?thesis
    by (simp add: anchored_entry_is_intact_def open_regular_file_def log_2_def anchor_1_def last_line_of_1)
qed

theorem anchored_entries_stay_witness:
  "\<exists>later. map (canonical_json_body sac) (log_entries sac log_2 ''a.jsonl'') =
     map (canonical_json_body sac) (log_entries sac log_1 ''a.jsonl'') @ later"
proof -
  obtain vo tip where v: "verify_log sac log_1 ''a.jsonl'' None = Inr vo" "vo_active_tip vo = Some tip" "vt_tip_hash tip = hash_1"
    using verify_log_1 by blast
  obtain vo' tip' where v': "verify_log sac log_2 ''a.jsonl'' None = Inr vo'" "vo_active_tip vo' = Some tip'"
    "vt_end_offset tip' = length (line_1 @ line_2)" using verify_log_2 by blast
  have "ta_end_offset anchor_1 < vt_end_offset tip'" using v'(3) line_lengths(1) by (simp add: anchor_1_def)
  then have "check_anchor_against_walk sac log_2 ''a.jsonl'' anchor_1 (vo_active_tip vo') = Inr ()"
    using v'(2) anchor_1_intact by (simp add: check_anchor_against_walk_def Let_def)
  then have w: "verify_log_with_anchor sac log_2 ''a.jsonl'' None (Some anchor_1) = Inr vo'"
    using v'(1) by (simp add: verify_log_with_anchor_def)
  show ?thesis
    using anchored_entries_stay[OF sample_json_laws v(1,2) _ w] v(3) sample_no_clash(2)
    by (simp add: anchor_1_def log_entries_1)
qed

section \<open>A log with eleven archives\<close>

definition const_sha :: "string \<Rightarrow> string" where "const_sha x = replicate 32 CHR ''a''"
definition const_hash :: string where "const_hash = hash_prefix @ hex_encode (replicate 32 CHR ''a'')"

abbreviation "kac \<equiv> sample_audit_codec const_sha"

definition archive_names :: "string list" where
  "archive_names = map (\<lambda>d. ''a.jsonl.20260101T0000'' @ d)
     [''00'', ''01'', ''02'', ''03'', ''04'', ''05'', ''06'', ''07'', ''08'', ''09'', ''10'']"

definition archive_node :: "string \<Rightarrow> string \<Rightarrow> node" where
  "archive_node prev name = Regular (sample_text (''h:'' @ name) prev @ [newline])"

definition archived_log :: audit_dir where
  "archived_log =
     (hd archive_names, archive_node ZERO_BLOCK_HASH (hd archive_names)) #
     map (\<lambda>name. (name, archive_node const_hash name)) (tl archive_names) @
     [(''a.jsonl'', Regular (sample_text ''1'' const_hash @ [newline]))]"

lemma const_hash: "plain const_hash" "decode_hash const_hash = Inr (replicate 32 CHR ''a'')" "const_hash \<noteq> ZERO_BLOCK_HASH"
proof -
  show "plain const_hash" unfolding const_hash_def by (rule plain_hash)
  show "decode_hash const_hash = Inr (replicate 32 CHR ''a'')" by (simp add: decode_hash_iff const_hash_def)
  show "const_hash \<noteq> ZERO_BLOCK_HASH" by code_simp
qed

lemma const_sample_hash: "sample_hash const_sha ident p = const_hash"
  by (simp add: sample_hash_def const_sha_def const_hash_def)

lemma verify_archive:
  assumes "map_of dir name = Some (archive_node prev name)" "plain name" "plain prev" "decode_hash prev = Inr p"
    and "fc_name fc = name" "fc_hmac_key fc = None" "fc_this_basename fc = Some name" "\<not> fc_is_last fc"
    and "prev = (case fc_initial_prev fc of None \<Rightarrow> ZERO_BLOCK_HASH | Some h \<Rightarrow> h)"
  shows "\<exists>wk. verify_single_file kac dir fc = Inr wk \<and> wk_prev_hash wk = const_hash"
proof -
  have pl: "plain (''h:'' @ name)" using assms(2) by (simp add: plain_def newline_def)
  have "raw_lines (sample_text (''h:'' @ name) prev @ [newline]) = [sample_text (''h:'' @ name) prev @ [newline]]"
    using raw_line_single[OF sample_text_line(1)[OF pl assms(3)], of "[]"] by simp
  moreover have "wk_prev_hash (walk_start fc) = prev" using assms(9) by (simp add: walk_start_def)
  ultimately show ?thesis
    using sample_verify_line[OF pl assms(3,4) _ assms(6), of "walk_start fc" const_sha dir] assms
    by (simp add: verify_single_file_def open_regular_file_def archive_node_def check_handoff_def const_sample_hash starts_with_def)
qed

lemma verify_tail:
  assumes "map_of dir stem = Some (Regular (sample_text ''1'' const_hash @ [newline]))"
  shows "(\<And>name. name \<in> set names \<Longrightarrow> plain name \<and> map_of dir name = Some (archive_node const_hash name)) \<Longrightarrow>
    \<exists>vo'. verify_files kac dir stem None i (Some const_hash) ts vo (names @ [stem]) = Inr vo'"
proof (induction names arbitrary: i ts vo)
  case Nil
  let ?fc = "\<lparr>fc_name = stem, fc_hmac_key = None, fc_initial_prev = Some const_hash, fc_this_basename = None,
    fc_is_last = True, fc_stem = stem, fc_index = i, fc_previous_timestamp = ts\<rparr>"
  have "raw_lines (sample_text ''1'' const_hash @ [newline]) = [sample_text ''1'' const_hash @ [newline]]"
    using raw_line_single[OF sample_text_line(1)[OF plain_id(1) const_hash(1)], of "[]"] by simp
  then have "\<exists>wk. verify_single_file kac dir ?fc = Inr wk"
    using sample_verify_line[OF plain_id(1) const_hash(1,2), of "walk_start ?fc" ?fc const_sha dir] assms
    by (simp add: verify_single_file_def open_regular_file_def check_handoff_def walk_start_def)
  then show ?case using assms by auto
next
  case (Cons name names)
  let ?fc = "\<lparr>fc_name = name, fc_hmac_key = None, fc_initial_prev = Some const_hash, fc_this_basename = Some name,
    fc_is_last = False, fc_stem = stem, fc_index = i, fc_previous_timestamp = ts\<rparr>"
  obtain wk where wk: "verify_single_file kac dir ?fc = Inr wk" "wk_prev_hash wk = const_hash"
    using verify_archive[of dir name const_hash _ ?fc] Cons.prems[of name] const_hash(1,2) by auto
  have IH: "\<exists>vo'. verify_files kac dir stem None j (Some const_hash) ts' v (names @ [stem]) = Inr vo'" for j ts' v
    by (rule Cons.IH) (use Cons.prems in auto)
  show ?case using Cons.prems[of name] wk IH by simp
qed

lemma archived_names:
  "map fst archived_log = archive_names @ [''a.jsonl'']" "distinct (map fst archived_log)"
  "filter (is_rotated_sibling ''a.jsonl'') (map fst archived_log) = archive_names" "sort archive_names = archive_names"
  "length archive_names = 11" "\<And>n. n \<in> set archive_names \<Longrightarrow> plain n"
proof -
  show n: "map fst archived_log = archive_names @ [''a.jsonl'']"
    by (simp add: archived_log_def archive_names_def)
  show "distinct (map fst archived_log)" unfolding n by code_simp
  show "filter (is_rotated_sibling ''a.jsonl'') (map fst archived_log) = archive_names" unfolding n by code_simp
  show "sort archive_names = archive_names" by code_simp
  show "length archive_names = 11" by (simp add: archive_names_def)
  have "list_all plain archive_names" by code_simp
  then show "\<And>n. n \<in> set archive_names \<Longrightarrow> plain n" by (simp add: list_all_iff)
qed

lemma archived_lookup:
  "map_of archived_log (hd archive_names) = Some (archive_node ZERO_BLOCK_HASH (hd archive_names))"
  "map_of archived_log ''a.jsonl'' = Some (Regular (sample_text ''1'' const_hash @ [newline]))"
  "n \<in> set (tl archive_names) \<Longrightarrow> map_of archived_log n = Some (archive_node const_hash n)"
proof -
  have d: "distinct (map fst archived_log)" by (rule archived_names(2))
  show "map_of archived_log (hd archive_names) = Some (archive_node ZERO_BLOCK_HASH (hd archive_names))"
    "map_of archived_log ''a.jsonl'' = Some (Regular (sample_text ''1'' const_hash @ [newline]))"
    "n \<in> set (tl archive_names) \<Longrightarrow> map_of archived_log n = Some (archive_node const_hash n)"
    by (rule map_of_is_SomeI[OF d]; simp add: archived_log_def)+
qed

lemma archived_chain: "collect_file_chain archived_log ''a.jsonl'' = Inr (archive_names @ [''a.jsonl''])"
  unfolding collect_file_chain_def Let_def archived_names(3,4,5)
  by (simp add: ROTATED_FILE_CHAIN_CAP_def MAX_ROTATED_FILES_def)

lemma archive_names_Cons: "archive_names = hd archive_names # tl archive_names"
  by (simp add: archive_names_def)

lemma archived_log_verifies: "\<exists>vo. verify_log kac archived_log ''a.jsonl'' None = Inr vo"
proof -
  let ?a = "hd archive_names"
  let ?fc = "\<lparr>fc_name = ?a, fc_hmac_key = None, fc_initial_prev = None, fc_this_basename = Some ?a,
    fc_is_last = False, fc_stem = ''a.jsonl'', fc_index = 0, fc_previous_timestamp = None\<rparr>"
  have "plain ?a" using archived_names(6) archive_names_Cons by (metis list.set_intros(1))
  then obtain wk where wk: "verify_single_file kac archived_log ?fc = Inr wk" "wk_prev_hash wk = const_hash"
    using verify_archive[OF archived_lookup(1) _ zero_bytes(3,1), of ?fc] by auto
  have tail: "\<exists>vo'. verify_files kac archived_log ''a.jsonl'' None i (Some const_hash) ts vo (tl archive_names @ [''a.jsonl'']) = Inr vo'"
    for i ts vo
  proof (rule verify_tail[OF archived_lookup(2)])
    fix name assume t: "name \<in> set (tl archive_names)"
    then have "name \<in> set archive_names" by (metis archive_names_Cons list.set_intros(2))
    then show "plain name \<and> map_of archived_log name = Some (archive_node const_hash name)"
      using archived_names(6) archived_lookup(3)[OF t] by blast
  qed
  have "archive_names @ [''a.jsonl''] = ?a # (tl archive_names @ [''a.jsonl''])" by (metis append_Cons archive_names_Cons)
  then have "verify_log kac archived_log ''a.jsonl'' None =
      verify_files kac archived_log ''a.jsonl'' None 0 None None (verify_start None) (?a # (tl archive_names @ [''a.jsonl'']))"
    by (simp only: verify_log_def archived_chain res_bind_simps)
  then show ?thesis using wk tail archived_lookup(1) by simp
qed

theorem pruning_breaks_verification_witness:
  "\<exists>line. verify_log kac (prune_rotated_files ''a.jsonl'' archived_log) ''a.jsonl'' None =
     Inl (ChainBroken line ''a.jsonl.20260101T000001'' ''previous_entry_hash_mismatch'')"
proof -
  let ?b = "''a.jsonl.20260101T000001''"
  obtain vo where v: "verify_log kac archived_log ''a.jsonl'' None = Inr vo" using archived_log_verifies by blast
  have old: "pruned_names ''a.jsonl'' (map fst archived_log) = take 1 archive_names"
    unfolding pruned_names_def Let_def archived_names(3,4,5) by (simp add: MAX_ROTATED_FILES_def)
  have rest: "drop 1 (archive_names @ [''a.jsonl'']) = ?b # drop 2 (archive_names @ [''a.jsonl''])"
    by (simp add: archive_names_def)
  have chain: "collect_file_chain (prune_rotated_files ''a.jsonl'' archived_log) ''a.jsonl'' = Inr (?b # drop 2 (archive_names @ [''a.jsonl'']))"
    using pruned_chain(1)[OF archived_names(2) archived_chain] rest by (simp add: old archived_names(5))
  have b: "?b \<in> set (tl archive_names)" by (simp add: archive_names_def)
  have p: "plain (''h:'' @ ?b)" by (simp add: plain_def newline_def)
  have "entries_of kac archived_log [?b] = [sample_entry (''h:'' @ ?b) const_hash]"
    using archived_lookup(3)[OF b] raw_line_single[OF sample_text_line(1)[OF p const_hash(1)], of "[]"]
      sample_text_line(2,4)[OF p const_hash(1)] sample_parse[OF p const_hash(1)]
    by (simp add: entries_of_def archive_node_def file_entries_def line_entries_def sample_audit_codec_def Let_def)
  then have entry: "entries_of kac archived_log [?b] \<noteq> []" by simp
  have "\<not> hash_clash kac es []" for es
    using const_hash(3) by (simp add: hash_clash_def sample_audit_codec_def const_sha_def const_hash_def)
  then show ?thesis
    using pruning_breaks_verification[OF v archived_names(2) _ chain entry] by (simp add: old archive_names_def)
qed

end
