(* ===== verification/State_Store.thy ===== *)
theory State_Store
  imports Policy_Types
begin

text \<open>
  The sliding-window state store (\<^verbatim>\<open>policy/v1/criteria/state_store.rs\<close>): a map from
  bucket keys to entry queues behind a lock.  A query evicts what has left the
  window, so it returns the updated store; a poisoned lock and a reservation
  from the future are error values.
\<close>

definition CLOCK_SKEW_TOLERANCE_MS :: nat where "CLOCK_SKEW_TOLERANCE_MS = 30000"

record state_key =
  profile_name :: string
  scope_specificity :: nat
  bucket :: string
  window_secs :: nat

definition state_key_new :: "string \<Rightarrow> nat \<Rightarrow> string \<Rightarrow> nat \<Rightarrow> state_key" where
  "state_key_new p sp b w = \<lparr>profile_name = p, scope_specificity = sp, bucket = b, window_secs = w\<rparr>"

datatype window_limit =
    AmountLimit (al_asset: string) (al_window: string) (al_max_stroops: int)
  | CountLimit (cl_window: string) (cl_max_calls: nat)

record window_entry =
  we_key :: state_key
  we_timestamp_ms :: nat
  we_amount :: int
  we_limit :: window_limit

definition window_entry_new :: "state_key \<Rightarrow> nat \<Rightarrow> int \<Rightarrow> window_limit \<Rightarrow> window_entry" where
  "window_entry_new k ts a l = \<lparr>we_key = k, we_timestamp_ms = ts, we_amount = a, we_limit = l\<rparr>"

definition refusal :: "window_entry \<Rightarrow> int \<Rightarrow> nat \<Rightarrow> deny_reason option" where
  "refusal e used_stroops calls =
     (case we_limit e of
        AmountLimit asset window max_stroops \<Rightarrow>
          (let would_use = sat_add_i128 used_stroops (we_amount e) in
           if max_stroops < would_use
           then Some (PerPeriodCapExceeded asset window max_stroops (we_amount e) used_stroops)
           else None)
      | CountLimit window max_calls \<Rightarrow>
          (if max_calls \<le> calls then Some (RateLimitExceeded window max_calls calls) else None))"

record state_entry =
  timestamp_ms :: nat
  amount :: int
  pending :: bool

record state_store =
  inner :: "state_key \<Rightarrow> state_entry list option"
  poisoned :: bool

definition store_new :: state_store where
  "store_new = \<lparr>inner = Map.empty, poisoned = False\<rparr>"

definition entries :: "state_store \<Rightarrow> state_key \<Rightarrow> state_entry list" where
  "entries s k = (case inner s k of None \<Rightarrow> [] | Some es \<Rightarrow> es)"

definition window_cutoff :: "nat \<Rightarrow> nat \<Rightarrow> nat" where
  "window_cutoff secs now_ms = now_ms - sat_mul_u64 secs 1000"

definition keep :: "nat \<Rightarrow> nat \<Rightarrow> state_entry \<Rightarrow> bool" where
  "keep secs now_ms e \<longleftrightarrow> pending e \<or> window_cutoff secs now_ms \<le> timestamp_ms e"

text \<open>The error branch of a query: a pending entry beyond the tolerated clock skew.\<close>

definition skewed :: "nat \<Rightarrow> state_entry \<Rightarrow> bool" where
  "skewed now_ms e \<longleftrightarrow> pending e \<and> sat_add_u64 now_ms CLOCK_SKEW_TOLERANCE_MS < timestamp_ms e"

definition window_sum :: "state_entry list \<Rightarrow> int \<times> nat" where
  "window_sum es =
     foldl (\<lambda>(sum, count) e. (sat_add_i128 sum (amount e), sat_add_u32 count 1)) (0, 0) es"

definition query_window ::
  "state_store \<Rightarrow> state_key \<Rightarrow> nat \<Rightarrow> (state_store_error, int \<times> nat) result \<times> state_store" where
  "query_window s k now_ms =
     (if poisoned s then (Inl LockPoisoned, s)
      else
        let deque = entries s k;
            s1 = s\<lparr>inner := (inner s)(k \<mapsto> deque)\<rparr>
        in case find (skewed now_ms) deque of
             Some e \<Rightarrow> (Inl (ClockSkewExceeded (timestamp_ms e) now_ms), s1)
           | None \<Rightarrow>
               let kept = filter (keep (window_secs k) now_ms) deque in
               (Inr (window_sum kept), s\<lparr>inner := (inner s)(k \<mapsto> kept)\<rparr>))"

definition append_entry ::
  "state_store \<Rightarrow> state_key \<Rightarrow> nat \<Rightarrow> int \<Rightarrow> bool \<Rightarrow> (state_store_error, unit) result \<times> state_store" where
  "append_entry s k ts a p =
     (if poisoned s then (Inl LockPoisoned, s)
      else (Inr (), s\<lparr>inner := (inner s)(k \<mapsto> entries s k @ [\<lparr>timestamp_ms = ts, amount = a, pending = p\<rparr>])\<rparr>))"

definition append_settled ::
  "state_store \<Rightarrow> state_key \<Rightarrow> nat \<Rightarrow> int \<Rightarrow> (state_store_error, unit) result \<times> state_store" where
  "append_settled s k ts a = append_entry s k ts a False"

definition append_pending ::
  "state_store \<Rightarrow> state_key \<Rightarrow> nat \<Rightarrow> int \<Rightarrow> (state_store_error, unit) result \<times> state_store" where
  "append_pending s k ts a = append_entry s k ts a True"

definition store_clear :: "state_store \<Rightarrow> (state_store_error, unit) result \<times> state_store" where
  "store_clear s = (if poisoned s then (Inl LockPoisoned, s) else (Inr (), s\<lparr>inner := Map.empty\<rparr>))"

section \<open>Eviction and summation\<close>

lemma window_sum_eq: "window_sum es = (sat_sum_i128 (map amount es), to_u32 (length es))"
proof (induction es rule: rev_induct)
  case Nil
  show ?case by (simp add: window_sum_def to_u32_def)
next
  case (snoc e es)
  have "window_sum (es @ [e]) =
      (sat_add_i128 (fst (window_sum es)) (amount e), sat_add_u32 (snd (window_sum es)) 1)"
    by (simp add: window_sum_def split: prod.split)
  then show ?case using snoc by (simp add: sat_add_u32_def to_u32_def machine_bounds)
qed

lemma keep_mono:
  assumes "now \<le> now'" "keep secs now' e"
  shows "keep secs now e"
  using assms by (auto simp: keep_def window_cutoff_def)

lemma filter_keep_twice:
  "now \<le> now' \<Longrightarrow> filter (keep secs now') (filter (keep secs now) es) = filter (keep secs now') es"
  by (simp add: filter_filter) (metis (lifting) keep_mono)

lemma entries_upd [simp]:
  "entries (s\<lparr>inner := (inner s)(k \<mapsto> es)\<rparr>) k' = (if k' = k then es else entries s k')"
  by (simp add: entries_def)

lemma query_window_result:
  "fst (query_window s k now) =
     (if poisoned s then Inl LockPoisoned
      else case find (skewed now) (entries s k) of
             Some e \<Rightarrow> Inl (ClockSkewExceeded (timestamp_ms e) now)
           | None \<Rightarrow> Inr (window_sum (filter (keep (window_secs k) now) (entries s k))))"
  by (auto simp: query_window_def Let_def split: option.split)

lemma query_window_store [simp]:
  "poisoned (snd (query_window s k now)) = poisoned s"
  "k' \<noteq> k \<Longrightarrow> entries (snd (query_window s k now)) k' = entries s k'"
  "entries (snd (query_window s k now)) k =
     (if poisoned s \<or> find (skewed now) (entries s k) \<noteq> None then entries s k
      else filter (keep (window_secs k) now) (entries s k))"
  by (auto simp: query_window_def Let_def split: option.split)

lemma append_entry_store [simp]:
  "poisoned (snd (append_entry s k ts a p)) = poisoned s"
  "\<not> poisoned s \<Longrightarrow> entries (snd (append_entry s k ts a p)) k' =
     (if k' = k then entries s k @ [\<lparr>timestamp_ms = ts, amount = a, pending = p\<rparr>] else entries s k')"
  by (simp_all add: append_entry_def)

lemma append_entry_result [simp]:
  "fst (append_entry s k ts a p) = (if poisoned s then Inl LockPoisoned else Inr ())"
  by (simp add: append_entry_def)

lemma find_filter_None:
  "find P xs = None \<Longrightarrow> find P (filter Q xs) = None"
  by (auto simp: find_None_iff)

lemma skewed_mono: "now \<le> now' \<Longrightarrow> skewed now' e \<Longrightarrow> skewed now e"
  by (auto simp: skewed_def sat_add_u64_def)

lemma find_skewed_filter:
  "find (skewed now') (filter (keep secs now) es) = find (skewed now') es"
  by (induction es) (auto simp: skewed_def keep_def)

text \<open>
  A query only drops entries that no later query could see: at any later time
  the answer for every key is the one the untouched store would have given.
\<close>

lemma query_window_invisible:
  assumes "now \<le> now'"
  shows "fst (query_window (snd (query_window s k now)) k' now') = fst (query_window s k' now')"
  using assms
  by (cases "k' = k") (auto simp: query_window_result find_skewed_filter filter_keep_twice simp del: filter_filter
      split: option.split)

text \<open>
  Two stores that no query from a given time on can tell apart.
\<close>

definition same_from :: "nat \<Rightarrow> state_store \<Rightarrow> state_store \<Rightarrow> bool" where
  "same_from now s s' \<longleftrightarrow>
     (\<forall>k t. now \<le> t \<longrightarrow> fst (query_window s k t) = fst (query_window s' k t))"

lemma same_from_refl [simp]: "same_from now s s"
  by (simp add: same_from_def)

lemma same_from_trans: "same_from now s s' \<Longrightarrow> same_from now s' s'' \<Longrightarrow> same_from now s s''"
  by (simp add: same_from_def)

lemma same_from_query: "same_from now s (snd (query_window s k now))"
  by (simp add: same_from_def query_window_invisible)

section \<open>Windows that stay below a limit\<close>

text \<open>
  What a spending limit needs of the quantity it measures on a window: dropping
  entries never increases it.  Then gating an append by the measure of the
  window it would produce keeps every later window below the limit.
\<close>

definition live :: "nat \<Rightarrow> nat \<Rightarrow> state_entry list \<Rightarrow> state_entry list" where
  "live secs t es = filter (keep secs t) es"

locale capped_window =
  fixes usage :: "state_entry list \<Rightarrow> 'm :: linorder"
    and ok :: "state_entry \<Rightarrow> bool"
  assumes usage_filter: "list_all ok es \<Longrightarrow> usage (filter P es) \<le> usage es"
begin

definition bounded :: "nat \<Rightarrow> 'm \<Rightarrow> nat \<Rightarrow> state_entry list \<Rightarrow> bool" where
  "bounded secs cap from es \<longleftrightarrow> list_all ok es \<and> (\<forall>t\<ge>from. usage (live secs t es) \<le> cap)"

lemma bounded_later: "bounded secs cap from es \<Longrightarrow> from \<le> from' \<Longrightarrow> bounded secs cap from' es"
  by (simp add: bounded_def)

lemma bounded_evict: "bounded secs cap from es \<Longrightarrow> bounded secs cap from (filter P es)"
proof -
  assume b: "bounded secs cap from es"
  then have "usage (live secs t (filter P es)) \<le> usage (live secs t es)" for t
    using usage_filter[of "live secs t es" P]
    by (simp add: live_def bounded_def list_all_iff conj_commute)
  then show ?thesis using b by (auto simp: bounded_def list_all_iff intro: order_trans)
qed

lemma bounded_append:
  assumes b: "bounded secs cap from es" and e: "ok e"
    and gate: "usage (live secs now es @ [e]) \<le> cap" and order: "from \<le> now" "now \<le> from'"
  shows "bounded secs cap from' (es @ [e])"
proof -
  have "usage (live secs t (es @ [e])) \<le> cap" if t: "from' \<le> t" for t
  proof (cases "keep secs t e")
    case True
    have "live secs t (es @ [e]) = filter (keep secs t) (live secs now es @ [e])"
      using True t order filter_keep_twice[of now t secs es] by (simp add: live_def del: filter_filter)
    moreover have "list_all ok (live secs now es @ [e])"
      using b e by (simp add: bounded_def live_def list_all_iff)
    ultimately show ?thesis using usage_filter gate order_trans by metis
  next
    case False
    then show ?thesis using b t order by (simp add: bounded_def live_def)
  qed
  then show ?thesis using b e by (simp add: bounded_def)
qed

end

lemma sum_list_filter_le:
  fixes f :: "'a \<Rightarrow> int"
  shows "list_all (\<lambda>x. 0 \<le> f x) xs \<Longrightarrow> sum_list (map f (filter P xs)) \<le> sum_list (map f xs)"
  by (induction xs) auto

definition nonneg_entry :: "state_entry \<Rightarrow> bool" where
  "nonneg_entry e \<longleftrightarrow> 0 \<le> amount e"

lemma window_amount_eq:
  "list_all nonneg_entry es \<Longrightarrow>
   fst (window_sum es) = clamp i128_min i128_max (sum_list (map amount es))"
  by (simp add: window_sum_eq) (intro sat_sum_i128_nonneg_eq, auto simp: list_all_iff nonneg_entry_def)

interpretation amount_window: capped_window "\<lambda>es. fst (window_sum es)" nonneg_entry
proof
  fix es P
  assume nn: "list_all nonneg_entry es"
  then have "list_all nonneg_entry (filter P es)" by (simp add: list_all_iff)
  then show "fst (window_sum (filter P es)) \<le> fst (window_sum es)"
    using nn sum_list_filter_le[of amount es P]
    by (simp add: window_amount_eq mi128.clamp_mono nonneg_entry_def list_all_iff)
qed

interpretation count_window: capped_window "\<lambda>es. snd (window_sum es)" "\<lambda>_. True"
  by unfold_locales (auto simp: window_sum_eq to_u32_def intro: le_trans[OF length_filter_le] min.coboundedI2)

end
