(* ===== verification/Value.thy ===== *)
theory Value
  imports State_Store
begin

text \<open>
  Value effects of a tool call (\<^verbatim>\<open>policy/v1/value.rs\<close>, \<^verbatim>\<open>criteria/amount_extract.rs\<close>),
  bundles and their in-bundle overlay (\<^verbatim>\<open>policy/v1/bundle.rs\<close>), and the evaluation
  context every criterion reads (\<^verbatim>\<open>policy/v1/mod.rs\<close>).  Views supplied by the
  dispatch site are records of the trait's methods; the host clock is the
  context's millisecond reading, \<^term>\<open>None\<close> before the epoch.
\<close>

section \<open>Value classes\<close>

datatype action_kind =
    Payment | AccountCreation | Claim | Trustline | DexTrade | Lend | LendWithdraw
  | VaultDeposit | VaultWithdraw | X402Payment | MppCharge | ContractInvoke | PathPaymentReceive

primrec carries_debit :: "action_kind \<Rightarrow> bool" where
  "carries_debit Payment = True"
| "carries_debit AccountCreation = True"
| "carries_debit DexTrade = True"
| "carries_debit Lend = True"
| "carries_debit VaultDeposit = True"
| "carries_debit X402Payment = True"
| "carries_debit MppCharge = True"
| "carries_debit ContractInvoke = True"
| "carries_debit Claim = False"
| "carries_debit Trustline = False"
| "carries_debit LendWithdraw = False"
| "carries_debit VaultWithdraw = False"
| "carries_debit PathPaymentReceive = False"

record value_leg =
  leg_kind :: action_kind
  leg_amount :: "int option"
  leg_asset :: "string option"
  leg_destination :: "string option"

type_synonym value_effects = "value_leg list"

datatype opaque_reason = RawTransactionSignature | RawAuthEntrySignature

definition opaque_reason_str :: "opaque_reason \<Rightarrow> string" where
  "opaque_reason_str r =
     (case r of RawTransactionSignature \<Rightarrow> ''raw_transaction_signature''
      | RawAuthEntrySignature \<Rightarrow> ''raw_auth_entry_signature'')"

datatype value_class =
    ReadOnly
  | ValueMoves value_effects
  | Opaque opaque_reason

definition sole_value_leg :: "value_class \<Rightarrow> value_leg option" where
  "sole_value_leg v = (case v of ValueMoves [l] \<Rightarrow> Some l | _ \<Rightarrow> None)"

definition asset_normalise :: "string \<Rightarrow> string" where
  "asset_normalise a =
     (if eq_ignore_ascii_case a ''native'' \<or> eq_ignore_ascii_case a ''xlm'' then ''native'' else a)"

definition is_native_debit :: "value_leg \<Rightarrow> bool" where
  "is_native_debit l \<longleftrightarrow>
     carries_debit (leg_kind l) \<and>
     (case leg_asset l of None \<Rightarrow> False | Some a \<Rightarrow> asset_normalise a = ''native'')"

section \<open>Deriving the value class of a call\<close>

definition is_pay :: "string \<Rightarrow> bool" where
  "is_pay t \<longleftrightarrow> t \<in> {''stellar_pay'', ''stellar_pay_commit''}"

definition is_create_account :: "string \<Rightarrow> bool" where
  "is_create_account t \<longleftrightarrow> t \<in> {''stellar_create_account'', ''stellar_create_account_commit''}"

definition legacy_payment_asset :: "strkey \<Rightarrow> json \<Rightarrow> (policy_error, canonical_asset) result" where
  "legacy_payment_asset sk args =
     (case parse_threshold_key sk (case get_str ''asset'' args of None \<Rightarrow> ''native'' | Some a \<Rightarrow> a) of
        Inr (Classic code issuer) \<Rightarrow> Inr (Classic code issuer)
      | Inl NativeKey \<Rightarrow> Inr Native
      | Inr _ \<Rightarrow> Inl (CriterionEvaluationFailed PaymentAssetNotIssued)
      | Inl _ \<Rightarrow> Inl (CriterionEvaluationFailed (PaymentAssetInvalid (case get_str ''asset'' args of None \<Rightarrow> ''native'' | Some a \<Rightarrow> a))))"

definition resolve_pay_or_create_account_stroops ::
  "strkey \<Rightarrow> string \<Rightarrow> json \<Rightarrow> (policy_error, int option) result" where
  "resolve_pay_or_create_account_stroops sk tool args =
     (case (if is_pay tool then Some (''amount_stroops'', ''amount'')
            else if is_create_account tool then Some (''starting_balance_stroops'', ''starting_balance'')
            else None) of
        None \<Rightarrow> Inr None
      | Some (resolved_key, legacy_key) \<Rightarrow>
          (case json_get resolved_key args of
             Some v \<Rightarrow>
               map_sum id Some
                 (ok_or (CriterionEvaluationFailed (StroopFieldInvalid resolved_key tool)) (value_as_stroops_i64 v))
           | None \<Rightarrow>
               (case get_str legacy_key args of
                  None \<Rightarrow> Inr None
                | Some v \<Rightarrow>
                    res_bind (if legacy_key = ''amount'' then legacy_payment_asset sk args else Inr Native)
                      (\<lambda>asset.
                         map_sum (\<lambda>e. CriterionEvaluationFailed (LegacyAmountUnparsable legacy_key tool e))
                           (Some \<circ> stroops) (parse_amount_or_stroops asset v)))))"

definition resolved_amount :: "strkey \<Rightarrow> string \<Rightarrow> json \<Rightarrow> int option" where
  "resolved_amount sk tool args =
     (case resolve_pay_or_create_account_stroops sk tool args of Inl _ \<Rightarrow> None | Inr a \<Rightarrow> a)"

definition trustline_asset :: "json \<Rightarrow> string option" where
  "trustline_asset args =
     (case get_str ''asset'' args of
        Some a \<Rightarrow> Some (asset_normalise a)
      | None \<Rightarrow>
          (case (get_str ''asset_code'' args, get_str ''asset_issuer'' args) of
             (Some code, Some issuer) \<Rightarrow> Some (asset_normalise (code @ '':'' @ issuer))
           | _ \<Rightarrow> None))"

definition derive_value_class :: "strkey \<Rightarrow> string \<Rightarrow> json \<Rightarrow> value_class" where
  "derive_value_class sk tool args =
     (if is_pay tool then
        let destination = get_str ''destination'' args;
            debit_leg = \<lparr>leg_kind = Payment, leg_amount = resolved_amount sk tool args,
                         leg_asset = map_option asset_normalise (get_str ''asset'' args),
                         leg_destination = destination\<rparr>;
            dest_amount = Option.bind (get_str ''dest_amount_stroops'' args) (parse_signed i64_min i64_max);
            dest_asset = map_option asset_normalise (get_str ''dest_asset'' args)
        in if dest_amount \<noteq> None \<or> dest_asset \<noteq> None
           then ValueMoves [debit_leg, \<lparr>leg_kind = PathPaymentReceive, leg_amount = dest_amount,
                                        leg_asset = dest_asset, leg_destination = destination\<rparr>]
           else ValueMoves [debit_leg]
      else if is_create_account tool then
        ValueMoves [\<lparr>leg_kind = AccountCreation, leg_amount = resolved_amount sk tool args,
                     leg_asset = Some ''native'', leg_destination = get_str ''destination'' args\<rparr>]
      else if tool \<in> {''stellar_claim'', ''stellar_claim_commit''} then
        ValueMoves [\<lparr>leg_kind = Claim, leg_amount = None, leg_asset = None, leg_destination = None\<rparr>]
      else if tool \<in> {''stellar_trustline'', ''stellar_trustline_commit''} then
        ValueMoves [\<lparr>leg_kind = Trustline, leg_amount = None, leg_asset = trustline_asset args,
                     leg_destination = None\<rparr>]
      else if tool \<in> {''stellar_sep43_sign_transaction'', ''stellar_sep43_sign_and_submit_transaction''} then
        Opaque RawTransactionSignature
      else if tool = ''stellar_sep43_sign_auth_entry'' then Opaque RawAuthEntrySignature
      else ReadOnly)"

section \<open>Bundles\<close>

datatype inner_op =
    TokenTransfer (tt_asset: string) (tt_from: string) (tt_to: string) (tt_amount: int)
  | Generic (gen_target: string) (gen_fn_name: string)

definition parse_i128_arg :: "json \<Rightarrow> int option" where
  "parse_i128_arg v =
     (case json_str v of
        Some s \<Rightarrow> parse_signed i128_min i128_max s
      | None \<Rightarrow> (case json_u64 v of Some n \<Rightarrow> Some n | None \<Rightarrow> json_i64 v))"

definition try_decompose_as_token_transfer ::
  "strkey \<Rightarrow> string \<Rightarrow> string \<Rightarrow> json list \<Rightarrow> inner_op option" where
  "try_decompose_as_token_transfer sk target fn_name args =
     (if c_decode sk target = None then None
      else if fn_name \<noteq> ''transfer'' then None
      else case args of
        [a0, a1, a2] \<Rightarrow>
          Option.bind (json_str a0) (\<lambda>from_str.
          if g_decode sk from_str = None then None else
          Option.bind (json_str a1) (\<lambda>to_str.
          if g_decode sk to_str = None then None else
          Option.bind (parse_i128_arg a2) (\<lambda>amt.
          if amt < 0 then None else Some (TokenTransfer target from_str to_str amt))))
      | _ \<Rightarrow> None)"

definition decompose_bundle ::
  "strkey \<Rightarrow> (string \<times> string \<times> json list) list \<Rightarrow> inner_op list" where
  "decompose_bundle sk raw =
     map (\<lambda>(target, fn_name, args).
            case try_decompose_as_token_transfer sk target fn_name args of
              Some op \<Rightarrow> op | None \<Rightarrow> Generic target fn_name) raw"

definition value_class_for_inner :: "inner_op \<Rightarrow> value_class" where
  "value_class_for_inner op =
     (case op of
        TokenTransfer asset _ to amt \<Rightarrow>
          ValueMoves [\<lparr>leg_kind = Payment, leg_amount = Some amt, leg_asset = Some (asset_normalise asset),
                       leg_destination = Some to\<rparr>]
      | Generic _ _ \<Rightarrow> ReadOnly)"

text \<open>The overlay counts what earlier inner calls of the same bundle would use.\<close>

type_synonym overlay = "state_key \<Rightarrow> int option"

definition overlay_get :: "overlay \<Rightarrow> state_key \<Rightarrow> int" where
  "overlay_get ov k = (case ov k of None \<Rightarrow> 0 | Some v \<Rightarrow> v)"

definition overlay_accumulate :: "overlay \<Rightarrow> state_key \<Rightarrow> int \<Rightarrow> overlay" where
  "overlay_accumulate ov k x = ov(k \<mapsto> sat_add_i128 (overlay_get ov k) x)"

record bundle_view =
  inners :: "inner_op list"
  bv_overlay :: overlay

section \<open>The evaluation context\<close>

record account_view =
  reserves_stroops :: "int \<Rightarrow> int"
  balance_stroops :: "(string, int) result"

record identity_view =
  home_domain :: "string option"
  account_id :: string

record quorum_view =
  groups_short_by :: "string list"
  combinator_label :: string

record counterparty_cache =
  has_resolved :: "string \<Rightarrow> bool"
  is_account_listed :: "string \<Rightarrow> string \<Rightarrow> bool"

type_synonym session_view = "string \<Rightarrow> nat \<Rightarrow> bool"

record eval_context =
  ctx_tool :: tool_descriptor
  ctx_args :: json
  ctx_profile_name :: string
  ctx_profile :: profile
  ctx_value :: value_class
  ctx_account_view :: "account_view option"
  ctx_identity_view :: "identity_view option"
  ctx_quorum :: "quorum_view option"
  ctx_counterparty_cache :: "counterparty_cache option"
  ctx_sep10_sessions :: "session_view option"
  ctx_sep45_sessions :: "session_view option"
  ctx_bundle :: "bundle_view option"
  ctx_now_ms :: "nat option"
  ctx_strkey :: strkey

datatype value_gate =
    GateNotApplicable
  | GateEffects value_effects
  | GateDeny deny_reason

definition classify_value :: "eval_context \<Rightarrow> value_gate" where
  "classify_value ctx =
     (case ctx_value ctx of
        ValueMoves effects \<Rightarrow> GateEffects effects
      | Opaque _ \<Rightarrow>
          if ctx_bundle ctx \<noteq> None then GateNotApplicable
          else GateDeny (UnsizableValueEffect (OpaqueMaterial (tool_name (ctx_tool ctx))))
      | ReadOnly \<Rightarrow>
          if value_kind (ctx_tool ctx) = MovesValue \<and> ctx_bundle ctx = None
          then GateDeny (UnsizableValueEffect (NoResolvedEffects (tool_name (ctx_tool ctx))))
          else GateNotApplicable)"

section \<open>Facts on value effects\<close>

lemma asset_normalise_idem [simp]: "asset_normalise (asset_normalise a) = asset_normalise a"
proof -
  have "eq_ignore_ascii_case ''native'' ''native''" by (simp add: eq_ignore_ascii_case_def)
  then show ?thesis by (simp add: asset_normalise_def)
qed

lemma overlay_get_accumulate [simp]:
  "overlay_get (overlay_accumulate ov k x) k' =
     (if k' = k then sat_add_i128 (overlay_get ov k) x else overlay_get ov k')"
  by (simp add: overlay_get_def overlay_accumulate_def)

lemma overlay_get_empty [simp]: "overlay_get Map.empty k = 0"
  by (simp add: overlay_get_def)

end
