(* ===== verification/Criteria.thy ===== *)
theory Criteria
  imports Value
begin

text \<open>
  The policy criteria (\<^verbatim>\<open>policy/v1/criteria/*.rs\<close>).  Every criterion is a
  constructor of \<^verbatim>\<open>criterion\<close>; its evaluation, its contribution to the bundle
  overlay and what it records after a confirmed submission are one definition
  each, dispatched by \<^verbatim>\<open>evaluate_criterion\<close>, \<^verbatim>\<open>accumulate_overlay\<close> and
  \<^verbatim>\<open>record_confirmed_criterion\<close>.  Stateful criteria thread the window store.
\<close>

section \<open>Criterion values\<close>

record window =
  w_secs :: nat
  w_label :: string

definition window_parse :: "string \<Rightarrow> (policy_error, window) result" where
  "window_parse s =
     (if s = ''1m'' then Inr \<lparr>w_secs = 60, w_label = ''1m''\<rparr>
      else if s = ''5m'' then Inr \<lparr>w_secs = 300, w_label = ''5m''\<rparr>
      else if s = ''1h'' then Inr \<lparr>w_secs = 3600, w_label = ''1h''\<rparr>
      else if s = ''1d'' then Inr \<lparr>w_secs = 86400, w_label = ''1d''\<rparr>
      else if s = ''1w'' then Inr \<lparr>w_secs = 604800, w_label = ''1w''\<rparr>
      else Inl (PolicyFileParseFailed (''per_period_cap: unsupported window '' @ s)))"

datatype counterparty_kind =
    GAccount | CAccount | KnownIssuer | Sep10Identity | HomeDomain | OneTimeAddress

definition counterparty_kind_tag :: "counterparty_kind \<Rightarrow> string" where
  "counterparty_kind_tag k =
     (case k of GAccount \<Rightarrow> ''G_ACCOUNT'' | CAccount \<Rightarrow> ''C_ACCOUNT'' | KnownIssuer \<Rightarrow> ''KNOWN_ISSUER''
      | Sep10Identity \<Rightarrow> ''SEP10_IDENTITY'' | HomeDomain \<Rightarrow> ''HOME_DOMAIN''
      | OneTimeAddress \<Rightarrow> ''ONE_TIME_ADDRESS'')"

definition counterparty_kind_parse :: "string \<Rightarrow> (policy_error, counterparty_kind) result" where
  "counterparty_kind_parse s =
     (if s = ''G_ACCOUNT'' then Inr GAccount
      else if s = ''C_ACCOUNT'' then Inr CAccount
      else if s = ''KNOWN_ISSUER'' then Inr KnownIssuer
      else if s = ''SEP10_IDENTITY'' then Inr Sep10Identity
      else if s = ''HOME_DOMAIN'' then Inr HomeDomain
      else if s = ''ONE_TIME_ADDRESS'' then Inr OneTimeAddress
      else Inl (PolicyFileParseFailed (''counterparty_allowlist: unknown kind '' @ s)))"

datatype criterion =
    PerTxCap string int
  | ApprovalAbove string int
  | PerPeriodCap string window int
  | RateLimit window nat
  | CounterpartyAllowlist "counterparty_kind list" "string list" bool
  | MinimumReserve int
  | InnerInvocationCountCap nat
  | BundleAggregateCap "string option" int
  | BundlePerTxCap string int
  | BundlePerPeriodCap string window int
  | BundleRateLimit window nat
  | RestrictBundleToRecognisedKinds bool
  | QuorumSatisfied
  | HomeDomainResolved
  | Sep10SessionActive
  | Sep45SessionActive

primrec criterion_kind :: "criterion \<Rightarrow> string" where
  "criterion_kind (PerTxCap a m) = ''per_tx_cap''"
| "criterion_kind (ApprovalAbove a m) = ''approval_above''"
| "criterion_kind (PerPeriodCap a w m) = ''per_period_cap''"
| "criterion_kind (RateLimit w m) = ''rate_limit''"
| "criterion_kind (CounterpartyAllowlist ks l g) = ''counterparty_allowlist''"
| "criterion_kind (MinimumReserve m) = ''minimum_reserve''"
| "criterion_kind (InnerInvocationCountCap m) = ''inner_invocation_count_cap''"
| "criterion_kind (BundleAggregateCap a m) = ''bundle_aggregate_cap''"
| "criterion_kind (BundlePerTxCap a m) = ''bundle_per_tx_cap''"
| "criterion_kind (BundlePerPeriodCap a w m) = ''bundle_per_period_cap''"
| "criterion_kind (BundleRateLimit w m) = ''bundle_rate_limit''"
| "criterion_kind (RestrictBundleToRecognisedKinds e) = ''restrict_bundle_to_recognised_kinds''"
| "criterion_kind QuorumSatisfied = ''quorum_satisfied''"
| "criterion_kind HomeDomainResolved = ''home_domain_resolved''"
| "criterion_kind Sep10SessionActive = ''sep10_session_active''"
| "criterion_kind Sep45SessionActive = ''sep45_session_active''"

primrec is_bundle_level :: "criterion \<Rightarrow> bool" where
  "is_bundle_level (PerTxCap a m) = False"
| "is_bundle_level (ApprovalAbove a m) = False"
| "is_bundle_level (PerPeriodCap a w m) = False"
| "is_bundle_level (RateLimit w m) = False"
| "is_bundle_level (CounterpartyAllowlist ks l g) = False"
| "is_bundle_level (MinimumReserve m) = False"
| "is_bundle_level (InnerInvocationCountCap m) = True"
| "is_bundle_level (BundleAggregateCap a m) = True"
| "is_bundle_level (BundlePerTxCap a m) = True"
| "is_bundle_level (BundlePerPeriodCap a w m) = True"
| "is_bundle_level (BundleRateLimit w m) = True"
| "is_bundle_level (RestrictBundleToRecognisedKinds e) = True"
| "is_bundle_level QuorumSatisfied = False"
| "is_bundle_level HomeDomainResolved = False"
| "is_bundle_level Sep10SessionActive = False"
| "is_bundle_level Sep45SessionActive = False"

type_synonym verdict = "(policy_error, deny_reason option) result"

definition ctx_tool_name :: "eval_context \<Rightarrow> string" where
  "ctx_tool_name ctx = tool_name (ctx_tool ctx)"

section \<open>Debit sums, the per-transaction cap and the approval threshold\<close>

datatype asset_debit_sum = SumNotApplicable | SumDeny deny_reason | SumAmount int

text \<open>
  The loop over the debit legs shared by the capping criteria: an unreadable
  debit leg is an error, legs of other assets are skipped, matching amounts are
  added with saturation.
\<close>

fun debit_loop :: "string \<Rightarrow> string \<Rightarrow> string \<Rightarrow> bool \<Rightarrow> int \<Rightarrow> value_leg list \<Rightarrow> (policy_error, bool \<times> int) result" where
  "debit_loop kind tool asset matched acc [] = Inr (matched, acc)"
| "debit_loop kind tool asset matched acc (leg # legs) =
     (if \<not> carries_debit (leg_kind leg) then debit_loop kind tool asset matched acc legs
      else case leg_asset leg of
        None \<Rightarrow> Inl (CriterionEvaluationFailed (DebitLegWithoutAsset kind tool))
      | Some a \<Rightarrow>
          if asset_normalise a \<noteq> asset then debit_loop kind tool asset matched acc legs
          else case leg_amount leg of
            None \<Rightarrow> Inl (CriterionEvaluationFailed (UnresolvableAmount kind tool))
          | Some x \<Rightarrow> debit_loop kind tool asset True (sat_add_i128 acc x) legs)"

definition asset_debit_sum :: "eval_context \<Rightarrow> string \<Rightarrow> string \<Rightarrow> (policy_error, asset_debit_sum) result" where
  "asset_debit_sum ctx asset kind =
     (case classify_value ctx of
        GateNotApplicable \<Rightarrow> Inr SumNotApplicable
      | GateDeny r \<Rightarrow> Inr (SumDeny r)
      | GateEffects effects \<Rightarrow>
          res_bind (debit_loop kind (ctx_tool_name ctx) (asset_normalise asset) False 0 effects)
            (\<lambda>(matched, acc). Inr (if matched then SumAmount acc else SumNotApplicable)))"

definition per_tx_cap_evaluate :: "string \<Rightarrow> int \<Rightarrow> eval_context \<Rightarrow> verdict" where
  "per_tx_cap_evaluate asset max_stroops ctx =
     res_bind (asset_debit_sum ctx asset ''per_tx_cap'') (\<lambda>r. Inr (
       case r of SumNotApplicable \<Rightarrow> None
       | SumDeny d \<Rightarrow> Some d
       | SumAmount acc \<Rightarrow> if max_stroops < acc then Some (PerTxCapExceeded asset max_stroops acc) else None))"

definition approval_above_evaluate :: "string \<Rightarrow> int \<Rightarrow> eval_context \<Rightarrow> verdict" where
  "approval_above_evaluate asset max_stroops ctx =
     res_bind (asset_debit_sum ctx asset ''approval_above'') (\<lambda>r. Inr (
       case r of SumNotApplicable \<Rightarrow> None
       | SumDeny d \<Rightarrow> Some d
       | SumAmount acc \<Rightarrow> if max_stroops < acc then Some (ApprovalAboveExceeded asset max_stroops acc) else None))"

definition DEFAULT_APPROVAL_TTL_SECONDS :: nat where "DEFAULT_APPROVAL_TTL_SECONDS = 86400"

definition approval_above_request :: "string \<Rightarrow> int \<Rightarrow> int \<Rightarrow> approval_request" where
  "approval_above_request asset max_stroops attempted =
     with_reason
       (''approval_above: '' @ show_int attempted @ '' stroops of '' @ asset @ '' exceeds threshold ''
         @ show_int max_stroops @ '' stroops'')
       (approval_request_new '''' DEFAULT_APPROVAL_TTL_SECONDS)"

section \<open>Sliding-window criteria\<close>

text \<open>Reading the clock and the window of a key, as every stateful criterion does it.\<close>

definition with_window ::
  "string \<Rightarrow> eval_context \<Rightarrow> state_key \<Rightarrow> (int \<times> nat \<Rightarrow> deny_reason option) \<Rightarrow> state_store
    \<Rightarrow> verdict \<times> state_store" where
  "with_window kind ctx key f s =
     (case ctx_now_ms ctx of
        None \<Rightarrow> (Inl (CriterionEvaluationFailed (ClockBeforeEpoch kind)), s)
      | Some now_ms \<Rightarrow>
          (case query_window s key now_ms of
             (Inl e, s') \<Rightarrow> (Inl (CriterionEvaluationFailed (StateStoreFailed kind e)), s')
           | (Inr used, s') \<Rightarrow> (Inr (f used), s')))"

definition amount_key :: "eval_context \<Rightarrow> string \<Rightarrow> window \<Rightarrow> state_key" where
  "amount_key ctx asset w = state_key_new (ctx_profile_name ctx) 1 (asset_normalise asset) (w_secs w)"

definition rate_key :: "eval_context \<Rightarrow> window \<Rightarrow> state_key" where
  "rate_key ctx w = state_key_new (ctx_profile_name ctx) 1 ''rate_limit'' (w_secs w)"

definition bundle_accumulated :: "eval_context \<Rightarrow> state_key \<Rightarrow> int" where
  "bundle_accumulated ctx key = (case ctx_bundle ctx of None \<Rightarrow> 0 | Some v \<Rightarrow> overlay_get (bv_overlay v) key)"

definition check_window ::
  "string \<Rightarrow> window \<Rightarrow> int \<Rightarrow> eval_context \<Rightarrow> int \<Rightarrow> state_store \<Rightarrow> verdict \<times> state_store" where
  "check_window asset w max_stroops ctx attempted s =
     (let key = amount_key ctx asset w in
      with_window ''per_period_cap'' ctx key
        (\<lambda>(recorded, _).
           let period_used = sat_add_i128 recorded (bundle_accumulated ctx key);
               would_use = sat_add_i128 period_used attempted
           in if max_stroops < would_use
              then Some (PerPeriodCapExceeded asset (w_label w) max_stroops attempted period_used)
              else None)
        s)"

definition per_period_cap_evaluate ::
  "string \<Rightarrow> window \<Rightarrow> int \<Rightarrow> eval_context \<Rightarrow> state_store \<Rightarrow> verdict \<times> state_store" where
  "per_period_cap_evaluate asset w max_stroops ctx s =
     (case classify_value ctx of
        GateNotApplicable \<Rightarrow> (Inr None, s)
      | GateDeny r \<Rightarrow> (Inr (Some r), s)
      | GateEffects effects \<Rightarrow>
          (case debit_loop ''per_period_cap'' (ctx_tool_name ctx) (asset_normalise asset) False 0 effects of
             Inl e \<Rightarrow> (Inl e, s)
           | Inr (matched, acc) \<Rightarrow>
               if matched then check_window asset w max_stroops ctx acc s else (Inr None, s)))"

text \<open>\<^verbatim>\<open>u32::try_from(n.max(0)).unwrap_or(u32::MAX)\<close> on the overlay's \<^verbatim>\<open>i128\<close> count.\<close>

definition rate_limit_evaluate ::
  "window \<Rightarrow> nat \<Rightarrow> eval_context \<Rightarrow> state_store \<Rightarrow> verdict \<times> state_store" where
  "rate_limit_evaluate w max_calls ctx s =
     (let key = rate_key ctx w in
      with_window ''rate_limit'' ctx key
        (\<lambda>(_, recorded).
           let calls = sat_add_u32 recorded (to_u32 (nat (bundle_accumulated ctx key)))
           in if max_calls \<le> calls then Some (RateLimitExceeded (w_label w) max_calls calls) else None)
        s)"

section \<open>Bundle criteria\<close>

fun bundle_per_tx_loop :: "string \<Rightarrow> int \<Rightarrow> nat \<Rightarrow> inner_op list \<Rightarrow> deny_reason option" where
  "bundle_per_tx_loop asset max_stroops idx [] = None"
| "bundle_per_tx_loop asset max_stroops idx (Generic t f # ops) =
     bundle_per_tx_loop asset max_stroops (idx + 1) ops"
| "bundle_per_tx_loop asset max_stroops idx (TokenTransfer a f t x # ops) =
     (if asset_normalise a \<noteq> asset_normalise asset then bundle_per_tx_loop asset max_stroops (idx + 1) ops
      else if max_stroops < x
      then Some (BundleDenied (to_u32 idx) (PerTxCapExceeded asset max_stroops x))
      else bundle_per_tx_loop asset max_stroops (idx + 1) ops)"

definition bundle_per_tx_cap_evaluate :: "string \<Rightarrow> int \<Rightarrow> eval_context \<Rightarrow> verdict" where
  "bundle_per_tx_cap_evaluate asset max_stroops ctx =
     (case ctx_bundle ctx of None \<Rightarrow> Inr None
      | Some view \<Rightarrow> Inr (bundle_per_tx_loop asset max_stroops 0 (inners view)))"

fun bundle_period_loop ::
  "string \<Rightarrow> window \<Rightarrow> int \<Rightarrow> int \<Rightarrow> int \<Rightarrow> nat \<Rightarrow> inner_op list \<Rightarrow> deny_reason option" where
  "bundle_period_loop asset w max_stroops recorded running idx [] = None"
| "bundle_period_loop asset w max_stroops recorded running idx (Generic t f # ops) =
     bundle_period_loop asset w max_stroops recorded running (idx + 1) ops"
| "bundle_period_loop asset w max_stroops recorded running idx (TokenTransfer a f t x # ops) =
     (if asset_normalise a \<noteq> asset_normalise asset
      then bundle_period_loop asset w max_stroops recorded running (idx + 1) ops
      else if max_stroops < sat_add_i128 (sat_add_i128 recorded running) x
      then Some (BundleDenied (to_u32 idx)
             (PerPeriodCapExceeded asset (w_label w) max_stroops x (sat_add_i128 recorded running)))
      else bundle_period_loop asset w max_stroops recorded (sat_add_i128 running x) (idx + 1) ops)"

definition bundle_per_period_cap_evaluate ::
  "string \<Rightarrow> window \<Rightarrow> int \<Rightarrow> eval_context \<Rightarrow> state_store \<Rightarrow> verdict \<times> state_store" where
  "bundle_per_period_cap_evaluate asset w max_stroops ctx s =
     (case ctx_bundle ctx of None \<Rightarrow> (Inr None, s)
      | Some view \<Rightarrow>
          with_window ''bundle_per_period_cap'' ctx (amount_key ctx asset w)
            (\<lambda>(recorded, _). bundle_period_loop asset w max_stroops recorded 0 0 (inners view)) s)"

fun bundle_rate_loop :: "window \<Rightarrow> nat \<Rightarrow> nat \<Rightarrow> nat \<Rightarrow> inner_op list \<Rightarrow> deny_reason option" where
  "bundle_rate_loop w max_calls recorded idx [] = None"
| "bundle_rate_loop w max_calls recorded idx (op # ops) =
     (let calls = sat_add_u32 recorded (to_u32 idx) in
      if max_calls \<le> calls
      then Some (BundleDenied (to_u32 idx) (RateLimitExceeded (w_label w) max_calls calls))
      else bundle_rate_loop w max_calls recorded (idx + 1) ops)"

definition bundle_rate_limit_evaluate ::
  "window \<Rightarrow> nat \<Rightarrow> eval_context \<Rightarrow> state_store \<Rightarrow> verdict \<times> state_store" where
  "bundle_rate_limit_evaluate w max_calls ctx s =
     (case ctx_bundle ctx of None \<Rightarrow> (Inr None, s)
      | Some view \<Rightarrow>
          with_window ''bundle_rate_limit'' ctx (rate_key ctx w)
            (\<lambda>(_, recorded). bundle_rate_loop w max_calls recorded 0 (inners view)) s)"

fun aggregate_loop :: "string option \<Rightarrow> int option \<Rightarrow> inner_op list \<Rightarrow> int option" where
  "aggregate_loop asset acc [] = acc"
| "aggregate_loop asset acc (Generic t f # ops) = aggregate_loop asset acc ops"
| "aggregate_loop asset acc (TokenTransfer a f t x # ops) =
     aggregate_loop asset
       (if (case asset of None \<Rightarrow> True | Some configured \<Rightarrow> configured = a)
        then Option.bind acc (\<lambda>n. checked_i128 (n + x)) else acc) ops"

definition bundle_aggregate_cap_evaluate :: "string option \<Rightarrow> int \<Rightarrow> eval_context \<Rightarrow> verdict" where
  "bundle_aggregate_cap_evaluate asset max_amount ctx =
     (case ctx_bundle ctx of None \<Rightarrow> Inr None
      | Some view \<Rightarrow>
          (case aggregate_loop asset (Some 0) (inners view) of
             None \<Rightarrow> Inl (CriterionEvaluationFailed AggregateOverflow)
           | Some acc \<Rightarrow>
               Inr (if max_amount < acc then Some (BundleAggregateCapExceeded asset max_amount acc) else None)))"

fun generic_loop :: "nat \<Rightarrow> inner_op list \<Rightarrow> deny_reason option" where
  "generic_loop idx [] = None"
| "generic_loop idx (Generic t f # ops) = Some (BundleContainsGenericKind (to_u32 idx))"
| "generic_loop idx (TokenTransfer a f t x # ops) = generic_loop (idx + 1) ops"

definition restrict_bundle_evaluate :: "bool \<Rightarrow> eval_context \<Rightarrow> verdict" where
  "restrict_bundle_evaluate enabled ctx =
     (if \<not> enabled then Inr None
      else case ctx_bundle ctx of None \<Rightarrow> Inr None | Some view \<Rightarrow> Inr (generic_loop 0 (inners view)))"

definition DEFAULT_INNER_INVOCATION_COUNT_CAP :: nat where "DEFAULT_INNER_INVOCATION_COUNT_CAP = 50"

definition inner_count_cap_evaluate :: "nat \<Rightarrow> eval_context \<Rightarrow> verdict" where
  "inner_count_cap_evaluate max_count ctx =
     (case ctx_bundle ctx of None \<Rightarrow> Inr None
      | Some view \<Rightarrow>
          let count = to_u32 (length (inners view)) in
          Inr (if max_count < count then Some (InnerInvocationCountCapExceeded max_count count) else None))"

section \<open>Counterparty allowlist\<close>

fun account_legs_loop ::
  "(string \<Rightarrow> string option) \<Rightarrow> string \<Rightarrow> string \<Rightarrow> string list \<Rightarrow> value_leg list \<Rightarrow> verdict" where
  "account_legs_loop decode tag tool allowlist [] = Inr None"
| "account_legs_loop decode tag tool allowlist (leg # legs) =
     (if \<not> carries_debit (leg_kind leg) then account_legs_loop decode tag tool allowlist legs
      else case leg_destination leg of
        None \<Rightarrow> Inr (Some (CounterpartyDenied tag ''''))
      | Some destination \<Rightarrow>
          if decode destination = None
          then Inl (CriterionEvaluationFailed (InvalidStrkey destination tool))
          else if destination \<notin> set allowlist then Inr (Some (CounterpartyDenied tag destination))
          else account_legs_loop decode tag tool allowlist legs)"

definition parse_asset_issuer :: "eval_context \<Rightarrow> string \<Rightarrow> (policy_error, string) result" where
  "parse_asset_issuer ctx asset_str =
     (case split_once (CHR '':'') asset_str of
        None \<Rightarrow> Inl (CriterionEvaluationFailed (AssetNotCodeIssuer asset_str (ctx_tool_name ctx)))
      | Some (_, issuer) \<Rightarrow>
          if g_decode (ctx_strkey ctx) issuer = None
          then Inl (CriterionEvaluationFailed (InvalidStrkey issuer (ctx_tool_name ctx)))
          else Inr issuer)"

definition issuer_on_list :: "string list \<Rightarrow> string \<Rightarrow> bool" where
  "issuer_on_list allowlist issuer =
     list_ex (\<lambda>entry. case split_once (CHR '':'') entry of
                Some (_, list_issuer) \<Rightarrow> list_issuer = issuer
              | None \<Rightarrow> entry = issuer) allowlist"

definition is_native_name :: "string \<Rightarrow> bool" where
  "is_native_name a \<longleftrightarrow> eq_ignore_ascii_case a ''native'' \<or> eq_ignore_ascii_case a ''xlm''"

fun known_issuer_legs_loop :: "eval_context \<Rightarrow> string list \<Rightarrow> bool \<Rightarrow> value_leg list \<Rightarrow> verdict" where
  "known_issuer_legs_loop ctx allowlist gate_inflows [] = Inr None"
| "known_issuer_legs_loop ctx allowlist gate_inflows (leg # legs) =
     (let is_debit = carries_debit (leg_kind leg) in
      if \<not> is_debit \<and> \<not> gate_inflows then known_issuer_legs_loop ctx allowlist gate_inflows legs
      else case leg_asset leg of
        None \<Rightarrow>
          Inr (Some (CounterpartyDenied ''KNOWN_ISSUER''
            (if is_debit then '''' else ''inflow leg carries no resolvable asset'')))
      | Some asset_str \<Rightarrow>
          if is_native_name asset_str then known_issuer_legs_loop ctx allowlist gate_inflows legs
          else case parse_asset_issuer ctx asset_str of
            Inl e \<Rightarrow> Inl e
          | Inr issuer \<Rightarrow>
              if \<not> issuer_on_list allowlist issuer
              then Inr (Some (CounterpartyDenied ''KNOWN_ISSUER''
                (if is_debit then issuer else ''inflow leg issuer '' @ issuer @ '' not allowlisted'')))
              else known_issuer_legs_loop ctx allowlist gate_inflows legs)"

definition extract_string_field :: "eval_context \<Rightarrow> string \<Rightarrow> (policy_error, string) result" where
  "extract_string_field ctx field =
     ok_or (CriterionEvaluationFailed (MissingStringField field (ctx_tool_name ctx)))
       (get_str field (ctx_args ctx))"

definition check_account ::
  "(string \<Rightarrow> string option) \<Rightarrow> string \<Rightarrow> string list \<Rightarrow> eval_context \<Rightarrow> verdict" where
  "check_account decode tag allowlist ctx =
     res_bind (extract_string_field ctx ''destination'') (\<lambda>destination.
       if decode destination = None
       then Inl (CriterionEvaluationFailed (InvalidStrkey destination (ctx_tool_name ctx)))
       else Inr (if destination \<notin> set allowlist then Some (CounterpartyDenied tag destination) else None))"

definition check_known_issuer :: "string list \<Rightarrow> eval_context \<Rightarrow> verdict" where
  "check_known_issuer allowlist ctx =
     (case get_str ''asset'' (ctx_args ctx) of
        None \<Rightarrow> Inr None
      | Some asset_str \<Rightarrow>
          if is_native_name asset_str then Inr None
          else res_bind (parse_asset_issuer ctx asset_str) (\<lambda>issuer.
            Inr (if \<not> issuer_on_list allowlist issuer
                 then Some (CounterpartyDenied ''KNOWN_ISSUER'' issuer) else None)))"

definition check_home_domain :: "string list \<Rightarrow> eval_context \<Rightarrow> verdict" where
  "check_home_domain allowlist ctx =
     (let deny = (\<lambda>v. Inr (Some (CounterpartyDenied ''HOME_DOMAIN'' v))) in
      case ctx_identity_view ctx of
        None \<Rightarrow> deny ''''
      | Some identity \<Rightarrow>
          (case home_domain identity of
             None \<Rightarrow> deny ''''
           | Some resolved \<Rightarrow>
               if \<not> is_ascii resolved then deny ''<non-ascii-redacted>''
               else
                 let lower = to_ascii_lowercase resolved in
                 (case ctx_counterparty_cache ctx of
                    None \<Rightarrow> deny (lower @ '': not verified (counterparty cache not populated)'')
                  | Some cache \<Rightarrow>
                      if \<not> has_resolved cache lower
                      then deny (lower @ '': not verified (no live entry in the counterparty cache; run `stellar-agent counterparty refresh '' @ lower @ ''`)'')
                      else if \<not> is_account_listed cache lower (account_id identity)
                      then deny (lower @ '': not verified (account not listed by domain'' @ [CHR 0x27] @ ''s stellar.toml)'')
                      else if lower \<notin> set allowlist then deny lower
                      else Inr None)))"

definition evaluate_kind :: "string list \<Rightarrow> eval_context \<Rightarrow> counterparty_kind \<Rightarrow> verdict" where
  "evaluate_kind allowlist ctx kind =
     (case kind of
        GAccount \<Rightarrow> check_account (g_decode (ctx_strkey ctx)) ''G_ACCOUNT'' allowlist ctx
      | CAccount \<Rightarrow> check_account (c_decode (ctx_strkey ctx)) ''C_ACCOUNT'' allowlist ctx
      | KnownIssuer \<Rightarrow> check_known_issuer allowlist ctx
      | HomeDomain \<Rightarrow> check_home_domain allowlist ctx
      | _ \<Rightarrow> Inr (Some (CounterpartyKindUnsupported (counterparty_kind_tag kind))))"

definition evaluate_kind_over_effects ::
  "string list \<Rightarrow> bool \<Rightarrow> eval_context \<Rightarrow> value_effects \<Rightarrow> counterparty_kind \<Rightarrow> verdict" where
  "evaluate_kind_over_effects allowlist gate_inflows ctx effects kind =
     (case kind of
        GAccount \<Rightarrow> account_legs_loop (g_decode (ctx_strkey ctx)) ''G_ACCOUNT'' (ctx_tool_name ctx) allowlist effects
      | CAccount \<Rightarrow> account_legs_loop (c_decode (ctx_strkey ctx)) ''C_ACCOUNT'' (ctx_tool_name ctx) allowlist effects
      | KnownIssuer \<Rightarrow> known_issuer_legs_loop ctx allowlist gate_inflows effects
      | HomeDomain \<Rightarrow> check_home_domain allowlist ctx
      | _ \<Rightarrow> Inr (Some (CounterpartyKindUnsupported (counterparty_kind_tag kind))))"

text \<open>Checks in order; the first denial or error ends the loop.\<close>

fun first_verdict :: "('a \<Rightarrow> verdict) \<Rightarrow> 'a list \<Rightarrow> verdict" where
  "first_verdict f [] = Inr None"
| "first_verdict f (x # xs) =
     (case f x of Inl e \<Rightarrow> Inl e | Inr (Some d) \<Rightarrow> Inr (Some d) | Inr None \<Rightarrow> first_verdict f xs)"

definition counterparty_allowlist_evaluate ::
  "counterparty_kind list \<Rightarrow> string list \<Rightarrow> bool \<Rightarrow> eval_context \<Rightarrow> verdict" where
  "counterparty_allowlist_evaluate kinds allowlist gate_inflows ctx =
     (case classify_value ctx of
        GateDeny r \<Rightarrow> Inr (Some r)
      | GateEffects effects \<Rightarrow>
          first_verdict (evaluate_kind_over_effects allowlist gate_inflows ctx effects) kinds
      | GateNotApplicable \<Rightarrow> first_verdict (evaluate_kind allowlist ctx) kinds)"

section \<open>Reserve and identity criteria\<close>

definition BASE_RESERVE_STROOPS :: int where "BASE_RESERVE_STROOPS = 5000000"

datatype amount_outcome = Debit int | OutcomeDeny deny_reason

fun native_debit_loop :: "string \<Rightarrow> int \<Rightarrow> value_leg list \<Rightarrow> (policy_error, int) result" where
  "native_debit_loop tool acc [] = Inr acc"
| "native_debit_loop tool acc (leg # legs) =
     (if \<not> is_native_debit leg then native_debit_loop tool acc legs
      else case leg_amount leg of
        None \<Rightarrow> Inl (CriterionEvaluationFailed (UnresolvableAmount ''minimum_reserve'' tool))
      | Some x \<Rightarrow> native_debit_loop tool (sat_add_i128 acc x) legs)"

definition extract_amount_stroops :: "eval_context \<Rightarrow> (policy_error, amount_outcome) result" where
  "extract_amount_stroops ctx =
     (case classify_value ctx of
        GateNotApplicable \<Rightarrow> Inr (Debit 0)
      | GateDeny r \<Rightarrow> Inr (OutcomeDeny r)
      | GateEffects effects \<Rightarrow> map_sum id Debit (native_debit_loop (ctx_tool_name ctx) 0 effects))"

definition extract_total_fee_stroops :: "eval_context \<Rightarrow> int" where
  "extract_total_fee_stroops ctx =
     (case Option.bind (json_get ''total_fee_stroops'' (ctx_args ctx)) json_i64 of None \<Rightarrow> 0 | Some f \<Rightarrow> f)"

definition minimum_reserve_evaluate :: "int \<Rightarrow> eval_context \<Rightarrow> verdict" where
  "minimum_reserve_evaluate margin_stroops ctx =
     res_bind (ok_or (CriterionEvaluationFailed (AccountViewMissing (ctx_tool_name ctx))) (ctx_account_view ctx)) (\<lambda>view.
     res_bind (map_sum (\<lambda>e. CriterionEvaluationFailed (BalanceUnavailable (ctx_tool_name ctx) e)) id (balance_stroops view)) (\<lambda>pre_balance.
     res_bind (extract_amount_stroops ctx) (\<lambda>outcome.
       case outcome of
         OutcomeDeny r \<Rightarrow> Inr (Some r)
       | Debit amount_stroops \<Rightarrow>
           let debit = sat_add_i128 amount_stroops (extract_total_fee_stroops ctx);
               post_balance = clamp i128_min i128_max (pre_balance - debit);
               reserve_required = clamp i64_min i64_max (reserves_stroops view BASE_RESERVE_STROOPS + margin_stroops)
           in Inr (if post_balance < reserve_required
                   then Some (MinimumReserveBreached reserve_required pre_balance) else None))))"

definition quorum_satisfied_evaluate :: "eval_context \<Rightarrow> verdict" where
  "quorum_satisfied_evaluate ctx =
     res_bind (ok_or (CriterionEvaluationFailed (QuorumViewMissing (ctx_tool_name ctx))) (ctx_quorum ctx)) (\<lambda>view.
       Inr (if groups_short_by view = [] then None
            else Some (QuorumNotSatisfied (groups_short_by view) (combinator_label view))))"

definition home_domain_resolved_evaluate :: "eval_context \<Rightarrow> verdict" where
  "home_domain_resolved_evaluate ctx =
     res_bind (ok_or (CriterionEvaluationFailed (IdentityViewMissing (ctx_tool_name ctx))) (ctx_identity_view ctx)) (\<lambda>identity.
       case home_domain identity of
         None \<Rightarrow> Inr None
       | Some domain \<Rightarrow>
           res_bind (ok_or (CriterionEvaluationFailed (CounterpartyCacheMissing (ctx_tool_name ctx) domain))
                       (ctx_counterparty_cache ctx)) (\<lambda>cache.
             Inr (if has_resolved cache domain then None else Some (HomeDomainNotResolved domain))))"

text \<open>Whole seconds of the clock; a clock before the epoch counts as the far future.\<close>

definition ctx_now_unix :: "eval_context \<Rightarrow> nat" where
  "ctx_now_unix ctx = (case ctx_now_ms ctx of None \<Rightarrow> u64_max | Some ms \<Rightarrow> ms div 1000)"

definition sep10_session_active_evaluate :: "eval_context \<Rightarrow> verdict" where
  "sep10_session_active_evaluate ctx =
     res_bind (ok_or (CriterionEvaluationFailed (Sep10ViewMissing (ctx_tool_name ctx))) (ctx_sep10_sessions ctx)) (\<lambda>is_active.
       let account = signer_account (ctx_profile ctx) in
       Inr (if is_active account (ctx_now_unix ctx) then None else Some (Sep10SessionMissing account)))"

definition sep45_session_active_evaluate :: "eval_context \<Rightarrow> verdict" where
  "sep45_session_active_evaluate ctx =
     res_bind (ok_or (CriterionEvaluationFailed (Sep45ViewMissing (ctx_tool_name ctx))) (ctx_sep45_sessions ctx)) (\<lambda>is_active.
       let contract = signer_account (ctx_profile ctx) in
       Inr (if is_active contract (ctx_now_unix ctx) then None else Some (Sep45SessionMissing contract)))"

section \<open>The criterion interface\<close>

primrec evaluate_criterion :: "criterion \<Rightarrow> eval_context \<Rightarrow> state_store \<Rightarrow> verdict \<times> state_store" where
  "evaluate_criterion (PerTxCap a m) ctx s = (per_tx_cap_evaluate a m ctx, s)"
| "evaluate_criterion (ApprovalAbove a m) ctx s = (approval_above_evaluate a m ctx, s)"
| "evaluate_criterion (PerPeriodCap a w m) ctx s = per_period_cap_evaluate a w m ctx s"
| "evaluate_criterion (RateLimit w m) ctx s = rate_limit_evaluate w m ctx s"
| "evaluate_criterion (CounterpartyAllowlist ks l g) ctx s = (counterparty_allowlist_evaluate ks l g ctx, s)"
| "evaluate_criterion (MinimumReserve m) ctx s = (minimum_reserve_evaluate m ctx, s)"
| "evaluate_criterion (InnerInvocationCountCap m) ctx s = (inner_count_cap_evaluate m ctx, s)"
| "evaluate_criterion (BundleAggregateCap a m) ctx s = (bundle_aggregate_cap_evaluate a m ctx, s)"
| "evaluate_criterion (BundlePerTxCap a m) ctx s = (bundle_per_tx_cap_evaluate a m ctx, s)"
| "evaluate_criterion (BundlePerPeriodCap a w m) ctx s = bundle_per_period_cap_evaluate a w m ctx s"
| "evaluate_criterion (BundleRateLimit w m) ctx s = bundle_rate_limit_evaluate w m ctx s"
| "evaluate_criterion (RestrictBundleToRecognisedKinds e) ctx s = (restrict_bundle_evaluate e ctx, s)"
| "evaluate_criterion QuorumSatisfied ctx s = (quorum_satisfied_evaluate ctx, s)"
| "evaluate_criterion HomeDomainResolved ctx s = (home_domain_resolved_evaluate ctx, s)"
| "evaluate_criterion Sep10SessionActive ctx s = (sep10_session_active_evaluate ctx, s)"
| "evaluate_criterion Sep45SessionActive ctx s = (sep45_session_active_evaluate ctx, s)"

text \<open>
  \<^verbatim>\<open>evaluate_decision\<close>: a denial denies, except that the approval threshold turns
  its own denial into an approval request.
\<close>

definition decision_of_verdict :: "criterion \<Rightarrow> deny_reason option \<Rightarrow> decision" where
  "decision_of_verdict c v =
     (case v of
        None \<Rightarrow> Allow
      | Some r \<Rightarrow>
          (case (c, r) of
             (ApprovalAbove _ _, ApprovalAboveExceeded asset max_stroops attempted) \<Rightarrow>
               RequireApproval (approval_above_request asset max_stroops attempted)
           | _ \<Rightarrow> Deny r))"

definition evaluate_decision ::
  "criterion \<Rightarrow> eval_context \<Rightarrow> state_store \<Rightarrow> (policy_error, decision) result \<times> state_store" where
  "evaluate_decision c ctx s =
     (case evaluate_criterion c ctx s of (r, s') \<Rightarrow> (map_sum id (decision_of_verdict c) r, s'))"

definition accumulate_overlay :: "criterion \<Rightarrow> eval_context \<Rightarrow> inner_op \<Rightarrow> overlay \<Rightarrow> overlay" where
  "accumulate_overlay c ctx op ov =
     (case c of
        PerPeriodCap asset w _ \<Rightarrow>
          (case op of
             TokenTransfer a _ _ x \<Rightarrow>
               if asset_normalise asset \<noteq> asset_normalise a then ov
               else overlay_accumulate ov (amount_key ctx asset w) x
           | Generic _ _ \<Rightarrow> ov)
      | RateLimit w _ \<Rightarrow> overlay_accumulate ov (rate_key ctx w) 1
      | _ \<Rightarrow> ov)"

section \<open>Recording a confirmed submission\<close>

type_synonym recorded = "(policy_error, window_entry list) result"

fun record_amounts ::
  "string \<Rightarrow> state_key \<Rightarrow> nat \<Rightarrow> window_limit \<Rightarrow> int list \<Rightarrow> state_store \<Rightarrow> recorded \<times> state_store" where
  "record_amounts kind key now_ms limit [] s = (Inr [], s)"
| "record_amounts kind key now_ms limit (x # xs) s =
     (case append_settled s key now_ms x of
        (Inl e, s') \<Rightarrow> (Inl (CriterionEvaluationFailed (StateStoreFailed kind e)), s')
      | (Inr _, s') \<Rightarrow>
          (case record_amounts kind key now_ms limit xs s' of
             (Inl e, s'') \<Rightarrow> (Inl e, s'')
           | (Inr es, s'') \<Rightarrow> (Inr (window_entry_new key now_ms x limit # es), s'')))"

definition record_now ::
  "string \<Rightarrow> eval_context \<Rightarrow> state_key \<Rightarrow> window_limit \<Rightarrow> int list \<Rightarrow> state_store \<Rightarrow> recorded \<times> state_store" where
  "record_now kind ctx key limit xs s =
     (case ctx_now_ms ctx of
        None \<Rightarrow> (Inl (CriterionEvaluationFailed (ClockBeforeEpoch kind)), s)
      | Some now_ms \<Rightarrow> record_amounts kind key now_ms limit xs s)"

text \<open>Amounts of the debit legs of an asset; unreadable legs are skipped here.\<close>

fun recorded_debits :: "string \<Rightarrow> value_leg list \<Rightarrow> int list" where
  "recorded_debits asset [] = []"
| "recorded_debits asset (leg # legs) =
     (if \<not> carries_debit (leg_kind leg) then recorded_debits asset legs
      else case leg_asset leg of
        None \<Rightarrow> recorded_debits asset legs
      | Some a \<Rightarrow>
          if asset_normalise a \<noteq> asset then recorded_debits asset legs
          else case leg_amount leg of
            None \<Rightarrow> recorded_debits asset legs
          | Some x \<Rightarrow> x # recorded_debits asset legs)"

definition per_period_cap_record ::
  "string \<Rightarrow> window \<Rightarrow> int \<Rightarrow> eval_context \<Rightarrow> state_store \<Rightarrow> recorded \<times> state_store" where
  "per_period_cap_record asset w max_stroops ctx s =
     (case ctx_value ctx of
        ValueMoves effects \<Rightarrow>
          (case recorded_debits (asset_normalise asset) effects of
             [] \<Rightarrow> (Inr [], s)
           | xs \<Rightarrow>
               record_now ''per_period_cap'' ctx (amount_key ctx asset w)
                 (AmountLimit asset (w_label w) max_stroops) [sat_sum_i128 xs] s)
      | _ \<Rightarrow> (Inr [], s))"

definition rate_limit_record :: "window \<Rightarrow> nat \<Rightarrow> eval_context \<Rightarrow> state_store \<Rightarrow> recorded \<times> state_store" where
  "rate_limit_record w max_calls ctx s =
     (if ctx_bundle ctx \<noteq> None then (Inr [], s)
      else record_now ''rate_limit'' ctx (rate_key ctx w) (CountLimit (w_label w) max_calls) [1] s)"

fun transfers_of :: "string \<Rightarrow> inner_op list \<Rightarrow> int list" where
  "transfers_of asset [] = []"
| "transfers_of asset (Generic t f # ops) = transfers_of asset ops"
| "transfers_of asset (TokenTransfer a f t x # ops) =
     (if asset_normalise a \<noteq> asset then transfers_of asset ops else x # transfers_of asset ops)"

definition bundle_per_period_cap_record ::
  "string \<Rightarrow> window \<Rightarrow> int \<Rightarrow> eval_context \<Rightarrow> state_store \<Rightarrow> recorded \<times> state_store" where
  "bundle_per_period_cap_record asset w max_stroops ctx s =
     (case ctx_bundle ctx of
        None \<Rightarrow> (Inr [], s)
      | Some view \<Rightarrow>
          record_now ''bundle_per_period_cap'' ctx (amount_key ctx asset w)
            (AmountLimit asset (w_label w) max_stroops) (transfers_of (asset_normalise asset) (inners view)) s)"

definition bundle_rate_limit_record ::
  "window \<Rightarrow> nat \<Rightarrow> eval_context \<Rightarrow> state_store \<Rightarrow> recorded \<times> state_store" where
  "bundle_rate_limit_record w max_calls ctx s =
     (case ctx_bundle ctx of
        None \<Rightarrow> (Inr [], s)
      | Some view \<Rightarrow>
          record_now ''bundle_rate_limit'' ctx (rate_key ctx w) (CountLimit (w_label w) max_calls)
            (map (\<lambda>_. 1) (inners view)) s)"

definition record_confirmed_criterion :: "criterion \<Rightarrow> eval_context \<Rightarrow> state_store \<Rightarrow> recorded \<times> state_store" where
  "record_confirmed_criterion c ctx s =
     (case c of
        PerPeriodCap a w m \<Rightarrow> per_period_cap_record a w m ctx s
      | RateLimit w m \<Rightarrow> rate_limit_record w m ctx s
      | BundlePerPeriodCap a w m \<Rightarrow> bundle_per_period_cap_record a w m ctx s
      | BundleRateLimit w m \<Rightarrow> bundle_rate_limit_record w m ctx s
      | _ \<Rightarrow> (Inr [], s))"

section \<open>Evaluation leaves the store observably unchanged\<close>

definition same_for :: "eval_context \<Rightarrow> state_store \<Rightarrow> state_store \<Rightarrow> bool" where
  "same_for ctx s s' \<longleftrightarrow> (\<forall>now. ctx_now_ms ctx = Some now \<longrightarrow> same_from now s s')"

lemma same_for_refl [simp]: "same_for ctx s s"
  by (simp add: same_for_def)

lemma same_for_trans: "same_for ctx s s' \<Longrightarrow> same_for ctx s' s'' \<Longrightarrow> same_for ctx s s''"
  by (auto simp: same_for_def intro: same_from_trans)

lemma with_window_fst:
  "fst (with_window kind ctx key f s) =
     (case ctx_now_ms ctx of
        None \<Rightarrow> Inl (CriterionEvaluationFailed (ClockBeforeEpoch kind))
      | Some now \<Rightarrow>
          (case fst (query_window s key now) of
             Inl e \<Rightarrow> Inl (CriterionEvaluationFailed (StateStoreFailed kind e))
           | Inr used \<Rightarrow> Inr (f used)))"
  by (auto simp: with_window_def split: option.split sum.split prod.split)

lemma with_window_snd:
  "snd (with_window kind ctx key f s) =
     (case ctx_now_ms ctx of None \<Rightarrow> s | Some now \<Rightarrow> snd (query_window s key now))"
  by (auto simp: with_window_def split: option.split sum.split prod.split)

lemma with_window_same [simp]: "same_for ctx s (snd (with_window kind ctx key f s))"
  by (auto simp: with_window_snd same_for_def same_from_query)

lemma with_window_cong:
  "same_for ctx s s' \<Longrightarrow> fst (with_window kind ctx key f s) = fst (with_window kind ctx key f s')"
  by (auto simp: with_window_fst same_for_def same_from_def split: option.split)

lemmas stateful_criteria_defs =
  per_period_cap_evaluate_def check_window_def rate_limit_evaluate_def
  bundle_per_period_cap_evaluate_def bundle_rate_limit_evaluate_def Let_def

lemma evaluate_criterion_same: "same_for ctx s (snd (evaluate_criterion c ctx s))"
  by (cases c) (auto simp: stateful_criteria_defs split: value_gate.split sum.split option.split)

lemma evaluate_criterion_cong:
  assumes "same_for ctx s s'"
  shows "fst (evaluate_criterion c ctx s) = fst (evaluate_criterion c ctx s')"
  using with_window_cong[OF assms]
  by (cases c) (auto simp: stateful_criteria_defs split: value_gate.split sum.split option.split)

lemma evaluate_decision_fst:
  "fst (evaluate_decision c ctx s) = map_sum id (decision_of_verdict c) (fst (evaluate_criterion c ctx s))"
  by (simp add: evaluate_decision_def split: prod.split)

lemma evaluate_decision_same: "same_for ctx s (snd (evaluate_decision c ctx s))"
  using evaluate_criterion_same[of ctx s c] by (auto simp: evaluate_decision_def split: prod.split)

lemma evaluate_decision_cong:
  "same_for ctx s s' \<Longrightarrow> fst (evaluate_decision c ctx s) = fst (evaluate_decision c ctx s')"
  by (simp add: evaluate_decision_fst evaluate_criterion_cong[of ctx s s'])

lemma decision_of_verdict_simps [simp]:
  "decision_of_verdict c v = Allow \<longleftrightarrow> v = None"
  by (auto simp: decision_of_verdict_def split: option.split criterion.split deny_reason.split)

lemma decision_of_verdict_approval:
  "decision_of_verdict c v = RequireApproval req \<longleftrightarrow>
   (\<exists>a m b x y. c = ApprovalAbove a m \<and> v = Some (ApprovalAboveExceeded b x y) \<and>
      req = approval_above_request b x y)"
  by (auto simp: decision_of_verdict_def split: option.splits criterion.splits deny_reason.splits)

lemma decision_of_verdict_deny:
  "\<not> (\<exists>a m. c = ApprovalAbove a m) \<Longrightarrow> decision_of_verdict c (Some d) = Deny d"
  by (auto simp: decision_of_verdict_def split: criterion.split)

section \<open>Debit sums\<close>

lemma debit_loop_Inr:
  "debit_loop kind tool a m acc legs = Inr (m', acc') \<Longrightarrow>
   m' = (m \<or> recorded_debits a legs \<noteq> []) \<and> acc' = foldl sat_add_i128 acc (recorded_debits a legs)"
  by (induction legs arbitrary: m acc) (auto split: if_splits option.splits)

text \<open>The amounts a value class debits of an asset, in leg order.\<close>

definition debits :: "string \<Rightarrow> value_class \<Rightarrow> int list" where
  "debits asset v = (case v of ValueMoves legs \<Rightarrow> recorded_debits (asset_normalise asset) legs | _ \<Rightarrow> [])"

lemma asset_debit_sum_Amount:
  assumes "asset_debit_sum ctx asset kind = Inr r"
  shows "(\<exists>d. r = SumDeny d) \<or>
    (if debits asset (ctx_value ctx) = [] then r = SumNotApplicable
     else r = SumAmount (sat_sum_i128 (debits asset (ctx_value ctx))))"
  using assms
  by (auto simp: asset_debit_sum_def classify_value_def debits_def res_bind_Inr_iff sat_sum_i128_def
      split: value_gate.splits value_class.splits if_splits dest: debit_loop_Inr)

lemma per_tx_cap_allows:
  assumes "per_tx_cap_evaluate asset m ctx = Inr None"
  shows "debits asset (ctx_value ctx) = [] \<or> sat_sum_i128 (debits asset (ctx_value ctx)) \<le> m"
proof -
  obtain r where r: "asset_debit_sum ctx asset ''per_tx_cap'' = Inr r"
    using assms by (auto simp: per_tx_cap_evaluate_def res_bind_Inr_iff)
  then show ?thesis
    using asset_debit_sum_Amount[OF r] assms
    by (cases r) (auto simp: per_tx_cap_evaluate_def split: if_splits)
qed

lemma approval_above_allows:
  assumes "approval_above_evaluate asset m ctx = Inr None"
  shows "debits asset (ctx_value ctx) = [] \<or> sat_sum_i128 (debits asset (ctx_value ctx)) \<le> m"
proof -
  obtain r where r: "asset_debit_sum ctx asset ''approval_above'' = Inr r"
    using assms by (auto simp: approval_above_evaluate_def res_bind_Inr_iff)
  then show ?thesis
    using asset_debit_sum_Amount[OF r] assms
    by (cases r) (auto simp: approval_above_evaluate_def split: if_splits)
qed

lemma per_period_cap_allows:
  assumes "fst (per_period_cap_evaluate asset w m ctx s) = Inr None"
    and "debits asset (ctx_value ctx) \<noteq> []"
  obtains now used calls where "ctx_now_ms ctx = Some now"
    "fst (query_window s (amount_key ctx asset w) now) = Inr (used, calls)"
    "sat_add_i128 (sat_add_i128 used (bundle_accumulated ctx (amount_key ctx asset w)))
       (sat_sum_i128 (debits asset (ctx_value ctx))) \<le> m"
proof -
  obtain legs where v: "ctx_value ctx = ValueMoves legs"
    using assms(2) by (auto simp: debits_def split: value_class.splits)
  then obtain b acc where
    dl: "debit_loop ''per_period_cap'' (ctx_tool_name ctx) (asset_normalise asset) False 0 legs = Inr (b, acc)"
    using assms(1)
    by (auto simp: per_period_cap_evaluate_def classify_value_def split: sum.splits)
  have "b" "acc = sat_sum_i128 (debits asset (ctx_value ctx))"
    using debit_loop_Inr[OF dl] assms(2) by (simp_all add: debits_def v sat_sum_i128_def)
  then have "fst (check_window asset w m ctx (sat_sum_i128 (debits asset (ctx_value ctx))) s) = Inr None"
    using assms(1) v dl by (simp add: per_period_cap_evaluate_def classify_value_def)
  then show ?thesis
    by (auto simp: check_window_def with_window_fst Let_def split: option.splits sum.splits if_splits
        intro: that)
qed

lemma rate_limit_allows:
  assumes "fst (rate_limit_evaluate w m ctx s) = Inr None"
  obtains now used calls where "ctx_now_ms ctx = Some now"
    "fst (query_window s (rate_key ctx w) now) = Inr (used, calls)"
    "sat_add_u32 calls (to_u32 (nat (bundle_accumulated ctx (rate_key ctx w)))) < m"
  using assms
  by (auto simp: rate_limit_evaluate_def with_window_fst Let_def not_le split: option.splits sum.splits if_splits
      intro: that)

text \<open>An effect the gate refuses to size is denied by every criterion that sizes value.\<close>

definition sizes_value :: "criterion \<Rightarrow> bool" where
  "sizes_value c =
     (case c of PerTxCap _ _ \<Rightarrow> True | ApprovalAbove _ _ \<Rightarrow> True | PerPeriodCap _ _ _ \<Rightarrow> True
      | CounterpartyAllowlist _ _ _ \<Rightarrow> True | _ \<Rightarrow> False)"

lemma sizes_value_gate_deny:
  assumes "sizes_value c" "classify_value ctx = GateDeny (UnsizableValueEffect u)"
  shows "fst (evaluate_decision c ctx s) = Inr (Deny (UnsizableValueEffect u))"
  using assms
  by (cases c) (simp_all add: sizes_value_def evaluate_decision_def per_tx_cap_evaluate_def
      approval_above_evaluate_def asset_debit_sum_def per_period_cap_evaluate_def
      counterparty_allowlist_evaluate_def decision_of_verdict_def)

end
