(* ===== verification/Policy_Engine.thy ===== *)
theory Policy_Engine
  imports Criteria
begin

text \<open>
  The policy engine (\<^verbatim>\<open>policy/v1/mod.rs\<close>) and the documents it evaluates (the data
  types of \<^verbatim>\<open>policy/v1/loader.rs\<close>): scope resolution, first-match evaluation of a
  single call, the two-phase evaluation of a bundle, and what is recorded after a
  confirmed submission.  The engine's window store is an argument and a result of
  every operation that reads or writes it.  The assertions of
  \<^verbatim>\<open>assert_value_kind_populated\<close> exist in debug builds only and are not modelled.
\<close>

section \<open>Documents, rules and scopes\<close>

datatype scope_id =
    Profile string
  | ProfileProject string string
  | AllProfiles

definition specificity :: "scope_id \<Rightarrow> nat" where
  "specificity sc = (case sc of ProfileProject _ _ \<Rightarrow> 3 | Profile _ \<Rightarrow> 2 | AllProfiles \<Rightarrow> 1)"

definition scope_matches :: "scope_id \<Rightarrow> string \<Rightarrow> string option \<Rightarrow> bool" where
  "scope_matches sc p project_id =
     (case sc of
        ProfileProject profile project \<Rightarrow> profile = p \<and> project_id = Some project
      | Profile profile \<Rightarrow> profile = p
      | AllProfiles \<Rightarrow> True)"

record rule_match =
  m_tool :: string
  m_chain :: string

definition rule_match_matches :: "rule_match \<Rightarrow> tool_descriptor \<Rightarrow> bool" where
  "rule_match_matches m tool \<longleftrightarrow>
     (m_tool m = ''*'' \<or> m_tool m = tool_name tool) \<and> (m_chain m = ''*'' \<or> m_chain m = tool_chain_id tool)"

record policy_rule =
  r_match :: rule_match
  r_criteria :: "criterion list"
  r_decision :: decision
  r_allow_opaque_signing :: bool

definition matches_tool :: "policy_rule \<Rightarrow> tool_descriptor \<Rightarrow> bool" where
  "matches_tool r tool = rule_match_matches (r_match r) tool"

record policy_signature =
  owner_id :: string
  sig :: string

record policy_document =
  doc_version :: nat
  doc_scope :: scope_id
  doc_rules :: "policy_rule list"
  doc_signature :: "policy_signature option"

record policy_engine =
  document :: policy_document
  eng_profile_name :: string
  project_id :: "string option"

definition matching_rules :: "policy_engine \<Rightarrow> string \<Rightarrow> string option \<Rightarrow> policy_rule list" where
  "matching_rules eng p project =
     (if scope_matches (doc_scope (document eng)) p project then doc_rules (document eng) else [])"

definition engine_rules :: "policy_engine \<Rightarrow> policy_rule list" where
  "engine_rules eng = matching_rules eng (eng_profile_name eng) (project_id eng)"

section \<open>Evaluating a single call\<close>

text \<open>What the dispatch site supplies besides the tool, its arguments and the profile.\<close>

record views =
  v_account :: "account_view option"
  v_identity :: "identity_view option"
  v_counterparty :: "counterparty_cache option"
  v_sep10 :: "session_view option"
  v_sep45 :: "session_view option"
  v_now_ms :: "nat option"
  v_strkey :: strkey

definition call_context ::
  "policy_engine \<Rightarrow> tool_descriptor \<Rightarrow> json \<Rightarrow> profile \<Rightarrow> value_class \<Rightarrow> views \<Rightarrow> eval_context" where
  "call_context eng tool args p value vs =
     \<lparr>ctx_tool = tool, ctx_args = args, ctx_profile_name = eng_profile_name eng, ctx_profile = p,
      ctx_value = value, ctx_account_view = v_account vs, ctx_identity_view = v_identity vs,
      ctx_quorum = None, ctx_counterparty_cache = v_counterparty vs,
      ctx_sep10_sessions = v_sep10 vs, ctx_sep45_sessions = v_sep45 vs, ctx_bundle = None,
      ctx_now_ms = v_now_ms vs, ctx_strkey = v_strkey vs\<rparr>"

text \<open>
  The loop over a rule's criteria: the first error or denial ends it, approval
  requests are remembered (\<^verbatim>\<open>get_or_insert\<close> keeps the first).
\<close>

fun criteria_loop ::
  "eval_context \<Rightarrow> approval_request option \<Rightarrow> criterion list \<Rightarrow> state_store
    \<Rightarrow> (policy_error, deny_reason + approval_request option) result \<times> state_store" where
  "criteria_loop ctx escalation [] s = (Inr (Inr escalation), s)"
| "criteria_loop ctx escalation (c # cs) s =
     (case evaluate_decision c ctx s of
        (Inl e, s') \<Rightarrow> (Inl e, s')
      | (Inr Allow, s') \<Rightarrow> criteria_loop ctx escalation cs s'
      | (Inr (Deny d), s') \<Rightarrow> (Inr (Inl d), s')
      | (Inr (RequireApproval req), s') \<Rightarrow>
          criteria_loop ctx (case escalation of None \<Rightarrow> Some req | Some r \<Rightarrow> Some r) cs s')"

definition rule_decision :: "policy_rule \<Rightarrow> approval_request option \<Rightarrow> decision" where
  "rule_decision rule escalation =
     (case (r_decision rule, escalation) of
        (Allow, Some req) \<Rightarrow> RequireApproval req
      | _ \<Rightarrow> r_decision rule)"

definition effective_value :: "policy_rule \<Rightarrow> value_class \<Rightarrow> value_class" where
  "effective_value rule value =
     (case value of Opaque r \<Rightarrow> if r_allow_opaque_signing rule then ReadOnly else value | _ \<Rightarrow> value)"

definition evaluate_rule ::
  "policy_engine \<Rightarrow> policy_rule \<Rightarrow> tool_descriptor \<Rightarrow> json \<Rightarrow> profile \<Rightarrow> value_class \<Rightarrow> views \<Rightarrow> state_store
    \<Rightarrow> (policy_error, decision) result \<times> state_store" where
  "evaluate_rule eng rule tool args p value vs s =
     (case criteria_loop (call_context eng tool args p (effective_value rule value) vs) None (r_criteria rule) s of
        (Inl e, s') \<Rightarrow> (Inl e, s')
      | (Inr (Inl d), s') \<Rightarrow> (Inr (Deny d), s')
      | (Inr (Inr escalation), s') \<Rightarrow> (Inr (rule_decision rule escalation), s'))"

fun evaluate_rules ::
  "policy_engine \<Rightarrow> tool_descriptor \<Rightarrow> json \<Rightarrow> profile \<Rightarrow> value_class \<Rightarrow> views \<Rightarrow> policy_rule list \<Rightarrow> state_store
    \<Rightarrow> (policy_error, decision) result \<times> state_store" where
  "evaluate_rules eng tool args p value vs [] s = (Inr (Deny NoMatchingRule), s)"
| "evaluate_rules eng tool args p value vs (rule # rules) s =
     (if \<not> matches_tool rule tool then evaluate_rules eng tool args p value vs rules s
      else evaluate_rule eng rule tool args p value vs s)"

definition evaluate_inner ::
  "policy_engine \<Rightarrow> tool_descriptor \<Rightarrow> json \<Rightarrow> profile \<Rightarrow> value_class \<Rightarrow> views \<Rightarrow> state_store
    \<Rightarrow> (policy_error, decision) result \<times> state_store" where
  "evaluate_inner eng tool args p value vs s =
     evaluate_rules eng tool args p value vs (engine_rules eng) s"

record evaluation =
  ev_decision :: decision
  ev_value_effects :: "value_effects option"

definition value_effects_on_permitted_decision :: "decision \<Rightarrow> value_class \<Rightarrow> value_effects option" where
  "value_effects_on_permitted_decision d v =
     (case v of
        ValueMoves effects \<Rightarrow> (case d of Deny _ \<Rightarrow> None | _ \<Rightarrow> Some effects)
      | _ \<Rightarrow> None)"

definition evaluate_with_value_full ::
  "policy_engine \<Rightarrow> tool_descriptor \<Rightarrow> json \<Rightarrow> profile \<Rightarrow> value_class \<Rightarrow> views \<Rightarrow> state_store
    \<Rightarrow> (policy_error, evaluation) result \<times> state_store" where
  "evaluate_with_value_full eng tool args p value vs s =
     (case evaluate_inner eng tool args p value vs s of
        (r, s') \<Rightarrow>
          (map_sum id (\<lambda>d. \<lparr>ev_decision = d, ev_value_effects = value_effects_on_permitted_decision d value\<rparr>) r, s'))"

definition evaluate_full ::
  "policy_engine \<Rightarrow> tool_descriptor \<Rightarrow> json \<Rightarrow> profile \<Rightarrow> views \<Rightarrow> state_store
    \<Rightarrow> (policy_error, evaluation) result \<times> state_store" where
  "evaluate_full eng tool args p vs s =
     (let value = derive_value_class (v_strkey vs) (tool_name tool) args in
      case evaluate_inner eng tool args p value vs s of
        (r, s') \<Rightarrow>
          (map_sum id (\<lambda>d. \<lparr>ev_decision = d, ev_value_effects = value_effects_on_permitted_decision d value\<rparr>) r, s'))"

definition evaluate ::
  "policy_engine \<Rightarrow> tool_descriptor \<Rightarrow> json \<Rightarrow> profile \<Rightarrow> views \<Rightarrow> state_store
    \<Rightarrow> (policy_error, decision) result \<times> state_store" where
  "evaluate eng tool args p vs s =
     (case evaluate_full eng tool args p vs s of (r, s') \<Rightarrow> (map_sum id ev_decision r, s'))"

definition evaluate_with_value ::
  "policy_engine \<Rightarrow> tool_descriptor \<Rightarrow> json \<Rightarrow> profile \<Rightarrow> value_class \<Rightarrow> views \<Rightarrow> state_store
    \<Rightarrow> (policy_error, decision) result \<times> state_store" where
  "evaluate_with_value eng tool args p value vs s =
     (case evaluate_with_value_full eng tool args p value vs s of (r, s') \<Rightarrow> (map_sum id ev_decision r, s'))"

section \<open>Recording a confirmed call\<close>

fun record_loop :: "eval_context \<Rightarrow> criterion list \<Rightarrow> state_store \<Rightarrow> recorded \<times> state_store" where
  "record_loop ctx [] s = (Inr [], s)"
| "record_loop ctx (c # cs) s =
     (case record_confirmed_criterion c ctx s of
        (Inl e, s') \<Rightarrow> (Inl e, s')
      | (Inr es, s') \<Rightarrow>
          (case record_loop ctx cs s' of
             (Inl e, s'') \<Rightarrow> (Inl e, s'')
           | (Inr es', s'') \<Rightarrow> (Inr (es @ es'), s'')))"

definition no_views :: "nat option \<Rightarrow> strkey \<Rightarrow> views" where
  "no_views now_ms sk =
     \<lparr>v_account = None, v_identity = None, v_counterparty = None, v_sep10 = None, v_sep45 = None,
      v_now_ms = now_ms, v_strkey = sk\<rparr>"

definition record_confirmed ::
  "policy_engine \<Rightarrow> tool_descriptor \<Rightarrow> profile \<Rightarrow> value_class \<Rightarrow> nat option \<Rightarrow> strkey \<Rightarrow> state_store
    \<Rightarrow> recorded \<times> state_store" where
  "record_confirmed eng tool p value now_ms sk s =
     (case find (\<lambda>r. matches_tool r tool) (engine_rules eng) of
        None \<Rightarrow> (Inr [], s)
      | Some rule \<Rightarrow>
          record_loop (call_context eng tool JNull p value (no_views now_ms sk)) (r_criteria rule) s)"

section \<open>Evaluating a bundle\<close>

definition bundle_context ::
  "policy_engine \<Rightarrow> tool_descriptor \<Rightarrow> json \<Rightarrow> profile \<Rightarrow> value_class \<Rightarrow> bundle_view option \<Rightarrow> nat option \<Rightarrow> strkey
    \<Rightarrow> eval_context" where
  "bundle_context eng tool args p value view now_ms sk =
     (call_context eng tool args p value (no_views now_ms sk))\<lparr>ctx_bundle := view\<rparr>"

definition accumulate_all :: "eval_context \<Rightarrow> criterion list \<Rightarrow> inner_op \<Rightarrow> overlay \<Rightarrow> overlay" where
  "accumulate_all ctx cs op ov =
     foldl (\<lambda>ov c. if is_bundle_level c then ov else accumulate_overlay c ctx op ov) ov cs"

text \<open>
  Phase one: every inner call is evaluated against the criteria that are not
  bundle-level, with the overlay of its predecessors; the first denial is
  wrapped with its index.
\<close>

fun inner_loop ::
  "policy_engine \<Rightarrow> policy_rule \<Rightarrow> tool_descriptor \<Rightarrow> json \<Rightarrow> profile \<Rightarrow> nat option \<Rightarrow> strkey \<Rightarrow> inner_op list
    \<Rightarrow> nat \<Rightarrow> overlay \<Rightarrow> approval_request option \<Rightarrow> inner_op list \<Rightarrow> state_store
    \<Rightarrow> (policy_error, deny_reason + (overlay \<times> approval_request option)) result \<times> state_store" where
  "inner_loop eng rule tool args p now_ms sk ops idx ov escalation [] s = (Inr (Inr (ov, escalation)), s)"
| "inner_loop eng rule tool args p now_ms sk ops idx ov escalation (op # rest) s =
     (let view = \<lparr>inners = ops, bv_overlay = ov\<rparr>;
          ctx = bundle_context eng tool args p (value_class_for_inner op) (Some view) now_ms sk;
          accum_ctx = bundle_context eng tool args p ReadOnly None now_ms sk
      in case criteria_loop ctx escalation (filter (\<lambda>c. \<not> is_bundle_level c) (r_criteria rule)) s of
           (Inl e, s') \<Rightarrow> (Inl e, s')
         | (Inr (Inl d), s') \<Rightarrow> (Inr (Inl (BundleDenied (to_u32 idx) d)), s')
         | (Inr (Inr escalation'), s') \<Rightarrow>
             inner_loop eng rule tool args p now_ms sk ops (idx + 1)
               (accumulate_all accum_ctx (r_criteria rule) op ov) escalation' rest s')"

definition VALUE_SUMMING_BUNDLE_CAPS :: "string list" where
  "VALUE_SUMMING_BUNDLE_CAPS = [''bundle_aggregate_cap'', ''bundle_per_tx_cap'', ''bundle_per_period_cap'']"

definition evaluate_bundle ::
  "policy_engine \<Rightarrow> tool_descriptor \<Rightarrow> json \<Rightarrow> profile \<Rightarrow> inner_op list \<Rightarrow> nat option \<Rightarrow> strkey \<Rightarrow> state_store
    \<Rightarrow> (policy_error, decision) result \<times> state_store" where
  "evaluate_bundle eng tool args p ops now_ms sk s =
     (if DEFAULT_INNER_INVOCATION_COUNT_CAP < length ops
      then (Inr (Deny (InnerInvocationCountCapExceeded DEFAULT_INNER_INVOCATION_COUNT_CAP (to_u32 (length ops)))), s)
      else case find (\<lambda>r. matches_tool r tool) (engine_rules eng) of
        None \<Rightarrow> (Inr (Deny NoMatchingRule), s)
      | Some rule \<Rightarrow>
          (case inner_loop eng rule tool args p now_ms sk ops 0 Map.empty None ops s of
             (Inl e, s') \<Rightarrow> (Inl e, s')
           | (Inr (Inl d), s') \<Rightarrow> (Inr (Deny d), s')
           | (Inr (Inr (ov, escalation)), s') \<Rightarrow>
               let final_ctx = bundle_context eng tool args p ReadOnly
                     (Some \<lparr>inners = ops, bv_overlay = ov\<rparr>) now_ms sk;
                   guard = (if list_ex (\<lambda>c. criterion_kind c \<in> set VALUE_SUMMING_BUNDLE_CAPS) (r_criteria rule)
                            then restrict_bundle_evaluate True final_ctx else Inr None)
               in case guard of
                    Inl e \<Rightarrow> (Inl e, s')
                  | Inr (Some d) \<Rightarrow> (Inr (Deny d), s')
                  | Inr None \<Rightarrow>
                      (case criteria_loop final_ctx escalation (filter is_bundle_level (r_criteria rule)) s' of
                         (Inl e, s'') \<Rightarrow> (Inl e, s'')
                       | (Inr (Inl d), s'') \<Rightarrow> (Inr (Deny d), s'')
                       | (Inr (Inr escalation'), s'') \<Rightarrow> (Inr (rule_decision rule escalation'), s''))))"

definition record_confirmed_bundle ::
  "policy_engine \<Rightarrow> tool_descriptor \<Rightarrow> profile \<Rightarrow> bundle_view \<Rightarrow> nat option \<Rightarrow> strkey \<Rightarrow> state_store
    \<Rightarrow> recorded \<times> state_store" where
  "record_confirmed_bundle eng tool p view now_ms sk s =
     (case find (\<lambda>r. matches_tool r tool) (engine_rules eng) of
        None \<Rightarrow> (Inr [], s)
      | Some rule \<Rightarrow>
          record_loop (bundle_context eng tool JNull p ReadOnly (Some view) now_ms sk) (r_criteria rule) s)"

section \<open>A rule's verdict does not depend on evaluation order effects\<close>

text \<open>
  The reference reading of a rule: every criterion evaluated on its own on the
  initial store, combined by the loop's precedence.
\<close>

fun verdict_loop ::
  "(criterion \<Rightarrow> (policy_error, decision) result) \<Rightarrow> approval_request option \<Rightarrow> criterion list
    \<Rightarrow> (policy_error, deny_reason + approval_request option) result" where
  "verdict_loop f escalation [] = Inr (Inr escalation)"
| "verdict_loop f escalation (c # cs) =
     (case f c of
        Inl e \<Rightarrow> Inl e
      | Inr Allow \<Rightarrow> verdict_loop f escalation cs
      | Inr (Deny d) \<Rightarrow> Inr (Inl d)
      | Inr (RequireApproval req) \<Rightarrow>
          verdict_loop f (case escalation of None \<Rightarrow> Some req | Some r \<Rightarrow> Some r) cs)"

lemma criteria_loop_same: "same_for ctx s (snd (criteria_loop ctx escalation cs s))"
proof (induction cs arbitrary: s escalation)
  case (Cons c cs)
  have "same_for ctx s (snd (evaluate_decision c ctx s))" by (rule evaluate_decision_same)
  then show ?case
    using Cons.IH
    by (cases "evaluate_decision c ctx s"; cases "fst (evaluate_decision c ctx s)")
       (auto split: decision.split intro: same_for_trans)
qed simp

lemma criteria_loop_fst:
  "fst (criteria_loop ctx escalation cs s) =
     verdict_loop (\<lambda>c. fst (evaluate_decision c ctx s)) escalation cs"
proof (induction cs arbitrary: s escalation)
  case (Cons c cs)
  let ?s' = "snd (evaluate_decision c ctx s)"
  have "same_for ctx s ?s'" by (rule evaluate_decision_same)
  then have "(\<lambda>c. fst (evaluate_decision c ctx ?s')) = (\<lambda>c. fst (evaluate_decision c ctx s))"
    using evaluate_decision_cong by presburger
  then show ?case
    using Cons.IH[of _ ?s']
    by (cases "evaluate_decision c ctx s"; cases "fst (evaluate_decision c ctx s)")
       (auto split: decision.split)
qed simp

lemma verdict_loop_permitted:
  "verdict_loop f escalation cs = Inr (Inr r) \<Longrightarrow> c \<in> set cs \<Longrightarrow>
   f c = Inr Allow \<or> (\<exists>req. f c = Inr (RequireApproval req))"
  by (induction cs arbitrary: escalation) (auto split: sum.splits decision.splits)

lemma verdict_loop_outright:
  "verdict_loop f escalation cs = Inr (Inr None) \<longleftrightarrow>
     escalation = None \<and> (\<forall>c\<in>set cs. f c = Inr Allow)"
  by (induction cs arbitrary: escalation) (auto split: sum.splits decision.splits option.splits)

section \<open>First match\<close>

definition permits :: "decision \<Rightarrow> bool" where
  "permits d = (case d of Deny _ \<Rightarrow> False | _ \<Rightarrow> True)"

definition first_rule :: "policy_engine \<Rightarrow> tool_descriptor \<Rightarrow> policy_rule option" where
  "first_rule eng tool = find (\<lambda>r. matches_tool r tool) (engine_rules eng)"

lemma evaluate_rules_find:
  "evaluate_rules eng tool args p value vs rules s =
     (case find (\<lambda>r. matches_tool r tool) rules of
        None \<Rightarrow> (Inr (Deny NoMatchingRule), s)
      | Some rule \<Rightarrow> evaluate_rule eng rule tool args p value vs s)"
  by (induction rules) auto

lemma evaluate_inner_first_rule:
  "evaluate_inner eng tool args p value vs s =
     (case first_rule eng tool of
        None \<Rightarrow> (Inr (Deny NoMatchingRule), s)
      | Some rule \<Rightarrow> evaluate_rule eng rule tool args p value vs s)"
  by (simp add: evaluate_inner_def evaluate_rules_find first_rule_def)

lemma evaluate_with_value_inner:
  "evaluate_with_value eng tool args p value vs s = evaluate_inner eng tool args p value vs s"
  by (simp add: evaluate_with_value_def evaluate_with_value_full_def sum.map_comp o_def sum.map_ident
      id_def split: prod.split)

lemma evaluate_inner_derived:
  "evaluate eng tool args p vs s =
     evaluate_inner eng tool args p (derive_value_class (v_strkey vs) (tool_name tool) args) vs s"
  by (simp add: evaluate_def evaluate_full_def sum.map_comp o_def sum.map_ident id_def Let_def
      split: prod.split)

lemma rule_decision_permits: "permits (rule_decision rule esc) \<longleftrightarrow> permits (r_decision rule)"
  by (auto simp: permits_def rule_decision_def split: decision.split option.split)

lemma rule_decision_Allow: "rule_decision rule esc = Allow \<longleftrightarrow> r_decision rule = Allow \<and> esc = None"
  by (auto simp: rule_decision_def split: decision.split option.split)

text \<open>A permitted call has passed every criterion of the first matching rule.\<close>

lemma permitted_criterion:
  assumes "fst (evaluate_inner eng tool args p value vs s) = Inr d" "permits d"
    and "first_rule eng tool = Some rule" "c \<in> set (r_criteria rule)"
  defines "ctx \<equiv> call_context eng tool args p (effective_value rule value) vs"
  shows "fst (evaluate_decision c ctx s) = Inr Allow \<or>
    (\<exists>req. fst (evaluate_decision c ctx s) = Inr (RequireApproval req))"
proof -
  obtain esc where "verdict_loop (\<lambda>c. fst (evaluate_decision c ctx s)) None (r_criteria rule) = Inr (Inr esc)"
    using assms(1,2) criteria_loop_fst[of ctx None "r_criteria rule" s]
    by (auto simp: evaluate_inner_first_rule assms(3) evaluate_rule_def permits_def ctx_def
        split: prod.splits sum.splits)
  then show ?thesis using verdict_loop_permitted assms(4) by fastforce
qed

lemma allowed_criterion:
  assumes "fst (evaluate_inner eng tool args p value vs s) = Inr Allow"
    and "first_rule eng tool = Some rule" "c \<in> set (r_criteria rule)"
  defines "ctx \<equiv> call_context eng tool args p (effective_value rule value) vs"
  shows "fst (evaluate_criterion c ctx s) = Inr None"
proof -
  obtain esc where esc: "verdict_loop (\<lambda>c. fst (evaluate_decision c ctx s)) None (r_criteria rule) = Inr (Inr esc)"
      and d: "rule_decision rule esc = Allow"
    using assms(1) criteria_loop_fst[of ctx None "r_criteria rule" s]
    by (auto simp: evaluate_inner_first_rule assms(2) evaluate_rule_def ctx_def
        split: prod.splits sum.splits)
  then have "fst (evaluate_decision c ctx s) = Inr Allow"
    using assms(3) by (simp add: rule_decision_Allow verdict_loop_outright)
  then show ?thesis
    by (cases "fst (evaluate_criterion c ctx s)") (auto simp: evaluate_decision_fst)
qed

end
