(* ===== verification/Policy_Loader.thy ===== *)
theory Policy_Loader
  imports Policy_Engine Hex
begin

text \<open>
  Loading a signed policy file (\<^verbatim>\<open>policy/v1/loader.rs\<close>, \<^verbatim>\<open>canonical.rs\<close>, \<^verbatim>\<open>schema.rs\<close> and
  \<^verbatim>\<open>signature.rs\<close>): the canonical form that is signed, the check of the owner's signature, the
  accepted keys, and the translation of the document into rules and criteria.  The TOML
  parser and printer, BLAKE3 and Ed25519 are parameters.
\<close>

section \<open>TOML documents\<close>

text \<open>
  The data of \<^verbatim>\<open>toml_edit\<close>.  A table holds each key once, in the order of the file.  Every value
  carries its decoration (the written representation with surrounding blanks and comments;
  \<^const>\<open>None\<close> is the default formatting), which the loader ignores and the canonical form drops.
  Floats and date-times are kept as written: no key of a policy has such a value.
\<close>

type_synonym decor = "string option"

datatype toml_value =
    TString decor string
  | TInteger decor int
  | TFloat decor string
  | TBoolean decor bool
  | TDatetime decor string
  | TArray decor "toml_value list"
  | TInlineTable decor "(string \<times> toml_value) list"

datatype toml_item =
    ItemNone
  | ItemValue toml_value
  | ItemTable decor "(string \<times> toml_item) list"
  | ItemArrayOfTables "(decor \<times> (string \<times> toml_item) list) list"

type_synonym toml_table = "(string \<times> toml_item) list"

record policy_lib =
  toml_parse :: "string \<Rightarrow> (string, toml_table) result"
  toml_print :: "toml_table \<Rightarrow> string"
  escape_debug :: "string \<Rightarrow> string"
  blake3 :: "string \<Rightarrow> string"
  verifying_key :: "string \<Rightarrow> bool"
  verify_strict :: "string \<Rightarrow> string \<Rightarrow> string \<Rightarrow> bool"

definition table_iter :: "toml_table \<Rightarrow> toml_table" where
  "table_iter t = filter (\<lambda>(_, i). i \<noteq> ItemNone) t"

definition table_get :: "toml_table \<Rightarrow> string \<Rightarrow> toml_item option" where
  "table_get t k = map_of (table_iter t) k"

fun as_str :: "toml_value \<Rightarrow> string option" where
  "as_str (TString d s) = Some s"
| "as_str _ = None"

fun as_integer :: "toml_value \<Rightarrow> int option" where
  "as_integer (TInteger d n) = Some n"
| "as_integer _ = None"

fun as_bool :: "toml_value \<Rightarrow> bool option" where
  "as_bool (TBoolean d b) = Some b"
| "as_bool _ = None"

fun as_array :: "toml_value \<Rightarrow> toml_value list option" where
  "as_array (TArray d vs) = Some vs"
| "as_array _ = None"

fun as_inline_table :: "toml_value \<Rightarrow> (string \<times> toml_value) list option" where
  "as_inline_table (TInlineTable d kvs) = Some kvs"
| "as_inline_table _ = None"

fun as_value :: "toml_item \<Rightarrow> toml_value option" where
  "as_value (ItemValue v) = Some v"
| "as_value _ = None"

fun as_table_like :: "toml_item \<Rightarrow> toml_table option" where
  "as_table_like (ItemTable d t) = Some t"
| "as_table_like (ItemValue (TInlineTable d kvs)) = Some (map (\<lambda>(k, v). (k, ItemValue v)) kvs)"
| "as_table_like _ = None"

definition item_str :: "toml_table \<Rightarrow> string \<Rightarrow> string option" where
  "item_str t k = Option.bind (Option.bind (table_get t k) as_value) as_str"

definition item_integer :: "toml_table \<Rightarrow> string \<Rightarrow> int option" where
  "item_integer t k = Option.bind (Option.bind (table_get t k) as_value) as_integer"

text \<open>A loop that pushes the result for each element and stops at the first error.\<close>

fun try_map :: "(nat \<Rightarrow> 'a \<Rightarrow> ('e, 'b) result) \<Rightarrow> nat \<Rightarrow> 'a list \<Rightarrow> ('e, 'b list) result" where
  "try_map f i [] = Inr []"
| "try_map f i (x # xs) = res_bind (f i x) (\<lambda>y. res_bind (try_map f (i + 1) xs) (\<lambda>ys. Inr (y # ys)))"

abbreviation parse_failed :: "string \<Rightarrow> (policy_error, 'a) result" where
  "parse_failed detail \<equiv> Inl (PolicyFileParseFailed detail)"

definition tick :: "string \<Rightarrow> string" where "tick s = ''`'' @ s @ ''`''"

definition rule_loc :: "nat \<Rightarrow> string" where "rule_loc idx = ''rule['' @ show_nat idx @ '']''"

section \<open>The canonical form\<close>

definition REQUIRED_RULE_KEYS :: "string list" where
  "REQUIRED_RULE_KEYS = [''match'', ''criteria'', ''decision'']"

definition OPTIONAL_RULE_KEYS :: "string list" where
  "OPTIONAL_RULE_KEYS = [''reason'', ''ttl_secs'', ''allow_opaque_signing'']"

fun strip_value_decor :: "toml_value \<Rightarrow> toml_value" where
  "strip_value_decor (TString d s) = TString None s"
| "strip_value_decor (TInteger d n) = TInteger None n"
| "strip_value_decor (TFloat d f) = TFloat None f"
| "strip_value_decor (TBoolean d b) = TBoolean None b"
| "strip_value_decor (TDatetime d t) = TDatetime None t"
| "strip_value_decor (TArray d vs) = TArray None (map strip_value_decor vs)"
| "strip_value_decor (TInlineTable d kvs) = TInlineTable None (map (\<lambda>(k, v). (k, strip_value_decor v)) kvs)"

definition canonical_scalar :: "toml_item \<Rightarrow> (policy_error, toml_value) result" where
  "canonical_scalar item =
     (case item of
        ItemValue v \<Rightarrow> Inr (strip_value_decor v)
      | _ \<Rightarrow> parse_failed ''expected a scalar value (integer, string, boolean)'')"

fun canonical_item_as_value :: "toml_item \<Rightarrow> (policy_error, toml_value) result"
  and canonical_entries :: "toml_table \<Rightarrow> (policy_error, (string \<times> toml_value) list) result" where
  "canonical_item_as_value (ItemValue v) = Inr (strip_value_decor v)"
| "canonical_item_as_value (ItemTable d t) = res_bind (canonical_entries t) (\<lambda>kvs. Inr (TInlineTable None kvs))"
| "canonical_item_as_value (ItemArrayOfTables ts) = parse_failed ''unexpected array-of-tables within rule field''"
| "canonical_item_as_value ItemNone = parse_failed ''unexpected None item in rule field''"
| "canonical_entries [] = Inr []"
| "canonical_entries ((k, i) # t) =
     (if i = ItemNone then canonical_entries t
      else res_bind (canonical_item_as_value i) (\<lambda>v. res_bind (canonical_entries t) (\<lambda>kvs. Inr ((k, v) # kvs))))"

text \<open>The fields of a canonical rule: the required keys, then the optional keys that are present.\<close>

definition canonical_required :: "(string \<Rightarrow> (policy_error, toml_value) result option) \<Rightarrow> (policy_error, toml_table) result" where
  "canonical_required get =
     try_map (\<lambda>_ key.
       case get key of
         None \<Rightarrow> parse_failed (''rule missing required '' @ tick key @ '' key'')
       | Some v \<Rightarrow> res_bind v (\<lambda>v. Inr (key, ItemValue v))) 0 REQUIRED_RULE_KEYS"

definition canonical_optional :: "(string \<Rightarrow> (policy_error, toml_value) result option) \<Rightarrow> (policy_error, toml_table) result" where
  "canonical_optional get =
     res_bind (try_map (\<lambda>_ key.
       case get key of
         None \<Rightarrow> Inr []
       | Some v \<Rightarrow> res_bind v (\<lambda>v. Inr [(key, ItemValue v)])) 0 OPTIONAL_RULE_KEYS) (\<lambda>fields. Inr (concat fields))"

definition canonical_rule_fields :: "(string \<Rightarrow> (policy_error, toml_value) result option) \<Rightarrow> (policy_error, toml_table) result" where
  "canonical_rule_fields get =
     res_bind (canonical_required get) (\<lambda>required.
     res_bind (canonical_optional get) (\<lambda>optional. Inr (required @ optional)))"

definition canonical_rule_table :: "toml_table \<Rightarrow> (policy_error, toml_table) result" where
  "canonical_rule_table src = canonical_rule_fields (\<lambda>key. map_option canonical_item_as_value (table_get src key))"

definition canonical_inline_rule :: "(string \<times> toml_value) list \<Rightarrow> (string \<times> toml_value) list" where
  "canonical_inline_rule src =
     concat (map (\<lambda>key. case map_of src key of None \<Rightarrow> [] | Some v \<Rightarrow> [(key, strip_value_decor v)])
       (REQUIRED_RULE_KEYS @ OPTIONAL_RULE_KEYS))"

definition canonical_table_from_inline_rule :: "(string \<times> toml_value) list \<Rightarrow> (policy_error, toml_table) result" where
  "canonical_table_from_inline_rule src =
     (let inline = canonical_inline_rule src in
      canonical_rule_fields (\<lambda>key. map_option (\<lambda>v. Inr (strip_value_decor v)) (map_of inline key)))"

definition canonical_rules :: "toml_item option \<Rightarrow> (policy_error, toml_table) result" where
  "canonical_rules item =
     (case item of
        None \<Rightarrow> Inr []
      | Some (ItemArrayOfTables ts) \<Rightarrow>
          res_bind (try_map (\<lambda>_ (_, t). canonical_rule_table t) 0 ts)
            (\<lambda>cs. Inr [(''rules'', ItemArrayOfTables (map (Pair None) cs))])
      | Some (ItemValue (TArray d vs)) \<Rightarrow>
          res_bind
            (try_map (\<lambda>_ v.
               case as_inline_table v of
                 None \<Rightarrow> parse_failed ''rules array element is not a table''
               | Some inline \<Rightarrow> canonical_table_from_inline_rule inline) 0 vs)
            (\<lambda>cs. Inr [(''rules'', ItemArrayOfTables (map (Pair None) cs))])
      | Some _ \<Rightarrow> parse_failed ''`rules` must be an array of tables'')"

definition canonical_document :: "toml_table \<Rightarrow> (policy_error, toml_table) result" where
  "canonical_document doc =
     res_bind (ok_or (PolicyFileParseFailed ''policy file missing required key `version`'') (table_get doc ''version''))
       (\<lambda>version_item.
     res_bind (canonical_scalar version_item) (\<lambda>version_val.
     res_bind (ok_or (PolicyFileParseFailed ''policy file missing required key `scope`'') (table_get doc ''scope''))
       (\<lambda>scope_item.
     res_bind (canonical_scalar scope_item) (\<lambda>scope_val.
     res_bind (canonical_rules (table_get doc ''rules'')) (\<lambda>rules.
     Inr ([(''version'', ItemValue version_val), (''scope'', ItemValue scope_val)] @ rules))))))"

text \<open>\<^verbatim>\<open>str::lines\<close>: lines end with a newline, a carriage return before it is dropped, and a last empty piece is no line.\<close>

definition str_lines :: "string \<Rightarrow> string list" where
  "str_lines s =
     (let pieces = split_char (CHR 0x0A) s;
          complete = map (\<lambda>l. if l \<noteq> [] \<and> last l = CHR 0x0D then butlast l else l) (butlast pieces)
      in complete @ (if last pieces = [] then [] else [last pieces]))"

definition trim_end :: "string \<Rightarrow> string" where
  "trim_end s = rev (trim_with (map rev white_space) (rev s))"

definition join_lines :: "string list \<Rightarrow> string" where
  "join_lines ls = (case ls of [] \<Rightarrow> [] | l # rest \<Rightarrow> l @ concat (map (\<lambda>r. CHR 0x0A # r) rest))"

definition normalise_whitespace :: "string \<Rightarrow> string" where
  "normalise_whitespace s =
     (let result = map trim_end (str_lines s);
          result = dropWhile (\<lambda>l. l = []) result;
          result = rev (dropWhile (\<lambda>l. l = []) (rev result))
      in join_lines result @ [CHR 0x0A])"

definition build_canonical_document :: "policy_lib \<Rightarrow> toml_table \<Rightarrow> (policy_error, string) result" where
  "build_canonical_document lib doc =
     res_bind (canonical_document doc) (\<lambda>out. Inr (normalise_whitespace (toml_print lib out)))"

definition document_from_str :: "policy_lib \<Rightarrow> string \<Rightarrow> (policy_error, toml_table) result" where
  "document_from_str lib raw = (case toml_parse lib raw of Inl e \<Rightarrow> parse_failed e | Inr doc \<Rightarrow> Inr doc)"

definition canonical_bytes :: "policy_lib \<Rightarrow> string \<Rightarrow> (policy_error, string) result" where
  "canonical_bytes lib raw = res_bind (document_from_str lib raw) (build_canonical_document lib)"

section \<open>Accepted keys\<close>

definition ROOT_KEYS :: "string list" where "ROOT_KEYS = [''version'', ''scope'', ''rules'', ''signature'']"

definition SIGNATURE_KEYS :: "string list" where "SIGNATURE_KEYS = [''owner_id'', ''sig'']"

definition RULE_KEYS :: "string list" where
  "RULE_KEYS = [''match'', ''criteria'', ''decision'', ''reason'', ''ttl_secs'', ''allow_opaque_signing'']"

definition MATCH_KEYS :: "string list" where "MATCH_KEYS = [''tool'', ''chain'']"

definition CRITERION_KEY_SETS :: "(string \<times> string list) list" where
  "CRITERION_KEY_SETS =
     [(''per_tx_cap'', [''kind'', ''asset'', ''max_stroops'']),
      (''approval_above'', [''kind'', ''asset'', ''max_stroops'']),
      (''per_period_cap'', [''kind'', ''asset'', ''window'', ''max_stroops'']),
      (''rate_limit'', [''kind'', ''window'', ''max_calls'']),
      (''counterparty_allowlist'', [''kind'', ''kinds'', ''allowlist'', ''gate_inflows'']),
      (''minimum_reserve'', [''kind'', ''margin_stroops'']),
      (''inner_invocation_count_cap'', [''kind'', ''max_count'']),
      (''bundle_aggregate_cap'', [''kind'', ''asset'', ''max_amount'']),
      (''restrict_bundle_to_recognised_kinds'', [''kind'', ''enabled'']),
      (''bundle_per_period_cap'', [''kind'', ''asset'', ''window'', ''max_stroops'']),
      (''bundle_per_tx_cap'', [''kind'', ''asset'', ''max_stroops'']),
      (''bundle_rate_limit'', [''kind'', ''window'', ''max_calls'']),
      (''quorum_satisfied'', [''kind'']), (''home_domain_resolved'', [''kind'']),
      (''sep10_session_active'', [''kind'']), (''sep45_session_active'', [''kind''])]"

definition criterion_keys :: "string \<Rightarrow> string list option" where
  "criterion_keys kind = map_of CRITERION_KEY_SETS kind"

definition join_comma :: "string list \<Rightarrow> string" where
  "join_comma ss = (case ss of [] \<Rightarrow> [] | s # rest \<Rightarrow> s @ concat (map (\<lambda>r. '', '' @ r) rest))"

definition reject_unknown_keys ::
  "policy_lib \<Rightarrow> toml_table \<Rightarrow> string list \<Rightarrow> string option \<Rightarrow> string \<Rightarrow> (policy_error, unit) result" where
  "reject_unknown_keys lib t accepted location owner =
     (case find (\<lambda>(key, _). key \<notin> set accepted) (table_iter t) of
        None \<Rightarrow> Inr ()
      | Some (key, _) \<Rightarrow>
          parse_failed
            ((case location of None \<Rightarrow> [] | Some loc \<Rightarrow> loc @ '': '') @ ''unknown key '' @ tick (escape_debug lib key) @
             ''; '' @ owner @ '' accepts '' @ join_comma accepted))"

definition validate_criterion_keys :: "policy_lib \<Rightarrow> string \<Rightarrow> nat \<Rightarrow> toml_value \<Rightarrow> (policy_error, unit) result" where
  "validate_criterion_keys lib loc criterion_idx v =
     (case as_inline_table v of
        None \<Rightarrow> Inr ()
      | Some kvs \<Rightarrow>
          (case Option.bind (map_of kvs ''kind'') as_str of
             None \<Rightarrow> Inr ()
           | Some kind \<Rightarrow>
               (case criterion_keys kind of
                  None \<Rightarrow> Inr ()
                | Some keys \<Rightarrow>
                    reject_unknown_keys lib (map (\<lambda>(k, v). (k, ItemValue v)) kvs) keys
                      (Some (loc @ ''.criteria['' @ show_nat criterion_idx @ '']''))
                      (''a '' @ tick kind @ '' criterion''))))"

definition validate_rule_keys :: "policy_lib \<Rightarrow> nat \<Rightarrow> toml_table \<Rightarrow> (policy_error, unit) result" where
  "validate_rule_keys lib idx rule =
     (let loc = rule_loc idx in
      res_bind (reject_unknown_keys lib rule RULE_KEYS (Some loc) ''a rule'') (\<lambda>_.
      res_bind
        (case Option.bind (table_get rule ''match'') as_table_like of
           None \<Rightarrow> Inr ()
         | Some rule_match \<Rightarrow> reject_unknown_keys lib rule_match MATCH_KEYS (Some (loc @ ''.match'')) ''match'') (\<lambda>_.
      case table_get rule ''criteria'' of
        Some (ItemValue (TArray d criteria)) \<Rightarrow>
          res_bind (try_map (validate_criterion_keys lib loc) 0 criteria) (\<lambda>_. Inr ())
      | _ \<Rightarrow> Inr ())))"

definition validate_policy_keys :: "policy_lib \<Rightarrow> toml_table \<Rightarrow> (policy_error, unit) result" where
  "validate_policy_keys lib doc =
     res_bind (reject_unknown_keys lib doc ROOT_KEYS None ''the policy file'') (\<lambda>_.
     res_bind
       (case table_get doc ''signature'' of
          Some (ItemTable d signature) \<Rightarrow>
            reject_unknown_keys lib signature SIGNATURE_KEYS (Some ''signature'') ''the signature table''
        | _ \<Rightarrow> Inr ()) (\<lambda>_.
     case table_get doc ''rules'' of
       Some (ItemArrayOfTables rules) \<Rightarrow>
         res_bind (try_map (\<lambda>idx (_, rule). validate_rule_keys lib idx rule) 0 rules) (\<lambda>_. Inr ())
     | Some (ItemValue (TArray d rules)) \<Rightarrow>
         res_bind
           (try_map (\<lambda>idx rule.
              case as_inline_table rule of
                None \<Rightarrow> Inr ()
              | Some kvs \<Rightarrow> validate_rule_keys lib idx (map (\<lambda>(k, v). (k, ItemValue v)) kvs)) 0 rules) (\<lambda>_. Inr ())
     | _ \<Rightarrow> Inr ()))"

section \<open>Home domains\<close>

definition MAX_HOME_DOMAIN_BYTES :: nat where "MAX_HOME_DOMAIN_BYTES = 255"
definition MAX_HOME_DOMAIN_LABEL_BYTES :: nat where "MAX_HOME_DOMAIN_LABEL_BYTES = 63"

definition ldh_label :: "string \<Rightarrow> bool" where
  "ldh_label label \<longleftrightarrow>
     label \<noteq> [] \<and> length label \<le> MAX_HOME_DOMAIN_LABEL_BYTES \<and> hd label \<noteq> CHR ''-'' \<and> last label \<noteq> CHR ''-''"

definition is_valid_ldh_home_domain :: "string \<Rightarrow> bool" where
  "is_valid_ldh_home_domain s \<longleftrightarrow>
     \<not> (s = [] \<or> MAX_HOME_DOMAIN_BYTES < length s \<or>
        \<not> list_all (\<lambda>b. is_ascii_lowercase b \<or> is_digit b \<or> b = CHR ''-'' \<or> b = CHR ''.'') s \<or>
        hd s \<in> {CHR ''.'', CHR ''-''} \<or> last s \<in> {CHR ''.'', CHR ''-''}) \<and>
     list_all ldh_label (split_char (CHR ''.'') s)"

section \<open>Fields of a criterion\<close>

type_synonym inline_table = "(string \<times> toml_value) list"

definition require_str :: "inline_table \<Rightarrow> string \<Rightarrow> string \<Rightarrow> (policy_error, string) result" where
  "require_str t key loc =
     ok_or (PolicyFileParseFailed (loc @ '': missing or non-string required field '' @ tick key))
       (Option.bind (map_of t key) as_str)"

definition require_i64 :: "inline_table \<Rightarrow> string \<Rightarrow> string \<Rightarrow> (policy_error, int) result" where
  "require_i64 t key loc =
     ok_or (PolicyFileParseFailed (loc @ '': missing or non-integer required field '' @ tick key))
       (Option.bind (map_of t key) as_integer)"

definition require_i128 :: "inline_table \<Rightarrow> string \<Rightarrow> string \<Rightarrow> (policy_error, int) result" where
  "require_i128 t key loc =
     (let missing = loc @ '': missing or non-integer required field '' @ tick key in
      case map_of t key of
        None \<Rightarrow> parse_failed missing
      | Some v \<Rightarrow>
          (case as_integer v of
             Some n \<Rightarrow> Inr n
           | None \<Rightarrow>
               (case as_str v of
                  Some s \<Rightarrow>
                    ok_or (PolicyFileParseFailed (loc @ '': '' @ tick key @ '' value '' @ tick s @ '' is not a valid i128 decimal''))
                      (parse_signed i128_min i128_max s)
                | None \<Rightarrow> parse_failed missing)))"

definition require_bool :: "inline_table \<Rightarrow> string \<Rightarrow> string \<Rightarrow> (policy_error, bool) result" where
  "require_bool t key loc =
     ok_or (PolicyFileParseFailed (loc @ '': missing or non-boolean required field '' @ tick key))
       (Option.bind (map_of t key) as_bool)"

definition optional_str :: "inline_table \<Rightarrow> string \<Rightarrow> string option" where
  "optional_str t key = Option.bind (map_of t key) as_str"

definition require_array_of_str :: "inline_table \<Rightarrow> string \<Rightarrow> string \<Rightarrow> (policy_error, string list) result" where
  "require_array_of_str t key loc =
     res_bind
       (ok_or (PolicyFileParseFailed (loc @ '': missing or non-array required field '' @ tick key))
          (Option.bind (map_of t key) as_array))
       (try_map (\<lambda>i v.
          ok_or (PolicyFileParseFailed (loc @ '': '' @ ''`'' @ key @ ''['' @ show_nat i @ '']` must be a string'')) (as_str v)) 0)"

text \<open>The window, stroop and count fields several kinds share.\<close>

definition require_window :: "inline_table \<Rightarrow> string \<Rightarrow> (policy_error, window) result" where
  "require_window t loc =
     res_bind (require_str t ''window'' loc) (\<lambda>window_str.
     case window_parse window_str of
       Inl _ \<Rightarrow> parse_failed (loc @ '': `window` value '' @ tick window_str @ '' is not accepted; valid values: 1m, 5m, 1h, 1d, 1w'')
     | Inr w \<Rightarrow> Inr w)"

definition require_max_stroops :: "inline_table \<Rightarrow> string \<Rightarrow> (policy_error, int) result" where
  "require_max_stroops t loc =
     res_bind (require_i128 t ''max_stroops'' loc) (\<lambda>m.
     if m < 0 then parse_failed (loc @ '': `max_stroops` must be non-negative, got '' @ show_int m) else Inr m)"

definition require_u32 :: "inline_table \<Rightarrow> string \<Rightarrow> string \<Rightarrow> (policy_error, nat) result" where
  "require_u32 t key loc =
     res_bind (require_i64 t key loc) (\<lambda>raw.
     if raw < 0 \<or> int u32_max < raw
     then parse_failed (loc @ '': '' @ tick key @ '' value '' @ show_int raw @ '' is out of range for u32'')
     else Inr (nat raw))"

section \<open>Criteria\<close>

definition unknown_criterion_kind :: "string \<Rightarrow> string \<Rightarrow> policy_error" where
  "unknown_criterion_kind loc kind =
     PolicyFileParseFailed
       (loc @ '': unknown criterion kind '' @ tick kind @ ''; accepted kinds: '' @
        ''per_tx_cap, approval_above, per_period_cap, rate_limit, counterparty_allowlist, '' @
        ''minimum_reserve, inner_invocation_count_cap, bundle_aggregate_cap, restrict_bundle_to_recognised_kinds, '' @
        ''bundle_per_period_cap, bundle_per_tx_cap, bundle_rate_limit, '' @
        ''quorum_satisfied, home_domain_resolved, sep10_session_active, sep45_session_active'')"

definition parse_approval_above :: "inline_table \<Rightarrow> string \<Rightarrow> (policy_error, criterion) result" where
  "parse_approval_above t loc =
     res_bind (require_str t ''asset'' loc) (\<lambda>asset.
     res_bind (require_i128 t ''max_stroops'' loc) (\<lambda>m.
     if m \<le> 0 then parse_failed (loc @ '': `approval_above` `max_stroops` must be positive, got '' @ show_int m)
     else Inr (ApprovalAbove asset m)))"

definition parse_per_tx_cap :: "inline_table \<Rightarrow> string \<Rightarrow> (policy_error, criterion) result" where
  "parse_per_tx_cap t loc =
     res_bind (require_str t ''asset'' loc) (\<lambda>asset.
     res_bind (require_max_stroops t loc) (\<lambda>m. Inr (PerTxCap asset m)))"

definition parse_per_period_cap :: "inline_table \<Rightarrow> string \<Rightarrow> (policy_error, criterion) result" where
  "parse_per_period_cap t loc =
     res_bind (require_str t ''asset'' loc) (\<lambda>asset.
     res_bind (require_window t loc) (\<lambda>w.
     res_bind (require_max_stroops t loc) (\<lambda>m. Inr (PerPeriodCap asset w m))))"

definition parse_rate_limit :: "inline_table \<Rightarrow> string \<Rightarrow> (policy_error, criterion) result" where
  "parse_rate_limit t loc =
     res_bind (require_window t loc) (\<lambda>w.
     res_bind (require_u32 t ''max_calls'' loc) (\<lambda>n. Inr (RateLimit w n)))"

definition check_home_domains :: "string \<Rightarrow> string list \<Rightarrow> (policy_error, unit list) result" where
  "check_home_domains loc allowlist =
     try_map (\<lambda>i entry.
       if is_valid_ldh_home_domain entry then Inr ()
       else parse_failed
         (loc @ '': `allowlist['' @ show_nat i @ '']` is not a valid HOME_DOMAIN; entries must be lowercase RFC 1035 LDH '' @
          ''(ASCII a-z, 0-9, hyphen, dot), 1..=255 bytes, each label 1..=63 bytes, contain no uppercase '' @
          ''or non-ASCII bytes, and must not start or end with '' @ [CHR 0x27] @ ''-'' @ [CHR 0x27] @ '' or '' @
          [CHR 0x27] @ ''.'' @ [CHR 0x27])) 0 allowlist"

definition parse_counterparty_allowlist :: "inline_table \<Rightarrow> string \<Rightarrow> (policy_error, criterion) result" where
  "parse_counterparty_allowlist t loc =
     res_bind (require_array_of_str t ''kinds'' loc) (\<lambda>kinds_raw.
     res_bind
       (try_map (\<lambda>_ s.
          case counterparty_kind_parse s of
            Inl _ \<Rightarrow>
              parse_failed
                (loc @ '': unknown counterparty kind '' @ tick s @
                 ''; accepted: G_ACCOUNT, C_ACCOUNT, KNOWN_ISSUER, SEP10_IDENTITY, HOME_DOMAIN, ONE_TIME_ADDRESS'')
          | Inr k \<Rightarrow> Inr k) 0 kinds_raw) (\<lambda>kinds.
     res_bind (require_array_of_str t ''allowlist'' loc) (\<lambda>allowlist.
     res_bind
       (if HomeDomain \<in> set kinds then check_home_domains loc allowlist else Inr []) (\<lambda>_.
     res_bind
       (case map_of t ''gate_inflows'' of
          None \<Rightarrow> Inr False
        | Some v \<Rightarrow> ok_or (PolicyFileParseFailed (loc @ '': `gate_inflows` must be a boolean'')) (as_bool v)) (\<lambda>gate_inflows.
     Inr (CounterpartyAllowlist kinds allowlist gate_inflows))))))"

definition parse_minimum_reserve :: "inline_table \<Rightarrow> string \<Rightarrow> (policy_error, criterion) result" where
  "parse_minimum_reserve t loc =
     res_bind (require_i64 t ''margin_stroops'' loc) (\<lambda>m.
     if m < 0 then parse_failed (loc @ '': `margin_stroops` must be non-negative, got '' @ show_int m)
     else Inr (MinimumReserve m))"

definition parse_bundle_aggregate_cap :: "inline_table \<Rightarrow> string \<Rightarrow> (policy_error, criterion) result" where
  "parse_bundle_aggregate_cap t loc =
     (let asset = optional_str t ''asset'' in
      res_bind (require_str t ''max_amount'' loc) (\<lambda>s.
      res_bind
        (ok_or (PolicyFileParseFailed (loc @ '': `max_amount` value '' @ tick s @ '' is not a valid i128 decimal''))
           (parse_signed i128_min i128_max s)) (\<lambda>m.
      if m < 0 then parse_failed (loc @ '': `max_amount` must be non-negative, got '' @ show_int m)
      else Inr (BundleAggregateCap asset m))))"

definition parse_bundle_per_period_cap :: "inline_table \<Rightarrow> string \<Rightarrow> (policy_error, criterion) result" where
  "parse_bundle_per_period_cap t loc =
     res_bind (require_str t ''asset'' loc) (\<lambda>asset.
     res_bind (require_window t loc) (\<lambda>w.
     res_bind (require_max_stroops t loc) (\<lambda>m. Inr (BundlePerPeriodCap asset w m))))"

definition parse_bundle_per_tx_cap :: "inline_table \<Rightarrow> string \<Rightarrow> (policy_error, criterion) result" where
  "parse_bundle_per_tx_cap t loc =
     res_bind (require_str t ''asset'' loc) (\<lambda>asset.
     res_bind (require_max_stroops t loc) (\<lambda>m. Inr (BundlePerTxCap asset m)))"

definition parse_bundle_rate_limit :: "inline_table \<Rightarrow> string \<Rightarrow> (policy_error, criterion) result" where
  "parse_bundle_rate_limit t loc =
     res_bind (require_window t loc) (\<lambda>w.
     res_bind (require_u32 t ''max_calls'' loc) (\<lambda>n. Inr (BundleRateLimit w n)))"

definition parse_criterion_kind :: "string \<Rightarrow> inline_table \<Rightarrow> string \<Rightarrow> (policy_error, criterion) result" where
  "parse_criterion_kind kind t loc =
     (if kind = ''approval_above'' then parse_approval_above t loc
      else if kind = ''per_tx_cap'' then parse_per_tx_cap t loc
      else if kind = ''per_period_cap'' then parse_per_period_cap t loc
      else if kind = ''rate_limit'' then parse_rate_limit t loc
      else if kind = ''counterparty_allowlist'' then parse_counterparty_allowlist t loc
      else if kind = ''minimum_reserve'' then parse_minimum_reserve t loc
      else if kind = ''inner_invocation_count_cap''
        then res_bind (require_u32 t ''max_count'' loc) (\<lambda>n. Inr (InnerInvocationCountCap n))
      else if kind = ''bundle_aggregate_cap'' then parse_bundle_aggregate_cap t loc
      else if kind = ''restrict_bundle_to_recognised_kinds''
        then res_bind (require_bool t ''enabled'' loc) (\<lambda>b. Inr (RestrictBundleToRecognisedKinds b))
      else if kind = ''bundle_per_period_cap'' then parse_bundle_per_period_cap t loc
      else if kind = ''bundle_per_tx_cap'' then parse_bundle_per_tx_cap t loc
      else if kind = ''bundle_rate_limit'' then parse_bundle_rate_limit t loc
      else if kind = ''quorum_satisfied'' then Inr QuorumSatisfied
      else if kind = ''home_domain_resolved'' then Inr HomeDomainResolved
      else if kind = ''sep10_session_active'' then Inr Sep10SessionActive
      else if kind = ''sep45_session_active'' then Inr Sep45SessionActive
      else Inl (unknown_criterion_kind loc kind))"

definition parse_criterion :: "nat \<Rightarrow> nat \<Rightarrow> toml_value \<Rightarrow> (policy_error, criterion) result" where
  "parse_criterion rule_idx criterion_idx v =
     (let loc = rule_loc rule_idx @ ''.criteria['' @ show_nat criterion_idx @ '']'' in
      case as_inline_table v of
        None \<Rightarrow> parse_failed (loc @ '': each criterion must be an inline table `{ kind = \"...\", ... }`'')
      | Some t \<Rightarrow>
          res_bind (ok_or (PolicyFileParseFailed (loc @ '': missing required `kind` field''))
            (Option.bind (map_of t ''kind'') as_str)) (\<lambda>kind.
          if criterion_keys kind = None then Inl (unknown_criterion_kind loc kind)
          else parse_criterion_kind kind t loc))"

definition parse_criteria :: "nat \<Rightarrow> toml_item option \<Rightarrow> (policy_error, criterion list) result" where
  "parse_criteria rule_idx item =
     (case item of
        None \<Rightarrow> Inr []
      | Some (ItemValue (TArray d vs)) \<Rightarrow> try_map (parse_criterion rule_idx) 0 vs
      | Some _ \<Rightarrow> parse_failed (rule_loc rule_idx @ '' `criteria` must be an array''))"

section \<open>Rules\<close>

definition MAX_APPROVAL_TTL_SECONDS :: nat where "MAX_APPROVAL_TTL_SECONDS = 604800"
definition MAX_APPROVAL_REASON_CHARS :: nat where "MAX_APPROVAL_REASON_CHARS = 512"

text \<open>\<^verbatim>\<open>str::chars().count()\<close>: every byte of a UTF-8 string but the continuation bytes starts a character.\<close>

definition is_continuation :: "char \<Rightarrow> bool" where
  "is_continuation c \<longleftrightarrow> 128 \<le> byte_of c \<and> byte_of c < 192"

definition chars_count :: "string \<Rightarrow> nat" where
  "chars_count s = length (filter (\<lambda>c. \<not> is_continuation c) s)"

definition extract_str_field_from_item :: "toml_item \<Rightarrow> string \<Rightarrow> nat \<Rightarrow> (policy_error, string) result" where
  "extract_str_field_from_item item key idx =
     (let must = PolicyFileParseFailed (rule_loc idx @ '' `match.'' @ key @ ''` must be a string'') in
      case item of
        ItemValue (TInlineTable d t) \<Rightarrow> ok_or must (Option.bind (map_of t key) as_str)
      | ItemTable d t \<Rightarrow> ok_or must (item_str t key)
      | _ \<Rightarrow> parse_failed (rule_loc idx @ '' `match` must be an inline table''))"

definition reject_empty_match_field :: "string \<Rightarrow> string \<Rightarrow> nat \<Rightarrow> (policy_error, unit) result" where
  "reject_empty_match_field s key idx =
     (if s = [] then parse_failed (rule_loc idx @ '' `match.'' @ key @ ''` must not be empty'') else Inr ())"

definition parse_rule_match :: "toml_item \<Rightarrow> nat \<Rightarrow> (policy_error, rule_match) result" where
  "parse_rule_match item idx =
     res_bind (extract_str_field_from_item item ''tool'' idx) (\<lambda>tool.
     res_bind (extract_str_field_from_item item ''chain'' idx) (\<lambda>chain.
     res_bind (reject_empty_match_field tool ''tool'' idx) (\<lambda>_.
     res_bind (reject_empty_match_field chain ''chain'' idx) (\<lambda>_.
     Inr \<lparr>m_tool = tool, m_chain = chain\<rparr>))))"

definition parse_optional_reason :: "toml_table \<Rightarrow> nat \<Rightarrow> (policy_error, string option) result" where
  "parse_optional_reason t idx =
     (case table_get t ''reason'' of
        None \<Rightarrow> Inr None
      | Some item \<Rightarrow>
          res_bind (ok_or (PolicyFileParseFailed (rule_loc idx @ '' `reason` must be a string''))
            (Option.bind (as_value item) as_str)) (\<lambda>r.
          if MAX_APPROVAL_REASON_CHARS < chars_count r
          then parse_failed (rule_loc idx @ '' `reason` must contain at most '' @ show_nat MAX_APPROVAL_REASON_CHARS @ '' characters'')
          else Inr (Some r)))"

definition parse_optional_ttl_secs :: "toml_table \<Rightarrow> nat \<Rightarrow> (policy_error, nat option) result" where
  "parse_optional_ttl_secs t idx =
     (case table_get t ''ttl_secs'' of
        None \<Rightarrow> Inr None
      | Some item \<Rightarrow>
          res_bind (ok_or
            (PolicyFileParseFailed (rule_loc idx @ '' `ttl_secs` must be an integer between 1 and '' @ show_nat MAX_APPROVAL_TTL_SECONDS))
            (Option.bind (as_value item) as_integer)) (\<lambda>raw.
          if 1 \<le> raw \<and> raw \<le> int MAX_APPROVAL_TTL_SECONDS then Inr (Some (nat raw))
          else parse_failed (rule_loc idx @ '' `ttl_secs` must be between 1 and '' @ show_nat MAX_APPROVAL_TTL_SECONDS)))"

definition reject_approval_fields :: "nat \<Rightarrow> string option \<Rightarrow> nat option \<Rightarrow> (policy_error, unit) result" where
  "reject_approval_fields idx r ttl =
     (if r \<noteq> None \<or> ttl \<noteq> None
      then parse_failed (rule_loc idx @ '' `reason` / `ttl_secs` are only valid for `decision = \"require_approval\"`'')
      else Inr ())"

definition parse_decision :: "string \<Rightarrow> nat \<Rightarrow> string option \<Rightarrow> nat option \<Rightarrow> (policy_error, decision) result" where
  "parse_decision s idx r ttl =
     (if s = ''allow'' then res_bind (reject_approval_fields idx r ttl) (\<lambda>_. Inr Allow)
      else if s = ''deny'' then res_bind (reject_approval_fields idx r ttl) (\<lambda>_. Inr (Deny ExplicitRuleDeny))
      else if s = ''require_approval'' then
        (let req = approval_request_new [] (case ttl of None \<Rightarrow> DEFAULT_APPROVAL_TTL_SECONDS | Some n \<Rightarrow> n) in
         Inr (RequireApproval (case r of None \<Rightarrow> req | Some text \<Rightarrow> with_reason text req)))
      else parse_failed
        (rule_loc idx @ '' `decision` has unknown value '' @ tick s @ ''; expected `allow`, `deny`, or `require_approval`''))"

text \<open>The caps on the asset of a threshold, then the thresholds of a rule, each loop stopping at the first refusal.\<close>

fun threshold_caps :: "string \<Rightarrow> string \<Rightarrow> int \<Rightarrow> criterion list \<Rightarrow> (policy_error, unit) result" where
  "threshold_caps loc asset threshold [] = Inr ()"
| "threshold_caps loc asset threshold (c # cs) =
     (case c of
        PerTxCap cap_asset m \<Rightarrow>
          if asset_normalise asset = asset_normalise cap_asset \<and> m \<le> threshold
          then parse_failed (loc @ '' threshold '' @ show_int threshold @ '' must be less than `per_tx_cap` bound '' @ show_int m)
          else threshold_caps loc asset threshold cs
      | _ \<Rightarrow> threshold_caps loc asset threshold cs)"

fun validate_thresholds :: "criterion list \<Rightarrow> nat \<Rightarrow> decision \<Rightarrow> nat \<Rightarrow> criterion list \<Rightarrow> (policy_error, unit) result" where
  "validate_thresholds criteria rule_idx d i [] = Inr ()"
| "validate_thresholds criteria rule_idx d i (c # cs) =
     (case c of
        ApprovalAbove asset threshold \<Rightarrow>
          let loc = rule_loc rule_idx @ ''.criteria['' @ show_nat i @ '']: `approval_above`'' in
          if d \<noteq> Allow then parse_failed (loc @ '' requires decision = \"allow\"'')
          else res_bind (threshold_caps loc asset threshold criteria) (\<lambda>_. validate_thresholds criteria rule_idx d (i + 1) cs)
      | _ \<Rightarrow> validate_thresholds criteria rule_idx d (i + 1) cs)"

definition validate_approval_above :: "criterion list \<Rightarrow> nat \<Rightarrow> decision \<Rightarrow> (policy_error, unit) result" where
  "validate_approval_above criteria rule_idx d = validate_thresholds criteria rule_idx d 0 criteria"

definition parse_rule :: "nat \<Rightarrow> toml_table \<Rightarrow> (policy_error, policy_rule) result" where
  "parse_rule idx t =
     res_bind (ok_or (PolicyFileParseFailed (rule_loc idx @ '' missing required `match` key'')) (table_get t ''match'')) (\<lambda>match_item.
     res_bind (parse_rule_match match_item idx) (\<lambda>rule_match.
     res_bind (parse_criteria idx (table_get t ''criteria'')) (\<lambda>criteria.
     res_bind (ok_or (PolicyFileParseFailed (rule_loc idx @ '' `decision` must be a string'')) (item_str t ''decision'')) (\<lambda>decision_str.
     res_bind (parse_optional_reason t idx) (\<lambda>r.
     res_bind (parse_optional_ttl_secs t idx) (\<lambda>ttl_secs.
     res_bind (parse_decision decision_str idx r ttl_secs) (\<lambda>d.
     res_bind (validate_approval_above criteria idx d) (\<lambda>_.
     res_bind
       (case table_get t ''allow_opaque_signing'' of
          None \<Rightarrow> Inr False
        | Some item \<Rightarrow>
            ok_or (PolicyFileParseFailed (rule_loc idx @ '' `allow_opaque_signing` must be a boolean''))
              (Option.bind (as_value item) as_bool)) (\<lambda>allow_opaque_signing.
     Inr \<lparr>r_match = rule_match, r_criteria = criteria, r_decision = d,
          r_allow_opaque_signing = allow_opaque_signing\<rparr>)))))))))"

definition extract_rules :: "toml_table \<Rightarrow> (policy_error, policy_rule list) result" where
  "extract_rules doc =
     (case table_get doc ''rules'' of
        None \<Rightarrow> Inr []
      | Some (ItemArrayOfTables ts) \<Rightarrow> try_map (\<lambda>i (_, t). parse_rule i t) 0 ts
      | Some _ \<Rightarrow> parse_failed (''`rules` must be an array of tables (`['' @ ''[rules]'' @ '']`)''))"

section \<open>Version and scope\<close>

definition MIN_POLICY_VERSION :: nat where "MIN_POLICY_VERSION = 1"
definition MAX_POLICY_VERSION :: nat where "MAX_POLICY_VERSION = 1"

definition extract_version :: "toml_table \<Rightarrow> (policy_error, nat) result" where
  "extract_version doc =
     res_bind (ok_or (PolicyFileParseFailed ''`version` must be a positive integer'') (item_integer doc ''version'')) (\<lambda>v.
     if v < 0 \<or> int u32_max < v then parse_failed (''`version` value '' @ show_int v @ '' is out of range for u32'')
     else
       let version = nat v; shown = show_nat version in
       if version < MIN_POLICY_VERSION
       then parse_failed
         (''`version` '' @ shown @ '' is below the minimum supported version '' @ show_nat MIN_POLICY_VERSION @
          ''; policy files older than version '' @ show_nat MIN_POLICY_VERSION @
          '' are not accepted (downgrade replay prevention)'')
       else if MAX_POLICY_VERSION < version
       then parse_failed
         (''`version` '' @ shown @ '' is above the maximum supported version '' @ show_nat MAX_POLICY_VERSION @
          ''; upgrade the agent to a version that supports policy schema v'' @ shown)
       else Inr version)"

definition strip_prefix :: "string \<Rightarrow> string \<Rightarrow> string option" where
  "strip_prefix p s = (if starts_with p s then Some (drop (length p) s) else None)"

definition parse_scope_string :: "string \<Rightarrow> (policy_error, scope_id) result" where
  "parse_scope_string s =
     (let (profile_part, project_part) =
        (case split_once (CHR '','') s of None \<Rightarrow> (trim s, None) | Some (a, b) \<Rightarrow> (trim a, Some (trim b)))
      in res_bind
        (ok_or (PolicyFileParseFailed (''invalid scope format: '' @ tick s @
          ''; expected `profile:<name>` or `profile:<name>,project:<id>`'')) (strip_prefix ''profile:'' profile_part))
        (\<lambda>pname.
      if pname = ''*'' \<and> project_part = None then Inr AllProfiles
      else case project_part of
        Some proj_str \<Rightarrow>
          res_bind
            (ok_or (PolicyFileParseFailed (''invalid scope project segment: '' @ tick proj_str @ ''; expected `project:<id>`''))
               (strip_prefix ''project:'' proj_str))
            (\<lambda>project_name. Inr (ProfileProject pname project_name))
      | None \<Rightarrow> Inr (Profile pname)))"

definition extract_scope :: "toml_table \<Rightarrow> (policy_error, scope_id) result" where
  "extract_scope doc =
     res_bind (ok_or (PolicyFileParseFailed ''`scope` must be a string'') (item_str doc ''scope'')) parse_scope_string"

definition reject_scope_profile_mismatch :: "scope_id \<Rightarrow> string \<Rightarrow> (policy_error, unit) result" where
  "reject_scope_profile_mismatch scope pname =
     (if (case scope of AllProfiles \<Rightarrow> True | Profile p \<Rightarrow> p = pname | ProfileProject p _ \<Rightarrow> p = pname)
      then Inr ()
      else parse_failed (''policy scope does not match profile '' @ tick pname))"

record policy_body =
  pb_version :: nat
  pb_scope :: scope_id
  pb_rules :: "policy_rule list"

definition parse_policy_body :: "toml_table \<Rightarrow> string \<Rightarrow> (policy_error, policy_body) result" where
  "parse_policy_body doc pname =
     res_bind (extract_version doc) (\<lambda>version.
     res_bind (extract_scope doc) (\<lambda>scope.
     res_bind (reject_scope_profile_mismatch scope pname) (\<lambda>_.
     res_bind (extract_rules doc) (\<lambda>rules.
     Inr \<lparr>pb_version = version, pb_scope = scope, pb_rules = rules\<rparr>))))"

section \<open>The signature\<close>

definition extract_signature_fields :: "toml_item \<Rightarrow> (policy_error, string \<times> string) result" where
  "extract_signature_fields item =
     (case item of
        ItemTable d t \<Rightarrow>
          res_bind (ok_or (PolicyFileParseFailed ''`[signature].owner_id` must be a string'') (item_str t ''owner_id'')) (\<lambda>owner.
          res_bind (ok_or (PolicyFileParseFailed ''`[signature].sig` must be a string'') (item_str t ''sig'')) (\<lambda>s.
          Inr (owner, s)))
      | _ \<Rightarrow> parse_failed ''`[signature]` must be a TOML table'')"

text \<open>
  The hex reader of the signature slices the text by byte offsets, which panics inside a
  multi-byte character; \<^verbatim>\<open>u8::from_str_radix\<close> accepts a leading plus sign.
\<close>

datatype hex_read = HexPanic | HexNone | HexBytes string

definition u8_from_hex :: "char \<Rightarrow> char \<Rightarrow> nat option" where
  "u8_from_hex a b =
     (if a = CHR ''+'' then char_to_nibble b
      else case (char_to_nibble a, char_to_nibble b) of (Some h, Some l) \<Rightarrow> Some (h * 16 + l) | _ \<Rightarrow> None)"

fun hex_pairs :: "string \<Rightarrow> hex_read" where
  "hex_pairs (a # b # s) =
     (if is_continuation a \<or> (s \<noteq> [] \<and> is_continuation (hd s)) then HexPanic
      else case u8_from_hex a b of
        None \<Rightarrow> HexNone
      | Some n \<Rightarrow> (case hex_pairs s of HexBytes bs \<Rightarrow> HexBytes (char_of n # bs) | r \<Rightarrow> r))"
| "hex_pairs _ = HexBytes []"

definition hex_to_bytes :: "string \<Rightarrow> hex_read" where
  "hex_to_bytes s = (if odd (length s) then HexNone else hex_pairs s)"

datatype load_failure = LoadError policy_error | LoadPanic

definition decode_hex_sig :: "string \<Rightarrow> string \<Rightarrow> (load_failure, string) result" where
  "decode_hex_sig hex pname =
     (case hex_to_bytes hex of
        HexPanic \<Rightarrow> Inl LoadPanic
      | HexNone \<Rightarrow> Inl (LoadError (OwnerSignatureInvalid pname []))
      | HexBytes bs \<Rightarrow>
          if length bs = 64 then Inr bs else Inl (LoadError (OwnerSignatureInvalid pname [])))"

definition digest :: "policy_lib \<Rightarrow> string \<Rightarrow> string" where "digest lib canon = blake3 lib canon"

definition verify_signature :: "policy_lib \<Rightarrow> string \<Rightarrow> string \<Rightarrow> string \<Rightarrow> string \<Rightarrow> (policy_error, unit) result" where
  "verify_signature lib d signature owner_pubkey profile =
     (if \<not> verifying_key lib owner_pubkey then Inl (OwnerSignatureInvalid profile [])
      else if verify_strict lib owner_pubkey d signature then Inr ()
      else Inl (OwnerSignatureInvalid profile []))"

definition carries_optional_key :: "toml_table \<Rightarrow> bool" where
  "carries_optional_key rule \<longleftrightarrow> list_ex (\<lambda>key. table_get rule key \<noteq> None) OPTIONAL_RULE_KEYS"

definition rules_with_signed_optional_keys :: "toml_table \<Rightarrow> nat list" where
  "rules_with_signed_optional_keys doc =
     (case table_get doc ''rules'' of
        Some (ItemArrayOfTables rules) \<Rightarrow>
          map fst (filter (\<lambda>(_, _, rule). carries_optional_key rule) (enumerate 0 rules))
      | Some (ItemValue (TArray d rules)) \<Rightarrow>
          map fst (filter (\<lambda>(_, rule).
            case as_inline_table rule of
              None \<Rightarrow> False
            | Some kvs \<Rightarrow> carries_optional_key (map (\<lambda>(k, v). (k, ItemValue v)) kvs)) (enumerate 0 rules))
      | _ \<Rightarrow> [])"

definition lift_error :: "(policy_error, 'a) result \<Rightarrow> (load_failure, 'a) result" where
  "lift_error r = (case r of Inl e \<Rightarrow> Inl (LoadError e) | Inr x \<Rightarrow> Inr x)"

text \<open>The file is read before: the argument is what \<^verbatim>\<open>read_to_string\<close> gave, with the error text and base name prepared.\<close>

definition load_signed_policy ::
  "policy_lib \<Rightarrow> (string, string) result \<Rightarrow> string \<Rightarrow> string \<Rightarrow> (load_failure, policy_document) result" where
  "load_signed_policy lib file pname owner_pubkey =
     res_bind (lift_error (case file of Inl e \<Rightarrow> Inl (PolicyFileLoadFailed e) | Inr raw \<Rightarrow> Inr raw)) (\<lambda>raw.
     res_bind (lift_error (canonical_bytes lib raw)) (\<lambda>canon.
     let d = digest lib canon in
     res_bind (lift_error (document_from_str lib raw)) (\<lambda>doc.
     res_bind (lift_error (ok_or
       (PolicyFileParseFailed (''policy file has no `[signature]` table; sign it with '' @
         ''`stellar-agent profile sign-policy --profile '' @ pname @ ''`''))
       (table_get doc ''signature''))) (\<lambda>sig_item.
     res_bind (lift_error (extract_signature_fields sig_item)) (\<lambda>(owner, sig_hex).
     res_bind (lift_error (validate_policy_keys lib doc)) (\<lambda>_.
     res_bind (decode_hex_sig sig_hex pname) (\<lambda>sig_bytes.
     res_bind (lift_error
       (case verify_signature lib d sig_bytes owner_pubkey pname of
          Inl (OwnerSignatureInvalid profile _) \<Rightarrow>
            Inl (OwnerSignatureInvalid profile (rules_with_signed_optional_keys doc))
        | r \<Rightarrow> r)) (\<lambda>_.
     res_bind (lift_error (parse_policy_body doc pname)) (\<lambda>body.
     Inr \<lparr>doc_version = pb_version body, doc_scope = pb_scope body, doc_rules = pb_rules body,
          doc_signature = Some \<lparr>owner_id = owner, sig = sig_hex\<rparr>\<rparr>)))))))))"

definition table_remove :: "string \<Rightarrow> toml_table \<Rightarrow> toml_table" where
  "table_remove k t = filter (\<lambda>(k', _). k' \<noteq> k) t"

definition validate_unsigned_policy :: "policy_lib \<Rightarrow> string \<Rightarrow> string \<Rightarrow> (policy_error, unit) result" where
  "validate_unsigned_policy lib raw pname =
     res_bind (canonical_bytes lib raw) (\<lambda>_.
     res_bind (document_from_str lib raw) (\<lambda>doc.
     let unsigned = table_remove ''signature'' doc in
     res_bind (validate_policy_keys lib unsigned) (\<lambda>_.
     res_bind (parse_policy_body unsigned pname) (\<lambda>_. Inr ()))))"

section \<open>Decoration does not matter\<close>

named_theorems decor_free \<open>accessors and field readers on values without decoration\<close>

abbreviation strip_table :: "inline_table \<Rightarrow> inline_table" where
  "strip_table t \<equiv> map (\<lambda>(k, v). (k, strip_value_decor v)) t"

lemma as_strip [decor_free]:
  "as_str (strip_value_decor v) = as_str v"
  "as_integer (strip_value_decor v) = as_integer v"
  "as_bool (strip_value_decor v) = as_bool v"
  "as_array (strip_value_decor v) = map_option (map strip_value_decor) (as_array v)"
  "as_inline_table (strip_value_decor v) = map_option strip_table (as_inline_table v)"
  by (cases v; simp)+

lemma get_strip [decor_free]: "map_of (strip_table t) k = map_option strip_value_decor (map_of t k)"
  by (simp add: map_of_map)

lemma bind_map_option: "Option.bind (map_option g x) f = Option.bind x (\<lambda>y. f (g y))"
  by (cases x) auto

lemma try_map_map: "try_map f i (map g xs) = try_map (\<lambda>i x. f i (g x)) i xs"
  by (induction xs arbitrary: i) auto

lemma try_map_Inr_set: "try_map f i xs = Inr ys \<Longrightarrow> y \<in> set ys \<Longrightarrow> \<exists>j x. x \<in> set xs \<and> f j x = Inr y"
  by (induction xs arbitrary: i ys) (auto simp: res_bind_Inr_iff, blast+)

lemma try_map_length: "try_map f i xs = Inr ys \<Longrightarrow> length ys = length xs"
  by (induction xs arbitrary: i ys) (auto simp: res_bind_Inr_iff)

lemma try_map_all: "try_map f i xs = Inr ys \<Longrightarrow> x \<in> set xs \<Longrightarrow> \<exists>j y. f j x = Inr y"
  by (induction xs arbitrary: i ys) (fastforce simp: res_bind_Inr_iff)+

lemma require_strip [decor_free]:
  "require_str (strip_table t) k loc = require_str t k loc"
  "require_i64 (strip_table t) k loc = require_i64 t k loc"
  "require_i128 (strip_table t) k loc = require_i128 t k loc"
  "require_bool (strip_table t) k loc = require_bool t k loc"
  "optional_str (strip_table t) k = optional_str t k"
  "require_array_of_str (strip_table t) k loc = require_array_of_str t k loc"
proof -
  show "require_str (strip_table t) k loc = require_str t k loc"
    unfolding require_str_def get_strip bind_map_option as_strip ..
  show "require_i64 (strip_table t) k loc = require_i64 t k loc"
    unfolding require_i64_def get_strip bind_map_option as_strip ..
  show "require_i128 (strip_table t) k loc = require_i128 t k loc"
    unfolding require_i128_def get_strip by (cases "map_of t k") (simp_all only: option.simps as_strip)
  show "require_bool (strip_table t) k loc = require_bool t k loc"
    unfolding require_bool_def get_strip bind_map_option as_strip ..
  show "optional_str (strip_table t) k = optional_str t k"
    unfolding optional_str_def get_strip bind_map_option as_strip ..
  show "require_array_of_str (strip_table t) k loc = require_array_of_str t k loc"
    unfolding require_array_of_str_def get_strip
    by (cases "map_of t k"; simp; case_tac "as_array a") (simp_all add: as_strip try_map_map)
qed

lemma require_shared_strip [decor_free]:
  "require_window (strip_table t) loc = require_window t loc"
  "require_max_stroops (strip_table t) loc = require_max_stroops t loc"
  "require_u32 (strip_table t) k loc = require_u32 t k loc"
  unfolding require_window_def require_max_stroops_def require_u32_def require_strip by (rule refl)+

lemma parse_counterparty_allowlist_strip:
  "parse_counterparty_allowlist (strip_table t) loc = parse_counterparty_allowlist t loc"
proof -
  have "(case map_of (strip_table t) ''gate_inflows'' of None \<Rightarrow> Inr False | Some v \<Rightarrow> ok_or e (as_bool v)) =
      (case map_of t ''gate_inflows'' of None \<Rightarrow> Inr False | Some v \<Rightarrow> ok_or e (as_bool v))" for e :: policy_error
    unfolding get_strip by (cases "map_of t ''gate_inflows''") (simp_all add: as_strip)
  then show ?thesis unfolding parse_counterparty_allowlist_def require_strip by presburger
qed

lemma parse_criterion_kind_strip: "parse_criterion_kind kind (strip_table t) loc = parse_criterion_kind kind t loc"
  unfolding parse_criterion_kind_def parse_approval_above_def parse_per_tx_cap_def parse_per_period_cap_def
    parse_rate_limit_def parse_minimum_reserve_def parse_bundle_aggregate_cap_def parse_bundle_per_period_cap_def
    parse_bundle_per_tx_cap_def parse_bundle_rate_limit_def require_strip require_shared_strip
    parse_counterparty_allowlist_strip by (rule refl)

lemma parse_criterion_strip: "parse_criterion r i (strip_value_decor v) = parse_criterion r i v"
  unfolding parse_criterion_def Let_def
  by (cases "as_inline_table v") (simp_all only: option.simps as_strip get_strip bind_map_option parse_criterion_kind_strip)

section \<open>Parsing the canonical form\<close>

lemma canonical_item_accessors:
  assumes "canonical_item_as_value i = Inr v"
  shows "as_str v = Option.bind (as_value i) as_str" "as_integer v = Option.bind (as_value i) as_integer"
    "as_bool v = Option.bind (as_value i) as_bool"
  using assms by (cases i; auto simp: as_strip res_bind_Inr_iff)+

lemma canonical_entries_get:
  "canonical_entries t = Inr kvs \<Longrightarrow>
   (case table_get t k of None \<Rightarrow> map_of kvs k = None
    | Some i \<Rightarrow> \<exists>v. canonical_item_as_value i = Inr v \<and> map_of kvs k = Some v)"
proof (induction t arbitrary: kvs)
  case (Cons e t)
  obtain k' i where e: "e = (k', i)" by force
  show ?case
  proof (cases "i = ItemNone")
    case True
    then show ?thesis using Cons e by (simp add: table_get_def table_iter_def)
  next
    case False
    then obtain v kvs' where "canonical_item_as_value i = Inr v" "canonical_entries t = Inr kvs'" "kvs = (k', v) # kvs'"
      using Cons.prems e by (auto simp: res_bind_Inr_iff)
    then show ?thesis using Cons.IH[of kvs'] e False
      by (cases "k = k'") (auto simp: table_get_def table_iter_def split: option.splits)
  qed
qed (auto simp: table_get_def table_iter_def)

lemma canonical_entries_str:
  assumes "canonical_entries t = Inr kvs"
  shows "Option.bind (map_of kvs k) as_str = item_str t k"
  using canonical_entries_get[OF assms, of k] canonical_item_accessors(1)
  by (cases "table_get t k") (auto simp: item_str_def)

lemma canonical_match_field:
  assumes "canonical_item_as_value i = Inr v"
  shows "extract_str_field_from_item (ItemValue v) key idx = extract_str_field_from_item i key idx"
proof (cases i)
  case (ItemValue w)
  then have "v = strip_value_decor w" using assms by simp
  then show ?thesis using ItemValue
    by (cases w) (simp_all only: extract_str_field_from_item_def Let_def strip_value_decor.simps toml_item.simps
        toml_value.simps get_strip bind_map_option as_strip)
next
  case (ItemTable d t)
  then obtain kvs where "canonical_entries t = Inr kvs" "v = TInlineTable None kvs"
    using assms by (auto simp: res_bind_Inr_iff)
  with ItemTable show ?thesis
    by (simp only: extract_str_field_from_item_def Let_def toml_item.simps toml_value.simps canonical_entries_str)
qed (use assms in auto)

lemma canonical_rule_match:
  assumes "canonical_item_as_value i = Inr v"
  shows "parse_rule_match (ItemValue v) idx = parse_rule_match i idx"
  unfolding parse_rule_match_def canonical_match_field[OF assms] ..

lemma canonical_criteria:
  assumes "canonical_item_as_value i = Inr v"
  shows "parse_criteria idx (Some (ItemValue v)) = parse_criteria idx (Some i)"
proof (cases i)
  case (ItemValue w)
  then have "v = strip_value_decor w" using assms by simp
  then show ?thesis using ItemValue
    by (cases w) (simp_all only: parse_criteria_def strip_value_decor.simps toml_item.simps toml_value.simps
        option.simps try_map_map parse_criterion_strip)
next
  case (ItemTable d t)
  then show ?thesis using assms by (auto simp only: parse_criteria_def res_bind_Inr_iff canonical_item_as_value.simps
    toml_item.simps toml_value.simps option.simps sum.inject)
qed (use assms in auto)

text \<open>The canonical table of a rule holds the canonical value of each of its keys.\<close>

lemma required_fields_get:
  "try_map (\<lambda>_ key.
       case get key of
         None \<Rightarrow> parse_failed (msg key)
       | Some v \<Rightarrow> res_bind v (\<lambda>v. Inr (key, ItemValue v))) i keys = Inr req \<Longrightarrow>
   (if k \<in> set keys then \<exists>v. get k = Some (Inr v) \<and> map_of (table_iter req) k = Some (ItemValue v)
    else map_of (table_iter req) k = None)"
proof (induction keys arbitrary: i req)
  case (Cons key keys)
  then obtain v req' where "get key = Some (Inr v)" "req = (key, ItemValue v) # req'"
    "try_map (\<lambda>_ key.
       case get key of
         None \<Rightarrow> parse_failed (msg key)
       | Some v \<Rightarrow> res_bind v (\<lambda>v. Inr (key, ItemValue v))) (i + 1) keys = Inr req'"
    by (auto simp: res_bind_Inr_iff split: option.splits)
  then show ?case using Cons.IH[of "i + 1" req'] by (cases "k = key") (auto simp: table_iter_def)
qed (auto simp: table_iter_def)

lemma optional_fields_get:
  "try_map (\<lambda>_ key.
       case get key of
         None \<Rightarrow> Inr []
       | Some v \<Rightarrow> res_bind v (\<lambda>v. Inr [(key, ItemValue v)])) i keys = Inr fs \<Longrightarrow>
   k \<in> set keys \<Longrightarrow> distinct keys \<Longrightarrow>
   (case get k of None \<Rightarrow> map_of (table_iter (concat fs)) k = None
    | Some r \<Rightarrow> \<exists>v. r = Inr v \<and> map_of (table_iter (concat fs)) k = Some (ItemValue v))"
proof (induction keys arbitrary: i fs)
  case (Cons key keys)
  let ?loop = "try_map (\<lambda>_ key.
       case get key of
         None \<Rightarrow> Inr []
       | Some v \<Rightarrow> res_bind v (\<lambda>v. Inr [(key, ItemValue v)]))"
  have others: "?loop j ks = Inr gs \<Longrightarrow> key \<notin> set ks \<Longrightarrow> map_of (table_iter (concat gs)) key = None" for j ks gs
    by (induction ks arbitrary: j gs) (auto simp: res_bind_Inr_iff table_iter_def split: option.splits)
  obtain f fs' where f: "fs = f # fs'" "?loop (i + 1) keys = Inr fs'"
    "f = (case get key of None \<Rightarrow> [] | Some r \<Rightarrow> [(key, ItemValue (projr r))])" "get key = Some e \<Longrightarrow> \<exists>v. e = Inr v" for e
    using Cons.prems(1) by (auto simp: res_bind_Inr_iff split: option.splits)
  have iter: "table_iter f = f" using f(3) by (auto simp: table_iter_def split: option.splits)
  have app: "table_iter (concat fs) = f @ table_iter (concat fs')" using f(1) iter by (simp add: table_iter_def)
  show ?case
  proof (cases "k = key")
    case True
    then have "map_of (table_iter (concat fs')) key = None" using others[OF f(2)] Cons.prems(3) by simp
    then show ?thesis using True f(3,4) app by (auto simp: map_add_def split: option.splits)
  next
    case False
    then have "map_of f k = None" using f(3) by (auto split: option.splits)
    then show ?thesis using Cons.IH[OF f(2)] Cons.prems(2,3) False app by (auto simp: map_add_def split: option.splits)
  qed
qed simp

lemma canonical_rule_get:
  assumes "canonical_rule_fields get = Inr ct" "k \<in> set (REQUIRED_RULE_KEYS @ OPTIONAL_RULE_KEYS)"
  shows "case get k of None \<Rightarrow> table_get ct k = None | Some r \<Rightarrow> \<exists>v. r = Inr v \<and> table_get ct k = Some (ItemValue v)"
proof -
  obtain req fs where c: "canonical_required get = Inr req" "ct = req @ concat fs"
    "try_map (\<lambda>_ key.
       case get key of
         None \<Rightarrow> Inr []
       | Some v \<Rightarrow> res_bind v (\<lambda>v. Inr [(key, ItemValue v)])) 0 OPTIONAL_RULE_KEYS = Inr fs"
    using assms(1) by (auto simp: canonical_rule_fields_def canonical_optional_def res_bind_Inr_iff)
  have app: "table_get ct k =
      (case map_of (table_iter req) k of None \<Rightarrow> map_of (table_iter (concat fs)) k | r \<Rightarrow> r)"
    using c(2) by (simp add: table_get_def table_iter_def map_add_def split: option.splits)
  note req = required_fields_get[OF c(1)[unfolded canonical_required_def], of k]
  show ?thesis
  proof (cases "k \<in> set REQUIRED_RULE_KEYS")
    case True
    then show ?thesis using req app by auto
  next
    case False
    moreover have "distinct OPTIONAL_RULE_KEYS" by (simp add: OPTIONAL_RULE_KEYS_def)
    ultimately show ?thesis using req app assms(2) optional_fields_get[OF c(3), of k] by (cases "get k") auto
  qed
qed

lemma canonical_table_get:
  assumes "canonical_rule_table t = Inr ct" "k \<in> set (REQUIRED_RULE_KEYS @ OPTIONAL_RULE_KEYS)"
  shows "case table_get t k of None \<Rightarrow> table_get ct k = None
    | Some i \<Rightarrow> \<exists>v. canonical_item_as_value i = Inr v \<and> table_get ct k = Some (ItemValue v)"
  using canonical_rule_get[OF assms(1)[unfolded canonical_rule_table_def] assms(2)] by (cases "table_get t k") auto

lemma parse_rule_canonical:
  assumes "canonical_rule_table t = Inr ct"
  shows "parse_rule idx ct = parse_rule idx t"
proof -
  have keys: "k \<in> {''match'', ''criteria'', ''decision'', ''reason'', ''ttl_secs'', ''allow_opaque_signing''} \<Longrightarrow>
      case table_get t k of None \<Rightarrow> table_get ct k = None
      | Some i \<Rightarrow> \<exists>v. canonical_item_as_value i = Inr v \<and> table_get ct k = Some (ItemValue v)" for k
    by (rule canonical_table_get[OF assms]) (auto simp: REQUIRED_RULE_KEYS_def OPTIONAL_RULE_KEYS_def)
  have decision: "item_str ct ''decision'' = item_str t ''decision''"
    using keys[of "''decision''"] canonical_item_accessors(1)
    by (cases "table_get t ''decision''") (auto simp: item_str_def)
  have criteria: "parse_criteria idx (table_get ct ''criteria'') = parse_criteria idx (table_get t ''criteria'')"
    using keys[of "''criteria''"] canonical_criteria by (cases "table_get t ''criteria''") auto
  have rule_match: "res_bind (ok_or e (table_get ct ''match'')) (\<lambda>i. res_bind (parse_rule_match i idx) f) =
      res_bind (ok_or e (table_get t ''match'')) (\<lambda>i. res_bind (parse_rule_match i idx) f)" for e f
    using keys[of "''match''"] canonical_rule_match by (cases "table_get t ''match''") auto
  have reason: "parse_optional_reason ct idx = parse_optional_reason t idx"
    using keys[of "''reason''"] canonical_item_accessors(1) unfolding parse_optional_reason_def
    by (cases "table_get t ''reason''") (auto simp del: append.simps)
  have ttl: "parse_optional_ttl_secs ct idx = parse_optional_ttl_secs t idx"
    using keys[of "''ttl_secs''"] canonical_item_accessors(2) unfolding parse_optional_ttl_secs_def
    by (cases "table_get t ''ttl_secs''") (auto simp del: append.simps)
  have opaque: "(case table_get ct ''allow_opaque_signing'' of None \<Rightarrow> Inr False
      | Some item \<Rightarrow> ok_or e (Option.bind (as_value item) as_bool)) =
    (case table_get t ''allow_opaque_signing'' of None \<Rightarrow> Inr False
      | Some item \<Rightarrow> ok_or e (Option.bind (as_value item) as_bool))" for e :: policy_error
    using keys[of "''allow_opaque_signing''"] canonical_item_accessors(3)
    by (cases "table_get t ''allow_opaque_signing''") auto
  show ?thesis unfolding parse_rule_def rule_match criteria decision reason ttl opaque ..
qed

lemma try_map_two:
  "try_map f i xs = Inr ys \<Longrightarrow> (\<And>j x y. x \<in> set xs \<Longrightarrow> f j x = Inr y \<Longrightarrow> (\<And>j. g j x = h j y)) \<Longrightarrow>
   try_map h k ys = try_map g k xs"
  by (induction xs arbitrary: i ys k) (auto simp: res_bind_Inr_iff)

lemma canonical_scalar_Inr: "canonical_scalar i = Inr w \<longleftrightarrow> (\<exists>v. i = ItemValue v \<and> w = strip_value_decor v)"
  by (cases i) (auto simp: canonical_scalar_def)

lemma canonical_document_fields:
  assumes "canonical_document doc = Inr cd"
  obtains v s rules where "table_get doc ''version'' = Some (ItemValue v)" "table_get doc ''scope'' = Some (ItemValue s)"
    "canonical_rules (table_get doc ''rules'') = Inr rules"
    "cd = [(''version'', ItemValue (strip_value_decor v)), (''scope'', ItemValue (strip_value_decor s))] @ rules"
  using assms by (auto simp: canonical_document_def canonical_scalar_Inr res_bind_Inr_iff)

text \<open>
  The canonical document has the meaning of the file: what the loader reads from the file
  it also reads from the document that is printed and signed.
\<close>

lemma parse_canonical:
  assumes "canonical_document doc = Inr cd" "parse_policy_body doc p = Inr body"
  shows "parse_policy_body cd p = Inr body"
proof -
  from assms(1) obtain v s rules where f: "table_get doc ''version'' = Some (ItemValue v)" "table_get doc ''scope'' = Some (ItemValue s)"
    "canonical_rules (table_get doc ''rules'') = Inr rules"
    "cd = [(''version'', ItemValue (strip_value_decor v)), (''scope'', ItemValue (strip_value_decor s))] @ rules"
    by (rule canonical_document_fields)
  have version: "extract_version cd = extract_version doc"
    unfolding extract_version_def using f(1,4) by (simp add: item_integer_def table_get_def table_iter_def as_strip)
  have scope: "extract_scope cd = extract_scope doc"
    unfolding extract_scope_def using f(2,4) by (simp add: item_str_def table_get_def table_iter_def as_strip)
  obtain rs where rs: "extract_rules doc = Inr rs"
    using assms(2) by (auto simp: parse_policy_body_def res_bind_Inr_iff)
  have "extract_rules cd = Inr rs"
  proof (cases "table_get doc ''rules''")
    case None
    then have "rules = []" using f(3) by (simp add: canonical_rules_def)
    then show ?thesis using rs None f(4) by (simp add: extract_rules_def table_get_def table_iter_def)
  next
    case (Some item)
    then obtain ts where ts: "item = ItemArrayOfTables ts" "try_map (\<lambda>i (_, t). parse_rule i t) 0 ts = Inr rs"
      using rs by (cases item) (auto simp: extract_rules_def)
    then obtain cs where cs: "try_map (\<lambda>_ (_, t). canonical_rule_table t) 0 ts = Inr cs"
      "rules = [(''rules'', ItemArrayOfTables (map (Pair None) cs))]"
      using Some f(3) by (auto simp: canonical_rules_def res_bind_Inr_iff)
    have "try_map parse_rule 0 cs = try_map (\<lambda>i (_, t). parse_rule i t) 0 ts"
      by (rule try_map_two[OF cs(1)]) (auto simp: parse_rule_canonical)
    then show ?thesis using ts(2) cs(2) f(4) by (simp add: extract_rules_def table_get_def table_iter_def try_map_map)
  qed
  then show ?thesis using assms(2) version scope rs by (auto simp: parse_policy_body_def res_bind_Inr_iff)
qed

end
