(* ===== verification/Policy_Signing.thy ===== *)
theory Policy_Signing
  imports Policy_Loader
begin

text \<open>
  What loading a signed policy establishes: the owner signed the digest of the file, files
  with one digest carry the same policy, every loaded rule is well-formed, and the check
  that runs before signing agrees with the loader.
\<close>

section \<open>A loaded file\<close>

lemma lift_error_Inr [simp]: "lift_error r = Inr x \<longleftrightarrow> r = Inr x"
  by (cases r) (auto simp: lift_error_def)

lemma document_from_str_Inr [simp]: "document_from_str lib raw = Inr doc \<longleftrightarrow> toml_parse lib raw = Inr doc"
  by (cases "toml_parse lib raw") (auto simp: document_from_str_def)

lemma decode_hex_sig_Inr: "decode_hex_sig h p = Inr s \<longleftrightarrow> hex_to_bytes h = HexBytes s \<and> length s = 64"
  by (cases "hex_to_bytes h") (auto simp: decode_hex_sig_def)

lemma verify_signature_Inr:
  "verify_signature lib d s k p = Inr () \<longleftrightarrow> verifying_key lib k \<and> verify_strict lib k d s"
  by (simp add: verify_signature_def)

lemma remap_Inr:
  "(case r of Inl (OwnerSignatureInvalid p _) \<Rightarrow> Inl (OwnerSignatureInvalid p rs) | r' \<Rightarrow> r') = Inr x \<longleftrightarrow> r = Inr x"
  by (auto split: sum.splits policy_error.splits)

lemma canonical_bytes_Inr:
  "canonical_bytes lib raw = Inr c \<longleftrightarrow>
   (\<exists>doc cd. toml_parse lib raw = Inr doc \<and> canonical_document doc = Inr cd \<and> c = normalise_whitespace (toml_print lib cd))"
  by (auto simp: canonical_bytes_def build_canonical_document_def res_bind_Inr_iff)

lemma load_signed_policy_Inr:
  "load_signed_policy lib (Inr raw) p key = Inr d \<longleftrightarrow>
   (\<exists>doc canon item owner hex s body.
      toml_parse lib raw = Inr doc \<and> canonical_bytes lib raw = Inr canon \<and>
      table_get doc ''signature'' = Some item \<and> extract_signature_fields item = Inr (owner, hex) \<and>
      validate_policy_keys lib doc = Inr () \<and> hex_to_bytes hex = HexBytes s \<and> length s = 64 \<and>
      verifying_key lib key \<and> verify_strict lib key (digest lib canon) s \<and>
      parse_policy_body doc p = Inr body \<and>
      d = \<lparr>doc_version = pb_version body, doc_scope = pb_scope body, doc_rules = pb_rules body,
           doc_signature = Some \<lparr>owner_id = owner, sig = hex\<rparr>\<rparr>)"
  unfolding load_signed_policy_def Let_def res_bind_Inr_iff lift_error_Inr document_from_str_Inr ok_or_Inr_iff
    decode_hex_sig_Inr remap_Inr verify_signature_Inr split_paired_Ex prod.case
  by (auto simp: verify_signature_Inr)

text \<open>Two canonical documents that differ and print alike once the whitespace is normalised.\<close>

definition canonical_clash :: "policy_lib \<Rightarrow> string \<Rightarrow> string \<Rightarrow> bool" where
  "canonical_clash lib raw raw' \<longleftrightarrow>
     (\<exists>doc doc' cd cd'. toml_parse lib raw = Inr doc \<and> toml_parse lib raw' = Inr doc' \<and>
        canonical_document doc = Inr cd \<and> canonical_document doc' = Inr cd' \<and> cd \<noteq> cd' \<and>
        normalise_whitespace (toml_print lib cd) = normalise_whitespace (toml_print lib cd'))"

text \<open>
  C14. The owner's signature binds the policy: a loaded file carries a signature of the
  owner's key on the digest of its canonical bytes, and every other file with that digest
  that loads for the profile gives the same version, scope and rules, unless BLAKE3 gives
  two canonical texts one digest or two canonical documents print alike.
\<close>

theorem signature_binds_policy:
  assumes "load_signed_policy lib (Inr raw) p key = Inr d" "load_signed_policy lib (Inr raw') p key' = Inr d'"
    and "canonical_bytes lib raw = Inr c" "canonical_bytes lib raw' = Inr c'" "digest lib c = digest lib c'"
  shows "(\<exists>owner hex s. doc_signature d = Some \<lparr>owner_id = owner, sig = hex\<rparr> \<and> hex_to_bytes hex = HexBytes s \<and>
      verify_strict lib key (digest lib c) s) \<and>
    ((doc_version d = doc_version d' \<and> doc_scope d = doc_scope d' \<and> doc_rules d = doc_rules d') \<or>
     c \<noteq> c' \<or> canonical_clash lib raw raw')"
proof -
  obtain doc body where l: "toml_parse lib raw = Inr doc" "parse_policy_body doc p = Inr body"
    "doc_version d = pb_version body" "doc_scope d = pb_scope body" "doc_rules d = pb_rules body"
    "\<exists>owner hex s. doc_signature d = Some \<lparr>owner_id = owner, sig = hex\<rparr> \<and> hex_to_bytes hex = HexBytes s \<and>
      verify_strict lib key (digest lib c) s"
    using assms(1,3) unfolding load_signed_policy_Inr by force
  obtain doc' body' where l': "toml_parse lib raw' = Inr doc'" "parse_policy_body doc' p = Inr body'"
    "doc_version d' = pb_version body'" "doc_scope d' = pb_scope body'" "doc_rules d' = pb_rules body'"
    using assms(2) unfolding load_signed_policy_Inr by force
  obtain cd where cd: "canonical_document doc = Inr cd" "c = normalise_whitespace (toml_print lib cd)"
    using assms(3) l(1) by (auto simp: canonical_bytes_Inr)
  obtain cd' where cd': "canonical_document doc' = Inr cd'" "c' = normalise_whitespace (toml_print lib cd')"
    using assms(4) l'(1) by (auto simp: canonical_bytes_Inr)
  have "body = body'" if "cd = cd'"
    using parse_canonical[OF cd(1) l(2)] parse_canonical[OF cd'(1) l'(2)] that by simp
  moreover have "canonical_clash lib raw raw'" if "cd \<noteq> cd'" "c = c'"
    unfolding canonical_clash_def using that l(1) l'(1) cd cd' by blast
  ultimately show ?thesis using l(3-6) l'(3-5) by metis
qed

section \<open>Well-formed policies\<close>

definition window_ok :: "window \<Rightarrow> bool" where
  "window_ok w \<longleftrightarrow>
     (w_secs w, w_label w) \<in> {(60, ''1m''), (300, ''5m''), (3600, ''1h''), (86400, ''1d''), (604800, ''1w'')}"

definition criterion_ok :: "criterion \<Rightarrow> bool" where
  "criterion_ok c =
     (case c of
        PerTxCap _ m \<Rightarrow> 0 \<le> m
      | ApprovalAbove _ m \<Rightarrow> 0 < m
      | PerPeriodCap _ w m \<Rightarrow> window_ok w \<and> 0 \<le> m
      | RateLimit w n \<Rightarrow> window_ok w \<and> n \<le> u32_max
      | CounterpartyAllowlist kinds allowlist _ \<Rightarrow> HomeDomain \<in> set kinds \<longrightarrow> list_all is_valid_ldh_home_domain allowlist
      | MinimumReserve m \<Rightarrow> 0 \<le> m
      | InnerInvocationCountCap n \<Rightarrow> n \<le> u32_max
      | BundleAggregateCap _ m \<Rightarrow> 0 \<le> m \<and> m \<le> i128_max
      | BundlePerTxCap _ m \<Rightarrow> 0 \<le> m
      | BundlePerPeriodCap _ w m \<Rightarrow> window_ok w \<and> 0 \<le> m
      | BundleRateLimit w n \<Rightarrow> window_ok w \<and> n \<le> u32_max
      | _ \<Rightarrow> True)"

definition decision_ok :: "decision \<Rightarrow> bool" where
  "decision_ok d =
     (case d of
        Allow \<Rightarrow> True
      | Deny r \<Rightarrow> r = ExplicitRuleDeny
      | RequireApproval req \<Rightarrow>
          1 \<le> ttl_seconds req \<and> ttl_seconds req \<le> MAX_APPROVAL_TTL_SECONDS \<and> nonce req = [] \<and>
          (case reason req of None \<Rightarrow> True | Some r \<Rightarrow> chars_count r \<le> MAX_APPROVAL_REASON_CHARS))"

definition thresholds_ok :: "criterion list \<Rightarrow> decision \<Rightarrow> bool" where
  "thresholds_ok cs d \<longleftrightarrow>
     (\<forall>asset t. ApprovalAbove asset t \<in> set cs \<longrightarrow>
        d = Allow \<and>
        (\<forall>cap_asset m. PerTxCap cap_asset m \<in> set cs \<longrightarrow> asset_normalise asset = asset_normalise cap_asset \<longrightarrow> t < m))"

definition rule_ok :: "policy_rule \<Rightarrow> bool" where
  "rule_ok r \<longleftrightarrow>
     m_tool (r_match r) \<noteq> [] \<and> m_chain (r_match r) \<noteq> [] \<and> list_all criterion_ok (r_criteria r) \<and>
     decision_ok (r_decision r) \<and> thresholds_ok (r_criteria r) (r_decision r)"

lemma window_parse_ok: "window_parse s = Inr w \<Longrightarrow> window_ok w"
  by (auto simp: window_parse_def window_ok_def split: if_splits)

lemma require_window_ok: "require_window t loc = Inr w \<Longrightarrow> window_ok w"
  unfolding require_window_def res_bind_Inr_iff using window_parse_ok by (force split: sum.splits)

lemma require_max_stroops_ok: "require_max_stroops t loc = Inr m \<Longrightarrow> 0 \<le> m"
  by (auto simp: require_max_stroops_def res_bind_Inr_iff split: if_splits)

lemma require_u32_ok: "require_u32 t k loc = Inr n \<Longrightarrow> n \<le> u32_max"
  by (auto simp: require_u32_def res_bind_Inr_iff split: if_splits)

lemma check_home_domains_ok: "check_home_domains loc allowlist = Inr us \<Longrightarrow> list_all is_valid_ldh_home_domain allowlist"
  unfolding check_home_domains_def list_all_iff by (auto dest!: try_map_all split: if_splits)

lemma parse_counterparty_allowlist_ok: "parse_counterparty_allowlist t loc = Inr c \<Longrightarrow> criterion_ok c"
  unfolding parse_counterparty_allowlist_def res_bind_Inr_iff criterion_ok_def
  by (auto dest: check_home_domains_ok split: if_splits)

lemma parse_signed_i128: "parse_signed i128_min i128_max s = Some m \<Longrightarrow> m \<le> i128_max"
  by (drule parse_signed_range) (simp add: in_range_def)

lemma parse_criterion_kind_ok:
  assumes "parse_criterion_kind kind t loc = Inr c"
  shows "criterion_ok c"
  using assms
  unfolding parse_criterion_kind_def parse_approval_above_def parse_per_tx_cap_def parse_per_period_cap_def
    parse_rate_limit_def parse_minimum_reserve_def parse_bundle_aggregate_cap_def parse_bundle_per_period_cap_def
    parse_bundle_per_tx_cap_def parse_bundle_rate_limit_def Let_def
  by (auto simp: criterion_ok_def res_bind_Inr_iff dest: require_window_ok require_max_stroops_ok require_u32_ok
      parse_counterparty_allowlist_ok[unfolded criterion_ok_def] parse_signed_i128 split: if_splits)

lemma parse_criterion_ok: "parse_criterion r i v = Inr c \<Longrightarrow> criterion_ok c"
  unfolding parse_criterion_def Let_def
  by (auto simp: res_bind_Inr_iff intro: parse_criterion_kind_ok split: option.splits if_splits)

lemma parse_criteria_ok: "parse_criteria r item = Inr cs \<Longrightarrow> list_all criterion_ok cs"
  unfolding parse_criteria_def list_all_iff
  by (auto split: option.splits toml_item.splits toml_value.splits dest!: try_map_Inr_set intro: parse_criterion_ok)

lemma threshold_caps_ok:
  "threshold_caps loc asset t cs = Inr () \<Longrightarrow> PerTxCap a m \<in> set cs \<Longrightarrow> asset_normalise asset = asset_normalise a \<Longrightarrow> t < m"
  by (induction cs) (auto split: criterion.splits if_splits)

lemma validate_thresholds_ok:
  "validate_thresholds criteria r d i cs = Inr () \<Longrightarrow> ApprovalAbove asset t \<in> set cs \<Longrightarrow>
   d = Allow \<and> (\<forall>a m. PerTxCap a m \<in> set criteria \<longrightarrow> asset_normalise asset = asset_normalise a \<longrightarrow> t < m)"
proof (induction cs arbitrary: i)
  case (Cons c cs)
  then show ?case
    by (cases c) (auto simp: Let_def res_bind_Inr_iff dest: threshold_caps_ok split: if_splits)
qed simp

lemma parse_rule_match_ok: "parse_rule_match item idx = Inr m \<Longrightarrow> m_tool m \<noteq> [] \<and> m_chain m \<noteq> []"
  by (auto simp: parse_rule_match_def res_bind_Inr_iff reject_empty_match_field_def split: if_splits)

lemma parse_optional_reason_ok: "parse_optional_reason t idx = Inr (Some r) \<Longrightarrow> chars_count r \<le> MAX_APPROVAL_REASON_CHARS"
  by (auto simp: parse_optional_reason_def res_bind_Inr_iff split: option.splits if_splits)

lemma parse_optional_ttl_ok:
  "parse_optional_ttl_secs t idx = Inr (Some n) \<Longrightarrow> 1 \<le> n \<and> n \<le> MAX_APPROVAL_TTL_SECONDS"
  by (auto simp: parse_optional_ttl_secs_def res_bind_Inr_iff split: option.splits if_splits)

lemma parse_decision_ok:
  assumes "parse_decision s idx r ttl = Inr d" "\<And>x. r = Some x \<Longrightarrow> chars_count x \<le> MAX_APPROVAL_REASON_CHARS"
    "\<And>n. ttl = Some n \<Longrightarrow> 1 \<le> n \<and> n \<le> MAX_APPROVAL_TTL_SECONDS"
  shows "decision_ok d"
proof -
  have "1 \<le> DEFAULT_APPROVAL_TTL_SECONDS \<and> DEFAULT_APPROVAL_TTL_SECONDS \<le> MAX_APPROVAL_TTL_SECONDS"
    by (simp add: DEFAULT_APPROVAL_TTL_SECONDS_def MAX_APPROVAL_TTL_SECONDS_def)
  then show ?thesis using assms
    by (auto simp: parse_decision_def res_bind_Inr_iff decision_ok_def approval_request_new_def with_reason_def Let_def
        split: if_splits option.splits)
qed

lemma parse_rule_ok:
  assumes "parse_rule idx t = Inr r"
  shows "rule_ok r"
proof -
  obtain item m cs s reason ttl d op where *: "parse_rule_match item idx = Inr m"
    "parse_criteria idx (table_get t ''criteria'') = Inr cs" "parse_optional_reason t idx = Inr reason"
    "parse_optional_ttl_secs t idx = Inr ttl" "parse_decision s idx reason ttl = Inr d"
    "validate_approval_above cs idx d = Inr ()"
    "r = \<lparr>r_match = m, r_criteria = cs, r_decision = d, r_allow_opaque_signing = op\<rparr>"
    using assms unfolding parse_rule_def res_bind_Inr_iff by auto
  have "decision_ok d"
    by (rule parse_decision_ok[OF *(5)]) (use *(3,4) parse_optional_reason_ok parse_optional_ttl_ok in auto)
  moreover have "thresholds_ok cs d"
    unfolding thresholds_ok_def using validate_thresholds_ok *(6) unfolding validate_approval_above_def by blast
  ultimately show ?thesis
    using *(7) parse_rule_match_ok[OF *(1)] parse_criteria_ok[OF *(2)] by (simp add: rule_ok_def)
qed

lemma parse_policy_body_ok:
  assumes "parse_policy_body doc p = Inr body"
  shows "pb_version body = 1" "pb_scope body \<in> {AllProfiles, Profile p} \<union> range (ProfileProject p)"
    "list_all rule_ok (pb_rules body)"
proof -
  obtain v sc rs where *: "extract_version doc = Inr v" "reject_scope_profile_mismatch sc p = Inr ()"
    "extract_rules doc = Inr rs" "body = \<lparr>pb_version = v, pb_scope = sc, pb_rules = rs\<rparr>"
    using assms by (auto simp: parse_policy_body_def res_bind_Inr_iff)
  show "pb_version body = 1"
    using *(1,4) by (auto simp: extract_version_def res_bind_Inr_iff MIN_POLICY_VERSION_def MAX_POLICY_VERSION_def Let_def
        split: if_splits)
  show "pb_scope body \<in> {AllProfiles, Profile p} \<union> range (ProfileProject p)"
    using *(2,4) by (auto simp: reject_scope_profile_mismatch_def split: if_splits scope_id.splits)
  have "list_all rule_ok rs"
    using *(3) unfolding extract_rules_def list_all_iff
    by (auto split: option.splits toml_item.splits dest!: try_map_Inr_set intro: parse_rule_ok)
  then show "list_all rule_ok (pb_rules body)" using *(4) by simp
qed

text \<open>
  C15. Every loaded policy is well-formed: it has the supported version, its scope covers
  the profile, and in each rule the match fields are filled, the windows are among the
  five accepted ones, the caps are non-negative and the counts fit \<^verbatim>\<open>u32\<close>, home domains on
  an allowlist are valid, an approval request has a lifetime of one second to seven days and a
  bounded reason, and an approval threshold stands in an allow rule and below every
  per-transaction cap on its asset.
\<close>

theorem loaded_policy_well_formed:
  assumes "load_signed_policy lib contents p key = Inr d"
  shows "doc_version d = 1 \<and> doc_scope d \<in> {AllProfiles, Profile p} \<union> range (ProfileProject p) \<and>
    list_all rule_ok (doc_rules d)"
proof -
  obtain raw where "contents = Inr raw" using assms by (cases contents) (auto simp: load_signed_policy_def lift_error_def)
  with assms have "load_signed_policy lib (Inr raw) p key = Inr d" by simp
  then obtain doc body where "parse_policy_body doc p = Inr body" "doc_version d = pb_version body"
    "doc_scope d = pb_scope body" "doc_rules d = pb_rules body"
    unfolding load_signed_policy_Inr by force
  then show ?thesis using parse_policy_body_ok by simp
qed

section \<open>The check before signing\<close>

lemma find_filter: "(\<And>x. P x \<Longrightarrow> Q x) \<Longrightarrow> find P (filter Q xs) = find P xs"
  by (induction xs) auto

lemma table_iter_remove: "table_iter (table_remove k t) = table_remove k (table_iter t)"
  by (auto simp: table_iter_def table_remove_def conj_commute)

lemma map_of_remove: "map_of (table_remove k t) k' = (if k' = k then None else map_of t k')"
  by (induction t) (auto simp: table_remove_def)

lemma table_get_remove: "table_get (table_remove k t) k' = (if k' = k then None else table_get t k')"
  by (simp add: table_get_def table_iter_remove map_of_remove)

lemma root_keys_remove:
  "reject_unknown_keys lib (table_remove ''signature'' doc) ROOT_KEYS None w = reject_unknown_keys lib doc ROOT_KEYS None w"
proof -
  have "find (\<lambda>(key, _). key \<notin> set ROOT_KEYS) (table_remove ''signature'' (table_iter doc)) =
      find (\<lambda>(key, _). key \<notin> set ROOT_KEYS) (table_iter doc)"
    unfolding table_remove_def by (rule find_filter) (auto simp: ROOT_KEYS_def)
  then show ?thesis by (simp only: reject_unknown_keys_def table_iter_remove)
qed

lemma parse_policy_body_remove: "parse_policy_body (table_remove ''signature'' doc) p = parse_policy_body doc p"
  by (simp add: parse_policy_body_def extract_version_def extract_scope_def extract_rules_def item_integer_def item_str_def
      table_get_remove del: append.simps)

lemma validate_policy_keys_remove:
  "validate_policy_keys lib doc = Inr () \<longleftrightarrow>
   validate_policy_keys lib (table_remove ''signature'' doc) = Inr () \<and>
   (case table_get doc ''signature'' of
      Some (ItemTable d signature) \<Rightarrow>
        reject_unknown_keys lib signature SIGNATURE_KEYS (Some ''signature'') ''the signature table'' = Inr ()
    | _ \<Rightarrow> True)"
  unfolding validate_policy_keys_def root_keys_remove table_get_remove
  by (auto simp: res_bind_Inr_iff split: option.splits toml_item.splits)

text \<open>
  C16. The check that runs before signing agrees with the loader: where a file carries a
  signature table with an owner and 64 bytes that verify under the owner's key for the
  canonical bytes of the file, it loads exactly when the unsigned check accepts it.
\<close>

theorem signed_draft_loads:
  assumes "toml_parse lib raw = Inr doc" "canonical_bytes lib raw = Inr canon"
    and "table_get doc ''signature'' = Some (ItemTable dec st)" "set (map fst (table_iter st)) \<subseteq> {''owner_id'', ''sig''}"
    and "item_str st ''owner_id'' = Some owner" "item_str st ''sig'' = Some hex"
    and "hex_to_bytes hex = HexBytes s" "length s = 64"
    and "verifying_key lib key" "verify_strict lib key (digest lib canon) s"
  shows "(\<exists>d. load_signed_policy lib (Inr raw) p key = Inr d) \<longleftrightarrow> validate_unsigned_policy lib raw p = Inr ()"
proof -
  have fields: "extract_signature_fields (ItemTable dec st) = Inr (owner, hex)"
    using assms(5,6) by (simp add: extract_signature_fields_def)
  have "find (\<lambda>(key, _). key \<notin> set SIGNATURE_KEYS) (table_iter st) = None"
    using assms(4) by (force simp: find_None_iff SIGNATURE_KEYS_def)
  then have sig: "reject_unknown_keys lib st SIGNATURE_KEYS loc w = Inr ()" for loc w
    by (simp add: reject_unknown_keys_def)
  have "validate_unsigned_policy lib raw p = Inr () \<longleftrightarrow>
      validate_policy_keys lib doc = Inr () \<and> (\<exists>body. parse_policy_body doc p = Inr body)"
    using assms(1-3) sig validate_policy_keys_remove[of lib doc]
    by (auto simp: validate_unsigned_policy_def res_bind_Inr_iff parse_policy_body_remove Let_def)
  then show ?thesis using assms fields unfolding load_signed_policy_Inr by auto
qed

section \<open>A signed file\<close>

text \<open>A policy with a cap and an approval threshold, written with two decorations, and a library that accepts its signature.\<close>

definition sample_criterion :: "decor \<Rightarrow> string \<Rightarrow> int \<Rightarrow> toml_value" where
  "sample_criterion d kind m =
     TInlineTable d [(''kind'', TString d kind), (''asset'', TString None ''native''), (''max_stroops'', TInteger d m)]"

definition sample_rule_table :: "decor \<Rightarrow> toml_table" where
  "sample_rule_table d =
     [(''match'', ItemValue (TInlineTable d [(''tool'', TString d ''*''), (''chain'', TString d ''*'')])),
      (''criteria'', ItemValue (TArray d [sample_criterion d ''per_tx_cap'' 100, sample_criterion d ''approval_above'' 50])),
      (''decision'', ItemValue (TString d ''allow''))]"

definition sample_signature :: "decor \<Rightarrow> toml_table" where
  "sample_signature d =
     [(''owner_id'', ItemValue (TString d ''G'')), (''sig'', ItemValue (TString d (replicate 128 (CHR ''0''))))]"

definition sample_policy :: "decor \<Rightarrow> toml_table" where
  "sample_policy d =
     [(''version'', ItemValue (TInteger d 1)), (''scope'', ItemValue (TString d ''profile:alice'')),
      (''rules'', ItemArrayOfTables [(d, sample_rule_table d)]), (''signature'', ItemTable d (sample_signature d))]"

definition sample_lib :: policy_lib where
  "sample_lib =
     \<lparr>toml_parse = (\<lambda>raw. Inr (sample_policy (Some raw))), toml_print = (\<lambda>_. ''policy''), escape_debug = id,
      blake3 = id, verifying_key = (\<lambda>_. True), verify_strict = (\<lambda>_ _ _. True)\<rparr>"

definition sample_loaded :: policy_document where
  "sample_loaded =
     \<lparr>doc_version = 1, doc_scope = Profile ''alice'',
      doc_rules =
        [\<lparr>r_match = \<lparr>m_tool = ''*'', m_chain = ''*''\<rparr>,
          r_criteria = [PerTxCap ''native'' 100, ApprovalAbove ''native'' 50], r_decision = Allow,
          r_allow_opaque_signing = False\<rparr>],
      doc_signature = Some \<lparr>owner_id = ''G'', sig = replicate 128 (CHR ''0'')\<rparr>\<rparr>"

lemma sample_get:
  "table_get (sample_policy d) ''version'' = Some (ItemValue (TInteger d 1))"
  "table_get (sample_policy d) ''scope'' = Some (ItemValue (TString d ''profile:alice''))"
  "table_get (sample_policy d) ''rules'' = Some (ItemArrayOfTables [(d, sample_rule_table d)])"
  "table_get (sample_policy d) ''signature'' = Some (ItemTable d (sample_signature d))"
  by (simp_all add: table_get_def table_iter_def sample_policy_def)

lemma sample_version: "extract_version (sample_policy d) = Inr 1"
  by (simp add: extract_version_def item_integer_def sample_get machine_bounds MIN_POLICY_VERSION_def MAX_POLICY_VERSION_def)

lemma sample_scope: "extract_scope (sample_policy d) = Inr (Profile ''alice'')"
proof -
  have "parse_scope_string ''profile:alice'' = Inr (Profile ''alice'')" by code_simp
  then show ?thesis by (simp add: extract_scope_def item_str_def sample_get)
qed

lemma sample_rule_parses:
  "parse_rule i (sample_rule_table d) =
   Inr \<lparr>r_match = \<lparr>m_tool = ''*'', m_chain = ''*''\<rparr>,
        r_criteria = [PerTxCap ''native'' 100, ApprovalAbove ''native'' 50], r_decision = Allow,
        r_allow_opaque_signing = False\<rparr>"
  by code_simp

lemma sample_keys: "validate_policy_keys lib (sample_policy d) = Inr ()"
  by code_simp

lemma sample_canonical: "canonical_document (sample_policy d) = Inr (butlast (sample_policy None))"
  by code_simp

lemma sample_hex: "hex_to_bytes (replicate 128 (CHR ''0'')) = HexBytes (replicate 64 (CHR 0x00))"
  by code_simp

lemma sample_canonical_bytes: "canonical_bytes sample_lib raw = Inr (normalise_whitespace ''policy'')"
  by (auto simp: canonical_bytes_Inr sample_canonical sample_lib_def)

lemma sample_body:
  "parse_policy_body (sample_policy d) ''alice'' =
   Inr \<lparr>pb_version = 1, pb_scope = Profile ''alice'', pb_rules = doc_rules sample_loaded\<rparr>"
  by (simp add: parse_policy_body_def sample_version sample_scope reject_scope_profile_mismatch_def extract_rules_def
      sample_get sample_rule_parses sample_loaded_def)

lemma sample_signature_fields:
  "extract_signature_fields (ItemTable d (sample_signature d)) = Inr (''G'', replicate 128 (CHR ''0''))"
  by (simp add: extract_signature_fields_def item_str_def table_get_def table_iter_def sample_signature_def)

lemma sample_loads: "load_signed_policy sample_lib (Inr raw) ''alice'' key = Inr sample_loaded"
  unfolding load_signed_policy_Inr
  by (intro exI[of _ "sample_policy (Some raw)"] exI conjI, simp add: sample_lib_def, rule sample_canonical_bytes,
      rule sample_get, rule sample_signature_fields, rule sample_keys, rule sample_hex, simp,
      simp add: sample_lib_def, simp add: sample_lib_def, rule sample_body, simp add: sample_loaded_def)

theorem signature_binds_policy_witness:
  "load_signed_policy sample_lib (Inr ''a'') ''alice'' ''key'' = Inr sample_loaded \<and>
   load_signed_policy sample_lib (Inr ''b'') ''alice'' ''key'' = Inr sample_loaded \<and>
   (\<exists>owner hex s. doc_signature sample_loaded = Some \<lparr>owner_id = owner, sig = hex\<rparr> \<and> hex_to_bytes hex = HexBytes s \<and>
      verify_strict sample_lib ''key'' (digest sample_lib (normalise_whitespace ''policy'')) s)"
  using signature_binds_policy[OF sample_loads[of "''a''" "''key''"] sample_loads[of "''b''" "''key''"]
      sample_canonical_bytes sample_canonical_bytes refl]
    sample_loads by blast

theorem loaded_policy_well_formed_witness:
  "load_signed_policy sample_lib (Inr ''a'') ''alice'' ''key'' = Inr sample_loaded \<and>
   doc_version sample_loaded = 1 \<and> list_all rule_ok (doc_rules sample_loaded)"
  using loaded_policy_well_formed[OF sample_loads[of "''a''" "''key''"]] sample_loads by blast

theorem signed_draft_loads_witness:
  "load_signed_policy sample_lib (Inr ''a'') ''alice'' ''key'' = Inr sample_loaded \<and>
   validate_unsigned_policy sample_lib ''a'' ''alice'' = Inr ()"
proof -
  have "validate_unsigned_policy sample_lib ''a'' ''alice'' = Inr ()"
  proof (rule signed_draft_loads[THEN iffD1])
    show "toml_parse sample_lib ''a'' = Inr (sample_policy (Some ''a''))" by (simp add: sample_lib_def)
    show "table_get (sample_policy (Some ''a'')) ''signature'' = Some (ItemTable (Some ''a'') (sample_signature (Some ''a'')))"
      by (rule sample_get)
    show "set (map fst (table_iter (sample_signature (Some ''a'')))) \<subseteq> {''owner_id'', ''sig''}"
      by (simp add: table_iter_def sample_signature_def)
    show "item_str (sample_signature (Some ''a'')) ''owner_id'' = Some ''G''"
      "item_str (sample_signature (Some ''a'')) ''sig'' = Some (replicate 128 (CHR ''0''))"
      by (simp_all add: item_str_def table_get_def table_iter_def sample_signature_def)
    show "verifying_key sample_lib ''key''"
      "verify_strict sample_lib ''key'' (digest sample_lib (normalise_whitespace ''policy'')) (replicate 64 (CHR 0x00))"
      by (simp_all add: sample_lib_def)
  qed (use sample_loads in \<open>auto intro: sample_canonical_bytes sample_hex\<close>)
  then show ?thesis using sample_loads by simp
qed

end
