(* ===== verification/Approval_Entry.thy ===== *)
theory Approval_Entry
  imports Nonce Hex Policy_Types
begin

text \<open>
  Pending approvals (\<^verbatim>\<open>stellar-agent-core/src/approval\<close>): the entry with its kinds, the checks on
  the fields of each kind, the constructors, and the mapping between an entry and its shape
  in the store file (\<^verbatim>\<open>store.rs\<close>, \<^verbatim>\<open>assertion_input.rs\<close>, \<^verbatim>\<open>registration_input.rs\<close>,
  \<^verbatim>\<open>rule_proposal.rs\<close>).  Where a kind and its table in the file have the same fields, one record
  stands for both.  An error message is the name of the violated rule with the values it reports.
\<close>

section \<open>Checks on text\<close>

definition is_base32 :: "char \<Rightarrow> bool" where
  "is_base32 c \<longleftrightarrow> is_ascii_uppercase c \<or> (50 \<le> byte_of c \<and> byte_of c \<le> 55)"

definition strkey_shape :: "char \<Rightarrow> nat \<Rightarrow> string \<Rightarrow> bool" where
  "strkey_shape prefix n s \<longleftrightarrow> length s = n \<and> s \<noteq> [] \<and> hd s = prefix \<and> list_all is_base32 (tl s)"

definition is_hexdigit :: "char \<Rightarrow> bool" where
  "is_hexdigit c \<longleftrightarrow> is_digit c \<or> (65 \<le> byte_of c \<and> byte_of c \<le> 70) \<or> (97 \<le> byte_of c \<and> byte_of c \<le> 102)"

definition printable :: "char \<Rightarrow> bool" where
  "printable c \<longleftrightarrow> 32 \<le> byte_of c \<and> byte_of c \<le> 126"

definition b64url_char :: "char \<Rightarrow> bool" where
  "b64url_char c \<longleftrightarrow> is_ascii_alphanumeric c \<or> c = CHR ''-'' \<or> c = CHR ''_''"

definition asset_text_ok :: "string \<Rightarrow> bool" where
  "asset_text_ok s \<longleftrightarrow>
     s = ''XLM'' \<or>
     (case split_once (CHR '':'') s of
        None \<Rightarrow> False
      | Some (code, issuer) \<Rightarrow>
          code \<noteq> [] \<and> length code \<le> 12 \<and> list_all is_ascii_alphanumeric code \<and> strkey_shape (CHR ''G'') 56 issuer)"

definition windows_sid_is_valid :: "string \<Rightarrow> bool" where
  "windows_sid_is_valid s \<longleftrightarrow>
     (case split_char (CHR ''-'') s of
        [] \<Rightarrow> False
      | p # parts \<Rightarrow> p = ''S'' \<and> list_all (\<lambda>x. x \<noteq> [] \<and> list_all is_digit x) parts \<and> 3 \<le> length parts)"

definition process_uid_is_valid :: "string \<Rightarrow> bool" where
  "process_uid_is_valid s \<longleftrightarrow> s = ''non-unix-stub'' \<or> (s \<noteq> [] \<and> list_all is_digit s) \<or> windows_sid_is_valid s"

text \<open>
  \<^verbatim>\<open>str::parse::<IpAddr>\<close>: four decimal octets without leading zeros, or eight groups of up to four
  hexadecimal digits, of which one run may be left out and the last two may be an IPv4 address.
\<close>

definition ipv4_octet :: "string \<Rightarrow> bool" where
  "ipv4_octet s \<longleftrightarrow>
     s \<noteq> [] \<and> length s \<le> 3 \<and> list_all is_digit s \<and> nat_of_digits s \<le> 255 \<and> (length s = 1 \<or> hd s \<noteq> CHR ''0'')"

definition is_ipv4 :: "string \<Rightarrow> bool" where
  "is_ipv4 s \<longleftrightarrow> (let ps = split_char (CHR ''.'') s in length ps = 4 \<and> list_all ipv4_octet ps)"

definition hex_group :: "string \<Rightarrow> bool" where
  "hex_group s \<longleftrightarrow> s \<noteq> [] \<and> length s \<le> 4 \<and> list_all is_hexdigit s"

fun group_count :: "bool \<Rightarrow> string list \<Rightarrow> nat option" where
  "group_count v4 [] = Some 0"
| "group_count v4 [g] = (if hex_group g then Some 1 else if v4 \<and> is_ipv4 g then Some 2 else None)"
| "group_count v4 (g # gs) = (if hex_group g then map_option Suc (group_count v4 gs) else None)"

definition group_text :: "bool \<Rightarrow> string \<Rightarrow> nat option" where
  "group_text v4 s = (if s = [] then Some 0 else group_count v4 (split_char (CHR '':'') s))"

fun split_double_colon :: "string \<Rightarrow> (string \<times> string) option" where
  "split_double_colon (a # b # s) =
     (if a = CHR '':'' \<and> b = CHR '':'' then Some ([], s)
      else map_option (\<lambda>(h, t). (a # h, t)) (split_double_colon (b # s)))"
| "split_double_colon _ = None"

definition is_ipv6 :: "string \<Rightarrow> bool" where
  "is_ipv6 s \<longleftrightarrow>
     (case split_double_colon s of
        None \<Rightarrow> s \<noteq> [] \<and> group_text True s = Some 8
      | Some (a, b) \<Rightarrow>
          (case (group_text False a, group_text True b) of (Some h, Some t) \<Rightarrow> h + t \<le> 7 | _ \<Rightarrow> False))"

definition is_ip_addr :: "string \<Rightarrow> bool" where
  "is_ip_addr s \<longleftrightarrow> is_ipv4 s \<or> is_ipv6 s"

section \<open>Payloads\<close>

record assertion_input =
  ai_credential_id :: string
  ai_authenticator_data :: string
  ai_client_data_json :: string
  ai_signature_compact :: string

record registration_input =
  ri_credential_id :: string
  ri_public_key :: string
  ri_attestation_blob :: "string option"
  ri_transports :: "string list"

datatype rule_context_type = DefaultContext | CallContract string | CreateContract string

datatype rule_signer_kind = Delegated | External

record rule_signer =
  rsg_kind :: rule_signer_kind
  rsg_address :: "string option"
  rsg_verifier :: "string option"
  rsg_pubkey :: "string option"
  rsg_is_proposer :: bool

record rule_policy =
  rpo_address :: string
  rpo_params :: string

record rule_snapshot =
  sn_version :: nat
  sn_context :: rule_context_type
  sn_name :: string
  sn_valid_until :: "nat option"
  sn_signers :: "rule_signer list"
  sn_policies :: "rule_policy list"
  sn_auth_rule_ids :: "nat list"
  sn_accept_mutable :: bool
  sn_accept_unknown :: bool

record payment_fields =
  pf_xdr :: string
  pf_sha256_hex :: string
  pf_to :: string
  pf_amount :: int
  pf_asset :: string
  pf_memo :: "string option"
  pf_fee :: nat
  pf_seq :: int

record passkey_fields =
  sp_auth_digest :: string
  sp_credential_id :: string
  sp_account :: string
  sp_rule_ids :: "nat list"
  sp_csrf :: string
  sp_rp_id :: string

record register_fields =
  rg_account :: string
  rg_rule_ids :: "nat list"
  rg_csrf :: string
  rg_rp_id :: string
  rg_user_handle :: string

record toolset_fields =
  tg_toolset :: string
  tg_capability :: string
  tg_destination :: string
  tg_asset :: string
  tg_min :: int
  tg_max :: int

record opt_in_fields =
  oi_network :: string
  oi_code :: string
  oi_issuer :: string

record trustline_fields =
  tl_xdr :: string
  tl_sha256_hex :: string
  tl_holder :: string
  tl_code :: string
  tl_issuer :: string
  tl_limit :: "int option"
  tl_fee :: nat
  tl_seq :: int

record claim_fields =
  cl_xdr :: string
  cl_sha256_hex :: string
  cl_hex72 :: string
  cl_strkey :: string
  cl_asset :: string
  cl_amount :: int
  cl_source :: string
  cl_fee :: nat
  cl_seq :: int

record proposal_fields =
  pr_account :: string
  pr_redacted :: string
  pr_passphrase :: string
  pr_chain_id :: string
  pr_definition :: rule_snapshot
  pr_sha256 :: string
  pr_summary :: string

record mpp_fields =
  mp_fingerprint :: string
  mp_artifact :: string
  mp_profile :: string
  mp_chain_id :: string
  mp_payer :: string
  mp_transport :: string
  mp_authority :: string
  mp_target :: string
  mp_amount :: string
  mp_currency :: string
  mp_recipient :: string
  mp_expires_at :: nat
  mp_fee :: nat

datatype consumed_outcome = OutcomeConfirmed | OutcomeUnknown

datatype approval_kind =
    PaymentSimulated payment_fields
  | SignWithPasskey passkey_fields
  | ToolsetFirstInvokeGate toolset_fields
  | TrustlineClawbackOptIn opt_in_fields
  | TrustlineSimulated trustline_fields
  | ClaimSimulated claim_fields
  | RegisterPasskey register_fields "registration_input option"
  | RuleProposalSimulated proposal_fields
  | MppChargeSimulated mpp_fields
  | RejectedKind string
  | ConsumedKind string string consumed_outcome

definition kind_name :: "approval_kind \<Rightarrow> string" where
  "kind_name k =
     (case k of
        PaymentSimulated _ \<Rightarrow> ''PaymentSimulated''
      | SignWithPasskey _ \<Rightarrow> ''SignWithPasskey''
      | TrustlineClawbackOptIn _ \<Rightarrow> ''TrustlineClawbackOptIn''
      | ClaimSimulated _ \<Rightarrow> ''ClaimSimulated''
      | TrustlineSimulated _ \<Rightarrow> ''TrustlineSimulated''
      | RegisterPasskey _ _ \<Rightarrow> ''RegisterPasskey''
      | ToolsetFirstInvokeGate _ \<Rightarrow> ''ToolsetFirstInvokeGate''
      | RuleProposalSimulated _ \<Rightarrow> ''RuleProposalSimulated''
      | MppChargeSimulated _ \<Rightarrow> ''MppChargeSimulated''
      | RejectedKind _ \<Rightarrow> ''Rejected''
      | ConsumedKind _ _ _ \<Rightarrow> ''Consumed'')"

definition outcome_label :: "consumed_outcome \<Rightarrow> string" where
  "outcome_label oc = (case oc of OutcomeConfirmed \<Rightarrow> ''confirmed'' | OutcomeUnknown \<Rightarrow> ''unknown'')"

record pending_approval =
  pa_nonce :: string
  pa_process_uid :: string
  pa_created :: nat
  pa_expires :: nat
  pa_reason :: "string option"
  pa_kind :: approval_kind
  pa_attestation :: "string option"
  pa_assertion :: "assertion_input option"

definition is_expired :: "pending_approval \<Rightarrow> nat \<Rightarrow> bool" where
  "is_expired e now \<longleftrightarrow> pa_expires e \<le> now"

section \<open>Checks on the fields of a kind\<close>

text \<open>A violated rule, named, with the values the message reports.\<close>

datatype detail = DNat nat | DInt int | DText string | DChar char

datatype invariant_error =
    Violation string "detail list"
  | AtIndex string nat invariant_error

type_synonym check = "(invariant_error, unit) result"

definition require :: "bool \<Rightarrow> invariant_error \<Rightarrow> check" where
  "require b e = (if b then Inr () else Inl e)"

text \<open>Checks in order: the first failing one is reported.\<close>

fun all_checks :: "check list \<Rightarrow> check" where
  "all_checks [] = Inr ()"
| "all_checks (c # cs) = (case c of Inl e \<Rightarrow> Inl e | Inr _ \<Rightarrow> all_checks cs)"

definition redact_g_strkey :: "string \<Rightarrow> string" where
  "redact_g_strkey s =
     (let tail = drop (length s - 5) s;
          boundary = (\<lambda>t. t = [] \<or> byte_of (hd t) < 128 \<or> 192 \<le> byte_of (hd t)) in
      if length s < 10 \<or> \<not> boundary (drop 5 s) \<or> \<not> boundary tail then ''<redacted>''
      else take 5 s @ ''...'' @ tail)"

definition CREDENTIAL_ID_MIN_BYTES :: nat where "CREDENTIAL_ID_MIN_BYTES = 16"
definition CREDENTIAL_ID_MAX_BYTES :: nat where "CREDENTIAL_ID_MAX_BYTES = 64"
definition RULE_IDS_MAX_COUNT :: nat where "RULE_IDS_MAX_COUNT = 8"

definition validate_smart_account_redacted :: "string \<Rightarrow> check" where
  "validate_smart_account_redacted s =
     all_checks
       [require (length s = 13) (Violation ''redacted_length'' [DNat (length s), DText s]),
        require (take 1 s = ''C'') (Violation ''redacted_start'' [DText s]),
        require (list_all is_base32 (take 4 (drop 1 s))) (Violation ''redacted_head'' [DText s]),
        require (take 3 (drop 5 s) = ''...'') (Violation ''redacted_dots'' [DText s]),
        require (list_all is_base32 (drop 8 s)) (Violation ''redacted_tail'' [DText s])]"

definition validate_smart_account_full :: "string \<Rightarrow> check" where
  "validate_smart_account_full s = require (strkey_shape (CHR ''C'') 56 s) (Violation ''smart_account_shape'' [DText (redact_g_strkey s)])"

definition validate_rule_ids :: "nat list \<Rightarrow> check" where
  "validate_rule_ids ids =
     all_checks
       [require (ids \<noteq> []) (Violation ''rule_ids_empty'' []),
        require (length ids \<le> RULE_IDS_MAX_COUNT) (Violation ''rule_ids_too_many'' [DNat (length ids)])]"

definition validate_rp_id :: "string \<Rightarrow> check" where
  "validate_rp_id rp =
     all_checks
       [require (rp \<noteq> []) (Violation ''rp_id_empty'' []),
        require (length rp \<le> 253) (Violation ''rp_id_too_long'' [DNat (length rp)]),
        require (\<not> is_ip_addr rp) (Violation ''rp_id_ip_address'' [DText rp]),
        require (list_all (\<lambda>c. is_ascii_alphanumeric c \<or> c = CHR ''.'' \<or> c = CHR ''-'') rp) (Violation ''rp_id_chars'' [])]"

definition validate_sign_with_passkey :: "passkey_fields \<Rightarrow> check" where
  "validate_sign_with_passkey p =
     all_checks
       [require (CREDENTIAL_ID_MIN_BYTES \<le> length (sp_credential_id p) \<and> length (sp_credential_id p) \<le> CREDENTIAL_ID_MAX_BYTES)
          (Violation ''credential_id_length'' [DNat (length (sp_credential_id p))]),
        validate_rule_ids (sp_rule_ids p),
        validate_rp_id (sp_rp_id p),
        validate_smart_account_redacted (sp_account p)]"

definition validate_register_passkey :: "register_fields \<Rightarrow> check" where
  "validate_register_passkey r =
     all_checks
       [validate_smart_account_redacted (rg_account r), validate_rule_ids (rg_rule_ids r), validate_rp_id (rg_rp_id r)]"

definition P256_HALF_ORDER_BE :: "nat list" where
  "P256_HALF_ORDER_BE =
     [0x7f, 0xff, 0xff, 0xff, 0x80, 0x00, 0x00, 0x00, 0x7f, 0xff, 0xff, 0xff, 0xff, 0xff, 0xff, 0xff,
      0xde, 0x73, 0x7d, 0x56, 0xd3, 0x8b, 0xcf, 0x42, 0x79, 0xdc, 0xe5, 0x61, 0x7e, 0x31, 0x92, 0xa8]"

text \<open>The lexicographic order of byte slices.\<close>

fun bytes_less :: "nat list \<Rightarrow> nat list \<Rightarrow> bool" where
  "bytes_less (a # as) (b # bs) \<longleftrightarrow> a < b \<or> (a = b \<and> bytes_less as bs)"
| "bytes_less [] (b # bs) \<longleftrightarrow> True"
| "bytes_less _ [] \<longleftrightarrow> False"

definition validate_signature_compact :: "string \<Rightarrow> check" where
  "validate_signature_compact s =
     all_checks
       [require (length s = 64) (Violation ''signature_length'' [DNat (length s)]),
        require (\<not> bytes_less P256_HALF_ORDER_BE (map byte_of (drop 32 s))) (Violation ''signature_high_s'' [])]"

definition validate_assertion_input :: "assertion_input \<Rightarrow> check" where
  "validate_assertion_input a = validate_signature_compact (ai_signature_compact a)"

definition PUBLIC_KEY_UNCOMPRESSED_SEC1_LEN :: nat where "PUBLIC_KEY_UNCOMPRESSED_SEC1_LEN = 65"
definition TRANSPORTS_MAX_COUNT :: nat where "TRANSPORTS_MAX_COUNT = 4"

definition VALID_TRANSPORTS :: "string list" where
  "VALID_TRANSPORTS = [''usb'', ''internal'', ''ble'', ''nfc'', ''hybrid'']"

definition validate_registration_input :: "registration_input \<Rightarrow> check" where
  "validate_registration_input r =
     all_checks
       ([require (CREDENTIAL_ID_MIN_BYTES \<le> length (ri_credential_id r) \<and> length (ri_credential_id r) \<le> CREDENTIAL_ID_MAX_BYTES)
          (Violation ''credential_id_length'' [DNat (length (ri_credential_id r))]),
        require (length (ri_public_key r) = PUBLIC_KEY_UNCOMPRESSED_SEC1_LEN) (Violation ''public_key_length'' [DNat (length (ri_public_key r))]),
        require (take 1 (ri_public_key r) = [CHR 0x04]) (Violation ''public_key_marker'' [DNat (byte_of (hd (ri_public_key r)))]),
        require (length (ri_transports r) \<le> TRANSPORTS_MAX_COUNT) (Violation ''transports_too_many'' [DNat (length (ri_transports r))])] @
       map (\<lambda>t. require (t \<in> set VALID_TRANSPORTS) (Violation ''transport_invalid'' [DText t])) (ri_transports r) @
       [require
          (case ri_attestation_blob r of
             None \<Rightarrow> True
           | Some b \<Rightarrow> list_all (\<lambda>c. is_ascii_alphanumeric c \<or> c \<in> {CHR ''+'', CHR ''/'', CHR ''=''}) b) (Violation ''blob_chars'' [])])"

definition TOOLSET_GATE_FIELD_MAX_BYTES :: nat where "TOOLSET_GATE_FIELD_MAX_BYTES = 64"

definition slug_char :: "char \<Rightarrow> bool" where
  "slug_char c \<longleftrightarrow> is_ascii_lowercase c \<or> is_digit c \<or> c = CHR ''-''"

definition validate_toolset_first_invoke_gate :: "toolset_fields \<Rightarrow> check" where
  "validate_toolset_first_invoke_gate t =
     all_checks
       [require (tg_toolset t \<noteq> [] \<and> length (tg_toolset t) \<le> TOOLSET_GATE_FIELD_MAX_BYTES) (Violation ''toolset_name_length'' [DNat (length (tg_toolset t))]),
        require (list_all slug_char (tg_toolset t)) (Violation ''toolset_name_chars'' [DText (tg_toolset t)]),
        require (tg_capability t \<noteq> [] \<and> length (tg_capability t) \<le> TOOLSET_GATE_FIELD_MAX_BYTES) (Violation ''capability_length'' [DNat (length (tg_capability t))]),
        require (list_all slug_char (tg_capability t)) (Violation ''capability_chars'' [DText (tg_capability t)]),
        require (strkey_shape (CHR ''G'') 56 (tg_destination t) \<or> strkey_shape (CHR ''C'') 56 (tg_destination t))
          (Violation ''destination_shape'' [DText (redact_g_strkey (tg_destination t))]),
        require (asset_text_ok (tg_asset t)) (Violation ''gate_asset'' [DText (tg_asset t)]),
        require (0 \<le> tg_min t) (Violation ''amount_min_negative'' [DInt (tg_min t)]),
        require (0 < tg_max t) (Violation ''amount_max_not_positive'' [DInt (tg_max t)]),
        require (tg_min t \<le> tg_max t) (Violation ''amount_min_above_max'' [DInt (tg_min t), DInt (tg_max t)])]"

definition validate_trustline_clawback_opt_in :: "opt_in_fields \<Rightarrow> check" where
  "validate_trustline_clawback_opt_in t =
     all_checks
       [require (oi_network t \<noteq> []) (Violation ''network_empty'' []),
        require (length (oi_network t) \<le> 64) (Violation ''network_too_long'' [DNat (length (oi_network t))]),
        require (oi_code t \<noteq> [] \<and> length (oi_code t) \<le> 12) (Violation ''code_length'' [DNat (length (oi_code t)), DText (oi_code t)]),
        require (list_all (\<lambda>c. is_ascii_uppercase c \<or> is_digit c) (oi_code t)) (Violation ''code_chars'' [DText (oi_code t)]),
        require (strkey_shape (CHR ''G'') 56 (oi_issuer t)) (Violation ''issuer_shape'' [DText (redact_g_strkey (oi_issuer t))])]"

definition validate_trustline_simulated :: "trustline_fields \<Rightarrow> check" where
  "validate_trustline_simulated t =
     all_checks
       [require (strkey_shape (CHR ''G'') 56 (tl_holder t)) (Violation ''trustline_account'' [DText ''holder'']),
        require (strkey_shape (CHR ''G'') 56 (tl_issuer t)) (Violation ''trustline_account'' [DText ''issuer'']),
        require (tl_code t \<noteq> [] \<and> length (tl_code t) \<le> 12 \<and> list_all is_ascii_alphanumeric (tl_code t)) (Violation ''trustline_code'' []),
        require (case tl_limit t of None \<Rightarrow> True | Some l \<Rightarrow> 0 \<le> l) (Violation ''trustline_limit'' [])]"

definition validate_claim_simulated :: "claim_fields \<Rightarrow> check" where
  "validate_claim_simulated c =
     all_checks
       [require (length (cl_hex72 c) = 72 \<and> list_all is_hexdigit (cl_hex72 c)) (Violation ''balance_id_hex'' [DNat (length (cl_hex72 c))]),
        require (strkey_shape (CHR ''B'') 58 (cl_strkey c)) (Violation ''balance_id_strkey'' []),
        require (asset_text_ok (cl_asset c)) (Violation ''claim_asset'' [DText (cl_asset c)]),
        require (0 < cl_amount c) (Violation ''claim_amount'' [DInt (cl_amount c)]),
        require (strkey_shape (CHR ''G'') 56 (cl_source c)) (Violation ''claim_source'' [DText (redact_g_strkey (cl_source c))])]"

definition outcome_parse :: "string \<Rightarrow> (invariant_error, consumed_outcome) result" where
  "outcome_parse s =
     (if s = ''confirmed'' then Inr OutcomeConfirmed else if s = ''unknown'' then Inr OutcomeUnknown else Inl (Violation ''outcome_text'' [DText s]))"

definition validate_consumed :: "string \<Rightarrow> string \<Rightarrow> string \<Rightarrow> check" where
  "validate_consumed original tx_hash oc =
     all_checks
       [require (original \<noteq> [] \<and> length original \<le> 64) (Violation ''kind_name_length'' []),
        require (length tx_hash = 64 \<and> list_all is_hexdigit tx_hash) (Violation ''tx_hash_hex'' []),
        require (\<not> list_ex is_ascii_uppercase tx_hash) (Violation ''tx_hash_case'' []),
        (case outcome_parse oc of Inl e \<Rightarrow> Inl e | Inr _ \<Rightarrow> Inr ())]"

definition display_text :: "string \<Rightarrow> nat \<Rightarrow> bool" where
  "display_text s n \<longleftrightarrow> s \<noteq> [] \<and> length s \<le> n \<and> list_all printable s"

definition validate_mpp_charge_simulated :: "mpp_fields \<Rightarrow> check" where
  "validate_mpp_charge_simulated m =
     all_checks
       [require (display_text (mp_profile m) 128) (Violation ''mpp_profile'' []),
        require (mp_chain_id m = ''stellar:testnet'') (Violation ''mpp_chain'' []),
        require (strkey_shape (CHR ''G'') 56 (mp_payer m)) (Violation ''mpp_payer'' []),
        require (mp_transport m = ''http'' \<or> mp_transport m = ''mcp'') (Violation ''mpp_transport'' []),
        require (display_text (mp_authority m) 512 \<and> display_text (mp_target m) 512) (Violation ''mpp_authority'' []),
        require
          (case parse_signed i128_min i128_max (mp_amount m) of
             None \<Rightarrow> False | Some n \<Rightarrow> 0 < n \<and> show_int n = mp_amount m) (Violation ''mpp_amount'' []),
        require (strkey_shape (CHR ''C'') 56 (mp_currency m)) (Violation ''mpp_currency'' []),
        require (strkey_shape (CHR ''G'') 56 (mp_recipient m) \<or> strkey_shape (CHR ''C'') 56 (mp_recipient m)) (Violation ''mpp_recipient'' []),
        require (mp_expires_at m \<noteq> 0) (Violation ''mpp_expiry'' [])]"

section \<open>Rule proposals\<close>

definition CONTEXT_RULE_PROPOSAL_SNAPSHOT_VERSION :: nat where "CONTEXT_RULE_PROPOSAL_SNAPSHOT_VERSION = 1"
definition RULE_PROPOSAL_MAX_SIGNERS :: nat where "RULE_PROPOSAL_MAX_SIGNERS = 15"
definition RULE_PROPOSAL_MAX_POLICIES :: nat where "RULE_PROPOSAL_MAX_POLICIES = 5"
definition RULE_PROPOSAL_MAX_NAME_BYTES :: nat where "RULE_PROPOSAL_MAX_NAME_BYTES = 20"
definition RULE_PROPOSAL_MAX_EXTERNAL_KEY_BYTES :: nat where "RULE_PROPOSAL_MAX_EXTERNAL_KEY_BYTES = 256"
definition RULE_PROPOSAL_MAX_AUTH_RULE_IDS :: nat where "RULE_PROPOSAL_MAX_AUTH_RULE_IDS = 8"
definition RULE_PROPOSAL_MAX_POLICY_PARAMS_BYTES :: nat where "RULE_PROPOSAL_MAX_POLICY_PARAMS_BYTES = 8192"

definition validate_rule_proposal_signer :: "rule_signer \<Rightarrow> check" where
  "validate_rule_proposal_signer s =
     (case rsg_kind s of
        Delegated \<Rightarrow>
          (case rsg_address s of
             None \<Rightarrow> Inl (Violation ''delegated_without_address'' [])
           | Some a \<Rightarrow>
               all_checks
                 [require (strkey_shape (CHR ''G'') 56 a \<or> strkey_shape (CHR ''C'') 56 a) (Violation ''delegated_address'' []),
                  require (rsg_verifier s = None \<and> rsg_pubkey s = None) (Violation ''delegated_extra'' [])])
      | External \<Rightarrow>
          (case rsg_verifier s of
             None \<Rightarrow> Inl (Violation ''external_without_verifier'' [])
           | Some v \<Rightarrow>
               (if \<not> strkey_shape (CHR ''C'') 56 v then Inl (Violation ''strkey_shape'' [DText ''verifier'', DChar (CHR ''C'')])
                else case rsg_pubkey s of
                  None \<Rightarrow> Inl (Violation ''external_without_key'' [])
                | Some k \<Rightarrow>
                    all_checks
                      [require (length k \<le> RULE_PROPOSAL_MAX_EXTERNAL_KEY_BYTES) (Violation ''external_key_length'' [DNat (length k)]),
                       require (rsg_address s = None) (Violation ''external_extra'' [])])))"

definition validate_rule_proposal_policy :: "(string \<Rightarrow> string option) \<Rightarrow> rule_policy \<Rightarrow> check" where
  "validate_rule_proposal_policy decode p =
     (if \<not> strkey_shape (CHR ''C'') 56 (rpo_address p) then Inl (Violation ''strkey_shape'' [DText ''policy_address'', DChar (CHR ''C'')])
      else case decode (rpo_params p) of
        None \<Rightarrow> Inl (Violation ''params_base64'' [])
      | Some bs \<Rightarrow> require (length bs \<le> RULE_PROPOSAL_MAX_POLICY_PARAMS_BYTES) (Violation ''params_length'' [DNat (length bs)]))"

definition at_index :: "string \<Rightarrow> nat \<times> check \<Rightarrow> check" where
  "at_index f ic = (case snd ic of Inl e \<Rightarrow> Inl (AtIndex f (fst ic) e) | Inr _ \<Rightarrow> Inr ())"

definition validate_context_rule_proposal_snapshot :: "(string \<Rightarrow> string option) \<Rightarrow> rule_snapshot \<Rightarrow> check" where
  "validate_context_rule_proposal_snapshot decode s =
     all_checks
       ([require (sn_version s = CONTEXT_RULE_PROPOSAL_SNAPSHOT_VERSION) (Violation ''snapshot_version'' [DNat (sn_version s)]),
         (case sn_context s of
            DefaultContext \<Rightarrow> Inr ()
          | CallContract c \<Rightarrow> require (strkey_shape (CHR ''C'') 56 c) (Violation ''strkey_shape'' [DText ''context_type.contract'', DChar (CHR ''C'')])
          | CreateContract h \<Rightarrow> require (length h = 64 \<and> list_all is_hexdigit h) (Violation ''wasm_hash'' [DNat (length h)])),
         require (sn_name s \<noteq> [] \<and> length (sn_name s) \<le> RULE_PROPOSAL_MAX_NAME_BYTES) (Violation ''rule_name_length'' [DNat (length (sn_name s))]),
         require (sn_signers s \<noteq> []) (Violation ''signers_empty'' []),
         require (length (sn_signers s) \<le> RULE_PROPOSAL_MAX_SIGNERS) (Violation ''signers_too_many'' [DNat (length (sn_signers s))])] @
        map (at_index ''signers'') (enumerate 0 (map validate_rule_proposal_signer (sn_signers s))) @
        [require (length (sn_policies s) \<le> RULE_PROPOSAL_MAX_POLICIES) (Violation ''policies_too_many'' [DNat (length (sn_policies s))])] @
        map (at_index ''policies'') (enumerate 0 (map (validate_rule_proposal_policy decode) (sn_policies s))) @
        [require (sn_auth_rule_ids s \<noteq> []) (Violation ''auth_rule_ids_empty'' []),
         require (length (sn_auth_rule_ids s) \<le> RULE_PROPOSAL_MAX_AUTH_RULE_IDS) (Violation ''auth_rule_ids_too_many'' [DNat (length (sn_auth_rule_ids s))])])"

section \<open>The entry in the store file\<close>

record on_disk =
  od_nonce :: string
  od_process_uid :: string
  od_created :: nat
  od_expires :: nat
  od_reason :: "string option"
  od_xdr :: "string option"
  od_sha256_hex :: "string option"
  od_to :: "string option"
  od_amount :: "int option"
  od_asset :: "string option"
  od_memo :: "string option"
  od_fee :: "nat option"
  od_seq :: "int option"
  od_sign :: "passkey_fields option"
  od_register :: "register_fields option"
  od_toolset :: "toolset_fields option"
  od_opt_in :: "opt_in_fields option"
  od_trustline :: "trustline_fields option"
  od_claim :: "claim_fields option"
  od_proposal :: "proposal_fields option"
  od_mpp :: "mpp_fields option"
  od_rejected :: "string option"
  od_consumed :: "(string \<times> string \<times> string) option"
  od_attestation :: "string option"
  od_assertion :: "assertion_input option"
  od_registration :: "registration_input option"

definition disk_base :: "pending_approval \<Rightarrow> on_disk" where
  "disk_base e =
     \<lparr>od_nonce = pa_nonce e, od_process_uid = pa_process_uid e, od_created = pa_created e,
      od_expires = pa_expires e, od_reason = pa_reason e, od_xdr = None, od_sha256_hex = None, od_to = None,
      od_amount = None, od_asset = None, od_memo = None, od_fee = None, od_seq = None, od_sign = None,
      od_register = None, od_toolset = None, od_opt_in = None, od_trustline = None, od_claim = None,
      od_proposal = None, od_mpp = None, od_rejected = None, od_consumed = None,
      od_attestation = pa_attestation e, od_assertion = pa_assertion e, od_registration = None\<rparr>"

definition disk_payment :: "payment_fields \<Rightarrow> on_disk \<Rightarrow> on_disk" where
  "disk_payment p r =
     r\<lparr>od_xdr := Some (pf_xdr p), od_sha256_hex := Some (pf_sha256_hex p), od_to := Some (pf_to p),
       od_amount := Some (pf_amount p), od_asset := Some (pf_asset p), od_memo := pf_memo p,
       od_fee := Some (pf_fee p), od_seq := Some (pf_seq p)\<rparr>"

definition disk_sign :: "passkey_fields \<Rightarrow> on_disk \<Rightarrow> on_disk" where
  "disk_sign p r = r\<lparr>od_sign := Some p\<rparr>"

definition disk_register :: "register_fields \<Rightarrow> registration_input option \<Rightarrow> on_disk \<Rightarrow> on_disk" where
  "disk_register p ri r = r\<lparr>od_register := Some p, od_registration := ri\<rparr>"

definition disk_toolset :: "toolset_fields \<Rightarrow> on_disk \<Rightarrow> on_disk" where
  "disk_toolset p r = r\<lparr>od_toolset := Some p\<rparr>"

definition disk_opt_in :: "opt_in_fields \<Rightarrow> on_disk \<Rightarrow> on_disk" where
  "disk_opt_in p r = r\<lparr>od_opt_in := Some p\<rparr>"

definition disk_trustline :: "trustline_fields \<Rightarrow> on_disk \<Rightarrow> on_disk" where
  "disk_trustline p r = r\<lparr>od_trustline := Some p\<rparr>"

definition disk_claim :: "claim_fields \<Rightarrow> on_disk \<Rightarrow> on_disk" where
  "disk_claim p r = r\<lparr>od_claim := Some p\<rparr>"

definition disk_proposal :: "proposal_fields \<Rightarrow> on_disk \<Rightarrow> on_disk" where
  "disk_proposal p r = r\<lparr>od_proposal := Some p\<rparr>"

definition disk_mpp :: "mpp_fields \<Rightarrow> on_disk \<Rightarrow> on_disk" where
  "disk_mpp p r = r\<lparr>od_mpp := Some p\<rparr>"

definition disk_rejected :: "string \<Rightarrow> on_disk \<Rightarrow> on_disk" where
  "disk_rejected original r = r\<lparr>od_rejected := Some original\<rparr>"

definition disk_consumed :: "string \<Rightarrow> string \<Rightarrow> consumed_outcome \<Rightarrow> on_disk \<Rightarrow> on_disk" where
  "disk_consumed original tx_hash oc r = r\<lparr>od_consumed := Some (original, tx_hash, outcome_label oc)\<rparr>"

definition serialize_entry :: "pending_approval \<Rightarrow> on_disk" where
  "serialize_entry e =
     (case pa_kind e of
        PaymentSimulated p \<Rightarrow> disk_payment p
      | SignWithPasskey p \<Rightarrow> disk_sign p
      | RegisterPasskey p ri \<Rightarrow> disk_register p ri
      | ToolsetFirstInvokeGate p \<Rightarrow> disk_toolset p
      | TrustlineClawbackOptIn p \<Rightarrow> disk_opt_in p
      | TrustlineSimulated p \<Rightarrow> disk_trustline p
      | ClaimSimulated p \<Rightarrow> disk_claim p
      | RuleProposalSimulated p \<Rightarrow> disk_proposal p
      | MppChargeSimulated p \<Rightarrow> disk_mpp p
      | RejectedKind original \<Rightarrow> disk_rejected original
      | ConsumedKind original tx_hash oc \<Rightarrow> disk_consumed original tx_hash oc) (disk_base e)"

datatype entry_error =
    NonceLength nat | NonceChars | ProcessUidText string
  | SummaryTo string | SummaryAsset string | MemoLength nat | MemoChars
  | MultipleKinds "string list" | Contaminated string string | MissingField string
  | KindInvalid invariant_error

definition EXPECTED_NONCE_LEN :: nat where "EXPECTED_NONCE_LEN = 22"

definition deserialize_approval_nonce :: "string \<Rightarrow> (entry_error, string) result" where
  "deserialize_approval_nonce s =
     (if length s \<noteq> EXPECTED_NONCE_LEN then Inl (NonceLength (length s))
      else if \<not> list_all b64url_char s then Inl NonceChars
      else Inr s)"

definition deserialize_process_uid :: "string \<Rightarrow> (entry_error, string) result" where
  "deserialize_process_uid s = (if process_uid_is_valid s then Inr s else Inl (ProcessUidText s))"

definition deserialize_opt_summary_to :: "string option \<Rightarrow> (entry_error, string option) result" where
  "deserialize_opt_summary_to v =
     (case v of
        None \<Rightarrow> Inr None
      | Some s \<Rightarrow> if strkey_shape (CHR ''G'') 56 s then Inr (Some s) else Inl (SummaryTo s))"

definition deserialize_opt_summary_asset :: "string option \<Rightarrow> (entry_error, string option) result" where
  "deserialize_opt_summary_asset v =
     (case v of None \<Rightarrow> Inr None | Some s \<Rightarrow> if asset_text_ok s then Inr (Some s) else Inl (SummaryAsset s))"

definition deserialize_opt_summary_memo :: "string option \<Rightarrow> (entry_error, string option) result" where
  "deserialize_opt_summary_memo v =
     (case v of
        None \<Rightarrow> Inr None
      | Some s \<Rightarrow>
          if 28 < length s then Inl (MemoLength (length s))
          else if \<not> list_all printable s then Inl MemoChars
          else Inr (Some s))"

definition on_disk_fields :: "on_disk \<Rightarrow> (entry_error, on_disk) result" where
  "on_disk_fields r =
     res_bind (deserialize_approval_nonce (od_nonce r)) (\<lambda>n.
     res_bind (deserialize_process_uid (od_process_uid r)) (\<lambda>u.
     res_bind (deserialize_opt_summary_to (od_to r)) (\<lambda>t.
     res_bind (deserialize_opt_summary_asset (od_asset r)) (\<lambda>a.
     res_bind (deserialize_opt_summary_memo (od_memo r)) (\<lambda>m.
       Inr (r\<lparr>od_nonce := n, od_process_uid := u, od_to := t, od_asset := a, od_memo := m\<rparr>))))))"

definition present :: "'a option \<Rightarrow> bool" where
  "present v \<longleftrightarrow> v \<noteq> None"

definition subtables :: "on_disk \<Rightarrow> (string \<times> bool) list" where
  "subtables r =
     [(''sign_with_passkey'', present (od_sign r)),
      (''register_passkey'', present (od_register r)),
      (''toolset_first_invoke_gate'', present (od_toolset r)),
      (''trustline_clawback_opt_in'', present (od_opt_in r)),
      (''trustline_simulated'', present (od_trustline r)),
      (''claim_simulated'', present (od_claim r)),
      (''rule_proposal_simulated'', present (od_proposal r)),
      (''mpp_charge_simulated'', present (od_mpp r)),
      (''rejected'', present (od_rejected r)),
      (''consumed'', present (od_consumed r))]"

definition flat_fields :: "on_disk \<Rightarrow> (string \<times> bool) list" where
  "flat_fields r =
     [(''envelope_xdr_b64'', present (od_xdr r)),
      (''envelope_sha256_hex'', present (od_sha256_hex r)),
      (''summary_to'', present (od_to r)),
      (''summary_amount_stroops'', present (od_amount r)),
      (''summary_asset'', present (od_asset r)),
      (''summary_memo'', present (od_memo r)),
      (''summary_simulated_fee_stroops'', present (od_fee r)),
      (''summary_simulated_seq_num'', present (od_seq r))]"

definition refuse_present :: "string \<Rightarrow> (string \<times> bool) list \<Rightarrow> (entry_error, unit) result" where
  "refuse_present kind fs =
     (case List.find snd fs of None \<Rightarrow> Inr () | Some (field, _) \<Rightarrow> Inl (Contaminated kind field))"

definition kind_check :: "check \<Rightarrow> (entry_error, unit) result" where
  "kind_check c = (case c of Inl e \<Rightarrow> Inl (KindInvalid e) | Inr u \<Rightarrow> Inr u)"

definition opt_check :: "('a \<Rightarrow> check) \<Rightarrow> 'a option \<Rightarrow> check" where
  "opt_check f v = (case v of None \<Rightarrow> Inr () | Some x \<Rightarrow> f x)"

text \<open>The names of later kinds that an arm still rules out after the census.\<close>

definition late_subtables :: "on_disk \<Rightarrow> (string \<times> bool) list" where
  "late_subtables r =
     [(''trustline_simulated'', present (od_trustline r)),
      (''claim_simulated'', present (od_claim r)),
      (''rule_proposal_simulated'', present (od_proposal r)),
      (''rejected'', present (od_rejected r)),
      (''consumed'', present (od_consumed r))]"

definition read_sign :: "on_disk \<Rightarrow> passkey_fields \<Rightarrow> (entry_error, approval_kind) result" where
  "read_sign r p =
     res_bind (refuse_present ''SignWithPasskey''
       (flat_fields r @
        [(''attestation_blob_b64'', present (od_attestation r)),
         (''register_passkey'', present (od_register r)),
         (''registration_input'', present (od_registration r)),
         (''toolset_first_invoke_gate'', present (od_toolset r)),
         (''trustline_clawback_opt_in'', present (od_opt_in r))] @ late_subtables r)) (\<lambda>_.
     res_bind (kind_check (validate_sign_with_passkey p)) (\<lambda>_.
     res_bind (kind_check (opt_check validate_assertion_input (od_assertion r))) (\<lambda>_.
       Inr (SignWithPasskey p))))"

definition read_register :: "on_disk \<Rightarrow> register_fields \<Rightarrow> (entry_error, approval_kind) result" where
  "read_register r p =
     res_bind (refuse_present ''RegisterPasskey''
       (flat_fields r @
        [(''attestation_blob_b64'', present (od_attestation r)),
         (''passkey_assertion'', present (od_assertion r)),
         (''toolset_first_invoke_gate'', present (od_toolset r)),
         (''trustline_clawback_opt_in'', present (od_opt_in r))] @ late_subtables r)) (\<lambda>_.
     res_bind (kind_check (validate_register_passkey p)) (\<lambda>_.
     res_bind (kind_check (opt_check validate_registration_input (od_registration r))) (\<lambda>_.
       Inr (RegisterPasskey p (od_registration r)))))"

definition read_toolset :: "on_disk \<Rightarrow> toolset_fields \<Rightarrow> (entry_error, approval_kind) result" where
  "read_toolset r p =
     res_bind (refuse_present ''ToolsetFirstInvokeGate''
       (flat_fields r @
        [(''attestation_blob_b64'', present (od_attestation r)),
         (''passkey_assertion'', present (od_assertion r)),
         (''registration_input'', present (od_registration r)),
         (''trustline_clawback_opt_in'', present (od_opt_in r))] @ late_subtables r)) (\<lambda>_.
     res_bind (kind_check (validate_toolset_first_invoke_gate p)) (\<lambda>_.
       Inr (ToolsetFirstInvokeGate p)))"

text \<open>The fields of the two passkey kinds that every attested kind rules out.\<close>

definition passkey_extras :: "on_disk \<Rightarrow> (string \<times> bool) list" where
  "passkey_extras r =
     [(''passkey_assertion'', present (od_assertion r)),
      (''registration_input'', present (od_registration r))]"

definition read_opt_in :: "on_disk \<Rightarrow> opt_in_fields \<Rightarrow> (entry_error, approval_kind) result" where
  "read_opt_in r p =
     res_bind (refuse_present ''TrustlineClawbackOptIn'' (flat_fields r @ passkey_extras r @ late_subtables r)) (\<lambda>_.
     res_bind (kind_check (validate_trustline_clawback_opt_in p)) (\<lambda>_.
       Inr (TrustlineClawbackOptIn p)))"

definition read_trustline :: "on_disk \<Rightarrow> trustline_fields \<Rightarrow> (entry_error, approval_kind) result" where
  "read_trustline r p =
     res_bind (refuse_present ''TrustlineSimulated''
       (flat_fields r @ passkey_extras r @
        [(''rule_proposal_simulated'', present (od_proposal r)),
         (''rejected'', present (od_rejected r)),
         (''consumed'', present (od_consumed r))])) (\<lambda>_.
     res_bind (kind_check (validate_trustline_simulated p)) (\<lambda>_.
       Inr (TrustlineSimulated p)))"

definition read_claim :: "on_disk \<Rightarrow> claim_fields \<Rightarrow> (entry_error, approval_kind) result" where
  "read_claim r p =
     res_bind (refuse_present ''ClaimSimulated''
       (flat_fields r @ passkey_extras r @
        [(''rule_proposal_simulated'', present (od_proposal r)),
         (''rejected'', present (od_rejected r)),
         (''consumed'', present (od_consumed r))])) (\<lambda>_.
     res_bind (kind_check (validate_claim_simulated p)) (\<lambda>_.
       Inr (ClaimSimulated p)))"

definition validate_proposal :: "(string \<Rightarrow> string option) \<Rightarrow> proposal_fields \<Rightarrow> check" where
  "validate_proposal decode p =
     all_checks
       [validate_smart_account_full (pr_account p),
        validate_smart_account_redacted (pr_redacted p),
        require (redact_g_strkey (pr_account p) = pr_redacted p) (Violation ''redaction_mismatch'' []),
        validate_context_rule_proposal_snapshot decode (pr_definition p)]"

definition read_proposal ::
    "(string \<Rightarrow> string option) \<Rightarrow> on_disk \<Rightarrow> proposal_fields \<Rightarrow> (entry_error, approval_kind) result" where
  "read_proposal decode r p =
     res_bind (refuse_present ''RuleProposalSimulated''
       (flat_fields r @ passkey_extras r @
        [(''rejected'', present (od_rejected r)),
         (''consumed'', present (od_consumed r))])) (\<lambda>_.
     res_bind (kind_check (validate_proposal decode p)) (\<lambda>_.
       Inr (RuleProposalSimulated p)))"

definition read_mpp :: "on_disk \<Rightarrow> mpp_fields \<Rightarrow> (entry_error, approval_kind) result" where
  "read_mpp r p =
     res_bind (refuse_present ''MppChargeSimulated'' (flat_fields r @ passkey_extras r)) (\<lambda>_.
     res_bind (kind_check (validate_mpp_charge_simulated p)) (\<lambda>_.
       Inr (MppChargeSimulated p)))"

definition read_rejected :: "on_disk \<Rightarrow> string \<Rightarrow> (entry_error, approval_kind) result" where
  "read_rejected r original =
     res_bind (refuse_present ''Rejected''
       (flat_fields r @ [(''attestation_blob_b64'', present (od_attestation r))] @ passkey_extras r)) (\<lambda>_.
     res_bind (kind_check (require (original \<noteq> [] \<and> length original \<le> 64) (Violation ''kind_name_length'' []))) (\<lambda>_.
       Inr (RejectedKind original)))"

definition read_consumed :: "on_disk \<Rightarrow> string \<times> string \<times> string \<Rightarrow> (entry_error, approval_kind) result" where
  "read_consumed r c =
     (case c of (original, tx_hash, oc) \<Rightarrow>
        res_bind (refuse_present ''Consumed'' (flat_fields r @ passkey_extras r)) (\<lambda>_.
        res_bind (kind_check (validate_consumed original tx_hash oc)) (\<lambda>_.
          case outcome_parse oc of
            Inl e \<Rightarrow> Inl (KindInvalid e)
          | Inr v \<Rightarrow> Inr (ConsumedKind original tx_hash v))))"

definition required :: "string \<Rightarrow> 'a option \<Rightarrow> (entry_error, 'a) result" where
  "required field v = ok_or (MissingField field) v"

definition read_payment :: "on_disk \<Rightarrow> (entry_error, approval_kind) result" where
  "read_payment r =
     res_bind (refuse_present ''PaymentSimulated'' (passkey_extras r)) (\<lambda>_.
     res_bind (required ''envelope_xdr_b64'' (od_xdr r)) (\<lambda>xdr.
     res_bind (required ''envelope_sha256_hex'' (od_sha256_hex r)) (\<lambda>sha.
     res_bind (required ''summary_to'' (od_to r)) (\<lambda>dest.
     res_bind (required ''summary_amount_stroops'' (od_amount r)) (\<lambda>amt.
     res_bind (required ''summary_asset'' (od_asset r)) (\<lambda>ast.
     res_bind (required ''summary_simulated_fee_stroops'' (od_fee r)) (\<lambda>fee.
     res_bind (required ''summary_simulated_seq_num'' (od_seq r)) (\<lambda>sq.
       Inr (PaymentSimulated
         \<lparr>pf_xdr = xdr, pf_sha256_hex = sha, pf_to = dest, pf_amount = amt, pf_asset = ast,
          pf_memo = od_memo r, pf_fee = fee, pf_seq = sq\<rparr>)))))))))"

definition read_kind :: "(string \<Rightarrow> string option) \<Rightarrow> on_disk \<Rightarrow> (entry_error, approval_kind) result" where
  "read_kind decode r =
     (case od_sign r of Some p \<Rightarrow> read_sign r p | None \<Rightarrow>
     (case od_register r of Some p \<Rightarrow> read_register r p | None \<Rightarrow>
     (case od_toolset r of Some p \<Rightarrow> read_toolset r p | None \<Rightarrow>
     (case od_opt_in r of Some p \<Rightarrow> read_opt_in r p | None \<Rightarrow>
     (case od_trustline r of Some p \<Rightarrow> read_trustline r p | None \<Rightarrow>
     (case od_claim r of Some p \<Rightarrow> read_claim r p | None \<Rightarrow>
     (case od_proposal r of Some p \<Rightarrow> read_proposal decode r p | None \<Rightarrow>
     (case od_mpp r of Some p \<Rightarrow> read_mpp r p | None \<Rightarrow>
     (case od_rejected r of Some p \<Rightarrow> read_rejected r p | None \<Rightarrow>
     (case od_consumed r of Some p \<Rightarrow> read_consumed r p | None \<Rightarrow>
      read_payment r))))))))))"

definition deserialize_entry :: "(string \<Rightarrow> string option) \<Rightarrow> on_disk \<Rightarrow> (entry_error, pending_approval) result" where
  "deserialize_entry decode r0 =
     res_bind (on_disk_fields r0) (\<lambda>r.
       let names = map fst (filter snd (subtables r)) in
       if 1 < length names then Inl (MultipleKinds names)
       else
         res_bind (read_kind decode r) (\<lambda>k.
           Inr \<lparr>pa_nonce = od_nonce r, pa_process_uid = od_process_uid r, pa_created = od_created r,
                pa_expires = od_expires r, pa_reason = od_reason r, pa_kind = k,
                pa_attestation = od_attestation r, pa_assertion = od_assertion r\<rparr>))"

section \<open>Constructors\<close>

text \<open>
  What the approval store uses of other crates: URL-safe base64 without padding, SHA-256, HMAC-SHA-256,
  and the TOML writer and reader on the entries of the file.
\<close>

record approval_lib =
  lib_b64_encode :: "string \<Rightarrow> string"
  lib_b64_decode :: "string \<Rightarrow> string option"
  lib_sha256 :: "string \<Rightarrow> string"
  lib_hmac :: "string \<Rightarrow> string \<Rightarrow> string"
  toml_to_string :: "on_disk list \<Rightarrow> (string, string) result"
  toml_from_str :: "string \<Rightarrow> (string, on_disk list) result"

definition b64_law :: "approval_lib \<Rightarrow> bool" where
  "b64_law lib \<longleftrightarrow>
     (\<forall>bs. lib_b64_decode lib (lib_b64_encode lib bs) = Some bs) \<and>
     (\<forall>bs. length bs = 16 \<longrightarrow> length (lib_b64_encode lib bs) = 22 \<and> list_all b64url_char (lib_b64_encode lib bs))"

definition digest_law :: "approval_lib \<Rightarrow> bool" where
  "digest_law lib \<longleftrightarrow> (\<forall>m. length (lib_sha256 lib m) = 32) \<and> (\<forall>k m. length (lib_hmac lib k m) = 32)"

definition toml_law :: "approval_lib \<Rightarrow> bool" where
  "toml_law lib \<longleftrightarrow> (\<forall>rs content. toml_to_string lib rs = Inr content \<longrightarrow> toml_from_str lib content = Inr rs)"

datatype approval_error =
    AIo string
  | AToml string
  | ATomlEntry entry_error
  | WriterLocked
  | DuplicateNonce string
  | ANotFound
  | AExpired
  | AlreadyAttested
  | AInvalidEntry invariant_error
  | AEntryNonceLength nat
  | AWrongKind string string
  | AInvalid invariant_error
  | AChallengeExpired
  | PendingStoreFull nat

type_synonym clock = "(string, nat) result"

definition approval_now_unix_ms :: "clock \<Rightarrow> (approval_error, nat) result" where
  "approval_now_unix_ms c = (case c of Inl d \<Rightarrow> Inl (AIo d) | Inr t \<Rightarrow> Inr t)"

definition invalid :: "check \<Rightarrow> (approval_error, unit) result" where
  "invalid c = (case c of Inl e \<Rightarrow> Inl (AInvalid e) | Inr u \<Rightarrow> Inr u)"

definition fresh_entry :: "string \<Rightarrow> string \<Rightarrow> nat \<Rightarrow> nat \<Rightarrow> approval_kind \<Rightarrow> pending_approval" where
  "fresh_entry n uid created expires k =
     \<lparr>pa_nonce = n, pa_process_uid = uid, pa_created = created, pa_expires = expires, pa_reason = None,
      pa_kind = k, pa_attestation = None, pa_assertion = None\<rparr>"

definition envelope_sha256 :: "approval_lib \<Rightarrow> string \<Rightarrow> string" where
  "envelope_sha256 lib bs = lib_sha256 lib bs"

text \<open>In a constructor \<open>raw\<close> is the 16 random bytes of the nonce and \<open>clk\<close> the reading of the clock.\<close>

definition new_payment_pending ::
    "approval_lib \<Rightarrow> string \<Rightarrow> clock \<Rightarrow> string \<Rightarrow> string \<Rightarrow> string \<Rightarrow> int \<Rightarrow> string \<Rightarrow> string option \<Rightarrow>
     nat \<Rightarrow> int \<Rightarrow> string \<Rightarrow> nat \<Rightarrow> (approval_error, pending_approval) result" where
  "new_payment_pending lib raw clk xdr xdr_bytes dest amt ast memo fee sq uid ttl =
     res_bind (approval_now_unix_ms clk) (\<lambda>created.
       Inr (fresh_entry (lib_b64_encode lib raw) uid created (sat_add_u64 created ttl)
         (PaymentSimulated
            \<lparr>pf_xdr = xdr, pf_sha256_hex = hex_encode (envelope_sha256 lib xdr_bytes), pf_to = dest,
             pf_amount = amt, pf_asset = ast, pf_memo = memo, pf_fee = fee, pf_seq = sq\<rparr>)))"

definition new_passkey_pending ::
    "approval_lib \<Rightarrow> string \<Rightarrow> clock \<Rightarrow> passkey_fields \<Rightarrow> string \<Rightarrow> nat \<Rightarrow> (approval_error, pending_approval) result" where
  "new_passkey_pending lib raw clk p uid ttl =
     res_bind (invalid (validate_sign_with_passkey p)) (\<lambda>_.
     res_bind (approval_now_unix_ms clk) (\<lambda>created.
       Inr (fresh_entry (lib_b64_encode lib raw) uid created (sat_add_u64 created ttl) (SignWithPasskey p))))"

definition new_register_passkey_pending ::
    "approval_lib \<Rightarrow> string \<Rightarrow> clock \<Rightarrow> register_fields \<Rightarrow> string \<Rightarrow> nat \<Rightarrow> (approval_error, pending_approval) result" where
  "new_register_passkey_pending lib raw clk p uid ttl =
     res_bind (invalid (validate_register_passkey p)) (\<lambda>_.
     res_bind (approval_now_unix_ms clk) (\<lambda>created.
       Inr (fresh_entry (lib_b64_encode lib raw) uid created (sat_add_u64 created ttl) (RegisterPasskey p None))))"

definition new_toolset_first_invoke_gate_pending ::
    "approval_lib \<Rightarrow> string \<Rightarrow> clock \<Rightarrow> toolset_fields \<Rightarrow> string \<Rightarrow> nat \<Rightarrow> (approval_error, pending_approval) result" where
  "new_toolset_first_invoke_gate_pending lib raw clk p uid ttl =
     res_bind (invalid (validate_toolset_first_invoke_gate p)) (\<lambda>_.
     res_bind (approval_now_unix_ms clk) (\<lambda>created.
       Inr (fresh_entry (lib_b64_encode lib raw) uid created (sat_add_u64 created ttl) (ToolsetFirstInvokeGate p))))"

definition new_trustline_clawback_opt_in_pending ::
    "approval_lib \<Rightarrow> string \<Rightarrow> clock \<Rightarrow> opt_in_fields \<Rightarrow> string \<Rightarrow> nat \<Rightarrow> (approval_error, pending_approval) result" where
  "new_trustline_clawback_opt_in_pending lib raw clk p uid ttl =
     res_bind (invalid (validate_trustline_clawback_opt_in p)) (\<lambda>_.
     res_bind (approval_now_unix_ms clk) (\<lambda>created.
       Inr (fresh_entry (lib_b64_encode lib raw) uid created (sat_add_u64 created ttl) (TrustlineClawbackOptIn p))))"

text \<open>The hash fields of the given records are replaced by the hash of the envelope bytes.\<close>

definition new_trustline_pending ::
    "approval_lib \<Rightarrow> string \<Rightarrow> clock \<Rightarrow> string \<Rightarrow> trustline_fields \<Rightarrow> string \<Rightarrow> nat \<Rightarrow>
     (approval_error, pending_approval) result" where
  "new_trustline_pending lib raw clk xdr_bytes p uid ttl =
     res_bind (invalid (validate_trustline_simulated p)) (\<lambda>_.
     res_bind (approval_now_unix_ms clk) (\<lambda>created.
       Inr (fresh_entry (lib_b64_encode lib raw) uid created (sat_add_u64 created ttl)
         (TrustlineSimulated (p\<lparr>tl_sha256_hex := hex_encode (envelope_sha256 lib xdr_bytes)\<rparr>)))))"

definition new_claim_pending ::
    "approval_lib \<Rightarrow> string \<Rightarrow> clock \<Rightarrow> string \<Rightarrow> claim_fields \<Rightarrow> string \<Rightarrow> nat \<Rightarrow>
     (approval_error, pending_approval) result" where
  "new_claim_pending lib raw clk xdr_bytes p uid ttl =
     res_bind (invalid (validate_claim_simulated p)) (\<lambda>_.
     res_bind (approval_now_unix_ms clk) (\<lambda>created.
       Inr (fresh_entry (lib_b64_encode lib raw) uid created (sat_add_u64 created ttl)
         (ClaimSimulated (p\<lparr>cl_sha256_hex := hex_encode (envelope_sha256 lib xdr_bytes)\<rparr>)))))"

definition new_rule_proposal_pending ::
    "approval_lib \<Rightarrow> string \<Rightarrow> clock \<Rightarrow> string \<Rightarrow> string \<Rightarrow> string \<Rightarrow> rule_snapshot \<Rightarrow> string \<Rightarrow> string \<Rightarrow>
     string \<Rightarrow> nat \<Rightarrow> (approval_error, pending_approval) result" where
  "new_rule_proposal_pending lib raw clk acct passphrase chain snapshot sha line uid ttl =
     res_bind (invalid (validate_smart_account_full acct)) (\<lambda>_.
     res_bind (invalid (validate_context_rule_proposal_snapshot (lib_b64_decode lib) snapshot)) (\<lambda>_.
     res_bind (approval_now_unix_ms clk) (\<lambda>created.
       Inr (fresh_entry (lib_b64_encode lib raw) uid created (sat_add_u64 created ttl)
         (RuleProposalSimulated
            \<lparr>pr_account = acct, pr_redacted = redact_g_strkey acct, pr_passphrase = passphrase,
             pr_chain_id = chain, pr_definition = snapshot, pr_sha256 = sha, pr_summary = line\<rparr>)))))"

definition MPP_APPROVAL_MAX_TTL_MS :: nat where "MPP_APPROVAL_MAX_TTL_MS = 300000"

definition new_mpp_charge_pending_at ::
    "approval_lib \<Rightarrow> string \<Rightarrow> mpp_fields \<Rightarrow> string \<Rightarrow> nat \<Rightarrow> nat \<Rightarrow> (approval_error, pending_approval) result" where
  "new_mpp_charge_pending_at lib raw p uid ttl created =
     res_bind (invalid (validate_mpp_charge_simulated p)) (\<lambda>_.
       let challenge_expires = sat_mul_u64 (mp_expires_at p) 1000 in
       if challenge_expires \<le> created then Inl AChallengeExpired
       else Inr (fresh_entry (lib_b64_encode lib raw) uid created
              (min (sat_add_u64 created (min ttl MPP_APPROVAL_MAX_TTL_MS)) challenge_expires)
              (MppChargeSimulated p)))"

definition with_policy_request :: "approval_request \<Rightarrow> pending_approval \<Rightarrow> pending_approval" where
  "with_policy_request req e =
     e\<lparr>pa_expires := sat_add_u64 (pa_created e) (ttl_seconds req * 1000), pa_reason := reason req\<rparr>"

definition entry_approval_request :: "pending_approval \<Rightarrow> approval_request" where
  "entry_approval_request e =
     (approval_request_new (pa_nonce e) (to_u32 ((pa_expires e - pa_created e) div 1000)))\<lparr>reason := pa_reason e\<rparr>"

section \<open>Entries that survive the file\<close>

definition memo_ok :: "string option \<Rightarrow> bool" where
  "memo_ok v \<longleftrightarrow> (case v of None \<Rightarrow> True | Some m \<Rightarrow> length m \<le> 28 \<and> list_all printable m)"

definition kind_ok :: "(string \<Rightarrow> string option) \<Rightarrow> approval_kind \<Rightarrow> bool" where
  "kind_ok decode k \<longleftrightarrow>
     (case k of
        PaymentSimulated p \<Rightarrow> strkey_shape (CHR ''G'') 56 (pf_to p) \<and> asset_text_ok (pf_asset p) \<and> memo_ok (pf_memo p)
      | SignWithPasskey p \<Rightarrow> validate_sign_with_passkey p = Inr ()
      | RegisterPasskey p ri \<Rightarrow> validate_register_passkey p = Inr () \<and> opt_check validate_registration_input ri = Inr ()
      | ToolsetFirstInvokeGate p \<Rightarrow> validate_toolset_first_invoke_gate p = Inr ()
      | TrustlineClawbackOptIn p \<Rightarrow> validate_trustline_clawback_opt_in p = Inr ()
      | TrustlineSimulated p \<Rightarrow> validate_trustline_simulated p = Inr ()
      | ClaimSimulated p \<Rightarrow> validate_claim_simulated p = Inr ()
      | RuleProposalSimulated p \<Rightarrow> validate_proposal decode p = Inr ()
      | MppChargeSimulated p \<Rightarrow> validate_mpp_charge_simulated p = Inr ()
      | RejectedKind original \<Rightarrow> original \<noteq> [] \<and> length original \<le> 64
      | ConsumedKind original tx_hash oc \<Rightarrow> validate_consumed original tx_hash (outcome_label oc) = Inr ())"

text \<open>The kinds that never carry an attestation, and the one that carries an assertion.\<close>

definition unattested_kind :: "approval_kind \<Rightarrow> bool" where
  "unattested_kind k \<longleftrightarrow>
     (case k of SignWithPasskey _ \<Rightarrow> True | RegisterPasskey _ _ \<Rightarrow> True | ToolsetFirstInvokeGate _ \<Rightarrow> True
      | RejectedKind _ \<Rightarrow> True | _ \<Rightarrow> False)"

definition assertion_ok :: "approval_kind \<Rightarrow> assertion_input option \<Rightarrow> bool" where
  "assertion_ok k a \<longleftrightarrow>
     (case k of SignWithPasskey _ \<Rightarrow> opt_check validate_assertion_input a = Inr () | _ \<Rightarrow> a = None)"

definition entry_ok :: "(string \<Rightarrow> string option) \<Rightarrow> pending_approval \<Rightarrow> bool" where
  "entry_ok decode e \<longleftrightarrow>
     length (pa_nonce e) = EXPECTED_NONCE_LEN \<and> list_all b64url_char (pa_nonce e) \<and>
     process_uid_is_valid (pa_process_uid e) \<and> kind_ok decode (pa_kind e) \<and>
     (unattested_kind (pa_kind e) \<longrightarrow> pa_attestation e = None) \<and> assertion_ok (pa_kind e) (pa_assertion e)"

lemma kind_check_Inr [simp]: "kind_check c = Inr () \<longleftrightarrow> c = Inr ()"
  by (cases c) (auto simp: kind_check_def)

lemma refuse_present_Inr [simp]: "refuse_present k fs = Inr () \<longleftrightarrow> \<not> list_ex snd fs"
  by (auto simp: refuse_present_def list_ex_iff find_None_iff find_Some_iff split: option.splits) (metis nth_mem snd_conv)

lemma res_bind_unit [simp]: "res_bind c (\<lambda>_. x) = Inr y \<longleftrightarrow> c = Inr () \<and> x = Inr y" for c :: "('e, unit) result"
  by (cases c) (auto simp: res_bind_def)

lemma res_bind_required [simp]: "res_bind (required f (Some x)) g = g x"
  by (simp add: required_def ok_or_def res_bind_def)

lemma outcome_parse_label [simp]: "outcome_parse (outcome_label oc) = Inr oc"
  by (cases oc) (simp_all add: outcome_parse_def outcome_label_def)

lemma present_simps [simp]: "\<not> present None" "present (Some x)"
  by (simp_all add: present_def)

lemmas read_defs =
  read_sign_def read_register_def read_toolset_def read_opt_in_def read_trustline_def read_claim_def
  read_proposal_def read_mpp_def read_rejected_def read_consumed_def read_payment_def

lemmas disk_defs =
  disk_base_def disk_payment_def disk_sign_def disk_register_def disk_toolset_def disk_opt_in_def
  disk_trustline_def disk_claim_def disk_proposal_def disk_mpp_def disk_rejected_def disk_consumed_def

lemma on_disk_fields_Inr:
  "on_disk_fields r = Inr r' \<longleftrightarrow>
     r' = r \<and> length (od_nonce r) = EXPECTED_NONCE_LEN \<and> list_all b64url_char (od_nonce r) \<and>
     process_uid_is_valid (od_process_uid r) \<and>
     (case od_to r of None \<Rightarrow> True | Some s \<Rightarrow> strkey_shape (CHR ''G'') 56 s) \<and>
     (case od_asset r of None \<Rightarrow> True | Some s \<Rightarrow> asset_text_ok s) \<and> memo_ok (od_memo r)"
  by (cases "od_to r"; cases "od_asset r"; cases "od_memo r")
    (auto simp: on_disk_fields_def deserialize_approval_nonce_def deserialize_process_uid_def
      deserialize_opt_summary_to_def deserialize_opt_summary_asset_def deserialize_opt_summary_memo_def
      memo_ok_def res_bind_def)

lemma deserialize_Inr:
  "deserialize_entry decode r = Inr e \<longleftrightarrow>
     on_disk_fields r = Inr r \<and> length (filter snd (subtables r)) \<le> 1 \<and>
     (\<exists>k. read_kind decode r = Inr k \<and>
       e = \<lparr>pa_nonce = od_nonce r, pa_process_uid = od_process_uid r, pa_created = od_created r,
            pa_expires = od_expires r, pa_reason = od_reason r, pa_kind = k,
            pa_attestation = od_attestation r, pa_assertion = od_assertion r\<rparr>)"
proof (cases "on_disk_fields r")
  case (Inl x)
  then show ?thesis by (simp add: deserialize_entry_def)
next
  case (Inr r')
  then have "r' = r" by (simp add: on_disk_fields_Inr)
  with Inr show ?thesis by (auto simp: deserialize_entry_def Let_def res_bind_Inr_iff)
qed

lemma serialize_fields:
  "od_nonce (serialize_entry e) = pa_nonce e" "od_process_uid (serialize_entry e) = pa_process_uid e"
  "od_created (serialize_entry e) = pa_created e" "od_expires (serialize_entry e) = pa_expires e"
  "od_reason (serialize_entry e) = pa_reason e" "od_attestation (serialize_entry e) = pa_attestation e"
  "od_assertion (serialize_entry e) = pa_assertion e"
  by (simp_all add: serialize_entry_def disk_defs split: approval_kind.splits)

lemma serialize_one_kind: "length (filter snd (subtables (serialize_entry e))) \<le> 1"
  by (cases "pa_kind e") (simp_all add: serialize_entry_def disk_defs subtables_def)

lemma serialize_read:
  assumes "on_disk_fields (serialize_entry e) = Inr (serialize_entry e)"
  shows "read_kind decode (serialize_entry e) = Inr (pa_kind e) \<longleftrightarrow>
    kind_ok decode (pa_kind e) \<and> (unattested_kind (pa_kind e) \<longrightarrow> pa_attestation e = None) \<and>
    assertion_ok (pa_kind e) (pa_assertion e)"
  using assms
  by (cases "pa_kind e")
    (auto simp: on_disk_fields_Inr serialize_entry_def disk_defs read_kind_def read_defs flat_fields_def late_subtables_def
      passkey_extras_def kind_ok_def unattested_kind_def assertion_ok_def require_def present_def)

lemma serialize_disk_fields:
  "on_disk_fields (serialize_entry e) = Inr (serialize_entry e) \<longleftrightarrow>
     length (pa_nonce e) = EXPECTED_NONCE_LEN \<and> list_all b64url_char (pa_nonce e) \<and>
     process_uid_is_valid (pa_process_uid e) \<and>
     (case pa_kind e of PaymentSimulated p \<Rightarrow> kind_ok decode (pa_kind e) | _ \<Rightarrow> True)"
  by (cases "pa_kind e")
    (auto simp: on_disk_fields_Inr serialize_entry_def disk_defs kind_ok_def memo_ok_def)

lemma entry_survives_iff: "deserialize_entry decode (serialize_entry e) = Inr e \<longleftrightarrow> entry_ok decode e"
proof -
  have "deserialize_entry decode (serialize_entry e) = Inr e \<longleftrightarrow>
      on_disk_fields (serialize_entry e) = Inr (serialize_entry e) \<and>
      read_kind decode (serialize_entry e) = Inr (pa_kind e)"
    using serialize_one_kind[of e] by (cases e) (auto simp: deserialize_Inr serialize_fields)
  also have "\<dots> \<longleftrightarrow> entry_ok decode e"
    using serialize_read[of e decode] serialize_disk_fields[of e decode]
    by (auto simp: entry_ok_def split: approval_kind.splits)
  finally show ?thesis .
qed

end
