(* ===== verification/Approval_Store.thy ===== *)
theory Approval_Store
  imports Approval_Entry Policy_Loader
begin

text \<open>
  The pending approval store (\<^verbatim>\<open>approval/store.rs\<close>): opening the file of a profile, the operations
  on its entries and the write after each of them; the attestations (\<^verbatim>\<open>approval/attestation.rs\<close>),
  the attest step with its consent row (\<^verbatim>\<open>approval/attest.rs\<close>, \<^verbatim>\<open>user_id.rs\<close>), the retried open
  (\<^verbatim>\<open>retry.rs\<close>), and the gate a commit tool passes through
  (\<^verbatim>\<open>stellar-agent-mcp/src/tools/common.rs\<close>).
\<close>

section \<open>The store and its file\<close>

record approval_store =
  st_entries :: "pending_approval list"
  st_disk :: "string option"

text \<open>
  A write builds a temporary file, renames it over the store and syncs.  It can fail before the
  rename, which leaves the old file, or after it, with the new file in place.
\<close>

datatype save_outcome = WriteOk | FailsBeforeRename string | FailsAfterRename string

definition persist_store :: "approval_lib \<Rightarrow> save_outcome \<Rightarrow> approval_store \<Rightarrow> (approval_error, unit) result \<times> approval_store" where
  "persist_store lib w s =
     (case toml_to_string lib (map serialize_entry (st_entries s)) of
        Inl d \<Rightarrow> (Inl (AToml d), s)
      | Inr content \<Rightarrow>
          (case w of
             WriteOk \<Rightarrow> (Inr (), s\<lparr>st_disk := Some content\<rparr>)
           | FailsBeforeRename d \<Rightarrow> (Inl (AIo d), s)
           | FailsAfterRename d \<Rightarrow> (Inl (AIo d), s\<lparr>st_disk := Some content\<rparr>)))"

datatype lock_outcome = LockTaken | LockHeld | LockFails string

record open_env =
  oe_dir_error :: "string option"
  oe_lock :: lock_outcome
  oe_read_error :: "string option"

definition acquire_lock :: "lock_outcome \<Rightarrow> (approval_error, unit) result" where
  "acquire_lock l = (case l of LockTaken \<Rightarrow> Inr () | LockHeld \<Rightarrow> Inl WriterLocked | LockFails d \<Rightarrow> Inl (AIo d))"

fun check_nonce_lengths :: "pending_approval list \<Rightarrow> (approval_error, unit) result" where
  "check_nonce_lengths [] = Inr ()"
| "check_nonce_lengths (e # es) =
     (if length (pa_nonce e) \<noteq> EXPECTED_NONCE_LEN then Inl (AEntryNonceLength (length (pa_nonce e)))
      else check_nonce_lengths es)"

definition read_store_file :: "approval_lib \<Rightarrow> string \<Rightarrow> (approval_error, pending_approval list) result" where
  "read_store_file lib content =
     (case toml_from_str lib content of
        Inl d \<Rightarrow> Inl (AToml d)
      | Inr rs \<Rightarrow>
          (case try_map (\<lambda>_. deserialize_entry (lib_b64_decode lib)) 0 rs of
             Inl e \<Rightarrow> Inl (ATomlEntry e)
           | Inr es \<Rightarrow> res_bind (check_nonce_lengths es) (\<lambda>_. Inr es)))"

definition open_store :: "approval_lib \<Rightarrow> open_env \<Rightarrow> string option \<Rightarrow> (approval_error, approval_store) result" where
  "open_store lib env disk =
     (case oe_dir_error env of
        Some d \<Rightarrow> Inl (AIo d)
      | None \<Rightarrow>
          res_bind (acquire_lock (oe_lock env)) (\<lambda>_.
          res_bind
            (case disk of
               None \<Rightarrow> Inr []
             | Some content \<Rightarrow>
                 (case oe_read_error env of Some d \<Rightarrow> Inl (AIo d) | None \<Rightarrow> read_store_file lib content)) (\<lambda>es.
            Inr \<lparr>st_entries = es, st_disk = disk\<rparr>)))"

text \<open>
  The retried open: \<open>envs i\<close> is what the \<open>i\<close>th attempt meets and \<open>disks i\<close> the file it finds.  The result
  comes with the number of attempts made.
\<close>

function retry_open ::
    "approval_lib \<Rightarrow> (nat \<Rightarrow> open_env) \<Rightarrow> (nat \<Rightarrow> string option) \<Rightarrow> nat \<Rightarrow> nat \<Rightarrow>
     (approval_error, approval_store) result \<times> nat" where
  "retry_open lib envs disks attempts attempt =
     (case open_store lib (envs (attempt + 1)) (disks (attempt + 1)) of
        Inr s \<Rightarrow> (Inr s, attempt + 1)
      | Inl e \<Rightarrow>
          if e = WriterLocked \<and> attempt + 1 < attempts then retry_open lib envs disks attempts (attempt + 1)
          else (Inl e, attempt + 1))"
  by pat_completeness auto
termination by (relation "measure (\<lambda>(_, _, _, attempts, attempt). attempts - attempt)") auto

declare retry_open.simps [simp del]

definition open_with_retry ::
    "approval_lib \<Rightarrow> (nat \<Rightarrow> open_env) \<Rightarrow> (nat \<Rightarrow> string option) \<Rightarrow> nat \<Rightarrow> (approval_error, approval_store) result \<times> nat" where
  "open_with_retry lib envs disks attempts = retry_open lib envs disks (max attempts 1) 0"

section \<open>Operations\<close>

definition MAX_PENDING_APPROVALS :: nat where "MAX_PENDING_APPROVALS = 4096"

definition redact_nonce :: "string \<Rightarrow> string" where
  "redact_nonce n = (if 10 < length n then take 5 n @ ''...'' @ drop (length n - 5) n else n)"

definition store_with :: "pending_approval list \<Rightarrow> approval_store \<Rightarrow> approval_store" where
  "store_with es s = s\<lparr>st_entries := es\<rparr>"

definition live_entries :: "nat \<Rightarrow> approval_store \<Rightarrow> pending_approval list" where
  "live_entries now s = filter (\<lambda>e. \<not> is_expired e now) (st_entries s)"

definition insert_entry ::
    "approval_lib \<Rightarrow> save_outcome \<Rightarrow> pending_approval \<Rightarrow> nat \<Rightarrow> approval_store \<Rightarrow>
     (approval_error, unit) result \<times> approval_store" where
  "insert_entry lib w e now s0 =
     (let s = store_with (live_entries now s0) s0 in
      if MAX_PENDING_APPROVALS \<le> length (st_entries s) then
        (case persist_store lib w s of
           (Inl err, s') \<Rightarrow> (Inl err, s')
         | (Inr _, s') \<Rightarrow> (Inl (PendingStoreFull MAX_PENDING_APPROVALS), s'))
      else if list_ex (\<lambda>x. pa_nonce x = pa_nonce e) (st_entries s) then
        (Inl (DuplicateNonce (redact_nonce (pa_nonce e))), s)
      else persist_store lib w (store_with (st_entries s @ [e]) s))"

definition get_entry :: "string \<Rightarrow> approval_store \<Rightarrow> pending_approval option" where
  "get_entry n s = List.find (\<lambda>e. pa_nonce e = n) (st_entries s)"

text \<open>Replacing the first entry with a nonce, as the write through \<^verbatim>\<open>iter_mut().find\<close> and \<^verbatim>\<open>position\<close> do.\<close>

fun update_first :: "string \<Rightarrow> (pending_approval \<Rightarrow> pending_approval) \<Rightarrow> pending_approval list \<Rightarrow> pending_approval list" where
  "update_first n f [] = []"
| "update_first n f (e # es) = (if pa_nonce e = n then f e # es else e # update_first n f es)"

definition update_entry ::
    "approval_lib \<Rightarrow> save_outcome \<Rightarrow> string \<Rightarrow> (pending_approval \<Rightarrow> pending_approval) \<Rightarrow> approval_store \<Rightarrow>
     (approval_error, unit) result \<times> approval_store" where
  "update_entry lib w n f s = persist_store lib w (store_with (update_first n f (st_entries s)) s)"

definition attestable :: "approval_kind \<Rightarrow> bool" where
  "attestable k \<longleftrightarrow>
     (case k of PaymentSimulated _ \<Rightarrow> True | ClaimSimulated _ \<Rightarrow> True | TrustlineSimulated _ \<Rightarrow> True
      | MppChargeSimulated _ \<Rightarrow> True | _ \<Rightarrow> False)"

definition is_opt_in :: "approval_kind \<Rightarrow> bool" where
  "is_opt_in k \<longleftrightarrow> (case k of TrustlineClawbackOptIn _ \<Rightarrow> True | _ \<Rightarrow> False)"

definition is_proposal :: "approval_kind \<Rightarrow> bool" where
  "is_proposal k \<longleftrightarrow> (case k of RuleProposalSimulated _ \<Rightarrow> True | _ \<Rightarrow> False)"

text \<open>The three recording operations differ in the kinds they accept.\<close>

definition record_blob ::
    "(approval_kind \<Rightarrow> bool) \<Rightarrow> string \<Rightarrow> approval_lib \<Rightarrow> save_outcome \<Rightarrow> string \<Rightarrow> string \<Rightarrow> nat \<Rightarrow> approval_store \<Rightarrow>
     (approval_error, unit) result \<times> approval_store" where
  "record_blob accepts expected lib w n blob now s =
     (case get_entry n s of
        None \<Rightarrow> (Inl ANotFound, s)
      | Some e \<Rightarrow>
          if is_expired e now then (Inl AExpired, s)
          else if \<not> accepts (pa_kind e) then (Inl (AWrongKind expected (kind_name (pa_kind e))), s)
          else if pa_attestation e \<noteq> None then (Inl AlreadyAttested, s)
          else update_entry lib w n (\<lambda>e. e\<lparr>pa_attestation := Some (lib_b64_encode lib blob)\<rparr>) s)"

definition record_attestation_at where
  "record_attestation_at =
     record_blob attestable ''PaymentSimulated, ClaimSimulated, TrustlineSimulated, or MppChargeSimulated''"

definition record_trustline_clawback_opt_in_attestation_at where
  "record_trustline_clawback_opt_in_attestation_at = record_blob is_opt_in ''TrustlineClawbackOptIn''"

definition record_rule_proposal_attestation_at where
  "record_rule_proposal_attestation_at = record_blob is_proposal ''RuleProposalSimulated''"

definition record_passkey_assertion ::
    "approval_lib \<Rightarrow> save_outcome \<Rightarrow> clock \<Rightarrow> string \<Rightarrow> assertion_input \<Rightarrow> approval_store \<Rightarrow>
     (approval_error, unit) result \<times> approval_store" where
  "record_passkey_assertion lib w clk n a s =
     (case approval_now_unix_ms clk of
        Inl err \<Rightarrow> (Inl err, s)
      | Inr now \<Rightarrow>
          (case get_entry n s of
             None \<Rightarrow> (Inl ANotFound, s)
           | Some e \<Rightarrow>
               if is_expired e now then (Inl AExpired, s)
               else if (case pa_kind e of SignWithPasskey _ \<Rightarrow> False | _ \<Rightarrow> True) then
                 (Inl (AWrongKind ''SignWithPasskey'' (kind_name (pa_kind e))), s)
               else if pa_assertion e \<noteq> None then (Inl AlreadyAttested, s)
               else
                 (case validate_assertion_input a of
                    Inl v \<Rightarrow> (Inl (AInvalid v), s)
                  | Inr _ \<Rightarrow> update_entry lib w n (\<lambda>e. e\<lparr>pa_assertion := Some a\<rparr>) s)))"

definition record_passkey_registration ::
    "approval_lib \<Rightarrow> save_outcome \<Rightarrow> clock \<Rightarrow> string \<Rightarrow> registration_input \<Rightarrow> approval_store \<Rightarrow>
     (approval_error, unit) result \<times> approval_store" where
  "record_passkey_registration lib w clk n ri s =
     (case approval_now_unix_ms clk of
        Inl err \<Rightarrow> (Inl err, s)
      | Inr now \<Rightarrow>
          (case get_entry n s of
             None \<Rightarrow> (Inl ANotFound, s)
           | Some e \<Rightarrow>
               if is_expired e now then (Inl AExpired, s)
               else
                 (case pa_kind e of
                    RegisterPasskey p old \<Rightarrow>
                      if old \<noteq> None then (Inl AlreadyAttested, s)
                      else update_entry lib w n (\<lambda>e. e\<lparr>pa_kind := RegisterPasskey p (Some ri)\<rparr>) s
                  | k \<Rightarrow> (Inl (AWrongKind ''RegisterPasskey'' (kind_name k)), s))))"

definition remove_entry ::
    "approval_lib \<Rightarrow> save_outcome \<Rightarrow> string \<Rightarrow> approval_store \<Rightarrow> (approval_error, bool) result \<times> approval_store" where
  "remove_entry lib w n s =
     (let es = filter (\<lambda>e. pa_nonce e \<noteq> n) (st_entries s); s1 = store_with es s in
      if length es < length (st_entries s) then
        (case persist_store lib w s1 of (Inl err, s2) \<Rightarrow> (Inl err, s2) | (Inr _, s2) \<Rightarrow> (Inr True, s2))
      else (Inr False, s1))"

definition rejected_entry :: "nat \<Rightarrow> nat \<Rightarrow> pending_approval \<Rightarrow> pending_approval" where
  "rejected_entry now ttl e =
     fresh_entry (pa_nonce e) (pa_process_uid e) now (sat_add_u64 now ttl) (RejectedKind (kind_name (pa_kind e)))"

definition reject_entry ::
    "approval_lib \<Rightarrow> save_outcome \<Rightarrow> string \<Rightarrow> nat \<Rightarrow> nat \<Rightarrow> approval_store \<Rightarrow> (approval_error, bool) result \<times> approval_store" where
  "reject_entry lib w n now ttl s =
     (case get_entry n s of
        None \<Rightarrow> (Inr False, s)
      | Some _ \<Rightarrow>
          (case update_entry lib w n (rejected_entry now ttl) s of
             (Inl err, s') \<Rightarrow> (Inl err, s')
           | (Inr _, s') \<Rightarrow> (Inr True, s')))"

definition consumed_entry :: "string \<Rightarrow> consumed_outcome \<Rightarrow> pending_approval \<Rightarrow> pending_approval" where
  "consumed_entry tx_hash oc e =
     e\<lparr>pa_reason := None, pa_kind := ConsumedKind (kind_name (pa_kind e)) tx_hash oc, pa_assertion := None\<rparr>"

definition consume_entry ::
    "approval_lib \<Rightarrow> save_outcome \<Rightarrow> string \<Rightarrow> string \<Rightarrow> consumed_outcome \<Rightarrow> approval_store \<Rightarrow>
     (approval_error, bool) result \<times> approval_store" where
  "consume_entry lib w n tx_hash oc s =
     (case get_entry n s of
        None \<Rightarrow> (Inr False, s)
      | Some e \<Rightarrow>
          (case validate_consumed (kind_name (pa_kind e)) tx_hash (outcome_label oc) of
             Inl v \<Rightarrow> (Inl (AInvalidEntry v), s)
           | Inr _ \<Rightarrow>
               (case update_entry lib w n (consumed_entry tx_hash oc) s of
                  (Inl err, s') \<Rightarrow> (Inl err, s')
                | (Inr _, s') \<Rightarrow> (Inr True, s'))))"

definition gc_expired ::
    "approval_lib \<Rightarrow> save_outcome \<Rightarrow> nat \<Rightarrow> approval_store \<Rightarrow> (approval_error, nat) result \<times> approval_store" where
  "gc_expired lib w now s =
     (let es = live_entries now s; s1 = store_with es s; removed = length (st_entries s) - length es in
      if 0 < removed then
        (case persist_store lib w s1 of (Inl err, s2) \<Rightarrow> (Inl err, s2) | (Inr _, s2) \<Rightarrow> (Inr removed, s2))
      else (Inr removed, s1))"

section \<open>Attestations\<close>

record attestation_binding =
  ab_profile :: string
  ab_chain_id :: string

text \<open>A field preceded by its length; a length above \<^verbatim>\<open>u32::MAX\<close> is written as \<^verbatim>\<open>u32::MAX\<close>.\<close>

definition prefixed :: "string \<Rightarrow> string" where
  "prefixed s = be_bytes 4 (to_u32 (length s)) @ s"

definition attestation_message :: "attestation_binding \<Rightarrow> string \<Rightarrow> string \<Rightarrow> string \<Rightarrow> string" where
  "attestation_message b n sha uid =
     ''stellar-agent-approval-attestation:v2'' @ prefixed (ab_profile b) @ prefixed (ab_chain_id b) @
     prefixed n @ sha @ prefixed uid"

definition compute_attestation ::
    "approval_lib \<Rightarrow> string \<Rightarrow> attestation_binding \<Rightarrow> string \<Rightarrow> string \<Rightarrow> string \<Rightarrow> string" where
  "compute_attestation lib key b n sha uid = lib_hmac lib key (attestation_message b n sha uid)"

definition verify_attestation ::
    "approval_lib \<Rightarrow> string \<Rightarrow> attestation_binding \<Rightarrow> string \<Rightarrow> string \<Rightarrow> string \<Rightarrow> string \<Rightarrow> bool" where
  "verify_attestation lib key b n sha uid blob \<longleftrightarrow> compute_attestation lib key b n sha uid = blob"

definition i64_be_bytes :: "int \<Rightarrow> string" where
  "i64_be_bytes i = be_bytes 8 (nat (i mod 2 ^ 64))"

definition compute_toolset_gate_digest :: "approval_lib \<Rightarrow> toolset_fields \<Rightarrow> string" where
  "compute_toolset_gate_digest lib t =
     lib_sha256 lib
       (''stellar-agent-toolset-grant:v1'' @ prefixed (tg_toolset t) @ prefixed (tg_capability t) @
        prefixed (tg_destination t) @ prefixed (tg_asset t) @ i64_be_bytes (tg_min t) @ i64_be_bytes (tg_max t))"

definition verify_toolset_gate_attestation ::
    "approval_lib \<Rightarrow> string \<Rightarrow> attestation_binding \<Rightarrow> string \<Rightarrow> toolset_fields \<Rightarrow> string \<Rightarrow> string \<Rightarrow> bool" where
  "verify_toolset_gate_attestation lib key b n t uid blob \<longleftrightarrow>
     verify_attestation lib key b n (compute_toolset_gate_digest lib t) uid blob"

definition compute_trustline_clawback_opt_in_digest :: "approval_lib \<Rightarrow> string \<Rightarrow> string \<Rightarrow> string \<Rightarrow> string" where
  "compute_trustline_clawback_opt_in_digest lib net code issuer =
     lib_sha256 lib
       (''stellar-agent-trustline-clawback-opt-in:v1'' @ prefixed net @ prefixed code @ prefixed issuer)"

definition compute_rule_proposal_digest :: "approval_lib \<Rightarrow> string \<Rightarrow> string \<Rightarrow> string \<Rightarrow> char \<Rightarrow> string" where
  "compute_rule_proposal_digest lib args_xdr account_xdr ids_xdr flags =
     lib_sha256 lib
       (''stellar-agent-rule-proposal-v1'' @ prefixed args_xdr @ prefixed account_xdr @ prefixed ids_xdr @ [flags])"

text \<open>A recorded blob as 32 bytes: absent, not base64 and of another length all give none.\<close>

definition blob_bytes :: "approval_lib \<Rightarrow> string option \<Rightarrow> string option" where
  "blob_bytes lib v =
     Option.bind (Option.bind v (lib_b64_decode lib)) (\<lambda>bs. if length bs = 32 then Some bs else None)"

definition verify_mpp_charge_attestation ::
    "approval_lib \<Rightarrow> string \<Rightarrow> attestation_binding \<Rightarrow> string \<Rightarrow> string \<Rightarrow> string \<Rightarrow> nat \<Rightarrow> approval_store \<Rightarrow> bool" where
  "verify_mpp_charge_attestation lib key b n fingerprint artifact now s \<longleftrightarrow>
     (case get_entry n s of
        None \<Rightarrow> False
      | Some e \<Rightarrow>
          \<not> is_expired e now \<and>
          (case pa_kind e of
             MppChargeSimulated m \<Rightarrow>
               mp_profile m = ab_profile b \<and> mp_chain_id m = ab_chain_id b \<and>
               mp_fingerprint m = fingerprint \<and> mp_artifact m = artifact \<and>
               (case blob_bytes lib (pa_attestation e) of
                  None \<Rightarrow> False
                | Some blob \<Rightarrow> verify_attestation lib key b (pa_nonce e) artifact (pa_process_uid e) blob)
           | _ \<Rightarrow> False))"

definition opt_in_matches :: "string \<Rightarrow> string \<Rightarrow> string \<Rightarrow> approval_kind \<Rightarrow> bool" where
  "opt_in_matches net code issuer k \<longleftrightarrow>
     (case k of
        TrustlineClawbackOptIn p \<Rightarrow> oi_network p = net \<and> oi_code p = code \<and> oi_issuer p = issuer
      | _ \<Rightarrow> False)"

definition has_attested_trustline_clawback_opt_in :: "string \<Rightarrow> string \<Rightarrow> string \<Rightarrow> nat \<Rightarrow> approval_store \<Rightarrow> bool" where
  "has_attested_trustline_clawback_opt_in net code issuer now s \<longleftrightarrow>
     list_ex (\<lambda>e. \<not> is_expired e now \<and> pa_attestation e \<noteq> None \<and> opt_in_matches net code issuer (pa_kind e)) (st_entries s)"

definition verify_attested_trustline_clawback_opt_in ::
    "approval_lib \<Rightarrow> string \<Rightarrow> attestation_binding \<Rightarrow> string \<Rightarrow> string \<Rightarrow> string \<Rightarrow> nat \<Rightarrow> approval_store \<Rightarrow> bool" where
  "verify_attested_trustline_clawback_opt_in lib key b net code issuer now s \<longleftrightarrow>
     (let d = compute_trustline_clawback_opt_in_digest lib net code issuer in
      list_ex (\<lambda>e. \<not> is_expired e now \<and> opt_in_matches net code issuer (pa_kind e) \<and>
        (case blob_bytes lib (pa_attestation e) of
           None \<Rightarrow> False
         | Some blob \<Rightarrow> verify_attestation lib key b (pa_nonce e) d (pa_process_uid e) blob)) (st_entries s))"

datatype rule_proposal_gate_error = ProposalRejected | ProposalRefused

definition verify_rule_proposal_gate ::
    "approval_lib \<Rightarrow> string \<Rightarrow> string \<Rightarrow> string \<Rightarrow> attestation_binding \<Rightarrow> string \<Rightarrow> nat \<Rightarrow> approval_store \<Rightarrow>
     (rule_proposal_gate_error, unit) result" where
  "verify_rule_proposal_gate lib n recomputed key b blob now s =
     (case get_entry n s of
        None \<Rightarrow> Inl ProposalRefused
      | Some e \<Rightarrow>
          if is_expired e now then Inl ProposalRefused
          else
            (case pa_kind e of
               RejectedKind _ \<Rightarrow> Inl ProposalRejected
             | RuleProposalSimulated p \<Rightarrow>
                 if pr_chain_id p \<noteq> ab_chain_id b \<or> pr_sha256 p \<noteq> recomputed then Inl ProposalRefused
                 else if \<not> verify_attestation lib key b n (pr_sha256 p) (pa_process_uid e) blob then Inl ProposalRefused
                 else Inr ()
             | _ \<Rightarrow> Inl ProposalRefused))"

section \<open>Attesting\<close>

datatype surface = SurfaceCli | SurfaceServe | SurfaceServeRemote

definition surface_text :: "surface \<Rightarrow> string" where
  "surface_text v = (case v of SurfaceCli \<Rightarrow> ''cli'' | SurfaceServe \<Rightarrow> ''serve'' | SurfaceServeRemote \<Rightarrow> ''serve-remote'')"

text \<open>A passkey identity carries the nonce its assertion was verified for.\<close>

datatype approver_identity = OsUid string | PasskeyCredential string string

definition new_verified :: "string \<Rightarrow> ('e, unit) result \<Rightarrow> string option" where
  "new_verified n verification = (case verification of Inl _ \<Rightarrow> None | Inr _ \<Rightarrow> Some n)"

definition matches_entry_process_uid :: "approver_identity \<Rightarrow> string \<Rightarrow> bool" where
  "matches_entry_process_uid who entry_uid \<longleftrightarrow>
     (case who of OsUid uid \<Rightarrow> uid = entry_uid | PasskeyCredential _ _ \<Rightarrow> False)"

definition is_authorized_for_entry :: "approver_identity \<Rightarrow> string \<Rightarrow> string \<Rightarrow> string list \<Rightarrow> bool" where
  "is_authorized_for_entry who entry_uid entry_nonce allowed \<longleftrightarrow>
     (case who of
        OsUid _ \<Rightarrow> matches_entry_process_uid who entry_uid
      | PasskeyCredential credential bound_nonce \<Rightarrow>
          credential \<noteq> [] \<and> list_ex (\<lambda>a. a = credential) allowed \<and> bound_nonce = entry_nonce)"

datatype approval_failure =
    FNotFound | FExpired | FAlreadyAttested | FUserMismatch | FClockError string | FSha256Hex
  | FKeyLength nat | FBindingMismatch | FGrantPersist string | FWrongKind string | FRejected | FConsumed
  | FRecordFailed approval_error | FAuditRefused string

definition failure_clock :: "clock \<Rightarrow> (approval_failure, nat) result" where
  "failure_clock c = (case c of Inl d \<Rightarrow> Inl (FClockError d) | Inr t \<Rightarrow> Inr t)"

definition load_and_validate_entry ::
    "approval_store \<Rightarrow> string \<Rightarrow> approver_identity \<Rightarrow> string list \<Rightarrow> clock \<Rightarrow> (approval_failure, pending_approval) result" where
  "load_and_validate_entry s n who allowed clk =
     (case get_entry n s of
        None \<Rightarrow> Inl FNotFound
      | Some e \<Rightarrow>
          res_bind (failure_clock clk) (\<lambda>now.
            if is_expired e now then Inl FExpired
            else if pa_attestation e \<noteq> None then Inl FAlreadyAttested
            else if \<not> is_authorized_for_entry who (pa_process_uid e) (pa_nonce e) allowed then Inl FUserMismatch
            else Inr e))"

fun sha256_hex_chunks :: "string \<Rightarrow> (approval_failure, string) result" where
  "sha256_hex_chunks (a # b # rest) =
     (case u8_from_hex a b of
        None \<Rightarrow> Inl FSha256Hex
      | Some v \<Rightarrow> res_bind (sha256_hex_chunks rest) (\<lambda>out. Inr (char_of v # out)))"
| "sha256_hex_chunks _ = Inr []"

definition decode_sha256_hex :: "string \<Rightarrow> (approval_failure, string) result" where
  "decode_sha256_hex hex = (if length hex \<noteq> 64 then Inl FSha256Hex else sha256_hex_chunks hex)"

definition record_error :: "approval_error \<Rightarrow> approval_failure" where
  "record_error e =
     (case e of
        ANotFound \<Rightarrow> FNotFound | AExpired \<Rightarrow> FExpired | AlreadyAttested \<Rightarrow> FAlreadyAttested
      | other \<Rightarrow> FRecordFailed other)"

definition refuse_unless_still_pending :: "approval_store \<Rightarrow> pending_approval \<Rightarrow> nat \<Rightarrow> (approval_failure, unit) result" where
  "refuse_unless_still_pending s validated now =
     (case get_entry (pa_nonce validated) s of
        None \<Rightarrow> Inl (record_error ANotFound)
      | Some current \<Rightarrow>
          if pa_kind current \<noteq> pa_kind validated \<or> pa_process_uid current \<noteq> pa_process_uid validated then
            Inl (case pa_kind current of
                   RejectedKind _ \<Rightarrow> FRejected
                 | ConsumedKind _ _ _ \<Rightarrow> FConsumed
                 | _ \<Rightarrow> FWrongKind ''the pending approval changed between validation and the attest'')
          else if is_expired current now then Inl (record_error AExpired)
          else if pa_attestation current \<noteq> None then Inl (record_error AlreadyAttested)
          else Inr ())"

text \<open>
  The consent row of the audit log, local or remote; the nonce and the credential appear there
  shortened and hashed, and the model keeps the values they are computed from.
\<close>

record consent_row =
  co_kind :: string
  co_tool :: string
  co_sha256_hex :: "string option"
  co_nonce :: string
  co_origin :: "string option"
  co_credential :: "string option"

record attest_state =
  as_store :: approval_store
  as_rows :: "consent_row list"

text \<open>What one attest step meets: the write of the row (an error refuses it), of the grant and of the store.\<close>

record attest_env =
  ae_clock :: clock
  ae_row_error :: "string option"
  ae_grant :: "toolset_fields \<Rightarrow> (string, unit) result"
  ae_write :: save_outcome

definition emit_attested_audit ::
    "attest_env \<Rightarrow> string \<Rightarrow> string \<Rightarrow> string option \<Rightarrow> string \<Rightarrow> surface \<Rightarrow> string option \<Rightarrow> attest_state \<Rightarrow>
     (approval_failure, unit) result \<times> attest_state" where
  "emit_attested_audit env kind tool sha n sf cred st =
     (case ae_row_error env of
        Some d \<Rightarrow> (Inl (FAuditRefused d), st)
      | None \<Rightarrow>
          (Inr (), st\<lparr>as_rows := as_rows st @
             [\<lparr>co_kind = kind, co_tool = tool, co_sha256_hex = sha, co_nonce = n,
               co_origin = (case cred of None \<Rightarrow> Some (surface_text sf) | Some _ \<Rightarrow> None),
               co_credential = cred\<rparr>]\<rparr>))"

text \<open>The row first, then the recording operation on the store; a refused row ends the step.\<close>

definition row_then_record ::
    "attest_env \<Rightarrow> string \<Rightarrow> string \<Rightarrow> string option \<Rightarrow> pending_approval \<Rightarrow> surface \<Rightarrow> string option \<Rightarrow>
     (approval_store \<Rightarrow> (approval_error, unit) result \<times> approval_store) \<Rightarrow> string option \<Rightarrow> attest_state \<Rightarrow>
     (approval_failure, string option) result \<times> attest_state" where
  "row_then_record env kind tool sha e sf cred rec surfaced st =
     (case emit_attested_audit env kind tool sha (pa_nonce e) sf cred st of
        (Inl f, st1) \<Rightarrow> (Inl f, st1)
      | (Inr _, st1) \<Rightarrow>
          (case rec (as_store st1) of
             (Inl err, s') \<Rightarrow> (Inl (record_error err), st1\<lparr>as_store := s'\<rparr>)
           | (Inr _, s') \<Rightarrow> (Inr surfaced, st1\<lparr>as_store := s'\<rparr>)))"

definition attest_envelope_and_persist ::
    "approval_lib \<Rightarrow> attest_env \<Rightarrow> pending_approval \<Rightarrow> string \<Rightarrow> attestation_binding \<Rightarrow> surface \<Rightarrow> string option \<Rightarrow> nat \<Rightarrow>
     string \<Rightarrow> string \<Rightarrow> string \<Rightarrow> attest_state \<Rightarrow> (approval_failure, string option) result \<times> attest_state" where
  "attest_envelope_and_persist lib env e key b sf cred now sha_hex kind tool st =
     (case decode_sha256_hex sha_hex of
        Inl f \<Rightarrow> (Inl f, st)
      | Inr sha \<Rightarrow>
          (let blob = compute_attestation lib key b (pa_nonce e) sha (pa_process_uid e) in
           row_then_record env kind tool (Some sha_hex) e sf cred
             (record_attestation_at lib (ae_write env) (pa_nonce e) blob now) (Some (lib_b64_encode lib blob)) st))"

definition attest_toolset ::
    "approval_lib \<Rightarrow> attest_env \<Rightarrow> pending_approval \<Rightarrow> toolset_fields \<Rightarrow> surface \<Rightarrow> string option \<Rightarrow> attest_state \<Rightarrow>
     (approval_failure, string option) result \<times> attest_state" where
  "attest_toolset lib env e t sf cred st =
     (case emit_attested_audit env ''ToolsetFirstInvokeGate''
             (''toolset:'' @ tg_toolset t @ '':'' @ tg_capability t) None (pa_nonce e) sf cred st of
        (Inl f, st1) \<Rightarrow> (Inl f, st1)
      | (Inr _, st1) \<Rightarrow>
          (case ae_grant env t of
             Inl d \<Rightarrow> (Inl (FGrantPersist d), st1)
           | Inr _ \<Rightarrow>
               (Inr None, st1\<lparr>as_store := snd (remove_entry lib (ae_write env) (pa_nonce e) (as_store st1))\<rparr>)))"

definition binding_matches :: "approval_kind \<Rightarrow> attestation_binding \<Rightarrow> bool" where
  "binding_matches k b \<longleftrightarrow>
     (case k of
        RuleProposalSimulated p \<Rightarrow> pr_chain_id p = ab_chain_id b
      | MppChargeSimulated m \<Rightarrow> mp_profile m = ab_profile b \<and> mp_chain_id m = ab_chain_id b
      | _ \<Rightarrow> True)"

definition attest_kind ::
    "approval_lib \<Rightarrow> attest_env \<Rightarrow> pending_approval \<Rightarrow> string \<Rightarrow> attestation_binding \<Rightarrow> surface \<Rightarrow> string option \<Rightarrow> nat \<Rightarrow>
     attest_state \<Rightarrow> (approval_failure, string option) result \<times> attest_state" where
  "attest_kind lib env e key b sf cred now st =
     (let envelope = attest_envelope_and_persist lib env e key b sf cred now;
          attest = (\<lambda>sha. compute_attestation lib key b (pa_nonce e) sha (pa_process_uid e)) in
      case pa_kind e of
        PaymentSimulated p \<Rightarrow> envelope (pf_sha256_hex p) ''PaymentSimulated'' ''stellar_pay_commit'' st
      | TrustlineSimulated p \<Rightarrow> envelope (tl_sha256_hex p) ''TrustlineSimulated'' ''stellar_trustline_commit'' st
      | ClaimSimulated p \<Rightarrow> envelope (cl_sha256_hex p) ''ClaimSimulated'' ''stellar_claim_commit'' st
      | ToolsetFirstInvokeGate t \<Rightarrow> attest_toolset lib env e t sf cred st
      | TrustlineClawbackOptIn p \<Rightarrow>
          row_then_record env ''TrustlineClawbackOptIn'' ''stellar_trustline_commit'' None e sf cred
            (record_trustline_clawback_opt_in_attestation_at lib (ae_write env) (pa_nonce e)
               (attest (compute_trustline_clawback_opt_in_digest lib (oi_network p) (oi_code p) (oi_issuer p))) now)
            None st
      | RuleProposalSimulated p \<Rightarrow>
          row_then_record env ''RuleProposalSimulated'' ''stellar_rule_create_commit'' (Some (hex_encode (pr_sha256 p))) e sf cred
            (record_rule_proposal_attestation_at lib (ae_write env) (pa_nonce e) (attest (pr_sha256 p)) now)
            (Some (lib_b64_encode lib (attest (pr_sha256 p)))) st
      | MppChargeSimulated m \<Rightarrow>
          row_then_record env ''MppChargeSimulated'' ''stellar_mpp_charge_commit'' (Some (hex_encode (mp_artifact m))) e sf cred
            (record_attestation_at lib (ae_write env) (pa_nonce e) (attest (mp_artifact m)) now)
            (Some (lib_b64_encode lib (attest (mp_artifact m)))) st
      | RejectedKind _ \<Rightarrow> (Inl FRejected, st)
      | ConsumedKind _ _ _ \<Rightarrow> (Inl FConsumed, st)
      | other \<Rightarrow> (Inl (FWrongKind (kind_name other)), st))"

definition attest_and_persist ::
    "approval_lib \<Rightarrow> attest_env \<Rightarrow> pending_approval \<Rightarrow> string \<Rightarrow> attestation_binding \<Rightarrow> surface \<Rightarrow> string option \<Rightarrow>
     attest_state \<Rightarrow> (approval_failure, string option) result \<times> attest_state" where
  "attest_and_persist lib env e key b sf cred st =
     (if \<not> binding_matches (pa_kind e) b then (Inl FBindingMismatch, st)
      else if length key \<noteq> 32 then (Inl (FKeyLength (length key)), st)
      else
        (case failure_clock (ae_clock env) of
           Inl f \<Rightarrow> (Inl f, st)
         | Inr now \<Rightarrow>
             (case refuse_unless_still_pending (as_store st) e now of
                Inl f \<Rightarrow> (Inl f, st)
              | Inr _ \<Rightarrow> attest_kind lib env e key b sf cred now st)))"

section \<open>The gate of a commit\<close>

datatype gated_approval_kind = GatedPayment | GatedClaim | GatedTrustline

datatype gate_error = ApprovalRequired | ApprovalConsumed | ApprovalRejected

text \<open>
  What the gate asks of the server: the profile and chain, the receipts found for a nonce, the store as the
  retried open returns it, the clock, and the attestation key; each may fail.
\<close>

record gate_env =
  ge_binding :: attestation_binding
  ge_receipt :: "string \<Rightarrow> (string, bool) result"
  ge_store :: "(approval_error, approval_store) result"
  ge_clock :: clock
  ge_key :: "(string, string) result"

definition stored_sha256_hex :: "gated_approval_kind \<Rightarrow> approval_kind \<Rightarrow> string option" where
  "stored_sha256_hex expected k =
     (case k of
        PaymentSimulated p \<Rightarrow> if expected = GatedPayment then Some (pf_sha256_hex p) else None
      | ClaimSimulated p \<Rightarrow> if expected = GatedClaim then Some (cl_sha256_hex p) else None
      | TrustlineSimulated p \<Rightarrow> if expected = GatedTrustline then Some (tl_sha256_hex p) else None
      | _ \<Rightarrow> None)"

definition required_ok :: "('e, 'a) result \<Rightarrow> (gate_error, 'a) result" where
  "required_ok r = (case r of Inl _ \<Rightarrow> Inl ApprovalRequired | Inr x \<Rightarrow> Inr x)"

definition gate_entry ::
    "approval_lib \<Rightarrow> gate_env \<Rightarrow> nat \<Rightarrow> gated_approval_kind \<Rightarrow> string \<Rightarrow> string \<Rightarrow> string \<Rightarrow> nat \<Rightarrow> pending_approval \<Rightarrow>
     (gate_error, unit) result" where
  "gate_entry lib env ttl expected xdr n blob now e =
     (if is_expired e now \<or> sat_add_u64 (pa_created e) (sat_mul_u64 ttl 1000) \<le> now then Inl ApprovalRequired
      else
        (case pa_kind e of
           RejectedKind _ \<Rightarrow> Inl ApprovalRejected
         | ConsumedKind _ _ _ \<Rightarrow> Inl ApprovalConsumed
         | k \<Rightarrow>
             res_bind (required_ok (ge_receipt env n)) (\<lambda>_.
               case stored_sha256_hex expected k of
                 None \<Rightarrow> Inl ApprovalRequired
               | Some stored \<Rightarrow>
                   if hex_encode (envelope_sha256 lib xdr) \<noteq> stored then Inl ApprovalRequired
                   else
                     res_bind (required_ok (ge_key env)) (\<lambda>key.
                       if verify_attestation lib key (ge_binding env) n (envelope_sha256 lib xdr) (pa_process_uid e) blob
                       then Inr () else Inl ApprovalRequired))))"

definition verify_attestation_gate ::
    "approval_lib \<Rightarrow> gate_env \<Rightarrow> approval_request option \<Rightarrow> gated_approval_kind \<Rightarrow> string \<Rightarrow> string option \<Rightarrow>
     string option \<Rightarrow> (gate_error, unit) result" where
  "verify_attestation_gate lib env required_approval expected xdr approval_nonce approval_attestation =
     (case required_approval of
        None \<Rightarrow> Inr ()
      | Some req \<Rightarrow>
          (case (approval_nonce, approval_attestation) of
             (Some n, Some a) \<Rightarrow>
               (case blob_bytes lib (Some a) of
                  None \<Rightarrow> Inl ApprovalRequired
                | Some blob \<Rightarrow>
                    if ge_receipt env n = Inr True then Inl ApprovalConsumed
                    else
                      res_bind (required_ok (ge_store env)) (\<lambda>s.
                        case get_entry n s of
                          None \<Rightarrow> Inl ApprovalRequired
                        | Some e \<Rightarrow>
                            res_bind (required_ok (ge_clock env)) (\<lambda>now.
                              gate_entry lib env (ttl_seconds req) expected xdr n blob now e)))
           | _ \<Rightarrow> Inl ApprovalRequired))"

end
