(* ===== verification/Approval_Lifecycle.thy ===== *)
theory Approval_Lifecycle
  imports Approval_Store
begin

text \<open>
  What the approval store promises over its life: entries made by the constructors survive the file, every
  sequence of sessions keeps the store bounded and readable, attestations bind their context, consent rows
  precede attestations, and the gate of a commit accepts only the attested envelope.
\<close>

section \<open>Constructed entries\<close>

lemma invalid_Inr [simp]: "invalid c = Inr () \<longleftrightarrow> c = Inr ()"
  by (cases c) (auto simp: invalid_def)

lemma all_checks_Inr: "all_checks cs = Inr () \<longleftrightarrow> (\<forall>c\<in>set cs. c = Inr ())"
  by (induction cs) (auto split: sum.splits)

lemma require_Inr [simp]: "require b e = Inr () \<longleftrightarrow> b" "require True e = Inr ()"
  by (simp_all add: require_def)

inductive constructed :: "approval_lib \<Rightarrow> pending_approval \<Rightarrow> bool" for lib where
  payment: "new_payment_pending lib raw clk xdr xb dest amt ast memo fee sq uid ttl = Inr e \<Longrightarrow>
     strkey_shape (CHR ''G'') 56 dest \<Longrightarrow> asset_text_ok ast \<Longrightarrow> memo_ok memo \<Longrightarrow>
     length raw = 16 \<Longrightarrow> process_uid_is_valid uid \<Longrightarrow> constructed lib e"
| passkey: "new_passkey_pending lib raw clk pk uid ttl = Inr e \<Longrightarrow>
     length raw = 16 \<Longrightarrow> process_uid_is_valid uid \<Longrightarrow> constructed lib e"
| register: "new_register_passkey_pending lib raw clk rg uid ttl = Inr e \<Longrightarrow>
     length raw = 16 \<Longrightarrow> process_uid_is_valid uid \<Longrightarrow> constructed lib e"
| toolset: "new_toolset_first_invoke_gate_pending lib raw clk tg uid ttl = Inr e \<Longrightarrow>
     length raw = 16 \<Longrightarrow> process_uid_is_valid uid \<Longrightarrow> constructed lib e"
| opt_in: "new_trustline_clawback_opt_in_pending lib raw clk oi uid ttl = Inr e \<Longrightarrow>
     length raw = 16 \<Longrightarrow> process_uid_is_valid uid \<Longrightarrow> constructed lib e"
| trustline: "new_trustline_pending lib raw clk xb tr uid ttl = Inr e \<Longrightarrow>
     length raw = 16 \<Longrightarrow> process_uid_is_valid uid \<Longrightarrow> constructed lib e"
| claim: "new_claim_pending lib raw clk xb cb uid ttl = Inr e \<Longrightarrow>
     length raw = 16 \<Longrightarrow> process_uid_is_valid uid \<Longrightarrow> constructed lib e"
| proposal: "new_rule_proposal_pending lib raw clk acct pass chain snap sha line uid ttl = Inr e \<Longrightarrow>
     length raw = 16 \<Longrightarrow> process_uid_is_valid uid \<Longrightarrow> constructed lib e"
| mpp: "new_mpp_charge_pending_at lib raw m uid ttl created = Inr e \<Longrightarrow>
     length raw = 16 \<Longrightarrow> process_uid_is_valid uid \<Longrightarrow> constructed lib e"
| request: "constructed lib e \<Longrightarrow> constructed lib (with_policy_request req e)"

text \<open>A full account identifier shortens to an accepted short form.\<close>

lemma ascii_boundary: "is_base32 c \<Longrightarrow> byte_of c < 128"
  by (auto simp: is_base32_def is_ascii_uppercase_def)

lemma full_account_redacts:
  assumes "validate_smart_account_full s = Inr ()"
  shows "validate_smart_account_redacted (redact_g_strkey s) = Inr ()"
proof -
  obtain t where s: "s = CHR ''C'' # t" and t: "length t = 55" "list_all is_base32 t"
    using assms by (cases s) (auto simp: validate_smart_account_full_def strkey_shape_def)
  have b: "i < 55 \<Longrightarrow> is_base32 (t ! i)" for i using t by (simp add: list_all_length)
  have head: "take 5 s = CHR ''C'' # take 4 t" and tail: "drop (length s - 5) s = drop 50 t"
    using t by (simp_all add: s)
  have "drop 5 s \<noteq> [] \<longrightarrow> byte_of (hd (drop 5 s)) < 128"
    using t b[of 4] ascii_boundary by (auto simp: s hd_drop_conv_nth)
  moreover have "drop 50 t \<noteq> [] \<longrightarrow> byte_of (hd (drop 50 t)) < 128"
    using t b[of 50] ascii_boundary by (auto simp: hd_drop_conv_nth)
  ultimately have r: "redact_g_strkey s = CHR ''C'' # take 4 t @ ''...'' @ drop 50 t"
    using t head tail by (auto simp: redact_g_strkey_def Let_def s)
  have "list_all is_base32 (take 4 t)" "list_all is_base32 (drop 50 t)"
    using t(2) by (metis append_take_drop_id list_all_append)+
  then show ?thesis
    using t(1) by (simp add: r validate_smart_account_redacted_def)
qed

lemma fresh_entry_ok:
  assumes "b64_law lib" "length raw = 16" "process_uid_is_valid uid" "kind_ok (lib_b64_decode lib) k"
  shows "entry_ok (lib_b64_decode lib) (fresh_entry (lib_b64_encode lib raw) uid created expires k)"
  using assms
  by (auto simp: entry_ok_def fresh_entry_def b64_law_def EXPECTED_NONCE_LEN_def assertion_ok_def opt_check_def
      split: approval_kind.splits)

lemmas constructor_defs =
  new_payment_pending_def new_passkey_pending_def new_register_passkey_pending_def
  new_toolset_first_invoke_gate_pending_def new_trustline_clawback_opt_in_pending_def new_trustline_pending_def
  new_claim_pending_def new_rule_proposal_pending_def new_mpp_charge_pending_at_def

lemma trustline_hash_irrelevant [simp]:
  "validate_trustline_simulated (p\<lparr>tl_sha256_hex := h\<rparr>) = validate_trustline_simulated p"
  "validate_claim_simulated (c\<lparr>cl_sha256_hex := h\<rparr>) = validate_claim_simulated c"
  by (simp_all add: validate_trustline_simulated_def validate_claim_simulated_def)

lemma constructed_ok:
  assumes "constructed lib e" "b64_law lib"
  shows "entry_ok (lib_b64_decode lib) e"
  using assms
proof (induction rule: constructed.induct)
  case (proposal raw clk acct pass chain snap sha line uid ttl e)
  then show ?case
    by (auto simp: constructor_defs res_bind_Inr_iff kind_ok_def validate_proposal_def full_account_redacts
        intro!: fresh_entry_ok)
next
  case (request e req)
  then show ?case by (simp add: entry_ok_def with_policy_request_def)
qed (auto simp: constructor_defs res_bind_Inr_iff kind_ok_def opt_check_def Let_def split: if_splits
    intro!: fresh_entry_ok)

section \<open>Reading back what was written\<close>

text \<open>
  A codec that returns the entries it was given, as long as they are well formed, also returns lists of them.
\<close>

locale entry_codec =
  fixes enc :: "'a \<Rightarrow> 'b" and dec :: "'b \<Rightarrow> ('e, 'a) result" and ok :: "'a \<Rightarrow> bool"
  assumes survives: "ok x \<Longrightarrow> dec (enc x) = Inr x"
begin

lemma list_survives: "list_all ok xs \<Longrightarrow> try_map (\<lambda>_. dec) i (map enc xs) = Inr xs"
  by (induction xs arbitrary: i) (auto simp: survives)

end

interpretation entry_file: entry_codec serialize_entry "deserialize_entry decode" "entry_ok decode" for decode
  by unfold_locales (simp add: entry_survives_iff)

lemma check_nonce_lengths_ok: "list_all (entry_ok dec) es \<Longrightarrow> check_nonce_lengths es = Inr ()"
  by (induction es) (auto simp: entry_ok_def)

lemma written_file_reads:
  assumes "toml_law lib" "toml_to_string lib (map serialize_entry es) = Inr content"
    and "list_all (entry_ok (lib_b64_decode lib)) es"
  shows "read_store_file lib content = Inr es"
  using assms by (simp add: read_store_file_def toml_law_def entry_file.list_survives check_nonce_lengths_ok)

section \<open>Sessions\<close>

text \<open>
  Between sessions only the file exists; a session ends by dropping the store or by a crash.  A step
  that inserts is labelled with the entry.
\<close>

datatype approval_system = Closed "string option" | Session approval_store

inductive system_step :: "approval_lib \<Rightarrow> pending_approval option \<Rightarrow> approval_system \<Rightarrow> approval_system \<Rightarrow> bool" for lib where
  opens: "open_store lib env d = Inr s \<Longrightarrow> system_step lib None (Closed d) (Session s)"
| ends: "system_step lib None (Session s) (Closed (st_disk s))"
| inserts: "constructed lib e \<Longrightarrow> system_step lib (Some e) (Session s) (Session (snd (insert_entry lib w e now s)))"
| attests: "system_step lib None (Session s) (Session (snd (record_attestation_at lib w n blob now s)))"
| opts_in: "system_step lib None (Session s)
     (Session (snd (record_trustline_clawback_opt_in_attestation_at lib w n blob now s)))"
| proposes: "system_step lib None (Session s)
     (Session (snd (record_rule_proposal_attestation_at lib w n blob now s)))"
| asserts: "system_step lib None (Session s) (Session (snd (record_passkey_assertion lib w clk n a s)))"
| registers: "validate_registration_input ri = Inr () \<Longrightarrow>
     system_step lib None (Session s) (Session (snd (record_passkey_registration lib w clk n ri s)))"
| removes: "system_step lib None (Session s) (Session (snd (remove_entry lib w n s)))"
| rejects: "system_step lib None (Session s) (Session (snd (reject_entry lib w n now ttl s)))"
| consumes: "system_step lib None (Session s) (Session (snd (consume_entry lib w n tx oc s)))"
| collects: "system_step lib None (Session s) (Session (snd (gc_expired lib w now s)))"

inductive reachable :: "approval_lib \<Rightarrow> approval_system \<Rightarrow> bool" for lib where
  initial: "reachable lib (Closed None)"
| step: "reachable lib x \<Longrightarrow> system_step lib l x y \<Longrightarrow> reachable lib y"

text \<open>A rejected or spent entry.\<close>

definition settled :: "approval_kind \<Rightarrow> bool" where
  "settled k \<longleftrightarrow> (case k of RejectedKind _ \<Rightarrow> True | ConsumedKind _ _ _ \<Rightarrow> True | _ \<Rightarrow> False)"

definition file_holds :: "approval_lib \<Rightarrow> (pending_approval list \<Rightarrow> bool) \<Rightarrow> string option \<Rightarrow> bool" where
  "file_holds lib Q disk \<longleftrightarrow>
     (case disk of
        None \<Rightarrow> True
      | Some content \<Rightarrow> (case read_store_file lib content of Inl _ \<Rightarrow> False | Inr es \<Rightarrow> Q es))"

text \<open>A condition on the entries holds of the file and, in a session, of the entries in memory.\<close>

definition system_holds :: "approval_lib \<Rightarrow> (pending_approval list \<Rightarrow> bool) \<Rightarrow> approval_system \<Rightarrow> bool" where
  "system_holds lib Q x \<longleftrightarrow>
     (case x of
        Closed d \<Rightarrow> file_holds lib Q d
      | Session s \<Rightarrow> Q (st_entries s) \<and> file_holds lib Q (st_disk s))"

definition keeps :: "(string \<Rightarrow> string option) \<Rightarrow> pending_approval \<Rightarrow> pending_approval \<Rightarrow> bool" where
  "keeps decode e e' \<longleftrightarrow>
     pa_nonce e' = pa_nonce e \<and> (entry_ok decode e \<longrightarrow> entry_ok decode e') \<and> (settled (pa_kind e) \<longrightarrow> settled (pa_kind e'))"

lemma kind_name_bounds: "kind_name k \<noteq> []" "length (kind_name k) \<le> 64"
  by (cases k; simp add: kind_name_def)+

lemma keeps_attestation: "\<not> unattested_kind (pa_kind e) \<Longrightarrow> keeps dec e (e\<lparr>pa_attestation := Some a\<rparr>)"
  by (simp add: keeps_def entry_ok_def)

lemma keeps_rejected: "keeps dec e (rejected_entry now ttl e)"
  by (simp add: keeps_def entry_ok_def rejected_entry_def fresh_entry_def kind_ok_def kind_name_bounds assertion_ok_def
      settled_def)

lemma keeps_consumed:
  "validate_consumed (kind_name (pa_kind e)) tx (outcome_label oc) = Inr () \<Longrightarrow> keeps dec e (consumed_entry tx oc e)"
  by (simp add: keeps_def entry_ok_def consumed_entry_def kind_ok_def unattested_kind_def assertion_ok_def settled_def)

lemma accepts_attested:
  "attestable k \<Longrightarrow> \<not> unattested_kind k" "is_opt_in k \<Longrightarrow> \<not> unattested_kind k" "is_proposal k \<Longrightarrow> \<not> unattested_kind k"
  by (cases k; simp add: attestable_def is_opt_in_def is_proposal_def unattested_kind_def)+

lemma snd_case_result [simp]:
  "snd (case p of (Inl e, s) \<Rightarrow> (Inl e, s) | (Inr x, s) \<Rightarrow> (g x, s)) = snd p"
  by (cases p; cases "fst p") auto

lemma store_with_entries_simps [simp]:
  "st_entries (store_with es s) = es" "st_disk (store_with es s) = st_disk s"
  "store_with es (store_with es' s) = store_with es s"
  by (simp_all add: store_with_def)

text \<open>
  A condition on lists of entries that the operations keep: it holds of the empty list, passes to
  sublists, and survives the updates and the admitted insertions.
\<close>

locale approval_invariant =
  fixes lib :: approval_lib and Q :: "pending_approval list \<Rightarrow> bool" and admits :: "pending_approval \<Rightarrow> bool"
  assumes empty: "Q []"
    and entries: "Q es \<Longrightarrow> list_all (entry_ok (lib_b64_decode lib)) es"
    and sublist: "Q es \<Longrightarrow> Q (filter P es)"
    and push: "Q es \<Longrightarrow> length es < MAX_PENDING_APPROVALS \<Longrightarrow> pa_nonce e \<notin> pa_nonce ` set es \<Longrightarrow>
      entry_ok (lib_b64_decode lib) e \<Longrightarrow> admits e \<Longrightarrow> Q (es @ [e])"
    and update: "Q es \<Longrightarrow> (\<And>e. List.find (\<lambda>e. pa_nonce e = n) es = Some e \<Longrightarrow> keeps (lib_b64_decode lib) e (f e)) \<Longrightarrow>
      Q (update_first n f es)"
begin

lemma persist_holds:
  assumes "toml_law lib" "Q (st_entries s)" "file_holds lib Q (st_disk s)"
  shows "system_holds lib Q (Session (snd (persist_store lib w s)))"
proof (cases "toml_to_string lib (map serialize_entry (st_entries s))")
  case (Inl d)
  then show ?thesis using assms by (simp add: persist_store_def system_holds_def)
next
  case (Inr content)
  then have "read_store_file lib content = Inr (st_entries s)"
    using assms entries by (intro written_file_reads)
  then show ?thesis
    using assms Inr by (cases w) (simp_all add: persist_store_def system_holds_def file_holds_def)
qed

lemma session_persist:
  assumes "toml_law lib" "system_holds lib Q (Session s)" "Q es"
  shows "system_holds lib Q (Session (snd (persist_store lib w (store_with es s))))"
  using assms by (intro persist_holds) (auto simp: system_holds_def)

lemma session_entries: "system_holds lib Q (Session s) \<Longrightarrow> Q es \<Longrightarrow> system_holds lib Q (Session (store_with es s))"
  by (simp add: system_holds_def)

lemma session_update:
  assumes "toml_law lib" "system_holds lib Q (Session s)" "\<And>e. get_entry n s = Some e \<Longrightarrow> keeps (lib_b64_decode lib) e (f e)"
  shows "system_holds lib Q (Session (snd (update_entry lib w n f s)))"
  using assms unfolding update_entry_def
  by (intro session_persist update) (auto simp: system_holds_def get_entry_def)

lemma open_holds:
  assumes "open_store lib env d = Inr s" "file_holds lib Q d"
  shows "system_holds lib Q (Session s)"
  using assms empty
  by (auto simp: open_store_def system_holds_def file_holds_def res_bind_Inr_iff split: option.splits sum.splits)

lemma insert_holds:
  assumes t: "toml_law lib" and s: "system_holds lib Q (Session s)" and e: "entry_ok (lib_b64_decode lib) e" "admits e"
  shows "system_holds lib Q (Session (snd (insert_entry lib w e now s)))"
proof -
  let ?es = "live_entries now s"
  have es: "Q ?es" using s sublist by (simp add: live_entries_def system_holds_def)
  have s1: "system_holds lib Q (Session (store_with ?es s))" using s es by (rule session_entries)
  have pushed: "Q (?es @ [e])"
    if "\<not> MAX_PENDING_APPROVALS \<le> length ?es" "\<not> list_ex (\<lambda>x. pa_nonce x = pa_nonce e) ?es"
    using that es e by (intro push) (auto simp: list_ex_iff)
  show ?thesis
    using session_persist[OF t s es] session_persist[OF t s pushed] s1 by (simp add: insert_entry_def Let_def)
qed

lemma record_holds:
  assumes "toml_law lib" "system_holds lib Q (Session s)" "\<And>k. accepts k \<Longrightarrow> \<not> unattested_kind k"
  shows "system_holds lib Q (Session (snd (record_blob accepts x lib w n blob now s)))"
proof (cases "get_entry n s")
  case (Some e)
  have "system_holds lib Q (Session (snd (update_entry lib w n (\<lambda>e. e\<lparr>pa_attestation := Some (lib_b64_encode lib blob)\<rparr>) s)))"
    if "accepts (pa_kind e)"
    using assms that Some by (intro session_update) (auto intro: keeps_attestation)
  then show ?thesis using assms(2) Some by (simp add: record_blob_def)
qed (use assms in \<open>simp add: record_blob_def\<close>)

lemma assertion_holds:
  assumes "toml_law lib" "system_holds lib Q (Session s)"
  shows "system_holds lib Q (Session (snd (record_passkey_assertion lib w clk n a s)))"
proof (cases "get_entry n s")
  case (Some e)
  have "system_holds lib Q (Session (snd (update_entry lib w n (\<lambda>e. e\<lparr>pa_assertion := Some a\<rparr>) s)))"
    if "pa_kind e = SignWithPasskey p" "validate_assertion_input a = Inr ()" for p
    using assms that Some
    by (intro session_update) (auto simp: keeps_def entry_ok_def assertion_ok_def opt_check_def)
  then show ?thesis
    using assms(2) Some by (auto simp: record_passkey_assertion_def split: sum.split approval_kind.split)
qed (use assms in \<open>simp add: record_passkey_assertion_def split: sum.split\<close>)

lemma registration_holds:
  assumes "toml_law lib" "system_holds lib Q (Session s)" "validate_registration_input ri = Inr ()"
  shows "system_holds lib Q (Session (snd (record_passkey_registration lib w clk n ri s)))"
proof (cases "get_entry n s")
  case (Some e)
  have "system_holds lib Q (Session (snd (update_entry lib w n (\<lambda>e. e\<lparr>pa_kind := RegisterPasskey p (Some ri)\<rparr>) s)))"
    if "pa_kind e = RegisterPasskey p old" for p old
    using assms that Some
    by (intro session_update)
      (auto simp: keeps_def entry_ok_def assertion_ok_def opt_check_def kind_ok_def unattested_kind_def settled_def)
  then show ?thesis
    using assms(2) Some by (auto simp: record_passkey_registration_def split: sum.split approval_kind.split)
qed (use assms in \<open>simp add: record_passkey_registration_def split: sum.split\<close>)

lemma remove_holds:
  assumes "toml_law lib" "system_holds lib Q (Session s)"
  shows "system_holds lib Q (Session (snd (remove_entry lib w n s)))"
proof -
  have "Q (filter (\<lambda>e. pa_nonce e \<noteq> n) (st_entries s))" using assms(2) sublist by (simp add: system_holds_def)
  then show ?thesis using assms session_persist session_entries by (simp add: remove_entry_def Let_def)
qed

lemma gc_holds:
  assumes "toml_law lib" "system_holds lib Q (Session s)"
  shows "system_holds lib Q (Session (snd (gc_expired lib w now s)))"
proof -
  have "Q (live_entries now s)" using assms(2) sublist by (simp add: live_entries_def system_holds_def)
  then show ?thesis using assms session_persist session_entries by (simp add: gc_expired_def Let_def)
qed

lemma reject_holds:
  assumes "toml_law lib" "system_holds lib Q (Session s)"
  shows "system_holds lib Q (Session (snd (reject_entry lib w n now ttl s)))"
proof -
  have "system_holds lib Q (Session (snd (update_entry lib w n (rejected_entry now ttl) s)))"
    using assms by (intro session_update keeps_rejected)
  then show ?thesis using assms by (simp add: reject_entry_def split: option.split)
qed

lemma consume_holds:
  assumes "toml_law lib" "system_holds lib Q (Session s)"
  shows "system_holds lib Q (Session (snd (consume_entry lib w n tx oc s)))"
proof (cases "get_entry n s")
  case (Some e)
  then have "system_holds lib Q (Session (snd (update_entry lib w n (consumed_entry tx oc) s)))"
    if "validate_consumed (kind_name (pa_kind e)) tx (outcome_label oc) = Inr ()"
    using assms that by (intro session_update keeps_consumed) auto
  then show ?thesis using assms Some by (auto simp: consume_entry_def split: sum.split)
qed (use assms in \<open>simp add: consume_entry_def\<close>)

lemma step_holds:
  assumes st: "system_step lib l x y" and x: "system_holds lib Q x" and t: "toml_law lib" and b: "b64_law lib"
    and l: "\<And>e. l = Some e \<Longrightarrow> admits e"
  shows "system_holds lib Q y"
  using st
proof cases
  case (opens env d s)
  then show ?thesis using x open_holds by (simp add: system_holds_def[of lib Q "Closed d"])
next
  case (ends s)
  then show ?thesis using x by (simp add: system_holds_def)
next
  case (inserts e s w now)
  then have "entry_ok (lib_b64_decode lib) e" "admits e" using b l constructed_ok by simp_all
  then show ?thesis using inserts x t insert_holds by simp
next
  case (attests s w n blob now)
  then have "system_holds lib Q (Session s)" using x by simp
  then show ?thesis
    unfolding attests(3) record_attestation_at_def using t by (intro record_holds accepts_attested(1))
next
  case (opts_in s w n blob now)
  then have "system_holds lib Q (Session s)" using x by simp
  then show ?thesis
    unfolding opts_in(3) record_trustline_clawback_opt_in_attestation_at_def
    using t by (intro record_holds accepts_attested(2))
next
  case (proposes s w n blob now)
  then have "system_holds lib Q (Session s)" using x by simp
  then show ?thesis
    unfolding proposes(3) record_rule_proposal_attestation_at_def using t by (intro record_holds accepts_attested(3))
next
  case (asserts s w clk n a)
  then show ?thesis using x t assertion_holds by simp
next
  case (registers ri s w clk n)
  then show ?thesis using x t registration_holds by simp
next
  case (removes s w n)
  then show ?thesis using x t remove_holds by simp
next
  case (rejects s w n now ttl)
  then show ?thesis using x t reject_holds by simp
next
  case (consumes s w n tx oc)
  then show ?thesis using x t consume_holds by simp
next
  case (collects s w now)
  then show ?thesis using x t gc_holds by simp
qed

end

section \<open>Bounded stores with distinct nonces\<close>

definition store_ok :: "approval_lib \<Rightarrow> pending_approval list \<Rightarrow> bool" where
  "store_ok lib es \<longleftrightarrow>
     list_all (entry_ok (lib_b64_decode lib)) es \<and> distinct (map pa_nonce es) \<and> length es \<le> MAX_PENDING_APPROVALS"

lemma update_first_all:
  "list_all P es \<Longrightarrow> (\<And>e. List.find (\<lambda>e. pa_nonce e = n) es = Some e \<Longrightarrow> P e \<Longrightarrow> P (f e)) \<Longrightarrow>
   list_all P (update_first n f es)"
  by (induction es) auto

lemma update_first_nonces:
  "(\<And>e. List.find (\<lambda>e. pa_nonce e = n) es = Some e \<Longrightarrow> pa_nonce (f e) = pa_nonce e) \<Longrightarrow>
   map pa_nonce (update_first n f es) = map pa_nonce es"
  by (induction es) auto

lemma update_first_length [simp]: "length (update_first n f es) = length es"
  by (induction es) auto

interpretation bounded: approval_invariant lib "store_ok lib" "\<lambda>_. True" for lib
proof
  show "store_ok lib []" by (simp add: store_ok_def)
next
  show "store_ok lib es \<Longrightarrow> list_all (entry_ok (lib_b64_decode lib)) es" for es by (simp add: store_ok_def)
next
  show "store_ok lib es \<Longrightarrow> store_ok lib (filter P es)" for es P
    by (auto simp: store_ok_def distinct_map_filter list_all_iff intro: le_trans[OF length_filter_le])
next
  show "store_ok lib es \<Longrightarrow> length es < MAX_PENDING_APPROVALS \<Longrightarrow> pa_nonce e \<notin> pa_nonce ` set es \<Longrightarrow>
      entry_ok (lib_b64_decode lib) e \<Longrightarrow> True \<Longrightarrow> store_ok lib (es @ [e])" for es e
    by (simp add: store_ok_def)
next
  fix es n f
  assume "store_ok lib es"
    and f: "\<And>e. List.find (\<lambda>e. pa_nonce e = n) es = Some e \<Longrightarrow> keeps (lib_b64_decode lib) e (f e)"
  then show "store_ok lib (update_first n f es)"
    using update_first_nonces[of n es f]
    by (auto simp: store_ok_def keeps_def intro: update_first_all)
qed

lemma reachable_ok:
  assumes "reachable lib x" "toml_law lib" "b64_law lib"
  shows "system_holds lib (store_ok lib) x"
  using assms
proof (induction rule: reachable.induct)
  case initial
  then show ?case by (simp add: system_holds_def file_holds_def)
next
  case (step x l y)
  then show ?case by (intro bounded.step_holds[OF step.hyps(2)]) simp_all
qed

definition calm :: open_env where
  "calm = \<lparr>oe_dir_error = None, oe_lock = LockTaken, oe_read_error = None\<rparr>"

lemma open_calm:
  assumes "file_holds lib Q d" "Q []"
  shows "\<exists>es. open_store lib calm d = Inr \<lparr>st_entries = es, st_disk = d\<rparr> \<and> Q es"
  using assms
  by (cases d) (auto simp: open_store_def calm_def acquire_lock_def file_holds_def split: sum.splits)

section \<open>Settled entries\<close>

text \<open>Every entry under a nonce is rejected or spent; entries of other nonces may be inserted.\<close>

definition sealed_entries :: "approval_lib \<Rightarrow> string \<Rightarrow> pending_approval list \<Rightarrow> bool" where
  "sealed_entries lib n es \<longleftrightarrow>
     list_all (entry_ok (lib_b64_decode lib)) es \<and> list_all (\<lambda>e. pa_nonce e = n \<longrightarrow> settled (pa_kind e)) es"

interpretation sealing: approval_invariant lib "sealed_entries lib n" "\<lambda>e. pa_nonce e \<noteq> n" for lib n
proof
  show "sealed_entries lib n []" by (simp add: sealed_entries_def)
next
  show "sealed_entries lib n es \<Longrightarrow> list_all (entry_ok (lib_b64_decode lib)) es" for es by (simp add: sealed_entries_def)
next
  show "sealed_entries lib n es \<Longrightarrow> sealed_entries lib n (filter P es)" for es P by (auto simp: sealed_entries_def list_all_iff)
next
  show "sealed_entries lib n es \<Longrightarrow> length es < MAX_PENDING_APPROVALS \<Longrightarrow> pa_nonce e \<notin> pa_nonce ` set es \<Longrightarrow>
      entry_ok (lib_b64_decode lib) e \<Longrightarrow> pa_nonce e \<noteq> n \<Longrightarrow> sealed_entries lib n (es @ [e])" for es e
    by (simp add: sealed_entries_def)
next
  fix es m f
  assume "sealed_entries lib n es"
    and f: "\<And>e. List.find (\<lambda>e. pa_nonce e = m) es = Some e \<Longrightarrow> keeps (lib_b64_decode lib) e (f e)"
  then show "sealed_entries lib n (update_first m f es)"
    by (auto simp: sealed_entries_def keeps_def intro!: update_first_all)
qed

inductive later :: "approval_lib \<Rightarrow> string \<Rightarrow> approval_system \<Rightarrow> approval_system \<Rightarrow> bool" for lib n where
  now: "later lib n x x"
| next_step: "later lib n x y \<Longrightarrow> system_step lib l y z \<Longrightarrow> (\<And>e. l = Some e \<Longrightarrow> pa_nonce e \<noteq> n) \<Longrightarrow> later lib n x z"

lemma sealed_later:
  assumes "later lib n x y" "system_holds lib (sealed_entries lib n) x" "toml_law lib" "b64_law lib"
  shows "system_holds lib (sealed_entries lib n) y"
  using assms
proof (induction rule: later.induct)
  case (next_step x y l z)
  then show ?case by (intro sealing.step_holds[OF next_step.hyps(2)]) simp_all
qed

section \<open>The retried open\<close>

lemma retry_open_result:
  assumes "retry_open lib envs disks attempts attempt = (r, k)"
  shows "attempt < k \<and> k \<le> max attempts (attempt + 1) \<and> r = open_store lib (envs k) (disks k) \<and>
    (\<forall>i. attempt < i \<and> i < k \<longrightarrow> open_store lib (envs i) (disks i) = Inl WriterLocked) \<and>
    (r = Inl WriterLocked \<longrightarrow> k = max attempts (attempt + 1))"
  using assms
proof (induction lib envs disks attempts attempt rule: retry_open.induct)
  case (1 lib envs disks attempts attempt)
  let ?o = "open_store lib (envs (attempt + 1)) (disks (attempt + 1))"
  show ?case
  proof (cases "?o = Inl WriterLocked \<and> attempt + 1 < attempts")
    case True
    then have "retry_open lib envs disks attempts (attempt + 1) = (r, k)"
      using "1.prems" by (simp add: retry_open.simps[of lib envs disks attempts attempt])
    then have IH: "attempt + 1 < k \<and> k \<le> max attempts (attempt + 1 + 1) \<and> r = open_store lib (envs k) (disks k) \<and>
        (\<forall>i. attempt + 1 < i \<and> i < k \<longrightarrow> open_store lib (envs i) (disks i) = Inl WriterLocked) \<and>
        (r = Inl WriterLocked \<longrightarrow> k = max attempts (attempt + 1 + 1))"
      using True by (intro "1.IH"[of WriterLocked]) simp_all
    have "i = attempt + 1 \<or> attempt + 1 < i" if "attempt < i" for i using that by arith
    then have "\<forall>i. attempt < i \<and> i < k \<longrightarrow> open_store lib (envs i) (disks i) = Inl WriterLocked"
      using IH True by blast
    moreover have "max attempts (attempt + 1 + 1) = max attempts (attempt + 1)" "attempt < k"
      using IH True by linarith+
    ultimately show ?thesis using IH by metis
  next
    case False
    then have "r = ?o \<and> k = attempt + 1"
      using "1.prems" by (auto simp: retry_open.simps[of lib envs disks attempts attempt] split: sum.splits if_splits)
    moreover have "\<not> (attempt < i \<and> i < attempt + 1)" for i by simp
    ultimately show ?thesis using False by fastforce
  qed
qed

section \<open>What an attestation covers\<close>

lemma prefixed_inject:
  assumes "prefixed a @ x = prefixed b @ y" "length a \<le> u32_max" "length b \<le> u32_max"
  shows "a = b \<and> x = y"
proof -
  have "be_bytes 4 (length a) = be_bytes 4 (length b)" and rest: "a @ x = b @ y"
    using assms by (simp_all add: prefixed_def to_u32_def)
  then have "length a = length b"
    using be_bytes_inject[of 4 "length a" "length b"] assms(2,3) by (simp add: u32_max_def)
  then show ?thesis using rest by simp
qed

definition fits :: "attestation_binding \<Rightarrow> string \<Rightarrow> string \<Rightarrow> bool" where
  "fits b n uid \<longleftrightarrow>
     length (ab_profile b) \<le> u32_max \<and> length (ab_chain_id b) \<le> u32_max \<and> length n \<le> u32_max \<and> length uid \<le> u32_max"

lemma attestation_message_inject:
  assumes m: "attestation_message b n sha uid = attestation_message b' n' sha' uid'"
    and f: "fits b n uid" "fits b' n' uid'" and sha: "length sha = 32" "length sha' = 32"
  shows "b = b' \<and> n = n' \<and> sha = sha' \<and> uid = uid'"
proof -
  note len = f[unfolded fits_def]
  have r0: "prefixed (ab_profile b) @ prefixed (ab_chain_id b) @ prefixed n @ sha @ prefixed uid =
            prefixed (ab_profile b') @ prefixed (ab_chain_id b') @ prefixed n' @ sha' @ prefixed uid'"
    using m unfolding attestation_message_def by (simp only: same_append_eq)
  have 1: "ab_profile b = ab_profile b'"
    and r1: "prefixed (ab_chain_id b) @ prefixed n @ sha @ prefixed uid =
             prefixed (ab_chain_id b') @ prefixed n' @ sha' @ prefixed uid'"
    using prefixed_inject[OF r0] len by blast+
  have 2: "ab_chain_id b = ab_chain_id b'" and r2: "prefixed n @ sha @ prefixed uid = prefixed n' @ sha' @ prefixed uid'"
    using prefixed_inject[OF r1] len by blast+
  have 3: "n = n'" and r3: "sha @ prefixed uid = sha' @ prefixed uid'"
    using prefixed_inject[OF r2] len by blast+
  have 4: "sha = sha'" "prefixed uid = prefixed uid'" using r3 sha by simp_all
  then have "uid = uid'" using prefixed_inject[of uid "[]" uid' "[]"] len by simp
  then show ?thesis using 1 2 3 4 by (cases b; cases b') simp
qed

section \<open>Looking up an updated entry\<close>

lemma get_update_first:
  assumes "\<And>e. pa_nonce (f e) = pa_nonce e"
  shows "List.find (\<lambda>e. pa_nonce e = n) (update_first n f es) = map_option f (List.find (\<lambda>e. pa_nonce e = n) es)"
  using assms by (induction es) auto

lemma persist_entries: "persist_store lib w s = (r, s') \<Longrightarrow> st_entries s' = st_entries s"
  by (auto simp: persist_store_def split: sum.splits save_outcome.splits)

lemma get_update_entry:
  assumes "update_entry lib w n f s = (r, s')" "\<And>e. pa_nonce (f e) = pa_nonce e"
  shows "get_entry n s' = map_option f (get_entry n s)"
proof -
  have "st_entries s' = update_first n f (st_entries s)"
    using persist_entries assms(1) by (simp add: update_entry_def store_with_def)
  then show ?thesis using get_update_first[OF assms(2)] by (simp add: get_entry_def)
qed

lemma record_blob_Inr:
  assumes "record_blob accepts x lib w n blob now s = (Inr (), s')"
  shows "\<exists>e. get_entry n s = Some e \<and> \<not> is_expired e now \<and> accepts (pa_kind e) \<and> pa_attestation e = None \<and>
    get_entry n s' = Some (e\<lparr>pa_attestation := Some (lib_b64_encode lib blob)\<rparr>)"
proof (cases "get_entry n s")
  case (Some e)
  then have u: "update_entry lib w n (\<lambda>e. e\<lparr>pa_attestation := Some (lib_b64_encode lib blob)\<rparr>) s = (Inr (), s')"
    and "\<not> is_expired e now \<and> accepts (pa_kind e) \<and> pa_attestation e = None"
    using assms by (auto simp: record_blob_def split: if_splits)
  then show ?thesis using get_update_entry[OF u] Some by simp
qed (use assms in \<open>simp add: record_blob_def\<close>)

lemma sha256_hex_chunks_encode: "sha256_hex_chunks (hex_encode bs) = Inr bs"
proof -
  have plus: "nibble_to_char k \<noteq> CHR ''+''" if "k < 16" for k
    using char_to_nibble_of[OF that] by (auto simp: char_to_nibble_def Let_def)
  have "u8_from_hex (nibble_to_char (byte_of c div 16)) (nibble_to_char (byte_of c mod 16)) = Some (byte_of c)" for c
    using plus[of "byte_of c div 16"] by (simp add: u8_from_hex_def less_mult_imp_div_less)
  then show ?thesis by (induction bs) (simp_all add: hex_byte_def)
qed

end
