(* ===== verification/Approval_Pay.thy ===== *)
theory Approval_Pay
  imports Approval_Store Amount Audit_Log
begin

text \<open>
  How the simulate tools of the MCP server put an approval into the store
  (\<^verbatim>\<open>stellar-agent-mcp/src/tools\<close>: \<^verbatim>\<open>pay.rs\<close>, \<^verbatim>\<open>create_account.rs\<close>, \<^verbatim>\<open>claim.rs\<close>, \<^verbatim>\<open>trustline.rs\<close>,
  \<^verbatim>\<open>rule_create.rs\<close>), with the memo arguments of a payment (\<^verbatim>\<open>stellar-agent-network/src/memo.rs\<close>) and
  the identity of the process (\<^verbatim>\<open>approval/user_id.rs\<close>).
\<close>

section \<open>Memos\<close>

datatype memo = MemoNone | MemoText string | MemoId nat | MemoHash string | MemoReturn string

datatype memo_failure = MemoMutuallyExclusive | MemoTextLength nat | MemoHex string

definition decode_32_hex_bytes :: "string \<Rightarrow> string \<Rightarrow> (memo_failure, string) result" where
  "decode_32_hex_bytes hex memo_type =
     (case decode_hex32 hex of Inl _ \<Rightarrow> Inl (MemoHex memo_type) | Inr bs \<Rightarrow> Inr bs)"

definition parse_memo_fields ::
    "string option \<Rightarrow> nat option \<Rightarrow> string option \<Rightarrow> string option \<Rightarrow> (memo_failure, memo) result" where
  "parse_memo_fields memo_text memo_id memo_hash_hex memo_return_hex =
     (let txt = (case memo_text of Some [] \<Rightarrow> None | v \<Rightarrow> v);
          set_count = length (filter id [present txt, present memo_id, present memo_hash_hex, present memo_return_hex]) in
      if 1 < set_count then Inl MemoMutuallyExclusive
      else
        (case txt of
           Some t \<Rightarrow> if 28 < length t then Inl (MemoTextLength (length t)) else Inr (MemoText t)
         | None \<Rightarrow>
             (case memo_id of
                Some i \<Rightarrow> Inr (MemoId i)
              | None \<Rightarrow>
                  (case memo_hash_hex of
                     Some h \<Rightarrow> res_bind (decode_32_hex_bytes h ''HASH'') (\<lambda>bs. Inr (MemoHash bs))
                   | None \<Rightarrow>
                       (case memo_return_hex of
                          Some h \<Rightarrow> res_bind (decode_32_hex_bytes h ''RETURN'') (\<lambda>bs. Inr (MemoReturn bs))
                        | None \<Rightarrow> Inr MemoNone)))))"

definition memo_summary :: "memo \<Rightarrow> string option" where
  "memo_summary m =
     (case m of
        MemoText t \<Rightarrow> Some (if utf8_valid t then t else ''<invalid-utf8>'')
      | MemoId i \<Rightarrow> Some (show_nat i)
      | MemoNone \<Rightarrow> None
      | _ \<Rightarrow> Some ''<binary memo>'')"

section \<open>The identity of the process\<close>

text \<open>On Unix the owner of \<^verbatim>\<open>/proc/self\<close> (Linux only), else of a temporary file.\<close>

definition process_uid_for_attestation :: "nat option \<Rightarrow> nat option \<Rightarrow> (string, string) result" where
  "process_uid_for_attestation proc_self temp_file =
     (case proc_self of
        Some uid \<Rightarrow> Inr (show_nat uid)
      | None \<Rightarrow>
          (case temp_file of
             Some uid \<Rightarrow> Inr (show_nat uid)
           | None \<Rightarrow> Inl ''both /proc/self stat and tempfile UID derivation failed''))"

lemma unix_uid_valid: "process_uid_for_attestation p t = Inr uid \<Longrightarrow> process_uid_is_valid uid"
  by (auto simp: process_uid_for_attestation_def process_uid_is_valid_def show_nat_digits split: option.splits)

section \<open>Putting an approval into the store\<close>

definition DEFAULT_TTL_MS :: nat where "DEFAULT_TTL_MS = 86400000"
definition APPROVAL_TTL_MS :: nat where "APPROVAL_TTL_MS = DEFAULT_TTL_MS"
definition DEFAULT_RETRY_ATTEMPTS :: nat where "DEFAULT_RETRY_ATTEMPTS = 5"

text \<open>
  What a tool meets: the approvals directory, the attempts to open the store and the file they find,
  the identity, the random bytes of the nonce, the clock of the constructor and of the insertion, and
  the write.
\<close>

record tool_env =
  te_dir_error :: "string option"
  te_opens :: "nat \<Rightarrow> open_env"
  te_disks :: "nat \<Rightarrow> string option"
  te_uid :: "(string, string) result"
  te_raw :: string
  te_created :: clock
  te_now :: clock
  te_write :: save_outcome

datatype persist_failure =
    DirFailed string
  | OpenFailed approval_error
  | UidUnavailable string
  | ConstructorFailed approval_error
  | TimeUnavailable string
  | InsertFailed approval_error

text \<open>The common course: \<open>new\<close> is the constructor at the process identity. The file afterwards is returned when it was opened.\<close>

definition persist_pending ::
    "approval_lib \<Rightarrow> tool_env \<Rightarrow> (string \<Rightarrow> (approval_error, pending_approval) result) \<Rightarrow>
     (pending_approval \<Rightarrow> pending_approval) \<Rightarrow> (persist_failure, pending_approval) result \<times> approval_store option" where
  "persist_pending lib env new adjust =
     (case te_dir_error env of
        Some d \<Rightarrow> (Inl (DirFailed d), None)
      | None \<Rightarrow>
          (case fst (open_with_retry lib (te_opens env) (te_disks env) DEFAULT_RETRY_ATTEMPTS) of
             Inl e \<Rightarrow> (Inl (OpenFailed e), None)
           | Inr s \<Rightarrow>
               (case te_uid env of
                  Inl d \<Rightarrow> (Inl (UidUnavailable d), Some s)
                | Inr uid \<Rightarrow>
                    (case new uid of
                       Inl e \<Rightarrow> (Inl (ConstructorFailed e), Some s)
                     | Inr entry0 \<Rightarrow>
                         (let entry = adjust entry0 in
                          case te_now env of
                            Inl d \<Rightarrow> (Inl (TimeUnavailable d), Some s)
                          | Inr now \<Rightarrow>
                              (case insert_entry lib (te_write env) entry now s of
                                 (Inl e, s') \<Rightarrow> (Inl (InsertFailed e), Some s')
                               | (Inr _, s') \<Rightarrow> (Inr entry, Some s')))))))"

definition persist_pay_pending_approval ::
    "approval_lib \<Rightarrow> tool_env \<Rightarrow> string \<Rightarrow> string \<Rightarrow> int \<Rightarrow> string \<Rightarrow> string option \<Rightarrow> nat \<Rightarrow> int \<Rightarrow> approval_request \<Rightarrow>
     (persist_failure, pending_approval) result \<times> approval_store option" where
  "persist_pay_pending_approval lib env xdr dest amt ast memo_text fee sq req =
     persist_pending lib env
       (\<lambda>uid. new_payment_pending lib (te_raw env) (te_created env) xdr xdr dest amt ast memo_text fee sq uid APPROVAL_TTL_MS)
       (with_policy_request req)"

definition persist_create_account_pending_approval ::
    "approval_lib \<Rightarrow> tool_env \<Rightarrow> string \<Rightarrow> string \<Rightarrow> int \<Rightarrow> nat \<Rightarrow> int \<Rightarrow> approval_request \<Rightarrow>
     (persist_failure, pending_approval) result \<times> approval_store option" where
  "persist_create_account_pending_approval lib env xdr dest amt fee sq req =
     persist_pending lib env
       (\<lambda>uid. new_payment_pending lib (te_raw env) (te_created env) xdr xdr dest amt ''XLM'' None fee sq uid APPROVAL_TTL_MS)
       (with_policy_request req)"

definition persist_claim_pending_approval ::
    "approval_lib \<Rightarrow> tool_env \<Rightarrow> string \<Rightarrow> string \<Rightarrow> string \<Rightarrow> string \<Rightarrow> int \<Rightarrow> string \<Rightarrow> nat \<Rightarrow> int \<Rightarrow> approval_request \<Rightarrow>
     (persist_failure, pending_approval) result \<times> approval_store option" where
  "persist_claim_pending_approval lib env xdr hex72 strk ast amt src fee sq req =
     persist_pending lib env
       (\<lambda>uid. new_claim_pending lib (te_raw env) (te_created env) xdr
          \<lparr>cl_xdr = xdr, cl_sha256_hex = [], cl_hex72 = hex72, cl_strkey = strk, cl_asset = ast, cl_amount = amt,
           cl_source = src, cl_fee = fee, cl_seq = sq\<rparr> uid APPROVAL_TTL_MS)
       (with_policy_request req)"

definition persist_trustline_pending_approval ::
    "approval_lib \<Rightarrow> tool_env \<Rightarrow> string \<Rightarrow> string \<Rightarrow> string \<Rightarrow> string \<Rightarrow> int option \<Rightarrow> nat \<Rightarrow> int \<Rightarrow> approval_request \<Rightarrow>
     (persist_failure, pending_approval) result \<times> approval_store option" where
  "persist_trustline_pending_approval lib env xdr holder code issuer lim fee sq req =
     persist_pending lib env
       (\<lambda>uid. new_trustline_pending lib (te_raw env) (te_created env) xdr
          \<lparr>tl_xdr = xdr, tl_sha256_hex = [], tl_holder = holder, tl_code = code, tl_issuer = issuer,
           tl_limit = (if lim = Some i64_max then None else lim), tl_fee = fee, tl_seq = sq\<rparr> uid APPROVAL_TTL_MS)
       (with_policy_request req)"

definition persist_rule_create_pending_approval ::
    "approval_lib \<Rightarrow> tool_env \<Rightarrow> string \<Rightarrow> string \<Rightarrow> string \<Rightarrow> rule_snapshot \<Rightarrow> string \<Rightarrow> string \<Rightarrow>
     (persist_failure, pending_approval) result \<times> approval_store option" where
  "persist_rule_create_pending_approval lib env acct passphrase chain snapshot sha line =
     persist_pending lib env
       (\<lambda>uid. new_rule_proposal_pending lib (te_raw env) (te_created env) acct passphrase chain snapshot sha line uid APPROVAL_TTL_MS)
       (\<lambda>e. e)"

end
