(* ===== verification/Approval_Safety.thy ===== *)
theory Approval_Safety
  imports Approval_Lifecycle Approval_Pay
begin

text \<open>
  The properties of the approval store, of attesting and of the gate of a commit, with the memo that
  makes a store unreadable.
\<close>

section \<open>Written stores\<close>

lemma persist_store_Inr:
  assumes "persist_store lib w s = (Inr (), s')"
  shows "\<exists>content. toml_to_string lib (map serialize_entry (st_entries s)) = Inr content \<and> s' = s\<lparr>st_disk := Some content\<rparr>"
  using assms by (auto simp: persist_store_def split: sum.splits save_outcome.splits)

context approval_invariant
begin

lemma persist_success:
  assumes "toml_law lib" "Q (st_entries s)" "persist_store lib w s = (Inr (), s')"
  shows "system_holds lib Q (Session s')"
proof -
  obtain content where c: "toml_to_string lib (map serialize_entry (st_entries s)) = Inr content"
    and s': "s' = s\<lparr>st_disk := Some content\<rparr>" using persist_store_Inr[OF assms(3)] by blast
  have "read_store_file lib content = Inr (st_entries s)"
    using assms(1,2) c entries by (intro written_file_reads)
  then show ?thesis using assms(2) by (simp add: s' system_holds_def file_holds_def)
qed

end

lemma update_first_settles:
  "distinct (map pa_nonce es) \<Longrightarrow> (\<And>e. settled (pa_kind (f e))) \<Longrightarrow>
   list_all (\<lambda>e. pa_nonce e = n \<longrightarrow> settled (pa_kind e)) (update_first n f es)"
  by (induction es) (auto simp: list_all_iff image_iff)

lemma settling_update_seals:
  assumes "toml_law lib" "store_ok lib (st_entries s)" "update_entry lib w n f s = (Inr (), s')"
    and "\<And>e. get_entry n s = Some e \<Longrightarrow> keeps (lib_b64_decode lib) e (f e)" "\<And>e. settled (pa_kind (f e))"
  shows "system_holds lib (sealed_entries lib n) (Session s')"
proof (rule sealing.persist_success[OF assms(1) _ assms(3)[unfolded update_entry_def]])
  have "list_all (entry_ok (lib_b64_decode lib)) (update_first n f (st_entries s))"
    using assms(2,4) by (intro update_first_all) (auto simp: store_ok_def keeps_def get_entry_def)
  then show "sealed_entries lib n (st_entries (store_with (update_first n f (st_entries s)) s))"
    using assms(2,5) update_first_settles by (simp add: sealed_entries_def store_ok_def)
qed

lemma settled_simps [simp]: "settled (pa_kind (rejected_entry now ttl e))" "settled (pa_kind (consumed_entry tx oc e))"
  by (simp_all add: settled_def rejected_entry_def fresh_entry_def consumed_entry_def)

lemma consume_seals:
  assumes "consume_entry lib w n tx oc s = (Inr True, s')" "toml_law lib" "store_ok lib (st_entries s)"
  shows "system_holds lib (sealed_entries lib n) (Session s')"
proof (cases "get_entry n s")
  case (Some e)
  then have "update_entry lib w n (consumed_entry tx oc) s = (Inr (), s')"
    and "validate_consumed (kind_name (pa_kind e)) tx (outcome_label oc) = Inr ()"
    using assms(1) by (auto simp: consume_entry_def split: sum.splits prod.splits)
  then show ?thesis using assms(2,3) Some by (intro settling_update_seals) (auto intro: keeps_consumed)
qed (use assms(1) in \<open>simp add: consume_entry_def\<close>)

lemma reject_seals:
  assumes "reject_entry lib w n now ttl s = (Inr True, s')" "toml_law lib" "store_ok lib (st_entries s)"
  shows "system_holds lib (sealed_entries lib n) (Session s')"
proof -
  have "update_entry lib w n (rejected_entry now ttl) s = (Inr (), s')"
    using assms(1) by (auto simp: reject_entry_def split: option.splits sum.splits prod.splits)
  then show ?thesis using assms(2,3) by (intro settling_update_seals) (auto intro: keeps_rejected)
qed

section \<open>The retried open\<close>

lemma open_with_retry_facts:
  assumes "open_with_retry lib envs disks attempts = (r, k)"
  shows "1 \<le> k" "k \<le> max attempts 1" "r = open_store lib (envs k) (disks k)"
    "1 \<le> i \<Longrightarrow> i < k \<Longrightarrow> open_store lib (envs i) (disks i) = Inl WriterLocked"
    "r = Inl WriterLocked \<Longrightarrow> k = max attempts 1"
proof -
  note R = retry_open_result[OF assms[unfolded open_with_retry_def]]
  note R2 = R[THEN conjunct2] and R3 = R[THEN conjunct2, THEN conjunct2]
  note R4 = R3[THEN conjunct2]
  show "1 \<le> k" using R[THEN conjunct1] by simp
  show "k \<le> max attempts 1" using R2[THEN conjunct1] by simp
  show "r = open_store lib (envs k) (disks k)" by (rule R3[THEN conjunct1])
  show "1 \<le> i \<Longrightarrow> i < k \<Longrightarrow> open_store lib (envs i) (disks i) = Inl WriterLocked"
    using R4[THEN conjunct1, THEN spec, of i] by simp
  show "r = Inl WriterLocked \<Longrightarrow> k = max attempts 1" using R4[THEN conjunct2, THEN mp] by simp
qed

section \<open>The gate\<close>

lemma gate_entry_Inr:
  assumes "gate_entry lib env ttl k xdr n blob now e = Inr ()"
  shows "\<not> is_expired e now \<and> now < sat_add_u64 (pa_created e) (sat_mul_u64 ttl 1000) \<and> \<not> settled (pa_kind e) \<and>
    stored_sha256_hex k (pa_kind e) = Some (hex_encode (envelope_sha256 lib xdr)) \<and>
    (\<exists>key. ge_key env = Inr key \<and>
      blob = compute_attestation lib key (ge_binding env) n (envelope_sha256 lib xdr) (pa_process_uid e))"
  using assms
  by (auto simp: gate_entry_def settled_def required_ok_def verify_attestation_def res_bind_Inr_iff
      split: if_splits approval_kind.splits option.splits sum.splits)

lemma gate_Inr:
  assumes "verify_attestation_gate lib env (Some req) k xdr nn aa = Inr ()"
  shows "\<exists>n a s e now blob. nn = Some n \<and> aa = Some a \<and> ge_store env = Inr s \<and> get_entry n s = Some e \<and>
    ge_clock env = Inr now \<and> lib_b64_decode lib a = Some blob \<and> ge_receipt env n \<noteq> Inr True \<and>
    gate_entry lib env (ttl_seconds req) k xdr n blob now e = Inr ()"
  using assms
  by (auto simp: verify_attestation_gate_def blob_bytes_def required_ok_def res_bind_Inr_iff bind_eq_Some_conv
      split: option.splits if_splits sum.splits)

lemma get_entry_nonce: "get_entry n s = Some e \<Longrightarrow> pa_nonce e = n \<and> e \<in> set (st_entries s)"
  by (auto simp: get_entry_def find_Some_iff)

section \<open>Attesting\<close>

lemma row_then_record_cases:
  assumes "row_then_record env kind tool sha e sf cred rec surfaced st = (r, st')"
  shows "(ae_row_error env \<noteq> None \<and> st' = st) \<or>
    (ae_row_error env = None \<and>
     (\<exists>row. as_rows st' = as_rows st @ [row] \<and> co_nonce row = pa_nonce e \<and> co_kind row = kind \<and> co_credential row = cred))"
  using assms
  by (auto simp: row_then_record_def emit_attested_audit_def split: option.splits sum.splits prod.splits)

lemma row_then_record_Inr:
  assumes "row_then_record env kind tool sha e sf cred rec surfaced st = (Inr x, st')"
  shows "x = surfaced \<and> rec (as_store st) = (Inr (), as_store st')"
  using assms
  by (auto simp: row_then_record_def emit_attested_audit_def split: option.splits sum.splits prod.splits)

lemma attest_kind_row:
  assumes "attest_kind lib env e key b sf cred now st = (r, st')" "as_store st' \<noteq> as_store st"
  shows "ae_row_error env = None \<and>
    (\<exists>row. as_rows st' = as_rows st @ [row] \<and> co_nonce row = pa_nonce e \<and> co_kind row = kind_name (pa_kind e) \<and>
      co_credential row = cred)"
proof (cases "pa_kind e")
  case (ToolsetFirstInvokeGate t)
  then show ?thesis
    using assms
    by (auto simp: attest_kind_def attest_toolset_def emit_attested_audit_def kind_name_def split: option.splits sum.splits)
qed (use assms in \<open>auto simp: attest_kind_def attest_envelope_and_persist_def kind_name_def Let_def
      split: sum.splits dest!: row_then_record_cases\<close>)

lemma attest_Inr_pending:
  assumes "attest_and_persist lib env e key b sf cred st = (r, st')" "st' \<noteq> st \<or> (\<exists>x. r = Inr x)"
  shows "\<exists>now current. ae_clock env = Inr now \<and> length key = 32 \<and> binding_matches (pa_kind e) b \<and>
    get_entry (pa_nonce e) (as_store st) = Some current \<and> pa_kind current = pa_kind e \<and>
    pa_process_uid current = pa_process_uid e \<and> \<not> is_expired current now \<and> pa_attestation current = None \<and>
    attest_kind lib env e key b sf cred now st = (r, st')"
  using assms
  by (auto simp: attest_and_persist_def failure_clock_def refuse_unless_still_pending_def
      split: if_splits sum.splits option.splits)

section \<open>Properties\<close>



text \<open>
  C23. The retried open ends: it opens the store at least once and at most as often as it was told to (once when
  told zero), it goes on only while the lock is held, it reports a held lock only after its last attempt, and its
  result is that of the last attempt it made.
\<close>

theorem open_with_retry_ends:
  "\<exists>k. snd (open_with_retry lib envs disks attempts) = k \<and> 1 \<le> k \<and> k \<le> max attempts 1 \<and>
     fst (open_with_retry lib envs disks attempts) = open_store lib (envs k) (disks k) \<and>
     (\<forall>i. 1 \<le> i \<and> i < k \<longrightarrow> open_store lib (envs i) (disks i) = Inl WriterLocked) \<and>
     (fst (open_with_retry lib envs disks attempts) = Inl WriterLocked \<longrightarrow> k = max attempts 1)"
proof -
  obtain res k where rk: "open_with_retry lib envs disks attempts = (res, k)" by fastforce
  note k = open_with_retry_facts[OF rk]
  show ?thesis unfolding rk fst_conv snd_conv
    by (rule exI[of _ k], intro conjI allI impI refl k(1) k(2) k(3)) (use k(4,5) in blast)+
qed

text \<open>
  C18. When the entry of a nonce was successfully consumed or rejected, no commit is ever let through on that nonce
  again, whatever the store does afterwards, across sessions, crashes and failed writes, as long as no new entry is
  inserted under the nonce itself.
\<close>

theorem settled_approval_stays_refused:
  assumes r: "reachable lib (Session s)" "toml_law lib" "b64_law lib"
    and fin: "consume_entry lib w n tx oc s = (Inr True, s1) \<or> reject_entry lib w n now ttl s = (Inr True, s1)"
    and l: "later lib n (Session s1) (Session s2)" and g: "ge_store env = Inr s2"
  shows "verify_attestation_gate lib env (Some req) k xdr (Some n) a \<noteq> Inr ()"
proof
  assume "verify_attestation_gate lib env (Some req) k xdr (Some n) a = Inr ()"
  then obtain e blob t where e: "get_entry n s2 = Some e"
    and ge: "gate_entry lib env (ttl_seconds req) k xdr n blob t e = Inr ()"
    using gate_Inr g by fastforce
  have ns: "\<not> settled (pa_kind e)" using gate_entry_Inr[OF ge] by simp
  have "store_ok lib (st_entries s)" using reachable_ok[OF r] by (simp add: system_holds_def)
  then have "system_holds lib (sealed_entries lib n) (Session s1)" using fin r consume_seals reject_seals by blast
  then have "sealed_entries lib n (st_entries s2)"
    using sealed_later[OF l _ r(2,3)] by (simp add: system_holds_def)
  then show False using ns get_entry_nonce[OF e] by (auto simp: sealed_entries_def list_all_iff)
qed

text \<open>
  C17. A commit let through with an attestation that was computed for some profile, chain, nonce, hash and user
  commits exactly that hash under exactly that nonce, profile and chain, for the stored entry of that user, which
  is of the gated kind, carries the hash of this envelope, is neither expired nor past the lifetime its rule sets, neither rejected nor spent,
  and has no receipt; or HMAC-SHA-256 gives two distinct messages of this form the same code.
\<close>

theorem gate_accepts_only_attested:
  assumes gate: "verify_attestation_gate lib env (Some req) k xdr (Some n) (Some a) = Inr ()"
    and key: "ge_key env = Inr key" and st: "ge_store env = Inr s" and clk: "ge_clock env = Inr now"
    and att: "lib_b64_decode lib a = Some (compute_attestation lib key b' n' sha' uid')"
    and len: "fits b' n' uid'" "length sha' = 32" "fits (ge_binding env) n []" "digest_law lib"
    and uids: "\<And>e. e \<in> set (st_entries s) \<Longrightarrow> length (pa_process_uid e) \<le> u32_max"
  shows "\<exists>e. get_entry n s = Some e \<and> now < pa_expires e \<and>
    now < pa_created e + ttl_seconds req * 1000 \<and> \<not> settled (pa_kind e) \<and> ge_receipt env n \<noteq> Inr True \<and>
    stored_sha256_hex k (pa_kind e) = Some (hex_encode (lib_sha256 lib xdr)) \<and>
    (ge_binding env = b' \<and> n = n' \<and> lib_sha256 lib xdr = sha' \<and> pa_process_uid e = uid' \<or>
     (let m = attestation_message (ge_binding env) n (lib_sha256 lib xdr) (pa_process_uid e);
          m' = attestation_message b' n' sha' uid' in m \<noteq> m' \<and> lib_hmac lib key m = lib_hmac lib key m'))"
proof -
  obtain n0 a0 s0 e now0 blob where "Some n = Some n0" "Some a = Some a0" "ge_store env = Inr s0"
    "get_entry n0 s0 = Some e" "ge_clock env = Inr now0" "lib_b64_decode lib a0 = Some blob" "ge_receipt env n0 \<noteq> Inr True"
    "gate_entry lib env (ttl_seconds req) k xdr n0 blob now0 e = Inr ()"
    using gate_Inr[OF gate] by blast
  then have e: "get_entry n s = Some e" and rc: "ge_receipt env n \<noteq> Inr True"
    and ge: "gate_entry lib env (ttl_seconds req) k xdr n (compute_attestation lib key b' n' sha' uid') now e = Inr ()"
    using st clk att by simp_all
  let ?sha = "lib_sha256 lib xdr"
  note g = gate_entry_Inr[OF ge]
  have "compute_attestation lib key b' n' sha' uid' = compute_attestation lib key (ge_binding env) n ?sha (pa_process_uid e)"
    using g key unfolding envelope_sha256_def by (metis Inr_inject)
  then have h: "lib_hmac lib key (attestation_message b' n' sha' uid') =
      lib_hmac lib key (attestation_message (ge_binding env) n ?sha (pa_process_uid e))"
    unfolding compute_attestation_def .
  have f: "fits (ge_binding env) n (pa_process_uid e)"
    using len(3) uids get_entry_nonce[OF e] by (simp add: fits_def)
  have inj: "attestation_message (ge_binding env) n ?sha (pa_process_uid e) = attestation_message b' n' sha' uid' \<Longrightarrow>
      ge_binding env = b' \<and> n = n' \<and> ?sha = sha' \<and> pa_process_uid e = uid'"
    by (rule attestation_message_inject[OF _ f len(1) _ len(2)]) (use len(4) in \<open>simp_all add: digest_law_def\<close>)
  have "now < pa_created e + ttl_seconds req * 1000"
    using g by (auto simp: sat_add_u64_def sat_mul_u64_def)
  moreover have "ge_binding env = b' \<and> n = n' \<and> ?sha = sha' \<and> pa_process_uid e = uid' \<or>
     (let m = attestation_message (ge_binding env) n ?sha (pa_process_uid e);
          m' = attestation_message b' n' sha' uid' in m \<noteq> m' \<and> lib_hmac lib key m = lib_hmac lib key m')"
    unfolding Let_def using inj h[symmetric] by blast
  ultimately show ?thesis
    using e rc g by (intro exI[of _ e] conjI) (simp_all add: is_expired_def envelope_sha256_def)
qed

text \<open>
  C20. A step that attests changes the store only after its consent row: whenever the store differs
  afterwards, exactly one row was added, it names the nonce and the kind of the entry and the credential used, the
  entry in the store still had the validated kind and user, was unexpired and without an attestation, and the profile
  and chain matched; when the row cannot be written the store is as before.
\<close>

theorem consent_row_precedes_attestation:
  assumes a: "attest_and_persist lib env e key b sf cred st = (r, st')"
  shows "(as_store st' \<noteq> as_store st \<longrightarrow>
      (\<exists>row current now. as_rows st' = as_rows st @ [row] \<and> co_nonce row = pa_nonce e \<and>
         co_kind row = kind_name (pa_kind e) \<and> co_credential row = cred \<and>
         get_entry (pa_nonce e) (as_store st) = Some current \<and> pa_kind current = pa_kind e \<and>
         pa_process_uid current = pa_process_uid e \<and> ae_clock env = Inr now \<and> now < pa_expires current \<and>
         pa_attestation current = None \<and> binding_matches (pa_kind e) b)) \<and>
    (ae_row_error env \<noteq> None \<longrightarrow> as_store st' = as_store st)"
proof (cases "as_store st' = as_store st")
  case False
  then have "st' \<noteq> st" by auto
  then obtain now current where p: "ae_clock env = Inr now" "binding_matches (pa_kind e) b"
    "get_entry (pa_nonce e) (as_store st) = Some current" "pa_kind current = pa_kind e"
    "pa_process_uid current = pa_process_uid e" "\<not> is_expired current now" "pa_attestation current = None"
    and k: "attest_kind lib env e key b sf cred now st = (r, st')"
    using attest_Inr_pending[OF a] by blast
  then show ?thesis using attest_kind_row[OF k False] by (auto simp: is_expired_def)
qed simp

text \<open>
  C19. What attesting a payment returns opens the gate of the payment commit for the simulated envelope and for no
  envelope with another hash, as long as the entry and the rule's lifetime last, no receipt holds the nonce and the
  profile, chain and key are those of the attestation.
\<close>

theorem attested_payment_commits:
  assumes a: "attest_and_persist lib aenv e key b sf cred st = (Inr (Some att), st')"
    and p: "pa_kind e = PaymentSimulated p" and laws: "b64_law lib" "digest_law lib"
    and cur: "get_entry (pa_nonce e) (as_store st) = Some current"
    and env: "ge_store env = Inr (as_store st')" "ge_binding env = b" "ge_key env = Inr key"
      "ge_clock env = Inr now" "ge_receipt env (pa_nonce e) = Inr False"
    and live: "now < pa_expires current" "now < pa_created current + ttl_seconds req * 1000" "now < u64_max"
  shows "verify_attestation_gate lib env (Some req) GatedPayment xdr (Some (pa_nonce e)) (Some att) =
    (if hex_encode (lib_sha256 lib xdr) = pf_sha256_hex p then Inr () else Inl ApprovalRequired)"
proof -
  let ?n = "pa_nonce e"
  obtain t where c: "pa_kind current = pa_kind e" "pa_process_uid current = pa_process_uid e"
    and k: "attest_kind lib aenv e key b sf cred t st = (Inr (Some att), st')"
    using attest_Inr_pending[OF a] cur by auto
  obtain sha where sha: "decode_sha256_hex (pf_sha256_hex p) = Inr sha"
    and rr: "row_then_record aenv ''PaymentSimulated'' ''stellar_pay_commit'' (Some (pf_sha256_hex p)) e sf cred
        (record_attestation_at lib (ae_write aenv) ?n (compute_attestation lib key b ?n sha (pa_process_uid e)) t)
        (Some (lib_b64_encode lib (compute_attestation lib key b ?n sha (pa_process_uid e)))) st = (Inr (Some att), st')"
    using k p by (auto simp: attest_kind_def attest_envelope_and_persist_def Let_def split: sum.splits)
  let ?blob = "compute_attestation lib key b ?n sha (pa_process_uid e)"
  have att: "att = lib_b64_encode lib ?blob"
    and rec: "record_attestation_at lib (ae_write aenv) ?n ?blob t (as_store st) = (Inr (), as_store st')"
    using row_then_record_Inr[OF rr] by auto
  have e': "get_entry ?n (as_store st') = Some (current\<lparr>pa_attestation := Some (lib_b64_encode lib ?blob)\<rparr>)"
    using record_blob_Inr[OF rec[unfolded record_attestation_at_def]] cur by auto
  have blob: "blob_bytes lib (Some att) = Some ?blob"
    using laws by (simp add: blob_bytes_def att b64_law_def digest_law_def compute_attestation_def)
  have "sha = lib_sha256 lib xdr" if "hex_encode (lib_sha256 lib xdr) = pf_sha256_hex p"
  proof -
    have "decode_sha256_hex (hex_encode (lib_sha256 lib xdr)) = Inr (lib_sha256 lib xdr)"
      using laws(2) by (simp add: decode_sha256_hex_def digest_law_def sha256_hex_chunks_encode)
    then show ?thesis using sha that by simp
  qed
  moreover have "\<not> sat_add_u64 (pa_created current) (sat_mul_u64 (ttl_seconds req) 1000) \<le> now"
    using live by (auto simp: sat_add_u64_def sat_mul_u64_def)
  ultimately show ?thesis
    using env blob e' c p live(1)
    by (auto simp: verify_attestation_gate_def gate_entry_def required_ok_def is_expired_def stored_sha256_hex_def
        envelope_sha256_def verify_attestation_def)
qed

text \<open>
  C24. A payment whose memo text the tools accept but which is not printable ASCII is stored without complaint, and
  from then on the approval store of the profile cannot be opened at all: every approval of the profile is blocked.
\<close>

theorem unprintable_memo_blocks_store:
  assumes m: "memo_text_new mt = Inr mt" "parse_memo_fields (Some mt) None None None = Inr memo"
    and bad: "utf8_valid mt" "\<not> list_all printable mt" and law: "toml_law lib"
    and p: "persist_pay_pending_approval lib env xdr dest amt ast (memo_summary memo) fee sq req = (Inr e, Some s)"
  shows "\<exists>err. open_store lib calm (st_disk s) = Inl (ATomlEntry err)"
proof -
  have "mt \<noteq> []" using bad(2) by auto
  then have "memo = MemoText mt"
    using m(2) by (cases mt) (auto simp: parse_memo_fields_def Let_def split: if_splits)
  then have memo: "memo_summary memo = Some mt" using bad(1) by (simp add: memo_summary_def)
  obtain s0 now uid e0 where new: "new_payment_pending lib (te_raw env) (te_created env) xdr xdr dest amt ast (Some mt) fee sq uid
      APPROVAL_TTL_MS = Inr e0" and e: "e = with_policy_request req e0"
    and ins: "insert_entry lib (te_write env) e now s0 = (Inr (), s)"
    using p by (auto simp: persist_pay_pending_approval_def persist_pending_def memo Let_def
        split: option.splits sum.splits prod.splits)
  have "\<not> memo_ok (od_memo (serialize_entry e))"
    using new bad(2)
    by (auto simp: e new_payment_pending_def res_bind_Inr_iff with_policy_request_def fresh_entry_def serialize_entry_def
        disk_defs memo_ok_def)
  then have fails: "\<nexists>x. deserialize_entry (lib_b64_decode lib) (serialize_entry e) = Inr x"
    by (simp add: deserialize_Inr on_disk_fields_Inr)
  obtain content es where c: "st_disk s = Some content" "toml_to_string lib (map serialize_entry (es @ [e])) = Inr content"
    using ins by (auto simp: insert_entry_def Let_def split: if_splits prod.splits sum.splits dest!: persist_store_Inr)
  have "\<nexists>xs. try_map (\<lambda>_. deserialize_entry (lib_b64_decode lib)) 0 (map serialize_entry (es @ [e])) = Inr xs"
    using try_map_all[of "\<lambda>_. deserialize_entry (lib_b64_decode lib)" 0 "map serialize_entry (es @ [e])"] fails by fastforce
  then obtain err where "try_map (\<lambda>_. deserialize_entry (lib_b64_decode lib)) 0 (map serialize_entry (es @ [e])) = Inl err"
    by (cases "try_map (\<lambda>_. deserialize_entry (lib_b64_decode lib)) 0 (map serialize_entry (es @ [e]))") auto
  moreover have "toml_from_str lib content = Inr (map serialize_entry (es @ [e]))" using law c(2) by (simp add: toml_law_def)
  ultimately show ?thesis
    using c(1) by (simp add: open_store_def calm_def acquire_lock_def read_store_file_def)
qed

end
