(* ===== verification/Approval_Witness.thy ===== *)
theory Approval_Witness
  imports Approval_Safety
begin

text \<open>
  Instances of the properties of the approval store: a concrete base64 codec, a file format that knows the
  four files used below, and a payment that is stored, attested and spent.
\<close>

section \<open>URL-safe base64 without padding\<close>

definition b64_digit :: "nat \<Rightarrow> char" where
  "b64_digit n =
     (if n < 26 then char_of (65 + n) else if n < 52 then char_of (71 + n) else if n < 62 then char_of (n - 4)
      else if n = 62 then CHR ''-'' else CHR ''_'')"

definition b64_value :: "char \<Rightarrow> nat option" where
  "b64_value c =
     (let b = byte_of c in
      if 65 \<le> b \<and> b \<le> 90 then Some (b - 65) else if 97 \<le> b \<and> b \<le> 122 then Some (b - 71)
      else if 48 \<le> b \<and> b \<le> 57 then Some (b + 4) else if b = 45 then Some 62 else if b = 95 then Some 63 else None)"

fun b64url :: "string \<Rightarrow> string" where
  "b64url (x # y # z # rest) =
     b64_digit (byte_of x div 4) # b64_digit (byte_of x mod 4 * 16 + byte_of y div 16) #
     b64_digit (byte_of y mod 16 * 4 + byte_of z div 64) # b64_digit (byte_of z mod 64) # b64url rest"
| "b64url [x, y] =
     [b64_digit (byte_of x div 4), b64_digit (byte_of x mod 4 * 16 + byte_of y div 16), b64_digit (byte_of y mod 16 * 4)]"
| "b64url [x] = [b64_digit (byte_of x div 4), b64_digit (byte_of x mod 4 * 16)]"
| "b64url [] = []"

fun from_values :: "nat list \<Rightarrow> string option" where
  "from_values (p # q # r # s # rest) =
     map_option (\<lambda>t. char_of (p * 4 + q div 16) # char_of (q mod 16 * 16 + r div 4) # char_of (r mod 4 * 64 + s) # t)
       (from_values rest)"
| "from_values [p, q, r] = Some [char_of (p * 4 + q div 16), char_of (q mod 16 * 16 + r div 4)]"
| "from_values [p, q] = Some [char_of (p * 4 + q div 16)]"
| "from_values [p] = None"
| "from_values [] = Some []"

definition un_b64url :: "string \<Rightarrow> string option" where
  "un_b64url s =
     (if list_all (\<lambda>c. b64_value c \<noteq> None) s then from_values (map (\<lambda>c. the (b64_value c)) s) else None)"

lemma b64_value_digit [simp]: "n < 64 \<Longrightarrow> b64_value (b64_digit n) = Some n"
  by (auto simp: b64_value_def b64_digit_def Let_def of_char_bytes)

lemma b64_digit_char [simp]: "n < 64 \<Longrightarrow> b64url_char (b64_digit n)"
  by (auto simp: b64url_char_def b64_digit_def of_char_bytes is_ascii_alphanumeric_def is_ascii_uppercase_def
      is_ascii_lowercase_def is_digit_def)

lemma byte_parts [simp]:
  "byte_of c div 4 < 64" "byte_of c mod 64 < 64" "byte_of c mod 16 * 4 < 64" "byte_of c mod 4 * 16 < 64"
  "byte_of c mod 4 * 16 + byte_of d div 16 < 64" "byte_of c mod 16 * 4 + byte_of d div 64 < 64"
proof -
  have b: "byte_of c < 256" for c by simp
  have d: "byte_of d div 16 < 16" "byte_of d div 64 < 4" using b[of d] by (simp_all add: less_mult_imp_div_less)
  have m: "byte_of c mod 4 < 4" "byte_of c mod 16 < 16" by simp_all
  show "byte_of c div 4 < 64" using b[of c] by (simp add: less_mult_imp_div_less)
  show "byte_of c mod 64 < 64" "byte_of c mod 16 * 4 < 64" "byte_of c mod 4 * 16 < 64"
    "byte_of c mod 4 * 16 + byte_of d div 16 < 64" "byte_of c mod 16 * 4 + byte_of d div 64 < 64"
    using d m by linarith+
qed

lemma byte_quotients [simp]:
  "byte_of c div 16 mod 16 = byte_of c div 16" "byte_of c div 64 mod 4 = byte_of c div 64"
  "byte_of c div 16 div 16 = 0" "byte_of c div 64 div 4 = 0"
proof -
  have "byte_of c < 256" by simp
  then have "byte_of c div 16 < 16" "byte_of c div 64 < 4" by (simp_all add: less_mult_imp_div_less)
  then show "byte_of c div 16 mod 16 = byte_of c div 16" "byte_of c div 64 mod 4 = byte_of c div 64"
    "byte_of c div 16 div 16 = 0" "byte_of c div 64 div 4 = 0" by simp_all
qed

lemma un_b64url_b64url: "un_b64url (b64url bs) = Some bs"
proof -
  have "list_all (\<lambda>c. b64_value c \<noteq> None) (b64url bs) \<and> from_values (map (\<lambda>c. the (b64_value c)) (b64url bs)) = Some bs"
    by (induction bs rule: b64url.induct) simp_all
  then show ?thesis by (simp add: un_b64url_def)
qed

lemma b64url_chars: "list_all b64url_char (b64url bs)"
  by (induction bs rule: b64url.induct) simp_all

lemma b64url_length: "length (b64url bs) = (4 * length bs + 2) div 3"
  by (induction bs rule: b64url.induct) simp_all

section \<open>The sample library\<close>

definition sample_digest :: "string \<Rightarrow> string" where
  "sample_digest m = take 32 (rev m @ replicate 32 (CHR ''0''))"

definition table_write :: "(string \<times> on_disk list) list \<Rightarrow> on_disk list \<Rightarrow> (string, string) result" where
  "table_write t rs =
     (case List.find (\<lambda>(c, x). x = rs) t of Some (c, _) \<Rightarrow> Inr c | None \<Rightarrow> Inl ''unsupported value'')"

definition table_read :: "(string \<times> on_disk list) list \<Rightarrow> string \<Rightarrow> (string, on_disk list) result" where
  "table_read t c = (case map_of t c of Some rs \<Rightarrow> Inr rs | None \<Rightarrow> Inl ''parse error'')"

lemma table_law:
  assumes "distinct (map fst t)" "table_write t rs = Inr c"
  shows "table_read t c = Inr rs"
proof -
  have "(c, rs) \<in> set t"
    using assms(2) by (auto simp: table_write_def find_Some_iff split: option.splits) (metis nth_mem)
  then show ?thesis using assms(1) by (simp add: table_read_def)
qed

definition pay_account :: string where "pay_account = CHR ''G'' # replicate 55 (CHR ''A'')"
definition pay_nonce :: string where "pay_nonce = b64url (replicate 16 (CHR ''n''))"
definition pay_hex :: string where "pay_hex = hex_encode (sample_digest ''AAAA'')"
definition pay_key :: string where "pay_key = replicate 32 (CHR ''k'')"
definition pay_binding :: attestation_binding where
  "pay_binding = \<lparr>ab_profile = ''alice'', ab_chain_id = ''stellar:testnet''\<rparr>"
definition pay_blob :: string where
  "pay_blob = sample_digest (attestation_message pay_binding pay_nonce (sample_digest ''AAAA'') ''1000'')"
definition pay_hash :: string where "pay_hash = replicate 64 (CHR ''a'')"

definition pay_fields :: "string option \<Rightarrow> payment_fields" where
  "pay_fields m =
     \<lparr>pf_xdr = ''AAAA'', pf_sha256_hex = pay_hex, pf_to = pay_account, pf_amount = 100, pf_asset = ''XLM'', pf_memo = m,
      pf_fee = 200, pf_seq = 7\<rparr>"

definition pay_request :: approval_request where "pay_request = approval_request_new ''r'' 60"

definition pay_entry :: "string option \<Rightarrow> pending_approval" where
  "pay_entry m = fresh_entry pay_nonce ''1000'' 1000 61000 (PaymentSimulated (pay_fields m))"

definition attested_entry :: pending_approval where
  "attested_entry = (pay_entry None)\<lparr>pa_attestation := Some (b64url pay_blob)\<rparr>"

definition spent_entry :: pending_approval where
  "spent_entry = consumed_entry pay_hash OutcomeConfirmed attested_entry"

text \<open>The text of the memo is an e with an acute accent, two bytes of UTF-8.\<close>

definition accented :: string where "accented = [CHR 0xC3, CHR 0xA9]"

definition pay_files :: "(string \<times> on_disk list) list" where
  "pay_files =
     [(''p'', [serialize_entry (pay_entry None)]), (''a'', [serialize_entry attested_entry]),
      (''s'', [serialize_entry spent_entry]), (''m'', [serialize_entry (pay_entry (Some accented))])]"

definition pay_lib :: approval_lib where
  "pay_lib =
     \<lparr>lib_b64_encode = b64url, lib_b64_decode = un_b64url, lib_sha256 = sample_digest,
      lib_hmac = (\<lambda>_. sample_digest), toml_to_string = table_write pay_files, toml_from_str = table_read pay_files\<rparr>"

lemma pay_lib_simps [simp]:
  "lib_b64_encode pay_lib = b64url" "lib_b64_decode pay_lib = un_b64url" "lib_sha256 pay_lib = sample_digest"
  "lib_hmac pay_lib k = sample_digest" "toml_to_string pay_lib = table_write pay_files"
  "toml_from_str pay_lib = table_read pay_files"
  by (simp_all add: pay_lib_def)

lemma sample_digest_length [simp]: "length (sample_digest m) = 32"
  by (simp add: sample_digest_def)

lemma pay_laws: "toml_law pay_lib" "b64_law pay_lib" "digest_law pay_lib"
proof -
  have "distinct (map fst pay_files)" by (simp add: pay_files_def)
  then show "toml_law pay_lib" by (simp add: toml_law_def table_law)
  show "b64_law pay_lib" by (simp add: b64_law_def un_b64url_b64url b64url_length b64url_chars)
  show "digest_law pay_lib" by (simp add: digest_law_def)
qed

text \<open>The four entries differ in their attestation, their kind and their memo.\<close>

lemmas entry_defs = pay_entry_def attested_entry_def spent_entry_def consumed_entry_def fresh_entry_def

lemma file_marks:
  "od_attestation (serialize_entry (pay_entry m)) = None" "od_memo (serialize_entry (pay_entry m)) = m"
  "od_attestation (serialize_entry attested_entry) = Some (b64url pay_blob)"
  "od_attestation (serialize_entry spent_entry) = Some (b64url pay_blob)"
  "od_consumed (serialize_entry attested_entry) = None"
  "od_consumed (serialize_entry spent_entry) \<noteq> None"
  by (simp_all add: serialize_fields) (simp_all add: entry_defs serialize_entry_def disk_defs pay_fields_def)

lemma files_differ:
  "serialize_entry (pay_entry m) \<noteq> serialize_entry attested_entry"
  "serialize_entry (pay_entry m) \<noteq> serialize_entry spent_entry"
  "serialize_entry attested_entry \<noteq> serialize_entry spent_entry"
  "serialize_entry (pay_entry None) \<noteq> serialize_entry (pay_entry (Some x))"
  using file_marks by (metis option.distinct(1))+

lemma written_files:
  "table_write pay_files [serialize_entry (pay_entry None)] = Inr ''p''"
  "table_write pay_files [serialize_entry attested_entry] = Inr ''a''"
  "table_write pay_files [serialize_entry spent_entry] = Inr ''s''"
  "table_write pay_files [serialize_entry (pay_entry (Some accented))] = Inr ''m''"
  by (simp_all add: table_write_def pay_files_def files_differ files_differ[symmetric])

section \<open>A stored payment\<close>

definition empty_store :: approval_store where "empty_store = \<lparr>st_entries = [], st_disk = None\<rparr>"
definition pay_store :: approval_store where "pay_store = \<lparr>st_entries = [pay_entry None], st_disk = Some ''p''\<rparr>"
definition attested_store :: approval_store where
  "attested_store = \<lparr>st_entries = [attested_entry], st_disk = Some ''a''\<rparr>"
definition spent_store :: approval_store where "spent_store = \<lparr>st_entries = [spent_entry], st_disk = Some ''s''\<rparr>"

lemma pay_new:
  "new_payment_pending pay_lib (replicate 16 (CHR ''n'')) (Inr 1000) ''AAAA'' ''AAAA'' pay_account 100 ''XLM'' m 200 7
     ''1000'' 60000 = Inr (pay_entry m)"
  by (simp add: new_payment_pending_def approval_now_unix_ms_def pay_entry_def pay_fields_def pay_nonce_def pay_hex_def
      envelope_sha256_def sat_add_u64_def u64_max_def)

lemma pay_account_shape: "strkey_shape (CHR ''G'') 56 pay_account"
  by (simp add: pay_account_def strkey_shape_def list_all_iff is_base32_def is_ascii_uppercase_def)

lemma pay_constructed: "constructed pay_lib (pay_entry None)"
  by (rule constructed.payment[OF pay_new])
    (simp_all add: pay_account_shape asset_text_ok_def memo_ok_def process_uid_is_valid_def is_digit_def)

lemma empty_opens: "open_store pay_lib calm None = Inr empty_store"
  by (simp add: open_store_def calm_def acquire_lock_def empty_store_def)

lemma pay_inserted: "insert_entry pay_lib WriteOk (pay_entry None) 2000 empty_store = (Inr (), pay_store)"
  by (simp add: insert_entry_def Let_def live_entries_def empty_store_def pay_store_def store_with_def
      MAX_PENDING_APPROVALS_def persist_store_def written_files)

lemma pay_reachable: "reachable pay_lib (Session pay_store)"
proof -
  have "reachable pay_lib (Session empty_store)"
    using reachable.step[OF reachable.initial system_step.opens[OF empty_opens]] .
  from reachable.step[OF this system_step.inserts[OF pay_constructed]] show ?thesis
    using pay_inserted by (metis snd_conv)
qed

lemma pay_closed: "reachable pay_lib (Closed (Some ''p''))"
  using reachable.step[OF pay_reachable system_step.ends] by (simp add: pay_store_def)

lemma pay_entry_simps [simp]:
  "pa_nonce (pay_entry m) = pay_nonce" "pa_process_uid (pay_entry m) = ''1000''" "pa_created (pay_entry m) = 1000"
  "pa_expires (pay_entry m) = 61000" "pa_kind (pay_entry m) = PaymentSimulated (pay_fields m)"
  "pa_attestation (pay_entry m) = None"
  by (simp_all add: entry_defs)

lemma attested_entry_simps [simp]:
  "pa_nonce attested_entry = pay_nonce" "pa_process_uid attested_entry = ''1000''" "pa_created attested_entry = 1000"
  "pa_expires attested_entry = 61000" "pa_kind attested_entry = PaymentSimulated (pay_fields None)"
  by (simp_all add: attested_entry_def)

lemma pay_get:
  "get_entry pay_nonce pay_store = Some (pay_entry None)" "get_entry pay_nonce attested_store = Some attested_entry"
  by (simp_all add: get_entry_def pay_store_def attested_store_def)

lemma update_one:
  "pa_nonce e = n \<Longrightarrow> toml_to_string lib [serialize_entry (f e)] = Inr c \<Longrightarrow>
   update_entry lib WriteOk n f \<lparr>st_entries = [e], st_disk = d\<rparr> = (Inr (), \<lparr>st_entries = [f e], st_disk = Some c\<rparr>)"
  by (simp add: update_entry_def store_with_def persist_store_def)

lemma pay_recorded:
  "record_attestation_at pay_lib WriteOk pay_nonce pay_blob 3000 pay_store = (Inr (), attested_store)"
proof -
  have "update_entry pay_lib WriteOk pay_nonce (\<lambda>e. e\<lparr>pa_attestation := Some (b64url pay_blob)\<rparr>) pay_store = (Inr (), attested_store)"
    unfolding pay_store_def attested_store_def attested_entry_def
    by (rule update_one) (simp_all add: written_files flip: attested_entry_def)
  then show ?thesis
    by (simp add: record_attestation_at_def record_blob_def pay_get is_expired_def attestable_def)
qed

definition pay_attest :: attest_env where
  "pay_attest = \<lparr>ae_clock = Inr 3000, ae_row_error = None, ae_grant = (\<lambda>_. Inr ()), ae_write = WriteOk\<rparr>"

definition pay_before :: attest_state where "pay_before = \<lparr>as_store = pay_store, as_rows = []\<rparr>"

definition pay_after :: attest_state where
  "pay_after =
     \<lparr>as_store = attested_store,
      as_rows = [\<lparr>co_kind = ''PaymentSimulated'', co_tool = ''stellar_pay_commit'', co_sha256_hex = Some pay_hex,
        co_nonce = pay_nonce, co_origin = Some ''cli'', co_credential = None\<rparr>]\<rparr>"

lemma pay_hash_decodes: "decode_sha256_hex pay_hex = Inr (sample_digest ''AAAA'')"
  by (simp add: decode_sha256_hex_def pay_hex_def sha256_hex_chunks_encode)

lemma pay_attested:
  "attest_and_persist pay_lib pay_attest (pay_entry None) pay_key pay_binding SurfaceCli None pay_before =
     (Inr (Some (b64url pay_blob)), pay_after)"
proof -
  have k: "length pay_key = 32" by (simp add: pay_key_def)
  have r: "refuse_unless_still_pending pay_store (pay_entry None) 3000 = Inr ()"
    by (simp add: refuse_unless_still_pending_def pay_get is_expired_def)
  have b: "compute_attestation pay_lib pay_key pay_binding pay_nonce (sample_digest ''AAAA'') ''1000'' = pay_blob"
    by (simp add: compute_attestation_def pay_blob_def)
  have "pf_sha256_hex (pay_fields None) = pay_hex" by (simp add: pay_fields_def)
  then have "attest_kind pay_lib pay_attest (pay_entry None) pay_key pay_binding SurfaceCli None 3000 pay_before =
      (Inr (Some (b64url pay_blob)), pay_after)"
    by (simp add: attest_kind_def attest_envelope_and_persist_def pay_hash_decodes b row_then_record_def
        emit_attested_audit_def pay_attest_def pay_before_def pay_recorded pay_after_def surface_text_def)
  then show ?thesis
    by (simp add: attest_and_persist_def binding_matches_def k failure_clock_def r) (simp add: pay_attest_def pay_before_def r)
qed

definition pay_gate :: "approval_store \<Rightarrow> gate_env" where
  "pay_gate s =
     \<lparr>ge_binding = pay_binding, ge_receipt = (\<lambda>_. Inr False), ge_store = Inr s, ge_clock = Inr 4000, ge_key = Inr pay_key\<rparr>"

lemma pay_gate_simps [simp]:
  "ge_binding (pay_gate s) = pay_binding" "ge_receipt (pay_gate s) n = Inr False" "ge_store (pay_gate s) = Inr s"
  "ge_clock (pay_gate s) = Inr 4000" "ge_key (pay_gate s) = Inr pay_key"
  by (simp_all add: pay_gate_def)

lemma pay_consumed:
  "consume_entry pay_lib WriteOk pay_nonce pay_hash OutcomeConfirmed attested_store = (Inr True, spent_store)"
proof -
  have "update_entry pay_lib WriteOk pay_nonce (consumed_entry pay_hash OutcomeConfirmed) attested_store = (Inr (), spent_store)"
    unfolding attested_store_def spent_store_def spent_entry_def
    by (rule update_one) (simp_all add: written_files flip: spent_entry_def)
  moreover have "validate_consumed ''PaymentSimulated'' pay_hash (outcome_label OutcomeConfirmed) = Inr ()"
    by (simp add: validate_consumed_def pay_hash_def list_all_iff list_ex_iff is_hexdigit_def is_ascii_uppercase_def)
  ultimately show ?thesis by (simp add: consume_entry_def pay_get kind_name_def)
qed

lemma attested_reachable: "reachable pay_lib (Session attested_store)"
  using reachable.step[OF pay_reachable system_step.attests[of pay_lib pay_store WriteOk pay_nonce pay_blob 3000]] pay_recorded
  by simp

section \<open>Witnesses\<close>


definition busy :: open_env where
  "busy = \<lparr>oe_dir_error = None, oe_lock = LockHeld, oe_read_error = None\<rparr>"


theorem open_with_retry_ends_witness:
  "open_with_retry pay_lib (\<lambda>_. busy) (\<lambda>_. None) 5 = (Inl WriterLocked, 5)"
proof -
  have "open_store pay_lib busy None = Inl WriterLocked" by (simp add: open_store_def busy_def acquire_lock_def)
  then show ?thesis
    using open_with_retry_ends[of pay_lib "\<lambda>_. busy" "\<lambda>_. None" 5] by (auto simp: prod_eq_iff)
qed

theorem settled_approval_stays_refused_witness:
  "consume_entry pay_lib WriteOk pay_nonce pay_hash OutcomeConfirmed attested_store = (Inr True, spent_store) \<and>
   verify_attestation_gate pay_lib (pay_gate spent_store) (Some pay_request) GatedPayment ''AAAA'' (Some pay_nonce)
     (Some (b64url pay_blob)) \<noteq> Inr ()"
  using settled_approval_stays_refused[OF attested_reachable pay_laws(1,2) disjI1[OF pay_consumed] later.now,
      of "pay_gate spent_store"] pay_consumed
  by simp

theorem attested_payment_commits_witness:
  "verify_attestation_gate pay_lib (pay_gate attested_store) (Some pay_request) GatedPayment ''AAAA'' (Some pay_nonce)
     (Some (b64url pay_blob)) = Inr () \<and>
   verify_attestation_gate pay_lib (pay_gate attested_store) (Some pay_request) GatedPayment ''BBBB'' (Some pay_nonce)
     (Some (b64url pay_blob)) = Inl ApprovalRequired"
proof -
  have "verify_attestation_gate pay_lib (pay_gate (as_store pay_after)) (Some pay_request) GatedPayment xdr
      (Some (pa_nonce (pay_entry None))) (Some (b64url pay_blob)) =
      (if hex_encode (lib_sha256 pay_lib xdr) = pf_sha256_hex (pay_fields None) then Inr () else Inl ApprovalRequired)" for xdr
    by (rule attested_payment_commits[OF pay_attested _ pay_laws(2,3), where current = "pay_entry None" and now = 4000])
      (simp_all add: pay_get pay_before_def pay_request_def approval_request_new_def u64_max_def)
  note g = this[of "''AAAA''"] this[of "''BBBB''"]
  have "hex_encode (sample_digest ''AAAA'') = pay_hex" "hex_encode (sample_digest ''BBBB'') \<noteq> pay_hex"
    by (simp_all add: pay_hex_def sample_digest_def hex_byte_def nibble_to_char_def)
  then show ?thesis using g by (simp add: pay_after_def pay_fields_def)
qed

lemma pay_blob_bytes: "blob_bytes pay_lib (Some (b64url pay_blob)) = Some pay_blob"
  by (simp add: blob_bytes_def un_b64url_b64url pay_blob_def)

lemma pay_gate_open:
  "verify_attestation_gate pay_lib (pay_gate attested_store) (Some pay_request) GatedPayment ''AAAA'' (Some pay_nonce)
     (Some (b64url pay_blob)) = Inr ()"
proof -
  have "compute_attestation pay_lib pay_key pay_binding pay_nonce (sample_digest ''AAAA'') ''1000'' = pay_blob"
    by (simp add: compute_attestation_def pay_blob_def)
  moreover have "pf_sha256_hex (pay_fields None) = hex_encode (sample_digest ''AAAA'')"
    by (simp add: pay_fields_def pay_hex_def)
  ultimately show ?thesis
    by (simp add: verify_attestation_gate_def pay_blob_bytes required_ok_def pay_get gate_entry_def is_expired_def
        stored_sha256_hex_def envelope_sha256_def verify_attestation_def pay_request_def approval_request_new_def
        sat_add_u64_def sat_mul_u64_def u64_max_def)
qed

theorem gate_accepts_only_attested_witness:
  "fits pay_binding pay_nonce ''1000'' \<and> digest_law pay_lib \<and>
   un_b64url (b64url pay_blob) =
     Some (compute_attestation pay_lib pay_key pay_binding pay_nonce (sample_digest ''AAAA'') ''1000'') \<and>
   (\<exists>e. get_entry pay_nonce attested_store = Some e \<and> 4000 < pa_expires e \<and> \<not> settled (pa_kind e))"
proof -
  have f: "fits pay_binding pay_nonce ''1000''" "fits (ge_binding (pay_gate attested_store)) pay_nonce []"
    by (simp_all add: fits_def pay_binding_def pay_nonce_def b64url_length u32_max_def)
  have a: "lib_b64_decode pay_lib (b64url pay_blob) =
      Some (compute_attestation pay_lib pay_key pay_binding pay_nonce (sample_digest ''AAAA'') ''1000'')"
    by (simp add: un_b64url_b64url compute_attestation_def pay_blob_def)
  have u: "length (pa_process_uid e) \<le> u32_max" if "e \<in> set (st_entries attested_store)" for e
    using that by (simp add: attested_store_def u32_max_def)
  show ?thesis
    using gate_accepts_only_attested[OF pay_gate_open pay_gate_simps(5,3,4) a f(1) _ f(2) pay_laws(3) u] f(1) a pay_laws(3)
    by (auto simp del: pay_gate_simps)
qed

theorem consent_row_precedes_attestation_witness:
  "attest_and_persist pay_lib pay_attest (pay_entry None) pay_key pay_binding SurfaceCli None pay_before =
     (Inr (Some (b64url pay_blob)), pay_after) \<and>
   as_store pay_after \<noteq> as_store pay_before \<and>
   (\<exists>row. as_rows pay_after = as_rows pay_before @ [row] \<and> co_nonce row = pay_nonce \<and> co_kind row = ''PaymentSimulated'')"
proof -
  have "as_store pay_after \<noteq> as_store pay_before"
    by (simp add: pay_after_def pay_before_def attested_store_def pay_store_def)
  then show ?thesis
    using consent_row_precedes_attestation[OF pay_attested] pay_attested by (auto simp: kind_name_def)
qed

definition pay_tool :: tool_env where
  "pay_tool =
     \<lparr>te_dir_error = None, te_opens = (\<lambda>_. calm), te_disks = (\<lambda>_. None), te_uid = Inr ''1000'',
      te_raw = replicate 16 (CHR ''n''), te_created = Inr 1000, te_now = Inr 2000, te_write = WriteOk\<rparr>"

lemma pay_entry_request:
  "new_payment_pending pay_lib (replicate 16 (CHR ''n'')) (Inr 1000) ''AAAA'' ''AAAA'' pay_account 100 ''XLM'' m 200 7
     ''1000'' APPROVAL_TTL_MS = Inr x \<Longrightarrow> with_policy_request pay_request x = pay_entry m"
  by (auto simp: new_payment_pending_def approval_now_unix_ms_def pay_entry_def pay_fields_def pay_nonce_def pay_hex_def
      envelope_sha256_def sat_add_u64_def u64_max_def with_policy_request_def fresh_entry_def pay_request_def
      approval_request_new_def)

theorem unprintable_memo_blocks_store_witness:
  "memo_text_new accented = Inr accented \<and> utf8_valid accented \<and>
   (\<exists>s. persist_pay_pending_approval pay_lib pay_tool ''AAAA'' pay_account 100 ''XLM'' (memo_summary (MemoText accented)) 200 7
      pay_request = (Inr (pay_entry (Some accented)), Some s) \<and>
      (\<exists>err. open_store pay_lib calm (st_disk s) = Inl (ATomlEntry err)))"
proof -
  have t: "memo_text_new accented = Inr accented" "parse_memo_fields (Some accented) None None None = Inr (MemoText accented)"
    by (simp_all add: memo_text_new_def MCP_MEMO_TEXT_MAX_BYTES_def accented_def parse_memo_fields_def Let_def)
  have v: "utf8_valid accented" by code_simp
  have np: "\<not> list_all printable accented" by (simp add: accented_def printable_def)
  let ?s = "\<lparr>st_entries = [pay_entry (Some accented)], st_disk = Some ''m''\<rparr>"
  have o: "fst (open_with_retry pay_lib (\<lambda>_. calm) (\<lambda>_. None) DEFAULT_RETRY_ATTEMPTS) = Inr empty_store"
    by (simp add: open_with_retry_def retry_open.simps empty_opens)
  have i: "insert_entry pay_lib WriteOk (pay_entry (Some accented)) 2000 empty_store = (Inr (), ?s)"
    by (simp add: insert_entry_def Let_def live_entries_def empty_store_def store_with_def MAX_PENDING_APPROVALS_def
        persist_store_def written_files)
  obtain x where x: "new_payment_pending pay_lib (replicate 16 (CHR ''n'')) (Inr 1000) ''AAAA'' ''AAAA'' pay_account 100 ''XLM''
      (Some accented) 200 7 ''1000'' APPROVAL_TTL_MS = Inr x"
    by (simp add: new_payment_pending_def approval_now_unix_ms_def)
  have p: "persist_pay_pending_approval pay_lib pay_tool ''AAAA'' pay_account 100 ''XLM'' (memo_summary (MemoText accented)) 200 7
      pay_request = (Inr (pay_entry (Some accented)), Some ?s)"
    by (simp add: persist_pay_pending_approval_def persist_pending_def pay_tool_def o memo_summary_def v x
        pay_entry_request[OF x] i Let_def)
  show ?thesis
    using unprintable_memo_blocks_store[OF t v np pay_laws(1) p] t v p by blast
qed

end
