(* ===== verification/Spending_Limits.thy ===== *)
theory Spending_Limits
  imports Policy_Engine
begin

text \<open>
  What the engine guarantees for single calls: the verdict of the first matching
  rule, per-transaction and per-period caps, rate limits, approval thresholds and
  fail-closed treatment of effects that cannot be sized.  The window properties
  hold along arbitrary sequences of evaluations and confirmed submissions.
\<close>

section \<open>Caps on one call\<close>

lemma debits_effective [simp]: "debits asset (effective_value rule value) = debits asset value"
  by (auto simp: effective_value_def debits_def split: value_class.split)

lemma sat_sum_le_exact:
  assumes "xs = [] \<or> sat_sum_i128 xs \<le> m" "\<forall>x\<in>set xs. 0 \<le> x" "0 \<le> m" "m < i128_max"
  shows "sum_list xs \<le> m"
  using assms sat_sum_i128_exact[of xs] by auto

lemma call_context_simps [simp]:
  "ctx_value (call_context eng tool args p value vs) = value"
  "ctx_bundle (call_context eng tool args p value vs) = None"
  "ctx_tool (call_context eng tool args p value vs) = tool"
  "ctx_now_ms (call_context eng tool args p value vs) = v_now_ms vs"
  "ctx_profile_name (call_context eng tool args p value vs) = eng_profile_name eng"
  by (simp_all add: call_context_def)

text \<open>
  C3. Per-transaction caps hold for every permitted call: when the engine answers
  allow or require-approval, the debits of a capped asset add up to at most the
  cap, for every \<^verbatim>\<open>per_tx_cap\<close> of the first matching rule and over all legs.
\<close>

theorem permitted_within_tx_cap:
  assumes "fst (evaluate_with_value eng tool args p value vs s) = Inr d" "permits d"
    and "first_rule eng tool = Some rule" "PerTxCap asset m \<in> set (r_criteria rule)"
    and "\<forall>x\<in>set (debits asset value). 0 \<le> x" "0 \<le> m" "m < i128_max"
  shows "sum_list (debits asset value) \<le> m"
proof -
  let ?ctx = "call_context eng tool args p (effective_value rule value) vs"
  have "fst (evaluate_decision (PerTxCap asset m) ?ctx s) = Inr Allow \<or>
      (\<exists>req. fst (evaluate_decision (PerTxCap asset m) ?ctx s) = Inr (RequireApproval req))"
    using permitted_criterion assms(1-4) by (simp add: evaluate_with_value_inner)
  then have "per_tx_cap_evaluate asset m ?ctx = Inr None"
    by (cases "per_tx_cap_evaluate asset m ?ctx") (auto simp: evaluate_decision_fst decision_of_verdict_approval)
  then show ?thesis using per_tx_cap_allows assms(5-7) sat_sum_le_exact by fastforce
qed

text \<open>
  C5. A call allowed without approval stays at or below every approval threshold:
  an outright allow implies that the debits of the asset add up to at most the
  threshold of each \<^verbatim>\<open>approval_above\<close> of the first matching rule.
\<close>

theorem allowed_below_approval_threshold:
  assumes "fst (evaluate_with_value eng tool args p value vs s) = Inr Allow"
    and "first_rule eng tool = Some rule" "ApprovalAbove asset m \<in> set (r_criteria rule)"
    and "\<forall>x\<in>set (debits asset value). 0 \<le> x" "0 \<le> m" "m < i128_max"
  shows "sum_list (debits asset value) \<le> m"
proof -
  let ?ctx = "call_context eng tool args p (effective_value rule value) vs"
  have "approval_above_evaluate asset m ?ctx = Inr None"
    using allowed_criterion[of eng tool args p "value" vs s rule "ApprovalAbove asset m"] assms(1-3)
    by (simp add: evaluate_with_value_inner)
  then show ?thesis using approval_above_allows assms(4-6) sat_sum_le_exact by fastforce
qed



lemma evaluate_with_value_same:
  assumes "v_now_ms vs = Some now"
  shows "same_from now s (snd (evaluate_with_value eng tool args p value vs s))"
proof -
  have "same_for (call_context eng tool args p v vs) s (snd (evaluate_rule eng rule tool args p value vs s))"
    if "v = effective_value rule value" for rule v
    using criteria_loop_same[of "call_context eng tool args p v vs" s None "r_criteria rule"] that
    by (auto simp: evaluate_rule_def split: prod.splits sum.splits)
  then show ?thesis
    using assms
    by (auto simp: evaluate_with_value_inner evaluate_inner_first_rule same_for_def split: option.split)
qed

text \<open>
  C7. Evaluating a call is observably read-only: although every stateful
  criterion evicts old entries, no window query at the evaluation time or later
  can distinguish the store before from the store after.
\<close>

theorem evaluation_is_unobservable:
  assumes "v_now_ms vs = Some now" "now \<le> t"
  shows "fst (query_window (snd (evaluate_with_value eng tool args p value vs s)) k t) =
         fst (query_window s k t)"
  using evaluate_with_value_same[OF assms(1), of s eng tool args p "value"] assms(2)
  by (simp add: same_from_def)

section \<open>What evaluation and recording do to the store\<close>

definition evicts :: "state_store \<Rightarrow> state_store \<Rightarrow> bool" where
  "evicts s s' \<longleftrightarrow> poisoned s' = poisoned s \<and> (\<forall>k. \<exists>P. entries s' k = filter P (entries s k))"

lemma evicts_refl [simp]: "evicts s s"
  unfolding evicts_def by (auto intro: exI[of _ "\<lambda>_. True"])

lemma evicts_trans: "evicts s s' \<Longrightarrow> evicts s' s'' \<Longrightarrow> evicts s s''"
  unfolding evicts_def by (metis filter_filter)

lemma query_window_evicts [simp]: "evicts s (snd (query_window s k now))"
  unfolding evicts_def
proof (intro conjI allI)
  fix k'
  show "\<exists>P. entries (snd (query_window s k now)) k' = filter P (entries s k')"
  proof (cases "k' = k")
    case True
    then show ?thesis
      by (cases "poisoned s \<or> find (skewed now) (entries s k) \<noteq> None")
         (auto intro: exI[of _ "\<lambda>_. True"])
  qed (auto intro: exI[of _ "\<lambda>_. True"])
qed simp

lemma with_window_evicts [simp]: "evicts s (snd (with_window kind ctx key f s))"
  by (auto simp: with_window_snd split: option.split)

lemma evaluate_decision_evicts: "evicts s (snd (evaluate_decision c ctx s))"
proof -
  have "evicts s (snd (evaluate_criterion c ctx s))"
    by (cases c) (auto simp: stateful_criteria_defs split: value_gate.split sum.split option.split)
  then show ?thesis by (auto simp: evaluate_decision_def split: prod.split)
qed

lemma criteria_loop_evicts: "evicts s (snd (criteria_loop ctx escalation cs s))"
proof (induction cs arbitrary: s escalation)
  case (Cons c cs)
  then show ?case
    using evaluate_decision_evicts[of s c ctx]
    by (cases "evaluate_decision c ctx s"; cases "fst (evaluate_decision c ctx s)")
       (auto split: decision.split intro: evicts_trans)
qed simp

lemma evaluate_with_value_evicts: "evicts s (snd (evaluate_with_value eng tool args p value vs s))"
proof -
  have "evicts s (snd (evaluate_rule eng rule tool args p value vs s))" for rule
    using criteria_loop_evicts[of s "call_context eng tool args p (effective_value rule value) vs" None
        "r_criteria rule"]
    by (auto simp: evaluate_rule_def split: prod.splits sum.splits)
  then show ?thesis
    by (auto simp: evaluate_with_value_inner evaluate_inner_first_rule split: option.split)
qed

definition settled_entry :: "window_entry \<Rightarrow> state_entry" where
  "settled_entry e = \<lparr>timestamp_ms = we_timestamp_ms e, amount = we_amount e, pending = False\<rparr>"

text \<open>The store grows by exactly the entries a recording returns, under their keys.\<close>

definition grows_by :: "window_entry list \<Rightarrow> state_store \<Rightarrow> state_store \<Rightarrow> bool" where
  "grows_by es s s' \<longleftrightarrow>
     (\<forall>k. entries s' k = entries s k @ map settled_entry (filter (\<lambda>e. we_key e = k) es))"

lemma grows_by_append: "grows_by es s s' \<Longrightarrow> grows_by es' s' s'' \<Longrightarrow> grows_by (es @ es') s s''"
  by (simp add: grows_by_def)

lemma grows_by_Nil [simp]: "grows_by [] s s"
  by (simp add: grows_by_def)

lemma record_amounts_grows:
  "record_amounts kind key now limit xs s = (Inr es, s') \<Longrightarrow>
   es = map (\<lambda>x. window_entry_new key now x limit) xs \<and> grows_by es s s'"
proof (induction xs arbitrary: s es)
  case (Cons x xs)
  let ?s1 = "snd (append_settled s key now x)"
  obtain es' where np: "\<not> poisoned s" and r: "record_amounts kind key now limit xs ?s1 = (Inr es', s')"
      and es: "es = window_entry_new key now x limit # es'"
    using Cons.prems
    by (auto simp: append_settled_def append_entry_def split: prod.splits sum.splits if_splits)
  have "grows_by [window_entry_new key now x limit] s ?s1"
    using np by (auto simp: grows_by_def append_settled_def settled_entry_def window_entry_new_def)
  then show ?case using Cons.IH[OF r] es grows_by_append by fastforce
qed simp

lemma record_now_grows:
  "record_now kind ctx key limit xs s = (Inr es, s') \<Longrightarrow>
   (\<exists>now. ctx_now_ms ctx = Some now \<and> es = map (\<lambda>x. window_entry_new key now x limit) xs) \<and> grows_by es s s'"
  by (auto simp: record_now_def split: option.splits dest: record_amounts_grows)

lemmas record_defs =
  record_confirmed_criterion_def per_period_cap_record_def rate_limit_record_def
  bundle_per_period_cap_record_def bundle_rate_limit_record_def

lemma record_criterion_grows:
  "record_confirmed_criterion c ctx s = (Inr es, s') \<Longrightarrow> grows_by es s s'"
  by (auto simp: record_defs split: criterion.splits value_class.splits list.splits option.splits if_splits
      dest: record_now_grows)

lemma record_loop_grows: "record_loop ctx cs s = (Inr es, s') \<Longrightarrow> grows_by es s s'"
  by (induction cs arbitrary: s es)
     (auto split: prod.splits sum.splits intro: grows_by_append dest: record_criterion_grows)

section \<open>Sequences of gated submissions\<close>

text \<open>
  A run of one agent process: calls are evaluated, and a permitted call is
  recorded once its submission is confirmed.  Time does not run backwards.
  Confirmed calls are those of one policy rule, whose limits are the ones in
  question; evaluations of any call may happen in between.
\<close>

definition nonneg_value :: "value_class \<Rightarrow> bool" where
  "nonneg_value v =
     (case v of ValueMoves legs \<Rightarrow> list_all (\<lambda>l. case leg_amount l of None \<Rightarrow> True | Some x \<Rightarrow> 0 \<le> x) legs
      | _ \<Rightarrow> True)"

inductive spend_run :: "policy_engine \<Rightarrow> policy_rule \<Rightarrow> state_store \<Rightarrow> nat \<Rightarrow> state_store \<Rightarrow> nat \<Rightarrow> bool"
  for eng rule where
  start: "spend_run eng rule s t s t"
| evaluated:
    "spend_run eng rule s0 t0 s t \<Longrightarrow> v_now_ms vs = Some now \<Longrightarrow> t \<le> now \<Longrightarrow>
     evaluate_with_value eng tool args p value vs s = (r, s') \<Longrightarrow>
     spend_run eng rule s0 t0 s' now"
| confirmed:
    "spend_run eng rule s0 t0 s t \<Longrightarrow> v_now_ms vs = Some now \<Longrightarrow> t \<le> now \<Longrightarrow> now \<le> now' \<Longrightarrow>
     first_rule eng tool = Some rule \<Longrightarrow> nonneg_value value \<Longrightarrow>
     evaluate_with_value eng tool args p value vs s = (Inr d, s') \<Longrightarrow> permits d \<Longrightarrow>
     record_confirmed eng tool p value (Some now') sk s' = (Inr es, s'') \<Longrightarrow>
     spend_run eng rule s0 t0 s'' now'"

definition engine_amount_key :: "policy_engine \<Rightarrow> string \<Rightarrow> window \<Rightarrow> state_key" where
  "engine_amount_key eng asset w = state_key_new (eng_profile_name eng) 1 (asset_normalise asset) (w_secs w)"

definition engine_rate_key :: "policy_engine \<Rightarrow> window \<Rightarrow> state_key" where
  "engine_rate_key eng w = state_key_new (eng_profile_name eng) 1 ''rate_limit'' (w_secs w)"

text \<open>The window bucket a criterion records a single call in.\<close>

definition criterion_key :: "policy_engine \<Rightarrow> criterion \<Rightarrow> state_key option" where
  "criterion_key eng c =
     (case c of
        PerPeriodCap asset w _ \<Rightarrow> Some (engine_amount_key eng asset w)
      | RateLimit w _ \<Rightarrow> Some (engine_rate_key eng w)
      | _ \<Rightarrow> None)"

text \<open>A rule in which exactly one criterion accounts on a bucket.\<close>

definition sole_writer :: "policy_engine \<Rightarrow> policy_rule \<Rightarrow> criterion \<Rightarrow> bool" where
  "sole_writer eng rule c \<longleftrightarrow>
     filter (\<lambda>c'. criterion_key eng c' = criterion_key eng c) (r_criteria rule) = [c]"

lemma call_context_keys [simp]:
  "amount_key (call_context eng tool args p value vs) asset w = engine_amount_key eng asset w"
  "rate_key (call_context eng tool args p value vs) w = engine_rate_key eng w"
  "bundle_accumulated (call_context eng tool args p value vs) k = 0"
  by (simp_all add: amount_key_def engine_amount_key_def rate_key_def engine_rate_key_def bundle_accumulated_def)

lemma key_window_secs [simp]:
  "window_secs (engine_amount_key eng asset w) = w_secs w"
  "window_secs (engine_rate_key eng w) = w_secs w"
  by (simp_all add: engine_amount_key_def engine_rate_key_def state_key_new_def)

lemma record_criterion_keys:
  assumes "record_confirmed_criterion c (call_context eng tool args p value vs) s = (Inr es, s')"
    and "e \<in> set es"
  shows "criterion_key eng c = Some (we_key e)"
  using assms
  by (auto simp: record_defs criterion_key_def window_entry_new_def
      split: criterion.splits value_class.splits list.splits option.splits if_splits
      dest!: record_now_grows)

lemma record_loop_keys:
  assumes "record_loop (call_context eng tool args p value vs) cs s = (Inr es, s')" "e \<in> set es"
  shows "\<exists>c\<in>set cs. criterion_key eng c = Some (we_key e)"
  using assms
  by (induction cs arbitrary: s es) (fastforce split: prod.splits sum.splits dest: record_criterion_keys)+

lemma filter_other_keys:
  assumes "record_loop (call_context eng tool args p value vs) cs s = (Inr es, s')"
    and "\<forall>c\<in>set cs. criterion_key eng c \<noteq> Some k"
  shows "filter (\<lambda>e. we_key e = k) es = []"
  using record_loop_keys[OF assms(1)] assms(2) by (fastforce simp: filter_empty_conv)

lemma record_loop_append:
  "record_loop ctx (cs @ ds) s = (Inr es, s') \<Longrightarrow>
   \<exists>es1 es2 s1. record_loop ctx cs s = (Inr es1, s1) \<and> record_loop ctx ds s1 = (Inr es2, s') \<and> es = es1 @ es2"
  by (induction cs arbitrary: s es) (fastforce split: prod.splits sum.splits)+

text \<open>With a sole writer, a recording puts on the bucket what this criterion records.\<close>

lemma record_loop_sole_writer:
  assumes rec: "record_loop (call_context eng tool args p value vs) (r_criteria rule) s = (Inr es, s')"
    and sole: "sole_writer eng rule c" and k: "criterion_key eng c = Some k"
  obtains es' s1 s2 where
    "record_confirmed_criterion c (call_context eng tool args p value vs) s1 = (Inr es', s2)"
    "filter (\<lambda>e. we_key e = k) es = es'"
proof -
  let ?ctx = "call_context eng tool args p value vs"
  obtain pre post where cs: "r_criteria rule = pre @ c # post"
      and pre: "\<forall>c'\<in>set pre. criterion_key eng c' \<noteq> Some k"
      and post: "[] = filter (\<lambda>c'. criterion_key eng c' = Some k) post"
    using sole k by (auto simp: sole_writer_def filter_eq_Cons_iff)
  have out: "\<forall>c'\<in>set pre \<union> set post. criterion_key eng c' \<noteq> Some k"
    using pre post[symmetric] by (auto simp: filter_empty_conv)
  obtain es1 es2 s1 where 1: "record_loop ?ctx pre s = (Inr es1, s1)"
      and 2: "record_loop ?ctx (c # post) s1 = (Inr es2, s')" and es: "es = es1 @ es2"
    using record_loop_append rec[unfolded cs] by blast
  obtain es3 es4 s2 where 3: "record_confirmed_criterion c ?ctx s1 = (Inr es3, s2)"
      and 4: "record_loop ?ctx post s2 = (Inr es4, s')" and es2: "es2 = es3 @ es4"
    using 2 by (auto split: prod.splits sum.splits)
  have "filter (\<lambda>e. we_key e = k) es1 = []" "filter (\<lambda>e. we_key e = k) es4 = []"
    using filter_other_keys[OF 1] filter_other_keys[OF 4] out by simp_all
  moreover have "filter (\<lambda>e. we_key e = k) es3 = es3"
    using record_criterion_keys[OF 3] k by (auto simp: filter_id_conv)
  ultimately show ?thesis using that[OF 3] es es2 by simp
qed

lemma recorded_debits_nonneg:
  "nonneg_value (ValueMoves legs) \<Longrightarrow> x \<in> set (recorded_debits a legs) \<Longrightarrow> 0 \<le> x"
  by (induction legs) (auto simp: nonneg_value_def split: if_splits option.splits)

lemma debits_nonneg: "nonneg_value v \<Longrightarrow> x \<in> set (debits a v) \<Longrightarrow> 0 \<le> x"
  by (auto simp: debits_def split: value_class.splits dest: recorded_debits_nonneg)

lemma query_window_Inr:
  "fst (query_window s k now) = Inr (used, calls) \<Longrightarrow>
   (used, calls) = window_sum (live (window_secs k) now (entries s k))"
  by (auto simp: query_window_result live_def split: if_splits option.splits)

lemma sat_add_zero: "in_i128 a \<Longrightarrow> sat_add_i128 a 0 = a"
  by (simp add: sat_add_i128_def mi128.clamp_id)

lemma window_sum_range: "in_i128 (fst (window_sum es))"
  by (simp add: window_sum_eq sat_sum_i128_range)

lemma per_period_cap_recorded:
  assumes "record_confirmed_criterion (PerPeriodCap asset w m) ctx s = (Inr es, s')" "ctx_now_ms ctx = Some now"
  shows "es = (if debits asset (ctx_value ctx) = [] then []
    else [window_entry_new (amount_key ctx asset w) now (sat_sum_i128 (debits asset (ctx_value ctx)))
            (AmountLimit asset (w_label w) m)])"
  using assms
  by (auto simp: record_defs debits_def split: value_class.splits list.splits dest!: record_now_grows)

lemma rate_limit_recorded:
  assumes "record_confirmed_criterion (RateLimit w m) ctx s = (Inr es, s')" "ctx_now_ms ctx = Some now"
    and "ctx_bundle ctx = None"
  shows "es = [window_entry_new (rate_key ctx w) now 1 (CountLimit (w_label w) m)]"
  using assms by (auto simp: record_defs dest!: record_now_grows)

text \<open>
  One confirmed call, seen from a bucket with a sole writer: the bucket keeps a
  part of its entries and gains what the writer recorded.
\<close>

lemma confirmed_entries:
  assumes "evaluate_with_value eng tool args p value vs s = (r, s')"
    and "first_rule eng tool = Some rule"
    and "record_confirmed eng tool p value (Some now') sk s' = (Inr es, s'')"
    and "sole_writer eng rule c" "criterion_key eng c = Some k"
  obtains es' s1 s2 where
    "record_confirmed_criterion c (call_context eng tool JNull p value (no_views (Some now') sk)) s1 = (Inr es', s2)"
    "entries s'' k = entries s' k @ map settled_entry es'"
proof -
  let ?ctx = "call_context eng tool JNull p value (no_views (Some now') sk)"
  have rl: "record_loop ?ctx (r_criteria rule) s' = (Inr es, s'')"
    using assms(2,3) by (simp add: record_confirmed_def first_rule_def)
  then obtain es' s1 s2 where
      "record_confirmed_criterion c ?ctx s1 = (Inr es', s2)" "filter (\<lambda>e. we_key e = k) es = es'"
    using record_loop_sole_writer[OF _ assms(4,5)] by blast
  then show ?thesis using that record_loop_grows[OF rl] by (simp add: grows_by_def)
qed

lemma permitted_stateful:
  assumes "fst (evaluate_with_value eng tool args p value vs s) = Inr d" "permits d"
    and "first_rule eng tool = Some rule" "c \<in> set (r_criteria rule)" "\<forall>a m. c \<noteq> ApprovalAbove a m"
  shows "fst (evaluate_criterion c (call_context eng tool args p (effective_value rule value) vs) s) = Inr None"
  using permitted_criterion[of eng tool args p "value" vs s d rule c] assms
  by (cases "fst (evaluate_criterion c (call_context eng tool args p (effective_value rule value) vs) s)")
     (auto simp: evaluate_with_value_inner evaluate_decision_fst decision_of_verdict_approval)

lemma sole_writer_in: "sole_writer eng rule c \<Longrightarrow> c \<in> set (r_criteria rule)"
  by (metis sole_writer_def filter_is_subset list.set_intros(1) subsetD)

lemma period_cap_bounded:
  assumes "spend_run eng rule s0 t0 s t" "sole_writer eng rule (PerPeriodCap asset w m)"
    and "amount_window.bounded (w_secs w) m t0 (entries s0 (engine_amount_key eng asset w))"
  shows "amount_window.bounded (w_secs w) m t (entries s (engine_amount_key eng asset w))"
  using assms
proof (induction rule: spend_run.induct)
  case (evaluated s0 t0 s t vs now tool args p "value" r s')
  have "evicts s s'" using evaluate_with_value_evicts evaluated(4) by (metis snd_conv)
  then show ?case
    using evaluated amount_window.bounded_evict amount_window.bounded_later
    unfolding evicts_def by metis
next
  case (confirmed s0 t0 s t vs now now' tool "value" args p d s' sk es s'')
  let ?K = "engine_amount_key eng asset w" and ?c = "PerPeriodCap asset w m"
  have key: "criterion_key eng ?c = Some ?K" by (simp add: criterion_key_def)
  have ev: "fst (evaluate_with_value eng tool args p value vs s) = Inr d"
      "snd (evaluate_with_value eng tool args p value vs s) = s'" using confirmed.hyps by simp_all
  have "evicts s s'" using evaluate_with_value_evicts ev(2) by metis
  then have bs': "amount_window.bounded (w_secs w) m t (entries s' ?K)"
    using confirmed amount_window.bounded_evict unfolding evicts_def by metis
  obtain es' s1 s2 where rec: "record_confirmed_criterion ?c
        (call_context eng tool JNull p value (no_views (Some now') sk)) s1 = (Inr es', s2)"
      and ent: "entries s'' ?K = entries s' ?K @ map settled_entry es'"
    using confirmed_entries[OF confirmed.hyps(7,5,9) confirmed.prems(1) key] by blast
  show ?case
  proof (cases "debits asset value = []")
    case True
    then have "es' = []" using per_period_cap_recorded[OF rec, of now'] by (simp add: no_views_def)
    then show ?thesis using ent bs' confirmed.hyps(3,4) amount_window.bounded_later by simp
  next
    case False
    let ?x = "sat_sum_i128 (debits asset value)"
    have es': "es' = [window_entry_new ?K now' ?x (AmountLimit asset (w_label w) m)]"
      using per_period_cap_recorded[OF rec, of now'] False by (simp add: no_views_def)
    have pc: "fst (per_period_cap_evaluate asset w m (call_context eng tool args p (effective_value rule value) vs) s) = Inr None"
      using permitted_stateful[OF ev(1) confirmed.hyps(8,5) sole_writer_in[OF confirmed.prems(1)]] by simp
    obtain now1 used calls where "v_now_ms vs = Some now1"
        "fst (query_window s ?K now1) = Inr (used, calls)"
        and gate: "sat_add_i128 (sat_add_i128 used 0) ?x \<le> m"
      by (rule per_period_cap_allows[OF pc]) (simp_all add: False)
    then have q: "fst (query_window s ?K now) = Inr (used, calls)" using confirmed.hyps(2) by simp
    have "fst (query_window s' ?K now) = Inr (used, calls)"
      using q evaluate_with_value_same[OF confirmed.hyps(2), of s eng tool args p "value"] ev(2)
      by (simp add: same_from_def)
    then have used: "used = fst (window_sum (live (w_secs w) now (entries s' ?K)))"
      using query_window_Inr by (metis fst_conv key_window_secs(1))
    then have "sat_add_i128 used ?x \<le> m" using gate sat_add_zero[OF window_sum_range] by simp
    then have "fst (window_sum (live (w_secs w) now (entries s' ?K) @ map settled_entry es')) \<le> m"
      using used by (simp add: es' window_sum_eq settled_entry_def window_entry_new_def)
    moreover have "nonneg_entry (settled_entry (window_entry_new ?K now' ?x (AmountLimit asset (w_label w) m)))"
      using sat_sum_i128_nonneg[of "debits asset value"] debits_nonneg[OF confirmed.hyps(6)]
      by (simp add: nonneg_entry_def settled_entry_def window_entry_new_def)
    ultimately show ?thesis
      using amount_window.bounded_append[OF bs'] confirmed.hyps(3,4) ent es' by simp
  qed
qed


lemma rate_limit_bounded:
  assumes "spend_run eng rule s0 t0 s t" "sole_writer eng rule (RateLimit w m)" "m \<le> u32_max"
    and "count_window.bounded (w_secs w) m t0 (entries s0 (engine_rate_key eng w))"
  shows "count_window.bounded (w_secs w) m t (entries s (engine_rate_key eng w))"
  using assms
proof (induction rule: spend_run.induct)
  case (evaluated s0 t0 s t vs now tool args p "value" r s')
  have "evicts s s'" using evaluate_with_value_evicts evaluated(4) by (metis snd_conv)
  then show ?case
    using evaluated count_window.bounded_evict count_window.bounded_later
    unfolding evicts_def by metis
next
  case (confirmed s0 t0 s t vs now now' tool "value" args p d s' sk es s'')
  let ?K = "engine_rate_key eng w" and ?c = "RateLimit w m"
  have key: "criterion_key eng ?c = Some ?K" by (simp add: criterion_key_def)
  have ev: "fst (evaluate_with_value eng tool args p value vs s) = Inr d"
      "snd (evaluate_with_value eng tool args p value vs s) = s'" using confirmed.hyps by simp_all
  have "evicts s s'" using evaluate_with_value_evicts ev(2) by metis
  then have bs': "count_window.bounded (w_secs w) m t (entries s' ?K)"
    using confirmed count_window.bounded_evict unfolding evicts_def by metis
  obtain es' s1 s2 where rec: "record_confirmed_criterion ?c
        (call_context eng tool JNull p value (no_views (Some now') sk)) s1 = (Inr es', s2)"
      and ent: "entries s'' ?K = entries s' ?K @ map settled_entry es'"
    using confirmed_entries[OF confirmed.hyps(7,5,9) confirmed.prems(1) key] by blast
  have es': "es' = [window_entry_new ?K now' 1 (CountLimit (w_label w) m)]"
    using rate_limit_recorded[OF rec, of now'] by (simp add: no_views_def)
  have rl: "fst (rate_limit_evaluate w m (call_context eng tool args p (effective_value rule value) vs) s) = Inr None"
    using permitted_stateful[OF ev(1) confirmed.hyps(8,5) sole_writer_in[OF confirmed.prems(1)]] by simp
  obtain now1 used calls where "v_now_ms vs = Some now1" "fst (query_window s ?K now1) = Inr (used, calls)"
      and gate: "sat_add_u32 calls (to_u32 0) < m"
    by (rule rate_limit_allows[OF rl]) simp_all
  then have "fst (query_window s' ?K now) = Inr (used, calls)"
    using confirmed.hyps(2) evaluate_with_value_same[OF confirmed.hyps(2), of s eng tool args p "value"] ev(2)
    by (simp add: same_from_def)
  then have calls: "calls = snd (window_sum (live (w_secs w) now (entries s' ?K)))"
    using query_window_Inr by (metis snd_conv key_window_secs(2))
  have "calls < m"
    using gate calls by (simp add: sat_add_u32_def to_u32_def window_sum_eq)
  then have "snd (window_sum (live (w_secs w) now (entries s' ?K) @ map settled_entry es')) \<le> m"
    using calls confirmed.prems(2) by (auto simp: es' window_sum_eq to_u32_def split: if_splits)
  then show ?case
    using count_window.bounded_append[OF bs'] confirmed.hyps(3,4) ent es' by simp
qed


section \<open>A concrete policy\<close>

text \<open>
  The instance the witnesses below evaluate: one rule for every tool with a
  per-transaction cap of 100, a daily cap of 150, a limit of two calls a minute
  and an approval threshold of 80 stroops of the native asset.
\<close>

definition one_day :: window where "one_day = \<lparr>w_secs = 86400, w_label = ''1d''\<rparr>"
definition one_minute :: window where "one_minute = \<lparr>w_secs = 60, w_label = ''1m''\<rparr>"

definition sample_rule :: policy_rule where
  "sample_rule =
     \<lparr>r_match = \<lparr>m_tool = ''*'', m_chain = ''*''\<rparr>,
      r_criteria = [PerTxCap ''native'' 100, ApprovalAbove ''native'' 80,
                    PerPeriodCap ''native'' one_day 150, RateLimit one_minute 2],
      r_decision = Allow, r_allow_opaque_signing = False\<rparr>"

definition sample_engine :: policy_engine where
  "sample_engine =
     \<lparr>document = \<lparr>doc_version = 1, doc_scope = AllProfiles, doc_rules = [sample_rule], doc_signature = None\<rparr>,
      eng_profile_name = ''agent'', project_id = None\<rparr>"

definition sample_tool :: tool_descriptor where
  "sample_tool =
     \<lparr>tool_name = ''stellar_pay'', destructive_hint = True, read_only_hint = False,
      chain_id_required = True, tool_chain_id = ''stellar:testnet'', value_kind = MovesValue\<rparr>"

definition sample_profile :: profile where
  "sample_profile = \<lparr>chain_id = Testnet, signer_account = ''G1''\<rparr>"

definition sample_strkey :: strkey where
  "sample_strkey = \<lparr>g_decode = (\<lambda>s. Some s), g_encode = id, c_decode = (\<lambda>s. Some s), c_encode = id\<rparr>"

definition sample_payment :: "int \<Rightarrow> value_class" where
  "sample_payment x =
     ValueMoves [\<lparr>leg_kind = Payment, leg_amount = Some x, leg_asset = Some ''native'',
                  leg_destination = Some ''G2''\<rparr>]"

definition sample_views :: "nat \<Rightarrow> views" where
  "sample_views now = no_views (Some now) sample_strkey"

lemma sample_first_rule: "first_rule sample_engine sample_tool = Some sample_rule"
  by (simp add: first_rule_def engine_rules_def matching_rules_def sample_engine_def sample_rule_def
      sample_tool_def matches_tool_def rule_match_matches_def scope_matches_def)

lemma normalise_native [simp]: "asset_normalise ''native'' = ''native''"
  by code_simp

lemmas sample_defs =
  sample_rule_def sample_engine_def sample_tool_def sample_profile_def sample_strkey_def
  sample_payment_def sample_views_def one_day_def one_minute_def no_views_def

lemmas engine_eval =
  evaluate_rule_def effective_value_def evaluate_decision_def per_tx_cap_evaluate_def
  approval_above_evaluate_def asset_debit_sum_def classify_value_def decision_of_verdict_def
  stateful_criteria_defs with_window_def query_window_def entries_def store_new_def window_sum_def
  amount_key_def rate_key_def state_key_new_def bundle_accumulated_def rule_decision_def
  sat_add_i128_def sat_add_u32_def to_u32_def clamp_def machine_bounds ctx_tool_name_def
  keep_def window_cutoff_def sat_mul_u64_def skewed_def sat_add_u64_def CLOCK_SKEW_TOLERANCE_MS_def

definition sample_store :: state_store where
  "sample_store =
     store_new\<lparr>inner := [engine_amount_key sample_engine ''native'' one_day \<mapsto> [],
                        engine_rate_key sample_engine one_minute \<mapsto> []]\<rparr>"

lemma sample_evaluate:
  "evaluate_with_value sample_engine sample_tool JNull sample_profile (sample_payment 60)
     (sample_views 1000000) store_new = (Inr Allow, sample_store)"
  unfolding evaluate_with_value_inner evaluate_inner_first_rule sample_first_rule
  by (simp add: engine_eval sample_defs sample_store_def call_context_def engine_amount_key_def
      engine_rate_key_def)

lemma sample_debits: "debits ''native'' (sample_payment x) = [x]"
  by (simp add: debits_def sample_payment_def)

theorem permitted_within_tx_cap_witness:
  "fst (evaluate_with_value sample_engine sample_tool JNull sample_profile (sample_payment 60)
      (sample_views 1000000) store_new) = Inr Allow \<and>
   sum_list (debits ''native'' (sample_payment 60)) \<le> 100"
proof -
  have "PerTxCap ''native'' 100 \<in> set (r_criteria sample_rule)" by (simp add: sample_rule_def)
  then show ?thesis
    using permitted_within_tx_cap[OF _ _ sample_first_rule, of JNull sample_profile "sample_payment 60"
        "sample_views 1000000" store_new Allow "''native''" 100]
    by (simp add: sample_evaluate sample_debits permits_def machine_bounds)
qed

theorem allowed_below_approval_threshold_witness:
  "fst (evaluate_with_value sample_engine sample_tool JNull sample_profile (sample_payment 60)
      (sample_views 1000000) store_new) = Inr Allow \<and>
   sum_list (debits ''native'' (sample_payment 60)) \<le> 80"
proof -
  have "ApprovalAbove ''native'' 80 \<in> set (r_criteria sample_rule)" by (simp add: sample_rule_def)
  then show ?thesis
    using allowed_below_approval_threshold[OF _ sample_first_rule, of JNull sample_profile "sample_payment 60"
        "sample_views 1000000" store_new "''native''" 80]
    by (simp add: sample_evaluate sample_debits machine_bounds)
qed


theorem evaluation_is_unobservable_witness:
  "fst (query_window (snd (evaluate_with_value sample_engine sample_tool JNull sample_profile
      (sample_payment 60) (sample_views 1000000) store_new)) (engine_rate_key sample_engine one_minute) 2000000) =
   Inr (0, 0)"
  using evaluation_is_unobservable[of "sample_views 1000000" 1000000 2000000 sample_engine sample_tool JNull
      sample_profile "sample_payment 60" store_new "engine_rate_key sample_engine one_minute"]
  by (simp add: sample_views_def no_views_def query_window_result entries_def store_new_def window_sum_def)

lemma sample_sole_writers:
  "sole_writer sample_engine sample_rule (PerPeriodCap ''native'' one_day 150)"
  "sole_writer sample_engine sample_rule (RateLimit one_minute 2)"
  by (simp_all add: sole_writer_def criterion_key_def sample_rule_def engine_amount_key_def
      engine_rate_key_def state_key_new_def one_day_def one_minute_def)

lemma sample_run:
  "\<exists>s. spend_run sample_engine sample_rule store_new 0 s 1000500 \<and>
       entries s (engine_amount_key sample_engine ''native'' one_day) =
         [\<lparr>timestamp_ms = 1000500, amount = 60, pending = False\<rparr>]"
proof -
  obtain es s2 where rec: "record_confirmed sample_engine sample_tool sample_profile (sample_payment 60)
        (Some 1000500) sample_strkey sample_store = (Inr es, s2)"
      and ent: "entries s2 (engine_amount_key sample_engine ''native'' one_day) =
         [\<lparr>timestamp_ms = 1000500, amount = 60, pending = False\<rparr>]"
    unfolding record_confirmed_def first_rule_def[symmetric] sample_first_rule
    by (simp add: sample_defs sample_store_def record_defs call_context_def record_now_def
        append_settled_def append_entry_def store_new_def entries_def engine_amount_key_def engine_rate_key_def
        amount_key_def rate_key_def state_key_new_def sat_sum_i128_def sat_add_i128_def clamp_def machine_bounds)
  have "nonneg_value (sample_payment 60)" "permits Allow" "v_now_ms (sample_views 1000000) = Some 1000000"
    by (simp_all add: nonneg_value_def sample_payment_def permits_def sample_views_def no_views_def)
  then have "spend_run sample_engine sample_rule store_new 0 s2 1000500"
    using spend_run.confirmed[OF spend_run.start _ _ _ sample_first_rule _ sample_evaluate _ rec] by simp
  then show ?thesis using ent by blast
qed



end
