(* ===== verification/Bundle_Limits.thy ===== *)
theory Bundle_Limits
  imports Spending_Limits
begin

text \<open>
  What the engine guarantees for bundles of inner calls: the hard floor on their
  number, the rejection of unrecognised inner calls next to value-summing caps,
  the aggregate and per-period caps over the whole bundle, and what a confirmed
  bundle leaves in the window store.
\<close>

section \<open>Phase one\<close>

lemma same_for_now: "ctx_now_ms ctx = ctx_now_ms ctx' \<Longrightarrow> same_for ctx s s' = same_for ctx' s s'"
  by (simp add: same_for_def)

lemma bundle_context_simps [simp]:
  "ctx_now_ms (bundle_context eng tool args p value view now sk) = now"
  "ctx_value (bundle_context eng tool args p value view now sk) = value"
  "ctx_bundle (bundle_context eng tool args p value view now sk) = view"
  "ctx_profile_name (bundle_context eng tool args p value view now sk) = eng_profile_name eng"
  by (simp_all add: bundle_context_def call_context_def no_views_def)

lemma bundle_context_keys [simp]:
  "amount_key (bundle_context eng tool args p value view now sk) asset w = engine_amount_key eng asset w"
  "rate_key (bundle_context eng tool args p value view now sk) w = engine_rate_key eng w"
  by (simp_all add: amount_key_def engine_amount_key_def rate_key_def engine_rate_key_def)

definition overlay_after ::
  "policy_engine \<Rightarrow> policy_rule \<Rightarrow> tool_descriptor \<Rightarrow> json \<Rightarrow> profile \<Rightarrow> nat option \<Rightarrow> strkey \<Rightarrow> overlay \<Rightarrow> inner_op list
    \<Rightarrow> overlay" where
  "overlay_after eng rule tool args p now sk ov ops =
     foldl (\<lambda>ov op. accumulate_all (bundle_context eng tool args p ReadOnly None now sk) (r_criteria rule) op ov) ov ops"

text \<open>
  A bundle that passes phase one: every inner call is permitted by the per-call
  criteria on the initial store, with the overlay of the calls before it.
\<close>

lemma inner_loop_permitted:
  assumes "inner_loop eng rule tool args p now sk ops idx ov esc rest s = (Inr (Inr (ov', esc')), s')"
  shows "same_for (bundle_context eng tool args p ReadOnly None now sk) s s' \<and>
    (\<forall>pre op post c. rest = pre @ op # post \<longrightarrow> c \<in> set (r_criteria rule) \<longrightarrow> \<not> is_bundle_level c \<longrightarrow>
       (let ctx = bundle_context eng tool args p (value_class_for_inner op)
                    (Some \<lparr>inners = ops, bv_overlay = overlay_after eng rule tool args p now sk ov pre\<rparr>) now sk
        in fst (evaluate_decision c ctx s) = Inr Allow \<or>
           (\<exists>req. fst (evaluate_decision c ctx s) = Inr (RequireApproval req))))"
  using assms
proof (induction rest arbitrary: idx ov esc s)
  case (Cons op rest)
  let ?cs = "filter (\<lambda>c. \<not> is_bundle_level c) (r_criteria rule)"
  let ?ctx = "bundle_context eng tool args p (value_class_for_inner op) (Some \<lparr>inners = ops, bv_overlay = ov\<rparr>) now sk"
  let ?next = "accumulate_all (bundle_context eng tool args p ReadOnly None now sk) (r_criteria rule) op ov"
  let ?base = "bundle_context eng tool args p ReadOnly None now sk"
  obtain esc1 s1 where cl: "criteria_loop ?ctx esc ?cs s = (Inr (Inr esc1), s1)"
      and rest: "inner_loop eng rule tool args p now sk ops (idx + 1) ?next esc1 rest s1 = (Inr (Inr (ov', esc')), s')"
    using Cons.prems by (auto simp: Let_def split: prod.splits sum.splits)
  have same: "same_for ctx s s1" if "ctx_now_ms ctx = now" for ctx
    using criteria_loop_same[of ?ctx s esc ?cs] cl same_for_now[of ctx ?ctx] that by simp
  note IH = Cons.IH[OF rest]
  have head: "fst (evaluate_decision c ?ctx s) = Inr Allow \<or>
      (\<exists>req. fst (evaluate_decision c ?ctx s) = Inr (RequireApproval req))"
    if "c \<in> set (r_criteria rule)" "\<not> is_bundle_level c" for c
    using verdict_loop_permitted[of "\<lambda>c. fst (evaluate_decision c ?ctx s)" esc ?cs esc1 c]
      criteria_loop_fst[of ?ctx esc ?cs s] cl that by simp
  have later: "fst (evaluate_decision c ctx s) = fst (evaluate_decision c ctx s1)" if "ctx_now_ms ctx = now" for c ctx
    using evaluate_decision_cong same that by blast
  show ?case
  proof (intro conjI allI impI)
    show "same_for ?base s s'" using IH same same_for_trans bundle_context_simps(1) by blast
  next
    fix pre op' post c
    assume *: "op # rest = pre @ op' # post" "c \<in> set (r_criteria rule)" "\<not> is_bundle_level c"
    show "let ctx = bundle_context eng tool args p (value_class_for_inner op')
                (Some \<lparr>inners = ops, bv_overlay = overlay_after eng rule tool args p now sk ov pre\<rparr>) now sk
          in fst (evaluate_decision c ctx s) = Inr Allow \<or>
             (\<exists>req. fst (evaluate_decision c ctx s) = Inr (RequireApproval req))"
    proof (cases pre)
      case Nil
      then show ?thesis using head * by (simp add: Let_def overlay_after_def)
    next
      case (Cons x pre')
      then have "rest = pre' @ op' # post" "x = op" using *(1) by auto
      then show ?thesis
        using IH *(2,3) Cons later by (simp add: Let_def overlay_after_def)
    qed
  qed
qed simp

section \<open>Permitted bundles\<close>

definition summing_rule :: "policy_rule \<Rightarrow> bool" where
  "summing_rule rule = list_ex (\<lambda>c. criterion_kind c \<in> set VALUE_SUMMING_BUNDLE_CAPS) (r_criteria rule)"

lemma bundle_level_not_approval: "is_bundle_level c \<Longrightarrow> c \<noteq> ApprovalAbove a m"
  by auto

lemma evaluate_bundle_permitted:
  assumes "fst (evaluate_bundle eng tool args p ops now sk s) = Inr d" "permits d"
    and rule: "first_rule eng tool = Some rule"
  shows "length ops \<le> DEFAULT_INNER_INVOCATION_COUNT_CAP"
    and "\<exists>ov esc s1. inner_loop eng rule tool args p now sk ops 0 Map.empty None ops s = (Inr (Inr (ov, esc)), s1)"
    and "summing_rule rule \<Longrightarrow> generic_loop 0 ops = None"
    and "\<And>c. c \<in> set (r_criteria rule) \<Longrightarrow> is_bundle_level c \<Longrightarrow>
      \<exists>ov. fst (evaluate_criterion c
        (bundle_context eng tool args p ReadOnly (Some \<lparr>inners = ops, bv_overlay = ov\<rparr>) now sk) s) = Inr None"
proof -
  show len: "length ops \<le> DEFAULT_INNER_INVOCATION_COUNT_CAP"
    using assms(1,2) by (auto simp: evaluate_bundle_def permits_def split: if_splits)
  obtain ov esc s1 where il: "inner_loop eng rule tool args p now sk ops 0 Map.empty None ops s = (Inr (Inr (ov, esc)), s1)"
    using assms len
    by (auto simp: evaluate_bundle_def first_rule_def permits_def split: prod.splits sum.splits)
  then show "\<exists>ov esc s1. inner_loop eng rule tool args p now sk ops 0 Map.empty None ops s = (Inr (Inr (ov, esc)), s1)"
    by blast
  let ?ctx = "bundle_context eng tool args p ReadOnly (Some \<lparr>inners = ops, bv_overlay = ov\<rparr>) now sk"
  let ?cs = "filter is_bundle_level (r_criteria rule)"
  have guard: "summing_rule rule \<longrightarrow> generic_loop 0 ops = None"
    and loop: "\<exists>esc'. fst (criteria_loop ?ctx esc ?cs s1) = Inr (Inr esc')"
    using assms len il
    by (auto simp: evaluate_bundle_def first_rule_def permits_def summing_rule_def restrict_bundle_evaluate_def
        Let_def split: prod.splits sum.splits if_splits option.splits)
  show "summing_rule rule \<Longrightarrow> generic_loop 0 ops = None" using guard by blast
  fix c
  assume c: "c \<in> set (r_criteria rule)" "is_bundle_level c"
  have "same_for ?ctx s s1"
    using inner_loop_permitted[OF il] same_for_now[of ?ctx "bundle_context eng tool args p ReadOnly None now sk"]
    by simp
  then have cong: "fst (evaluate_criterion c ?ctx s) = fst (evaluate_criterion c ?ctx s1)"
    by (rule evaluate_criterion_cong)
  have "fst (evaluate_decision c ?ctx s1) = Inr Allow \<or> (\<exists>req. fst (evaluate_decision c ?ctx s1) = Inr (RequireApproval req))"
    using loop c verdict_loop_permitted by (fastforce simp: criteria_loop_fst)
  then have "fst (evaluate_criterion c ?ctx s1) = Inr None"
    using bundle_level_not_approval[OF c(2)]
    by (cases "fst (evaluate_criterion c ?ctx s1)") (auto simp: evaluate_decision_fst decision_of_verdict_approval)
  then show "\<exists>ov. fst (evaluate_criterion c
        (bundle_context eng tool args p ReadOnly (Some \<lparr>inners = ops, bv_overlay = ov\<rparr>) now sk) s) = Inr None"
    using cong by auto
qed

section \<open>Sums over a bundle\<close>

lemma sat_add_exact:
  assumes "0 \<le> a" "0 \<le> b" "sat_add_i128 a b < i128_max"
  shows "sat_add_i128 a b = a + b"
  using assms mi128.clamp_below_hi[of "a + b"] by (simp add: sat_add_i128_def)

lemma sat_add_le_iff:
  assumes "0 \<le> a" "0 \<le> b" "m < i128_max"
  shows "sat_add_i128 a b \<le> m \<longleftrightarrow> a + b \<le> m"
proof
  assume "sat_add_i128 a b \<le> m"
  then show "a + b \<le> m" using assms sat_add_exact[of a b] by simp
next
  assume "a + b \<le> m"
  then show "sat_add_i128 a b \<le> m"
    using assms mi128.clamp_le[of "a + b"] by (simp add: sat_add_i128_def)
qed

lemma window_used_nonneg:
  "list_all nonneg_entry es \<Longrightarrow> 0 \<le> fst (window_sum (live secs t es))"
  by (simp add: window_sum_eq)
     (rule sat_sum_i128_nonneg, auto simp: live_def list_all_iff nonneg_entry_def)

lemma transfers_append [simp]: "transfers_of a (xs @ ys) = transfers_of a xs @ transfers_of a ys"
  by (induction xs rule: transfers_of.induct) auto

lemma bundle_period_loop_None:
  assumes "m < i128_max" "0 \<le> recorded" "0 \<le> running"
    and "\<forall>x\<in>set (transfers_of (asset_normalise asset) ops). 0 \<le> x"
  shows "bundle_period_loop asset w m recorded running idx ops = None \<longleftrightarrow>
    transfers_of (asset_normalise asset) ops = [] \<or>
    recorded + running + sum_list (transfers_of (asset_normalise asset) ops) \<le> m"
  using assms(3,4)
proof (induction ops arbitrary: running idx)
  case (Cons op ops)
  show ?case
  proof (cases op)
    case (TokenTransfer a f t x)
    let ?T = "transfers_of (asset_normalise asset) ops"
    show ?thesis
    proof (cases "asset_normalise a = asset_normalise asset")
      case True
      then have x: "0 \<le> x" and T: "\<forall>y\<in>set ?T. 0 \<le> y" using Cons.prems by (auto simp: TokenTransfer)
      have "0 \<le> sum_list ?T" using T by (intro sum_list_nonneg) auto
      moreover have gate: "sat_add_i128 (sat_add_i128 recorded running) x \<le> m \<longleftrightarrow> recorded + running + x \<le> m"
        using assms Cons.prems(1) x sat_add_le_iff[of recorded running m] sat_add_exact[of recorded running]
          sat_add_i128_nonneg[of recorded running] sat_add_le_iff[of "sat_add_i128 recorded running" x m]
          mi128.clamp_le[of "recorded + running"]
        by (smt (verit) sat_add_i128_def mi128.clamp_below_hi)
      moreover have "sat_add_i128 running x = running + x" if "recorded + running + x \<le> m"
        using that assms(1,2) Cons.prems(1) x by (simp add: sat_add_i128_def clamp_def machine_bounds)
      ultimately show ?thesis
        using Cons.IH[of "running + x" "Suc idx"] Cons.prems(1) x T True
        by (auto simp: TokenTransfer not_less)
    next
      case False
      then show ?thesis using Cons by (simp add: TokenTransfer)
    qed
  next
    case (Generic t f)
    then show ?thesis using Cons by simp
  qed
qed simp

lemma aggregate_loop_exact:
  "aggregate_loop asset (Some n) ops = Some r \<Longrightarrow>
   r = n + sum_list (map tt_amount (filter (\<lambda>op. is_TokenTransfer op \<and>
         (case asset of None \<Rightarrow> True | Some a \<Rightarrow> a = tt_asset op)) ops))"
proof (induction ops arbitrary: n)
  case (Cons op ops)
  have none: "aggregate_loop asset None ops = None" for ops
    by (induction ops) (auto split: option.splits elim: aggregate_loop.elims, (case_tac a; simp)+)
  show ?case
  proof (cases op)
    case (TokenTransfer a f t x)
    then show ?thesis
      using Cons.prems Cons.IH[of n] Cons.IH[of "n + x"] none
      by (auto split: option.splits if_splits simp: checked_def)
  qed (use Cons in auto)
qed simp

section \<open>Caps on permitted bundles\<close>

lemma generic_loop_None: "generic_loop idx ops = None \<longleftrightarrow> list_all is_TokenTransfer ops"
  by (induction idx ops rule: generic_loop.induct) auto

text \<open>
  C30. A permitted bundle has at most fifty inner calls and at most as many as each
  configured count cap allows; under a rule with a value-summing bundle cap every
  inner call of it is a recognised token transfer, so no effect escapes the sum.
\<close>

theorem permitted_bundle_recognised:
  assumes "fst (evaluate_bundle eng tool args p ops now sk s) = Inr d" "permits d"
    and "first_rule eng tool = Some rule"
  shows "length ops \<le> 50 \<and>
    (\<forall>n. InnerInvocationCountCap n \<in> set (r_criteria rule) \<longrightarrow> length ops \<le> n) \<and>
    ((\<exists>c\<in>set (r_criteria rule). criterion_kind c \<in> set VALUE_SUMMING_BUNDLE_CAPS) \<longrightarrow>
       list_all is_TokenTransfer ops)"
proof (intro conjI allI impI)
  note perm = evaluate_bundle_permitted[OF assms]
  show len: "length ops \<le> 50" using perm(1) by (simp add: DEFAULT_INNER_INVOCATION_COUNT_CAP_def)
  fix n
  assume "InnerInvocationCountCap n \<in> set (r_criteria rule)"
  then have "to_u32 (length ops) \<le> n"
    using perm(4)[of "InnerInvocationCountCap n"]
    by (auto simp: inner_count_cap_evaluate_def Let_def split: if_splits)
  then show "length ops \<le> n" using len by (simp add: to_u32_def machine_bounds)
next
  assume "\<exists>c\<in>set (r_criteria rule). criterion_kind c \<in> set VALUE_SUMMING_BUNDLE_CAPS"
  then have "summing_rule rule" by (simp add: summing_rule_def list_ex_iff)
  then show "list_all is_TokenTransfer ops"
    using evaluate_bundle_permitted(3)[OF assms] by (simp add: generic_loop_None)
qed

text \<open>
  C31. A permitted bundle stays within each aggregate cap of its rule: the exact sum
  of the transfers the cap counts is at most its maximum.
\<close>

theorem permitted_bundle_within_aggregate_cap:
  assumes "fst (evaluate_bundle eng tool args p ops now sk s) = Inr d" "permits d"
    and "first_rule eng tool = Some rule" "BundleAggregateCap asset m \<in> set (r_criteria rule)"
  shows "sum_list (map tt_amount (filter (\<lambda>op. case asset of None \<Rightarrow> True | Some a \<Rightarrow> a = tt_asset op) ops)) \<le> m"
proof -
  have "criterion_kind (BundleAggregateCap asset m) \<in> set VALUE_SUMMING_BUNDLE_CAPS"
    by (simp add: VALUE_SUMMING_BUNDLE_CAPS_def)
  then have "summing_rule rule" using assms(4) unfolding summing_rule_def list_ex_iff by blast
  then have "list_all is_TokenTransfer ops"
    using evaluate_bundle_permitted(3)[OF assms(1-3)] by (simp add: generic_loop_None)
  then have "filter (\<lambda>op. is_TokenTransfer op \<and> (case asset of None \<Rightarrow> True | Some a \<Rightarrow> a = tt_asset op)) ops =
      filter (\<lambda>op. case asset of None \<Rightarrow> True | Some a \<Rightarrow> a = tt_asset op) ops"
    by (intro filter_cong) (auto simp: list_all_iff)
  moreover obtain r where "aggregate_loop asset (Some 0) ops = Some r" "r \<le> m"
    using evaluate_bundle_permitted(4)[OF assms(1-4)]
    by (auto simp: bundle_aggregate_cap_evaluate_def split: option.splits if_splits)
  ultimately show ?thesis using aggregate_loop_exact by fastforce
qed

text \<open>
  C32. A permitted bundle stays within each bundle per-period cap: what the window
  already holds plus all transfers of the asset in the bundle is at most the cap.
\<close>

theorem permitted_bundle_within_period_cap:
  assumes "fst (evaluate_bundle eng tool args p ops (Some now) sk s) = Inr d" "permits d"
    and "first_rule eng tool = Some rule" "BundlePerPeriodCap asset w m \<in> set (r_criteria rule)"
    and "m < i128_max" "\<forall>x\<in>set (transfers_of (asset_normalise asset) ops). 0 \<le> x"
    and "transfers_of (asset_normalise asset) ops \<noteq> []"
    and "list_all nonneg_entry (entries s (engine_amount_key eng asset w))"
  shows "\<exists>used calls. fst (query_window s (engine_amount_key eng asset w) now) = Inr (used, calls) \<and>
    used + sum_list (transfers_of (asset_normalise asset) ops) \<le> m"
proof -
  obtain used calls where q: "fst (query_window s (engine_amount_key eng asset w) now) = Inr (used, calls)"
      and loop: "bundle_period_loop asset w m used 0 0 ops = None"
    using evaluate_bundle_permitted(4)[OF assms(1-4)]
    by (auto simp: bundle_per_period_cap_evaluate_def with_window_fst split: sum.splits)
  have "used = fst (window_sum (live (w_secs w) now (entries s (engine_amount_key eng asset w))))"
    using query_window_Inr[OF q] by (metis fst_conv key_window_secs(1))
  then have "0 \<le> used" using window_used_nonneg[OF assms(8)] by simp
  then show ?thesis using bundle_period_loop_None[OF assms(5)] loop q assms(6,7) by fastforce
qed

section \<open>The per-call period cap inside a bundle\<close>

text \<open>
  With one writer on the bucket, the overlay holds exactly the transfers of the
  asset that precede a call in the bundle.
\<close>

lemma accumulate_all_sole:
  assumes sole: "sole_writer eng rule (PerPeriodCap asset w m)"
  defines "K \<equiv> engine_amount_key eng asset w"
  shows "overlay_get (accumulate_all (bundle_context eng tool args p ReadOnly None now sk) (r_criteria rule) op ov) K =
    foldl sat_add_i128 (overlay_get ov K) (transfers_of (asset_normalise asset) [op])"
proof -
  let ?ctx = "bundle_context eng tool args p ReadOnly None now sk"
  let ?step = "\<lambda>ov c. if is_bundle_level c then ov else accumulate_overlay c ?ctx op ov"
  have other: "overlay_get (?step ov c) K = overlay_get ov K" if "criterion_key eng c \<noteq> Some K" for ov c
    using that
    by (auto simp: accumulate_overlay_def criterion_key_def split: criterion.splits inner_op.splits)
  have others: "overlay_get (foldl ?step ov cs) K = overlay_get ov K"
    if "\<forall>c\<in>set cs. criterion_key eng c \<noteq> Some K" for ov cs
    using that by (induction cs arbitrary: ov) (simp_all add: other)
  obtain pre post where cs: "r_criteria rule = pre @ PerPeriodCap asset w m # post"
      and pre: "\<forall>c\<in>set pre. criterion_key eng c \<noteq> Some K"
      and post: "[] = filter (\<lambda>c. criterion_key eng c = Some K) post"
    using sole by (auto simp: sole_writer_def filter_eq_Cons_iff criterion_key_def K_def)
  have post': "\<forall>c\<in>set post. criterion_key eng c \<noteq> Some K" using post[symmetric] by (simp add: filter_empty_conv)
  show ?thesis
    unfolding accumulate_all_def cs
    by (simp add: others[OF pre, unfolded K_def] others[OF post', unfolded K_def] accumulate_overlay_def K_def
        split: inner_op.split)
qed

lemma overlay_after_sole:
  assumes "sole_writer eng rule (PerPeriodCap asset w m)"
  shows "overlay_get (overlay_after eng rule tool args p now sk ov ops) (engine_amount_key eng asset w) =
    foldl sat_add_i128 (overlay_get ov (engine_amount_key eng asset w)) (transfers_of (asset_normalise asset) ops)"
proof (induction ops rule: rev_induct)
  case (snoc op ops)
  have "overlay_after eng rule tool args p now sk ov (ops @ [op]) =
      accumulate_all (bundle_context eng tool args p ReadOnly None now sk) (r_criteria rule) op
        (overlay_after eng rule tool args p now sk ov ops)"
    by (simp add: overlay_after_def)
  then show ?case using snoc accumulate_all_sole[OF assms] by simp
qed (simp add: overlay_after_def)

lemma transfers_split_last:
  "transfers_of a ops \<noteq> [] \<Longrightarrow>
   \<exists>pre b f t x post. ops = pre @ TokenTransfer b f t x # post \<and> asset_normalise b = a \<and> transfers_of a post = []"
proof (induction ops rule: rev_induct)
  case (snoc op ops)
  show ?case
  proof (cases "transfers_of a [op] = []")
    case True
    then obtain pre b f t x post where
        "ops = pre @ TokenTransfer b f t x # post" "asset_normalise b = a" "transfers_of a post = []"
      using snoc by auto
    then show ?thesis
      using True by (intro exI[of _ pre] exI[of _ b] exI[of _ f] exI[of _ t] exI[of _ x] exI[of _ "post @ [op]"]) simp
  next
    case False
    then obtain b f t x where "op = TokenTransfer b f t x" "asset_normalise b = a"
      by (cases op) (auto split: if_splits)
    then show ?thesis by (intro exI[of _ ops] exI[of _ b] exI[of _ f] exI[of _ t] exI[of _ x] exI[of _ "[]"]) simp
  qed
qed simp

lemma per_period_cap_gate:
  assumes "fst (per_period_cap_evaluate asset w m ctx s) = Inr None"
    and "debits asset (ctx_value ctx) = [x]" "ctx_now_ms ctx = Some now"
    and "amount_key ctx asset w = K" "bundle_accumulated ctx K = acc"
  shows "\<exists>used calls. fst (query_window s K now) = Inr (used, calls) \<and>
    sat_add_i128 (sat_add_i128 used acc) (sat_sum_i128 [x]) \<le> m"
  by (rule per_period_cap_allows[OF assms(1)]) (use assms in auto)

text \<open>
  The per-call period cap is enforced over the whole bundle: the overlay makes
  the cap see the calls before it, so what the window holds plus all transfers of
  the asset in a permitted bundle is at most the cap, as for the bundle-level cap.
\<close>

theorem permitted_bundle_within_inner_period_cap:
  assumes "fst (evaluate_bundle eng tool args p ops (Some now) sk s) = Inr d" "permits d"
    and "first_rule eng tool = Some rule" "sole_writer eng rule (PerPeriodCap asset w m)"
    and "m < i128_max" "\<forall>x\<in>set (transfers_of (asset_normalise asset) ops). 0 \<le> x"
    and "transfers_of (asset_normalise asset) ops \<noteq> []"
    and "list_all nonneg_entry (entries s (engine_amount_key eng asset w))"
  shows "\<exists>used calls. fst (query_window s (engine_amount_key eng asset w) now) = Inr (used, calls) \<and>
    used + sum_list (transfers_of (asset_normalise asset) ops) \<le> m"
proof -
  let ?a = "asset_normalise asset" and ?K = "engine_amount_key eng asset w" and ?c = "PerPeriodCap asset w m"
  obtain pre b f t x post where ops: "ops = pre @ TokenTransfer b f t x # post"
      and b: "asset_normalise b = ?a" and post: "transfers_of ?a post = []"
    using transfers_split_last[OF assms(7)] by blast
  let ?ov = "overlay_after eng rule tool args p (Some now) sk Map.empty pre"
  let ?ctx = "bundle_context eng tool args p (value_class_for_inner (TokenTransfer b f t x))
      (Some \<lparr>inners = ops, bv_overlay = ?ov\<rparr>) (Some now) sk"
  obtain ov esc s1 where
      il: "inner_loop eng rule tool args p (Some now) sk ops 0 Map.empty None ops s = (Inr (Inr (ov, esc)), s1)"
    using evaluate_bundle_permitted(2)[OF assms(1-3)] by blast
  have "fst (evaluate_decision ?c ?ctx s) = Inr Allow \<or> (\<exists>req. fst (evaluate_decision ?c ?ctx s) = Inr (RequireApproval req))"
    using inner_loop_permitted[OF il] ops sole_writer_in[OF assms(4)] by (auto simp: Let_def)
  then have pc: "fst (per_period_cap_evaluate asset w m ?ctx s) = Inr None"
    by (cases "fst (per_period_cap_evaluate asset w m ?ctx s)")
       (auto simp: evaluate_decision_fst decision_of_verdict_approval)
  have deb: "debits asset (ctx_value ?ctx) = [x]" by (simp add: debits_def value_class_for_inner_def b)
  have acc: "bundle_accumulated ?ctx ?K = sat_sum_i128 (transfers_of ?a pre)"
    using overlay_after_sole[OF assms(4)] by (simp add: bundle_accumulated_def sat_sum_i128_def)
  have xr: "0 \<le> x" and pre: "\<forall>y\<in>set (transfers_of ?a pre). 0 \<le> y" using assms(6) b by (auto simp: ops)
  obtain used calls where q: "fst (query_window s ?K now) = Inr (used, calls)"
      and gate0: "sat_add_i128 (sat_add_i128 used (sat_sum_i128 (transfers_of ?a pre))) (sat_sum_i128 [x]) \<le> m"
    using per_period_cap_gate[OF pc deb _ _ acc] by auto
  have "used = fst (window_sum (live (w_secs w) now (entries s ?K)))"
    using query_window_Inr[OF q] by (metis fst_conv key_window_secs(1))
  then have u: "0 \<le> used" using window_used_nonneg[OF assms(8)] by simp
  have sp: "0 \<le> sat_sum_i128 (transfers_of ?a pre)" and sx: "0 \<le> sat_sum_i128 [x]"
    using sat_sum_i128_nonneg[of "transfers_of ?a pre"] sat_sum_i128_nonneg[of "[x]"] pre xr by simp_all
  have g1: "sat_add_i128 used (sat_sum_i128 (transfers_of ?a pre)) + sat_sum_i128 [x] \<le> m"
    using gate0 sat_add_le_iff[OF sat_add_i128_nonneg[OF u sp] sx assms(5)] by simp
  then have "used + sat_sum_i128 (transfers_of ?a pre) + sat_sum_i128 [x] \<le> m"
    using sat_add_exact[OF u sp] sx assms(5) by simp
  moreover from this have "sat_sum_i128 (transfers_of ?a pre) = sum_list (transfers_of ?a pre)"
    "sat_sum_i128 [x] = x"
    using sat_sum_i128_exact[of "transfers_of ?a pre"] sat_sum_i128_exact[of "[x]"] pre xr u sp sx assms(5) by auto
  ultimately show ?thesis using q b post by (simp add: ops algebra_simps)
qed

section \<open>What a confirmed bundle leaves in the windows\<close>

definition bundle_stateful :: "criterion \<Rightarrow> bool" where
  "bundle_stateful c = (case c of BundlePerPeriodCap _ _ _ \<Rightarrow> True | BundleRateLimit _ _ \<Rightarrow> True | _ \<Rightarrow> False)"

lemma record_loop_silent:
  "\<forall>c\<in>set cs. record_confirmed_criterion c ctx s = (Inr [], s) \<Longrightarrow> record_loop ctx cs s = (Inr [], s)"
  by (induction cs) simp_all

text \<open>
  A confirmed bundle is recorded by the bundle-level criteria only. Under a rule
  whose windows are guarded by the per-call criteria alone, confirming a bundle
  appends nothing and leaves the store as it was, although evaluating the bundle
  does consult those windows: such a rule limits each bundle by itself, never the
  bundles of a period together.
\<close>

theorem per_call_windows_unrecorded:
  assumes "first_rule eng tool = Some rule" "\<not> list_ex bundle_stateful (r_criteria rule)"
  shows "record_confirmed_bundle eng tool p view now sk s = (Inr [], s)"
proof -
  let ?ctx = "bundle_context eng tool JNull p ReadOnly (Some view) now sk"
  have "record_confirmed_criterion c ?ctx s = (Inr [], s)" if "c \<in> set (r_criteria rule)" for c
    using that assms(2)
    by (auto simp: list_ex_iff bundle_stateful_def record_confirmed_criterion_def per_period_cap_record_def
        rate_limit_record_def split: criterion.splits)
  then have "record_loop ?ctx (r_criteria rule) s = (Inr [], s)" by (intro record_loop_silent) simp
  then show ?thesis using assms(1) by (simp add: record_confirmed_bundle_def first_rule_def)
qed

section \<open>Witnesses\<close>

definition bundle_rule :: policy_rule where
  "bundle_rule =
     \<lparr>r_match = \<lparr>m_tool = ''*'', m_chain = ''*''\<rparr>,
      r_criteria = [InnerInvocationCountCap 3, BundleAggregateCap None 90,
                    PerPeriodCap ''native'' one_minute 85, BundlePerPeriodCap ''native'' one_day 100],
      r_decision = Allow, r_allow_opaque_signing = False\<rparr>"

definition bundle_engine :: policy_engine where
  "bundle_engine =
     \<lparr>document = \<lparr>doc_version = 1, doc_scope = AllProfiles, doc_rules = [bundle_rule], doc_signature = None\<rparr>,
      eng_profile_name = ''agent'', project_id = None\<rparr>"

definition sample_bundle :: "inner_op list" where
  "sample_bundle = [TokenTransfer ''native'' ''G1'' ''G2'' 40, TokenTransfer ''native'' ''G1'' ''G3'' 30]"

lemma bundle_first_rule: "first_rule bundle_engine sample_tool = Some bundle_rule"
  by (simp add: first_rule_def engine_rules_def matching_rules_def bundle_engine_def bundle_rule_def
      sample_tool_def matches_tool_def rule_match_matches_def scope_matches_def)

lemma bundle_rules: "find (\<lambda>r. matches_tool r sample_tool) (engine_rules bundle_engine) = Some bundle_rule"
  using bundle_first_rule by (simp add: first_rule_def)

lemma sample_evaluate_bundle:
  "fst (evaluate_bundle bundle_engine sample_tool JNull sample_profile sample_bundle (Some 1000000) sample_strkey
     store_new) = Inr Allow"
  unfolding evaluate_bundle_def bundle_rules
  by (simp add: engine_eval sample_bundle_def bundle_rule_def one_minute_def one_day_def bundle_context_def
      call_context_def no_views_def Let_def DEFAULT_INNER_INVOCATION_COUNT_CAP_def value_class_for_inner_def
      restrict_bundle_evaluate_def VALUE_SUMMING_BUNDLE_CAPS_def inner_count_cap_evaluate_def
      bundle_aggregate_cap_evaluate_def bundle_per_period_cap_evaluate_def checked_def in_range_def
      accumulate_all_def accumulate_overlay_def overlay_accumulate_def overlay_get_def sample_strkey_def
      sample_profile_def bundle_engine_def sample_tool_def)

theorem permitted_bundle_recognised_witness:
  "length sample_bundle \<le> 3 \<and> list_all is_TokenTransfer sample_bundle"
  using permitted_bundle_recognised[OF sample_evaluate_bundle _ bundle_first_rule]
  by (simp add: permits_def bundle_rule_def VALUE_SUMMING_BUNDLE_CAPS_def)

theorem permitted_bundle_within_aggregate_cap_witness:
  "sum_list (map tt_amount sample_bundle) \<le> 90"
  using permitted_bundle_within_aggregate_cap[OF sample_evaluate_bundle _ bundle_first_rule, of None 90]
  by (simp add: permits_def bundle_rule_def)

theorem permitted_bundle_within_period_cap_witness:
  "\<exists>used calls. fst (query_window store_new (engine_amount_key bundle_engine ''native'' one_day) 1000000) =
      Inr (used, calls) \<and> used + sum_list (transfers_of ''native'' sample_bundle) \<le> 100"
  using permitted_bundle_within_period_cap[OF sample_evaluate_bundle _ bundle_first_rule, of "''native''" one_day 100]
  by (simp add: permits_def bundle_rule_def sample_bundle_def entries_def store_new_def machine_bounds)

theorem permitted_bundle_within_inner_period_cap_witness:
  "\<exists>used calls. fst (query_window store_new (engine_amount_key bundle_engine ''native'' one_minute) 1000000) =
      Inr (used, calls) \<and> used + sum_list (transfers_of ''native'' sample_bundle) \<le> 85"
proof -
  have "sole_writer bundle_engine bundle_rule (PerPeriodCap ''native'' one_minute 85)"
    by (simp add: sole_writer_def criterion_key_def bundle_rule_def engine_amount_key_def one_day_def
        one_minute_def state_key_new_def)
  then show ?thesis
    using permitted_bundle_within_inner_period_cap[OF sample_evaluate_bundle _ bundle_first_rule,
        of "''native''" one_minute 85]
    by (simp add: permits_def sample_bundle_def entries_def store_new_def machine_bounds)
qed

theorem per_call_windows_unrecorded_witness:
  "record_confirmed_bundle sample_engine sample_tool sample_profile
     \<lparr>inners = sample_bundle, bv_overlay = Map.empty\<rparr> (Some 1000000) sample_strkey store_new = (Inr [], store_new)"
  by (rule per_call_windows_unrecorded[OF sample_first_rule]) (simp add: sample_rule_def bundle_stateful_def)

end
