(* ===== verification/Window_Store.thy ===== *)
theory Window_Store
  imports State_Store Keyring Hex "HOL-Library.Product_Lexorder" "HOL-Library.List_Lexorder"
begin

text \<open>
  The durable window store (\<^verbatim>\<open>stellar-agent-network/src/policy_state/store.rs\<close>): a tagged
  file of window records, and a generation counter in the credential store that
  commits to the file's body.  Writes may fail or be lost at any point; the
  \<^verbatim>\<open>outcomes\<close> of a world say how each durable write of a run ends.  JSON, HMAC and
  SHA-256 are third-party: the functions of \<^verbatim>\<open>backend\<close>.
\<close>

section \<open>Wire data\<close>

definition HMAC_TAG_LEN :: nat where "HMAC_TAG_LEN = 32"
definition HMAC_CONTEXT_LABEL :: string where
  "HMAC_CONTEXT_LABEL = ''stellar-agent-policy-window/v1/body'' @ [CHR 0x00]"
definition RETENTION_MS :: nat where "RETENTION_MS = 604800 * 1000"
definition WIRE_VERSION :: nat where "WIRE_VERSION = 3"
definition WIRE_VERSION_MAX :: nat where "WIRE_VERSION_MAX = 3"

datatype record_status = Confirmed | Pending

record wire_record =
  wr_ts_ms :: nat
  wr_amount :: int
  wr_id :: string
  wr_status :: record_status
  wr_tx_hash :: string
  wr_source :: string
  wr_sequence :: int
  wr_max_time :: nat
  wr_pending_since_ms :: nat
  wr_submission_ledger :: nat
  wr_operator_required :: bool

definition confirmed_defaults :: wire_record where
  "confirmed_defaults =
     \<lparr>wr_ts_ms = 0, wr_amount = 0, wr_id = [], wr_status = Confirmed, wr_tx_hash = [], wr_source = [],
      wr_sequence = 0, wr_max_time = 0, wr_pending_since_ms = 0, wr_submission_ledger = 0,
      wr_operator_required = False\<rparr>"

record window_reservation =
  rs_id :: string
  rs_tx_hash :: string
  rs_source :: string
  rs_sequence :: int
  rs_max_time :: nat
  rs_pending_since_ms :: nat
  rs_submission_ledger :: nat
  rs_operator_required :: bool

record wire_bucket =
  wb_scope_specificity :: nat
  wb_bucket :: string
  wb_window_secs :: nat
  wb_records :: "wire_record list"

datatype wire_file =
  WireFile (wf_version: nat) (wf_generation: nat) (wf_entries: "wire_bucket list") (wf_prepared: "wire_file option")

definition with_entries :: "(wire_bucket list \<Rightarrow> wire_bucket list) \<Rightarrow> wire_file \<Rightarrow> wire_file" where
  "with_entries f w = WireFile (wf_version w) (wf_generation w) (f (wf_entries w)) (wf_prepared w)"

definition with_version :: "nat \<Rightarrow> wire_file \<Rightarrow> wire_file" where
  "with_version v w = WireFile v (wf_generation w) (wf_entries w) (wf_prepared w)"

definition with_generation :: "nat \<Rightarrow> wire_file \<Rightarrow> wire_file" where
  "with_generation g w = WireFile (wf_version w) g (wf_entries w) (wf_prepared w)"

definition with_prepared :: "wire_file option \<Rightarrow> wire_file \<Rightarrow> wire_file" where
  "with_prepared n w = WireFile (wf_version w) (wf_generation w) (wf_entries w) n"

datatype window_store_error =
    WriterLocked
  | IoError string
  | StoreInvalid string
  | HmacMismatch
  | GenerationMismatch
  | KeyringFailed string
  | KeyMatchesOwnerPublicKey
  | PolicyDenied deny_reason
  | DuplicateReservation

record backend = secret_codec +
  to_vec :: "wire_file \<Rightarrow> string"
  from_slice :: "string \<Rightarrow> wire_file option"
  commitment_to_string :: "nat \<times> string \<Rightarrow> string"
  commitment_from_str :: "string \<Rightarrow> (nat \<times> string) option"
  hmac_sha256 :: "string \<Rightarrow> string \<Rightarrow> string"
  sha256 :: "string \<Rightarrow> string"

section \<open>The world a call runs in\<close>

datatype file_slot = Missing | Contents string | Unreadable string

text \<open>
  How one durable write ends: it takes effect, it fails without effect, or it takes
  effect and still reports an error (a directory sync that fails after the rename).
\<close>

datatype write_outcome = Done | LostBefore string | FailsAfter string

record world =
  w_keyring :: keyring
  w_file :: file_slot
  w_outcomes :: "write_outcome list"

datatype lock_state = LockFree | LockHeld | LockFault string

record window_env =
  env_dir_fault :: "string option"
  env_lock :: lock_state
  env_now_ms :: "nat option"
  env_random :: string

type_synonym 'a wop = "world \<Rightarrow> (window_store_error, 'a) result \<times> world"

definition wbind :: "'a wop \<Rightarrow> ('a \<Rightarrow> 'b wop) \<Rightarrow> 'b wop" where
  "wbind m f = (\<lambda>w. case m w of (Inl e, w') \<Rightarrow> (Inl e, w') | (Inr x, w') \<Rightarrow> f x w')"

definition wlift :: "(window_store_error, 'a) result \<Rightarrow> 'a wop" where
  "wlift r = (\<lambda>w. (r, w))"

definition wread :: "(world \<Rightarrow> (window_store_error, 'a) result) \<Rightarrow> 'a wop" where
  "wread f = (\<lambda>w. (f w, w))"

definition durable_write :: "(string \<Rightarrow> window_store_error) \<Rightarrow> (world \<Rightarrow> world) \<Rightarrow> unit wop" where
  "durable_write err eff w =
     (case w_outcomes w of
        [] \<Rightarrow> (Inr (), eff w)
      | oc # rest \<Rightarrow>
          let w' = w\<lparr>w_outcomes := rest\<rparr> in
          (case oc of
             Done \<Rightarrow> (Inr (), eff w')
           | LostBefore e \<Rightarrow> (Inl (err e), w')
           | FailsAfter e \<Rightarrow> (Inl (err e), eff w')))"

definition ensure_parent_dir :: "window_env \<Rightarrow> unit wop" where
  "ensure_parent_dir env = wlift (case env_dir_fault env of None \<Rightarrow> Inr () | Some e \<Rightarrow> Inl (IoError e))"

definition acquire :: "window_env \<Rightarrow> unit wop" where
  "acquire env =
     wlift (case env_lock env of LockFree \<Rightarrow> Inr () | LockHeld \<Rightarrow> Inl WriterLocked | LockFault e \<Rightarrow> Inl (IoError e))"

definition now_ms :: "window_env \<Rightarrow> (window_store_error, nat) result" where
  "now_ms env = ok_or (StoreInvalid ''system clock is before UNIX epoch'') (env_now_ms env)"

section \<open>Tags and generations\<close>

definition compute_tag :: "backend \<Rightarrow> string \<Rightarrow> string \<Rightarrow> string" where
  "compute_tag bk key body = hmac_sha256 bk key (HMAC_CONTEXT_LABEL @ body)"

definition body_digest :: "backend \<Rightarrow> wire_file \<Rightarrow> string" where
  "body_digest bk wire = hex_encode (sha256 bk (to_vec bk wire))"

definition generation_entry_ref :: "keyed_profile \<Rightarrow> keyring_entry_ref" where
  "generation_entry_ref p =
     (let base = policy_window_state_key_id p in
      \<lparr>service = service base, account = generation_account (account base)\<rparr>)"

definition lower_hex_digit :: "char \<Rightarrow> bool" where
  "lower_hex_digit c \<longleftrightarrow> is_digit c \<or> 97 \<le> byte_of c \<and> byte_of c \<le> 102"

definition load_counter ::
  "backend \<Rightarrow> keyring \<Rightarrow> keyring_entry_ref \<Rightarrow> (window_store_error, (nat \<times> string option) option) result" where
  "load_counter bk kr r =
     (case kr r of
        NoEntry \<Rightarrow> Inr None
      | StoreFault e \<Rightarrow> Inl (KeyringFailed (''generation entry read failed: '' @ e))
      | Secret v \<Rightarrow>
          (case parse_unsigned u64_max (trim v) of
             Some g \<Rightarrow> Inr (Some (g, None))
           | None \<Rightarrow>
               (case commitment_from_str bk v of
                  None \<Rightarrow> Inl (KeyringFailed ''generation entry value is not a valid commitment'')
                | Some (g, digest) \<Rightarrow>
                    if length digest \<noteq> 64 \<or> \<not> list_all lower_hex_digit digest
                    then Inl (KeyringFailed ''generation commitment digest is invalid'')
                    else Inr (Some (g, Some digest)))))"

definition load_generation ::
  "backend \<Rightarrow> keyring \<Rightarrow> keyring_entry_ref \<Rightarrow> (window_store_error, nat option) result" where
  "load_generation bk kr r = res_bind (load_counter bk kr r) (\<lambda>c. Inr (map_option fst c))"

definition increment_generation :: "nat \<Rightarrow> (window_store_error, nat) result" where
  "increment_generation g =
     (if g + 1 \<le> u64_max then Inr (g + 1)
      else Inl (StoreInvalid ''policy window-state generation counter overflow''))"

definition next_generation ::
  "backend \<Rightarrow> keyring \<Rightarrow> keyring_entry_ref \<Rightarrow> (window_store_error, nat) result" where
  "next_generation bk kr r =
     res_bind (load_generation bk kr r) (\<lambda>g. increment_generation (case g of None \<Rightarrow> 0 | Some n \<Rightarrow> n))"

definition write_generation :: "backend \<Rightarrow> keyring_entry_ref \<Rightarrow> wire_file \<Rightarrow> unit wop" where
  "write_generation bk r wire =
     (let v = commitment_to_string bk (wf_generation wire, body_digest bk wire) in
      durable_write (\<lambda>e. KeyringFailed (''generation entry write failed: '' @ e))
        (\<lambda>w. w\<lparr>w_keyring := (w_keyring w)(r := Secret v)\<rparr>))"

definition write_atomic :: "backend \<Rightarrow> string \<Rightarrow> wire_file \<Rightarrow> unit wop" where
  "write_atomic bk key wire =
     (let body = to_vec bk wire in
      durable_write IoError (\<lambda>w. w\<lparr>w_file := Contents (compute_tag bk key body @ body)\<rparr>))"

definition verify_with_key :: "backend \<Rightarrow> string \<Rightarrow> string \<Rightarrow> (window_store_error, wire_file) result" where
  "verify_with_key bk key raw =
     (if length raw < HMAC_TAG_LEN then Inl (StoreInvalid ''store file is shorter than the HMAC tag prefix'')
      else
        let stored_tag = take HMAC_TAG_LEN raw; body = drop HMAC_TAG_LEN raw in
        if stored_tag \<noteq> compute_tag bk key body then Inl HmacMismatch
        else case from_slice bk body of
          None \<Rightarrow> Inl (StoreInvalid ''store body is not valid JSON'')
        | Some wire \<Rightarrow>
            if WIRE_VERSION_MAX < wf_version wire
            then Inl (StoreInvalid ''store file wire version is newer than this build reads'')
            else Inr wire)"

definition select_generation ::
  "backend \<Rightarrow> wire_file \<Rightarrow> (nat \<times> string option) option \<Rightarrow> (window_store_error, wire_file) result" where
  "select_generation bk wire counter =
     (if (case wf_prepared wire of
            None \<Rightarrow> False
          | Some nxt \<Rightarrow>
              wf_version wire \<noteq> WIRE_VERSION \<or> wf_version nxt \<noteq> WIRE_VERSION \<or> wf_prepared nxt \<noteq> None \<or>
              wf_generation wire + 1 \<noteq> wf_generation nxt \<or> u64_max < wf_generation nxt)
      then Inl GenerationMismatch
      else case counter of
        None \<Rightarrow> Inl GenerationMismatch
      | Some (g, digest) \<Rightarrow>
          res_bind
            (if g = wf_generation wire then Inr (with_prepared None wire)
             else case wf_prepared wire of
               Some nxt \<Rightarrow> if digest \<noteq> None \<and> g = wf_generation nxt then Inr nxt else Inl GenerationMismatch
             | None \<Rightarrow> Inl GenerationMismatch)
            (\<lambda>chosen.
               case digest of
                 None \<Rightarrow> Inr chosen
               | Some expected \<Rightarrow>
                   if expected \<noteq> body_digest bk chosen then Inl GenerationMismatch else Inr chosen))"

definition read_verified ::
  "backend \<Rightarrow> string \<Rightarrow> keyring_entry_ref \<Rightarrow> world \<Rightarrow> (window_store_error, wire_file) result" where
  "read_verified bk key gen_entry w =
     (case w_file w of
        Contents raw \<Rightarrow>
          res_bind (verify_with_key bk key raw) (\<lambda>wire.
          res_bind (load_counter bk (w_keyring w) gen_entry) (\<lambda>counter.
          select_generation bk wire counter))
      | Missing \<Rightarrow>
          res_bind (load_generation bk (w_keyring w) gen_entry) (\<lambda>g.
            case g of None \<Rightarrow> Inr (WireFile WIRE_VERSION 0 [] None) | Some _ \<Rightarrow> Inl GenerationMismatch)
      | Unreadable e \<Rightarrow> Inl (IoError e))"

section \<open>Records in a file\<close>

definition bucket_matches :: "wire_bucket \<Rightarrow> state_key \<Rightarrow> bool" where
  "bucket_matches b k \<longleftrightarrow>
     wb_scope_specificity b = scope_specificity k \<and> wb_bucket b = bucket k \<and> wb_window_secs b = window_secs k"

fun push_record :: "state_key \<Rightarrow> wire_record \<Rightarrow> wire_bucket list \<Rightarrow> wire_bucket list" where
  "push_record k r [] =
     [\<lparr>wb_scope_specificity = scope_specificity k, wb_bucket = bucket k, wb_window_secs = window_secs k,
       wb_records = [r]\<rparr>]"
| "push_record k r (b # bs) =
     (if bucket_matches b k then b\<lparr>wb_records := wb_records b @ [r]\<rparr> # bs else b # push_record k r bs)"

definition prune_stale :: "nat \<Rightarrow> wire_file \<Rightarrow> wire_file" where
  "prune_stale now wire =
     (let cutoff = now - RETENTION_MS in
      with_entries
        (\<lambda>es. filter (\<lambda>b. wb_records b \<noteq> [])
           (map (\<lambda>b. b\<lparr>wb_records := filter (\<lambda>r. cutoff \<le> wr_ts_ms r \<or> wr_status r = Pending) (wb_records b)\<rparr>) es))
        wire)"

definition file_holds_id :: "wire_file \<Rightarrow> string \<Rightarrow> bool" where
  "file_holds_id wire i \<longleftrightarrow> i \<noteq> [] \<and> list_ex (\<lambda>b. list_ex (\<lambda>r. wr_id r = i) (wb_records b)) (wf_entries wire)"

definition record_is_live :: "wire_record \<Rightarrow> nat \<Rightarrow> nat \<Rightarrow> bool" where
  "record_is_live r now secs \<longleftrightarrow> wr_status r = Pending \<or> now - sat_mul_u64 secs 1000 \<le> wr_ts_ms r"

definition clock_skew_text :: "nat \<Rightarrow> nat \<Rightarrow> string" where
  "clock_skew_text entry_ts now =
     ''host clock is '' @ show_nat (entry_ts - now) @
     '' ms behind a pending reservation timestamp; maximum tolerated offset is 30000 ms (host='' @ show_nat now @
     '' ms, reservation='' @ show_nat entry_ts @ '' ms)''"

fun window_records :: "nat \<Rightarrow> nat \<Rightarrow> wire_record list \<Rightarrow> int \<times> nat \<Rightarrow> (deny_reason, int \<times> nat) result" where
  "window_records now secs [] acc = Inr acc"
| "window_records now secs (r # rs) (sm, cnt) =
     (if wr_status r = Pending \<and> sat_add_u64 now CLOCK_SKEW_TOLERANCE_MS < wr_ts_ms r
      then Inl (EvaluationError (clock_skew_text (wr_ts_ms r) now))
      else if \<not> record_is_live r now secs then window_records now secs rs (sm, cnt)
      else window_records now secs rs (sat_add_i128 sm (wr_amount r), sat_add_u32 cnt 1))"

fun window_buckets ::
  "state_key \<Rightarrow> nat \<Rightarrow> wire_bucket list \<Rightarrow> int \<times> nat \<Rightarrow> (deny_reason, int \<times> nat) result" where
  "window_buckets k now [] acc = Inr acc"
| "window_buckets k now (b # bs) acc =
     (if \<not> bucket_matches b k then window_buckets k now bs acc
      else res_bind (window_records now (window_secs k) (wb_records b) acc) (window_buckets k now bs))"

definition window_in_file :: "wire_file \<Rightarrow> state_key \<Rightarrow> nat \<Rightarrow> (deny_reason, int \<times> nat) result" where
  "window_in_file wire k now = window_buckets k now (wf_entries wire) (0, 0)"

fun admit_loop ::
  "wire_file \<Rightarrow> (state_key \<Rightarrow> int \<times> nat) \<Rightarrow> window_entry list \<Rightarrow> (window_store_error, unit) result" where
  "admit_loop wire batch [] = Inr ()"
| "admit_loop wire batch (e # es) =
     (case window_in_file wire (we_key e) (we_timestamp_ms e) of
        Inl why \<Rightarrow> Inl (PolicyDenied why)
      | Inr (file_sum, file_count) \<Rightarrow>
          let (batch_sum, batch_count) = batch (we_key e);
              used = sat_add_i128 file_sum batch_sum;
              calls = sat_add_u32 file_count batch_count
          in case refusal e used calls of
               Some why \<Rightarrow> Inl (PolicyDenied why)
             | None \<Rightarrow>
                 admit_loop wire
                   (batch(we_key e := (sat_add_i128 batch_sum (we_amount e), sat_add_u32 batch_count 1))) es)"

definition admit :: "wire_file \<Rightarrow> window_entry list \<Rightarrow> (window_store_error, unit) result" where
  "admit wire es = admit_loop wire (\<lambda>_. (0, 0)) es"

definition reservation_of_record :: "wire_record \<Rightarrow> window_reservation" where
  "reservation_of_record r =
     \<lparr>rs_id = wr_id r, rs_tx_hash = wr_tx_hash r, rs_source = wr_source r, rs_sequence = wr_sequence r,
      rs_max_time = wr_max_time r, rs_pending_since_ms = wr_pending_since_ms r,
      rs_submission_ledger = wr_submission_ledger r, rs_operator_required = wr_operator_required r\<rparr>"

fun collect_records :: "window_reservation list \<Rightarrow> wire_record list \<Rightarrow> window_reservation list" where
  "collect_records seen [] = seen"
| "collect_records seen (r # rs) =
     (if wr_status r \<noteq> Pending \<or> wr_id r = [] then collect_records seen rs
      else if list_ex (\<lambda>s. rs_id s = wr_id r) seen then collect_records seen rs
      else collect_records (seen @ [reservation_of_record r]) rs)"

text \<open>The order of \<^verbatim>\<open>sort_by\<close>: oldest first, then by identifier, bytewise.\<close>

definition reservation_key :: "window_reservation \<Rightarrow> nat \<times> nat list" where
  "reservation_key r = (rs_pending_since_ms r, map byte_of (rs_id r))"

definition collect_pending :: "wire_file \<Rightarrow> window_reservation list" where
  "collect_pending wire =
     sort_key reservation_key (foldl (\<lambda>seen b. collect_records seen (wb_records b)) [] (wf_entries wire))"

section \<open>Operations\<close>

definition refuse_owner_coordinate :: "keyed_profile \<Rightarrow> (window_store_error, unit) result" where
  "refuse_owner_coordinate p =
     (case refuse_owner_key_coordinate (policy_window_state_key_id p) ''policy_window_state_key_id'' of
        Inl _ \<Rightarrow> Inl KeyMatchesOwnerPublicKey
      | Inr _ \<Rightarrow> Inr ())"

definition refuse_owner_key ::
  "secret_codec \<Rightarrow> keyring \<Rightarrow> string \<Rightarrow> owner_key_context \<Rightarrow> (window_store_error, unit) result" where
  "refuse_owner_key sc kr key owner =
     (case refuse_owner_public_key sc kr key owner ''policy_window_state_key_id'' of
        Inr _ \<Rightarrow> Inr ()
      | Inl (KeyMatchesOwner _) \<Rightarrow> Inl KeyMatchesOwnerPublicKey
      | Inl _ \<Rightarrow> Inl (KeyringFailed ''owner key read failed''))"

definition load_or_mint_key :: "backend \<Rightarrow> window_env \<Rightarrow> keyed_profile \<Rightarrow> (string \<times> bool) wop" where
  "load_or_mint_key bk env p =
     (let r = policy_window_state_key_id p; sc = secret_codec.truncate bk in
      wbind (wlift (refuse_owner_coordinate p)) (\<lambda>_ w.
      case load_hmac_key_32 sc (w_keyring w) r of
        Inr key \<Rightarrow>
          wbind (wread (\<lambda>w. refuse_owner_key sc (w_keyring w) key (context_for_loaded_profile p)))
            (\<lambda>_. wlift (Inr (key, False))) w
      | Inl _ \<Rightarrow>
          wbind (durable_write (\<lambda>e. KeyringFailed (''mint failed: '' @ e))
                   (\<lambda>w. w\<lparr>w_keyring := (w_keyring w)(r := Secret (b64_encode bk (env_random env)))\<rparr>)) (\<lambda>_.
          wread (\<lambda>w. case load_hmac_key_32 sc (w_keyring w) r of
                       Inr key \<Rightarrow> Inr (key, True)
                     | Inl _ \<Rightarrow> Inl (KeyringFailed ''load-after-mint failed''))) w))"

definition read_for_inspection ::
  "backend \<Rightarrow> keyed_profile \<Rightarrow> world \<Rightarrow> (window_store_error, wire_file option) result" where
  "read_for_inspection bk p w =
     (let gen_entry = generation_entry_ref p; sc = secret_codec.truncate bk in
      res_bind (refuse_owner_coordinate p) (\<lambda>_.
      case w_file w of
        Missing \<Rightarrow>
          res_bind (load_generation bk (w_keyring w) gen_entry) (\<lambda>g.
            case g of None \<Rightarrow> Inr None | Some _ \<Rightarrow> Inl GenerationMismatch)
      | Unreadable e \<Rightarrow> Inl (IoError e)
      | Contents raw \<Rightarrow>
          (case load_hmac_key_32 sc (w_keyring w) (policy_window_state_key_id p) of
             Inl _ \<Rightarrow> Inl (KeyringFailed ''key load failed'')
           | Inr key \<Rightarrow>
               res_bind (refuse_owner_key sc (w_keyring w) key (context_for_loaded_profile p)) (\<lambda>_.
               res_bind (verify_with_key bk key raw) (\<lambda>wire.
               res_bind (load_counter bk (w_keyring w) gen_entry) (\<lambda>counter.
               res_bind (select_generation bk wire counter) (\<lambda>chosen. Inr (Some chosen))))))))"

definition holds_reservation :: "backend \<Rightarrow> keyed_profile \<Rightarrow> string \<Rightarrow> world \<Rightarrow> (window_store_error, bool) result" where
  "holds_reservation bk p i w =
     res_bind (read_for_inspection bk p w)
       (\<lambda>wire. Inr (case wire of None \<Rightarrow> False | Some f \<Rightarrow> file_holds_id f i))"

definition pending_reservations ::
  "backend \<Rightarrow> keyed_profile \<Rightarrow> world \<Rightarrow> (window_store_error, window_reservation list) result" where
  "pending_reservations bk p w =
     res_bind (read_for_inspection bk p w)
       (\<lambda>wire. Inr (case wire of None \<Rightarrow> [] | Some f \<Rightarrow> collect_pending f))"

text \<open>Hydrating the in-memory store from the file.\<close>

fun append_records :: "state_key \<Rightarrow> wire_record list \<Rightarrow> state_store \<Rightarrow> (state_store_error, unit) result \<times> state_store" where
  "append_records k [] s = (Inr (), s)"
| "append_records k (r # rs) s =
     (case (if wr_status r = Pending then append_pending s k (wr_ts_ms r) (wr_amount r)
            else append_settled s k (wr_ts_ms r) (wr_amount r)) of
        (Inl e, s') \<Rightarrow> (Inl e, s')
      | (Inr _, s') \<Rightarrow> append_records k rs s')"

fun append_buckets :: "string \<Rightarrow> wire_bucket list \<Rightarrow> state_store \<Rightarrow> (state_store_error, unit) result \<times> state_store" where
  "append_buckets name [] s = (Inr (), s)"
| "append_buckets name (b # bs) s =
     (case append_records
             (state_key_new name (wb_scope_specificity b) (wb_bucket b) (wb_window_secs b)) (wb_records b) s of
        (Inl e, s') \<Rightarrow> (Inl e, s')
      | (Inr _, s') \<Rightarrow> append_buckets name bs s')"

definition load_into ::
  "backend \<Rightarrow> string \<Rightarrow> keyed_profile \<Rightarrow> world \<Rightarrow> state_store \<Rightarrow> (window_store_error, unit) result \<times> state_store" where
  "load_into bk name p w dest =
     (let gen_entry = generation_entry_ref p; sc = secret_codec.truncate bk in
      case refuse_owner_coordinate p of
        Inl e \<Rightarrow> (Inl e, dest)
      | Inr _ \<Rightarrow>
          (case w_file w of
             Missing \<Rightarrow>
               (res_bind (load_generation bk (w_keyring w) gen_entry) (\<lambda>g.
                  case g of None \<Rightarrow> Inr () | Some _ \<Rightarrow> Inl GenerationMismatch), dest)
           | Unreadable e \<Rightarrow> (Inl (IoError e), dest)
           | Contents raw \<Rightarrow>
               (case load_hmac_key_32 sc (w_keyring w) (policy_window_state_key_id p) of
                  Inl _ \<Rightarrow> (Inl (KeyringFailed ''key load failed''), dest)
                | Inr key \<Rightarrow>
                    (case res_bind (refuse_owner_key sc (w_keyring w) key (context_for_profile name p)) (\<lambda>_.
                            res_bind (verify_with_key bk key raw) (\<lambda>wire.
                            res_bind (load_counter bk (w_keyring w) gen_entry) (\<lambda>counter.
                            select_generation bk wire counter))) of
                       Inl e \<Rightarrow> (Inl e, dest)
                     | Inr wire \<Rightarrow>
                         (case append_buckets name (wf_entries wire) dest of
                            (Inl _, s) \<Rightarrow> (Inl (StoreInvalid ''in-memory store append failed''), s)
                          | (Inr _, s) \<Rightarrow> (Inr (), s))))))"

definition push_entries :: "(window_entry \<Rightarrow> wire_record) \<Rightarrow> window_entry list \<Rightarrow> wire_file \<Rightarrow> wire_file" where
  "push_entries mk es wire = with_entries (\<lambda>bs. foldl (\<lambda>bs e. push_record (we_key e) (mk e) bs) bs es) wire"

definition settled_record :: "window_entry \<Rightarrow> wire_record" where
  "settled_record e = confirmed_defaults\<lparr>wr_ts_ms := we_timestamp_ms e, wr_amount := we_amount e\<rparr>"

definition pending_record :: "window_reservation \<Rightarrow> window_entry \<Rightarrow> wire_record" where
  "pending_record rs e =
     \<lparr>wr_ts_ms = we_timestamp_ms e, wr_amount = we_amount e, wr_id = rs_id rs, wr_status = Pending,
      wr_tx_hash = rs_tx_hash rs, wr_source = rs_source rs, wr_sequence = rs_sequence rs,
      wr_max_time = rs_max_time rs, wr_pending_since_ms = rs_pending_since_ms rs,
      wr_submission_ledger = rs_submission_ledger rs, wr_operator_required = False\<rparr>"

text \<open>The common tail of both recording operations: prune, advance, commit, write.\<close>

definition persist :: "backend \<Rightarrow> window_env \<Rightarrow> string \<Rightarrow> keyring_entry_ref \<Rightarrow> wire_file \<Rightarrow> unit wop" where
  "persist bk env key gen_entry wire =
     wbind (wlift (now_ms env)) (\<lambda>now.
     wbind (wread (\<lambda>w. next_generation bk (w_keyring w) gen_entry)) (\<lambda>g.
     let nxt = with_generation g (with_version WIRE_VERSION (prune_stale now wire)) in
     wbind (write_generation bk gen_entry nxt) (\<lambda>_. write_atomic bk key nxt)))"

definition record_settled ::
  "backend \<Rightarrow> window_env \<Rightarrow> keyed_profile \<Rightarrow> window_entry list \<Rightarrow> bool \<Rightarrow> bool wop" where
  "record_settled bk env p es require_admission =
     (let gen_entry = generation_entry_ref p in
      wbind (ensure_parent_dir env) (\<lambda>_.
      wbind (acquire env) (\<lambda>_.
      wbind (load_or_mint_key bk env p) (\<lambda>(key, minted).
      wbind (wread (read_verified bk key gen_entry)) (\<lambda>wire.
      wbind (wlift (if require_admission then admit wire es else Inr ())) (\<lambda>_.
      wbind (persist bk env key gen_entry (push_entries settled_record es wire)) (\<lambda>_.
      wlift (Inr minted))))))))"

definition record_and_persist :: "backend \<Rightarrow> window_env \<Rightarrow> keyed_profile \<Rightarrow> window_entry list \<Rightarrow> bool wop" where
  "record_and_persist bk env p es = record_settled bk env p es False"

definition record_authorized :: "backend \<Rightarrow> window_env \<Rightarrow> keyed_profile \<Rightarrow> window_entry list \<Rightarrow> bool wop" where
  "record_authorized bk env p es = record_settled bk env p es True"

definition record_pending ::
  "backend \<Rightarrow> window_env \<Rightarrow> keyed_profile \<Rightarrow> window_entry list \<Rightarrow> window_reservation \<Rightarrow> bool wop" where
  "record_pending bk env p es rs =
     (let gen_entry = generation_entry_ref p in
      wbind (ensure_parent_dir env) (\<lambda>_.
      wbind (acquire env) (\<lambda>_.
      wbind (load_or_mint_key bk env p) (\<lambda>(key, minted).
      wbind (wread (read_verified bk key gen_entry)) (\<lambda>wire.
      wbind (wlift (if file_holds_id wire (rs_id rs) then Inl DuplicateReservation else admit wire es)) (\<lambda>_.
      wbind (persist bk env key gen_entry (push_entries (pending_record rs) es wire)) (\<lambda>_.
      wlift (Inr minted))))))))"

section \<open>Settling reservations\<close>

text \<open>
  Both sides are on disk before the counter moves; a failed compaction of the
  committed file is only logged.
\<close>

definition commit_generation ::
  "backend \<Rightarrow> string \<Rightarrow> keyring_entry_ref \<Rightarrow> wire_file \<Rightarrow> wire_file \<Rightarrow> unit wop" where
  "commit_generation bk key gen_entry original nxt0 =
     (if u64_max < wf_generation original + 1
      then wlift (Inl (StoreInvalid ''policy window-state generation counter overflow''))
      else
        let nxt = with_prepared None (with_generation (wf_generation original + 1) nxt0) in
        if wf_generation original = 0
        then wbind (write_generation bk gen_entry nxt) (\<lambda>_. write_atomic bk key nxt)
        else
          wbind (write_atomic bk key (with_prepared (Some nxt) (with_version WIRE_VERSION original))) (\<lambda>_.
          wbind (write_generation bk gen_entry nxt) (\<lambda>_ w.
          (Inr (), snd (write_atomic bk key nxt w)))))"

definition rewrite_records ::
  "backend \<Rightarrow> window_env \<Rightarrow> keyed_profile \<Rightarrow> (wire_file \<Rightarrow> wire_file \<times> bool) \<Rightarrow> unit wop" where
  "rewrite_records bk env p mutate =
     (let gen_entry = generation_entry_ref p in
      wbind (ensure_parent_dir env) (\<lambda>_.
      wbind (acquire env) (\<lambda>_.
      wbind (load_or_mint_key bk env p) (\<lambda>(key, _).
      wbind (wread (read_verified bk key gen_entry)) (\<lambda>original.
      case mutate original of
        (wire, touched) \<Rightarrow>
          if \<not> touched then wlift (Inr ())
          else
            wbind (wlift (now_ms env)) (\<lambda>now.
            commit_generation bk key gen_entry original (with_version WIRE_VERSION (prune_stale now wire))))))))"

text \<open>An in-place update of the records a test selects, and whether any was selected.\<close>

definition update_records :: "(wire_record \<Rightarrow> bool) \<Rightarrow> (wire_record \<Rightarrow> wire_record) \<Rightarrow> wire_file \<Rightarrow> wire_file \<times> bool" where
  "update_records P f wire =
     (with_entries (map (\<lambda>b. b\<lparr>wb_records := map (\<lambda>r. if P r then f r else r) (wb_records b)\<rparr>)) wire,
      list_ex (\<lambda>b. list_ex P (wb_records b)) (wf_entries wire))"

definition confirm_mutation :: "string \<Rightarrow> nat \<Rightarrow> wire_file \<Rightarrow> wire_file \<times> bool" where
  "confirm_mutation i close_ms =
     update_records (\<lambda>r. wr_id r = i \<and> wr_status r = Pending)
       (\<lambda>r. r\<lparr>wr_status := Confirmed, wr_ts_ms := close_ms\<rparr>)"

text \<open>The ledger close time in milliseconds, when it is positive and fits.\<close>

definition close_time_ms :: "int option \<Rightarrow> nat option" where
  "close_time_ms created_at =
     (case created_at of
        None \<Rightarrow> None
      | Some time \<Rightarrow> if time \<le> 0 \<or> int u64_max < time * 1000 then None else Some (nat time * 1000))"

definition confirm_reservation :: "backend \<Rightarrow> window_env \<Rightarrow> keyed_profile \<Rightarrow> string \<Rightarrow> int option \<Rightarrow> unit wop" where
  "confirm_reservation bk env p i created_at =
     (case close_time_ms created_at of
        None \<Rightarrow> wlift (Inr ())
      | Some close_ms \<Rightarrow> rewrite_records bk env p (confirm_mutation i close_ms))"

definition record_count :: "wire_file \<Rightarrow> nat" where
  "record_count wire = sum_list (map (\<lambda>b. length (wb_records b)) (wf_entries wire))"

definition release_mutation :: "string \<Rightarrow> wire_file \<Rightarrow> wire_file \<times> bool" where
  "release_mutation i wire =
     (let wire' = with_entries
            (\<lambda>es. filter (\<lambda>b. wb_records b \<noteq> [])
               (map (\<lambda>b. b\<lparr>wb_records := filter (\<lambda>r. wr_id r \<noteq> i \<or> wr_status r \<noteq> Pending) (wb_records b)\<rparr>) es)) wire
      in (wire', record_count wire' \<noteq> record_count wire))"

definition release_reservation :: "backend \<Rightarrow> window_env \<Rightarrow> keyed_profile \<Rightarrow> string \<Rightarrow> unit wop" where
  "release_reservation bk env p i = rewrite_records bk env p (release_mutation i)"

definition mark_mutation :: "string \<Rightarrow> wire_file \<Rightarrow> wire_file \<times> bool" where
  "mark_mutation i =
     update_records (\<lambda>r. wr_id r = i \<and> wr_status r = Pending \<and> \<not> wr_operator_required r)
       (\<lambda>r. r\<lparr>wr_operator_required := True\<rparr>)"

definition mark_operator_required :: "backend \<Rightarrow> window_env \<Rightarrow> keyed_profile \<Rightarrow> string \<Rightarrow> unit wop" where
  "mark_operator_required bk env p i = rewrite_records bk env p (mark_mutation i)"

section \<open>Key rotation\<close>

definition verify_tag :: "backend \<Rightarrow> string \<Rightarrow> world \<Rightarrow> (window_store_error, unit) result" where
  "verify_tag bk key w =
     (case w_file w of
        Missing \<Rightarrow> Inr ()
      | Unreadable e \<Rightarrow> Inl (IoError e)
      | Contents raw \<Rightarrow>
          if length raw < HMAC_TAG_LEN then Inl (StoreInvalid ''store file is shorter than the HMAC tag prefix'')
          else if take HMAC_TAG_LEN raw \<noteq> compute_tag bk key (drop HMAC_TAG_LEN raw) then Inl HmacMismatch
          else Inr ())"

definition resign :: "backend \<Rightarrow> window_env \<Rightarrow> string \<Rightarrow> unit wop" where
  "resign bk env new_key =
     wbind (ensure_parent_dir env) (\<lambda>_.
     wbind (acquire env) (\<lambda>_ w.
     case w_file w of
       Missing \<Rightarrow> (Inr (), w)
     | Unreadable e \<Rightarrow> (Inl (IoError e), w)
     | Contents raw \<Rightarrow>
         if length raw < HMAC_TAG_LEN
         then (Inl (StoreInvalid ''store file is shorter than the HMAC tag prefix''), w)
         else
           let body = drop HMAC_TAG_LEN raw in
           durable_write IoError (\<lambda>w. w\<lparr>w_file := Contents (compute_tag bk new_key body @ body)\<rparr>) w))"

end
