(* ===== verification/Window_Durability.thy ===== *)
theory Window_Durability
  imports Window_Store "HOL-Library.Sublist"
begin

text \<open>
  What the durable window store guarantees: the hydrated in-memory store answers as
  the file does, admitted reservations keep every window under its limit through
  confirmation, release and pruning, a reservation is counted once, a rolled-back
  file is refused, and settling survives a crash at any write.
\<close>

section \<open>Hydration refines the file\<close>

definition entry_of :: "wire_record \<Rightarrow> state_entry" where
  "entry_of r = \<lparr>timestamp_ms = wr_ts_ms r, amount = wr_amount r, pending = (wr_status r = Pending)\<rparr>"

lemma entry_of_simps [simp]:
  "timestamp_ms (entry_of r) = wr_ts_ms r"
  "amount (entry_of r) = wr_amount r"
  "pending (entry_of r) \<longleftrightarrow> wr_status r = Pending"
  by (simp_all add: entry_of_def)

definition bucket_entries :: "state_key \<Rightarrow> wire_bucket list \<Rightarrow> state_entry list" where
  "bucket_entries k bs = concat (map (\<lambda>b. map entry_of (wb_records b)) (filter (\<lambda>b. bucket_matches b k) bs))"

definition file_entries :: "wire_file \<Rightarrow> state_key \<Rightarrow> state_entry list" where
  "file_entries wire k = bucket_entries k (wf_entries wire)"

lemma bucket_entries_simps [simp]:
  "bucket_entries k [] = []"
  "bucket_entries k (b # bs) = (if bucket_matches b k then map entry_of (wb_records b) else []) @ bucket_entries k bs"
  by (simp_all add: bucket_entries_def)

abbreviation count_step :: "int \<times> nat \<Rightarrow> state_entry \<Rightarrow> int \<times> nat" where
  "count_step \<equiv> \<lambda>(sum, count) e. (sat_add_i128 sum (amount e), sat_add_u32 count 1)"

definition window_answer ::
  "nat \<Rightarrow> nat \<Rightarrow> int \<times> nat \<Rightarrow> state_entry list \<Rightarrow> (deny_reason, int \<times> nat) result" where
  "window_answer now secs acc es =
     (case find (skewed now) es of
        Some e \<Rightarrow> Inl (EvaluationError (clock_skew_text (timestamp_ms e) now))
      | None \<Rightarrow> Inr (foldl count_step acc (live secs now es)))"

lemma find_append: "find P (xs @ ys) = (case find P xs of Some x \<Rightarrow> Some x | None \<Rightarrow> find P ys)"
  by (induction xs) auto

lemma window_answer_append:
  "window_answer now secs acc (xs @ ys) =
     res_bind (window_answer now secs acc xs) (\<lambda>acc'. window_answer now secs acc' ys)"
  by (auto simp: window_answer_def find_append live_def split: option.splits)

lemma window_answer_simps [simp]:
  "window_answer now secs acc [] = Inr acc"
  "window_answer now secs acc (e # es) =
     (if skewed now e then Inl (EvaluationError (clock_skew_text (timestamp_ms e) now))
      else window_answer now secs (if keep secs now e then count_step acc e else acc) es)"
  by (auto simp: window_answer_def live_def split: option.split)

lemma window_records_answer: "window_records now secs rs acc = window_answer now secs acc (map entry_of rs)"
  by (induction now secs rs acc rule: window_records.induct)
     (auto simp: skewed_def keep_def window_cutoff_def record_is_live_def)

lemma window_buckets_answer:
  "window_buckets k now bs acc = window_answer now (window_secs k) acc (bucket_entries k bs)"
proof (induction bs arbitrary: acc)
  case (Cons b bs)
  then have "window_buckets k now bs = (\<lambda>acc. window_answer now (window_secs k) acc (bucket_entries k bs))" by auto
  then show ?case by (simp add: window_answer_append window_records_answer)
qed simp

lemma window_in_file_eq:
  "window_in_file wire k now =
     (case find (skewed now) (file_entries wire k) of
        Some e \<Rightarrow> Inl (EvaluationError (clock_skew_text (timestamp_ms e) now))
      | None \<Rightarrow> Inr (window_sum (live (window_secs k) now (file_entries wire k))))"
  unfolding window_in_file_def window_buckets_answer window_answer_def file_entries_def window_sum_def by (rule refl)

lemma append_records_effect:
  assumes "\<not> poisoned s"
  shows "fst (append_records k rs s) = Inr () \<and> \<not> poisoned (snd (append_records k rs s)) \<and>
    (\<forall>k'. entries (snd (append_records k rs s)) k' = entries s k' @ (if k' = k then map entry_of rs else []))"
  using assms
proof (induction rs arbitrary: s)
  case (Cons r rs)
  let ?app = "append_entry s k (wr_ts_ms r) (wr_amount r) (wr_status r = Pending)"
  have "(if wr_status r = Pending then append_pending s k (wr_ts_ms r) (wr_amount r)
        else append_settled s k (wr_ts_ms r) (wr_amount r)) = ?app"
    by (simp add: append_pending_def append_settled_def)
  moreover obtain s' where s': "?app = (Inr (), s')" using Cons.prems by (simp add: append_entry_def)
  moreover have "\<not> poisoned s'" "entries s' k' = entries s k' @ (if k' = k then [entry_of r] else [])" for k'
    using append_entry_store(1)[of s k "wr_ts_ms r" "wr_amount r" "wr_status r = Pending"]
      append_entry_store(2)[of s k "wr_ts_ms r" "wr_amount r" "wr_status r = Pending" k'] s' Cons.prems
    by (simp_all add: entry_of_def)
  ultimately show ?case using Cons.IH[of s'] by simp
qed simp

lemma bucket_matches_key:
  "profile_name k = name \<Longrightarrow>
   state_key_new name (wb_scope_specificity b) (wb_bucket b) (wb_window_secs b) = k \<longleftrightarrow> bucket_matches b k"
  by (cases k) (auto simp: state_key_new_def bucket_matches_def)

lemma append_buckets_effect:
  assumes "\<not> poisoned s"
  shows "fst (append_buckets name bs s) = Inr () \<and> \<not> poisoned (snd (append_buckets name bs s)) \<and>
    (\<forall>k. profile_name k = name \<longrightarrow> entries (snd (append_buckets name bs s)) k = entries s k @ bucket_entries k bs)"
  using assms
proof (induction bs arbitrary: s)
  case (Cons b bs)
  let ?k = "state_key_new name (wb_scope_specificity b) (wb_bucket b) (wb_window_secs b)"
  obtain s' where s': "append_records ?k (wb_records b) s = (Inr (), s')"
    using append_records_effect[OF Cons.prems, of ?k "wb_records b"] by (cases "append_records ?k (wb_records b) s") auto
  then have "\<not> poisoned s'"
      "entries s' k = entries s k @ (if k = ?k then map entry_of (wb_records b) else [])" for k
    using append_records_effect[OF Cons.prems, of ?k "wb_records b"] by simp_all
  then show ?case using Cons.IH[of s'] s' by (auto simp: bucket_matches_key[symmetric])
qed simp

text \<open>The file a profile's store holds, as every reader of it verifies it.\<close>

definition stored_file :: "backend \<Rightarrow> keyed_profile \<Rightarrow> world \<Rightarrow> (window_store_error, wire_file) result" where
  "stored_file bk p w =
     (case load_hmac_key_32 (secret_codec.truncate bk) (w_keyring w) (policy_window_state_key_id p) of
        Inl _ \<Rightarrow> Inl (KeyringFailed ''key load failed'')
      | Inr key \<Rightarrow> read_verified bk key (generation_entry_ref p) w)"

lemma query_of_entries:
  assumes "\<not> poisoned s" "entries s k = file_entries wire k"
  shows "map_sum (\<lambda>e. EvaluationError (clock_skew_text (skew_entry_ts_ms e) (skew_now_ms e))) id (fst (query_window s k now)) =
    window_in_file wire k now"
  using assms by (simp add: query_window_result window_in_file_eq live_def split: option.split)

text \<open>
  C11. Hydration is exact. When the in-memory store has been loaded from the file,
  every window query the policy criteria make for the profile is answered as the
  admission check answers it on the verified file, a reservation from the future
  included.
\<close>

theorem hydrated_windows_match_file:
  assumes "load_into bk name p w store_new = (Inr (), s)" "stored_file bk p w = Inr wire"
    and "w_file w \<noteq> Missing" "profile_name k = name"
  shows "map_sum (\<lambda>e. EvaluationError (clock_skew_text (skew_entry_ts_ms e) (skew_now_ms e))) id (fst (query_window s k now)) =
    window_in_file wire k now"
proof -
  have new: "\<not> poisoned store_new" "entries store_new k = []" by (simp_all add: store_new_def entries_def)
  have "append_buckets name (wf_entries wire) store_new = (Inr (), s)"
    using assms(1,2,3)
    by (auto simp: load_into_def Let_def stored_file_def read_verified_def res_bind_def
        split: sum.splits file_slot.splits prod.splits)
  then show ?thesis
    using append_buckets_effect[OF new(1), of name "wf_entries wire"] new(2) assms(4)
    by (intro query_of_entries) (simp_all add: file_entries_def)
qed

section \<open>Windows only fade between admissions\<close>

text \<open>
  Pruning, releasing, confirming and marking never add to a window: at any time the
  amounts counted afterwards are among the amounts counted before.  A reservation
  counts whatever its age, so dating it at its ledger close can only drop it.
\<close>

definition fades :: "nat \<Rightarrow> state_entry list \<Rightarrow> state_entry list \<Rightarrow> bool" where
  "fades secs es' es \<longleftrightarrow>
     subseq (map amount es') (map amount es) \<and>
     (\<forall>t. subseq (map amount (live secs t es')) (map amount (live secs t es)))"

lemma fades_refl [simp]: "fades secs es es"
  by (simp add: fades_def)

lemma fades_trans: "fades secs a b \<Longrightarrow> fades secs b c \<Longrightarrow> fades secs a c"
  by (auto simp: fades_def intro: subseq_order.trans)

lemma fades_append: "fades secs a b \<Longrightarrow> fades secs c d \<Longrightarrow> fades secs (a @ c) (b @ d)"
  by (auto simp: fades_def live_def intro: list_emb_append_mono)

lemma fades_filter: "fades secs (map entry_of (filter P rs)) (map entry_of rs)"
  by (induction rs) (auto simp: fades_def live_def)

lemma fades_settle:
  assumes "\<And>r. wr_amount (h r) = wr_amount r" "\<And>r. h r = r \<or> wr_status r = Pending"
  shows "fades secs (map entry_of (map h rs)) (map entry_of rs)"
proof -
  have keep: "keep secs t (entry_of (h r)) \<Longrightarrow> keep secs t (entry_of r)" for t r
    using assms(2)[of r] by (auto simp: keep_def)
  show ?thesis
    by (induction rs) (use keep in \<open>auto simp: fades_def live_def assms(1)\<close>)
qed

lemma bucket_entries_update:
  assumes "\<And>rs. fades (window_secs k) (map entry_of (h rs)) (map entry_of rs)"
  shows "fades (window_secs k) (bucket_entries k (map (\<lambda>b. b\<lparr>wb_records := h (wb_records b)\<rparr>) bs)) (bucket_entries k bs)"
proof (induction bs)
  case (Cons b bs)
  have "bucket_matches (b\<lparr>wb_records := h (wb_records b)\<rparr>) k = bucket_matches b k" by (simp add: bucket_matches_def)
  then show ?case using fades_append[OF assms Cons.IH] Cons.IH by simp
qed simp

lemma bucket_entries_drop_empty [simp]:
  "bucket_entries k (filter (\<lambda>b. wb_records b \<noteq> []) bs) = bucket_entries k bs"
  by (induction bs) auto

lemma with_entries_simps [simp]:
  "wf_entries (with_entries f w) = f (wf_entries w)"
  "wf_generation (with_entries f w) = wf_generation w"
  "wf_prepared (with_entries f w) = wf_prepared w"
  "wf_version (with_entries f w) = wf_version w"
  by (simp_all add: with_entries_def)

lemma with_field_simps [simp]:
  "wf_entries (with_version v w) = wf_entries w" "wf_entries (with_generation g w) = wf_entries w"
  "wf_entries (with_prepared n w) = wf_entries w"
  "wf_version (with_version v w) = v" "wf_version (with_generation g w) = wf_version w"
  "wf_version (with_prepared n w) = wf_version w"
  "wf_generation (with_version v w) = wf_generation w" "wf_generation (with_generation g w) = g"
  "wf_generation (with_prepared n w) = wf_generation w"
  "wf_prepared (with_version v w) = wf_prepared w" "wf_prepared (with_generation g w) = wf_prepared w"
  "wf_prepared (with_prepared n w) = n"
  by (simp_all add: with_version_def with_generation_def with_prepared_def)

lemma prune_fades: "fades (window_secs k) (file_entries (prune_stale now wire) k) (file_entries wire k)"
  unfolding file_entries_def prune_stale_def Let_def with_entries_simps bucket_entries_drop_empty
  by (rule bucket_entries_update) (rule fades_filter)

lemma release_fades: "fades (window_secs k) (file_entries (fst (release_mutation i wire)) k) (file_entries wire k)"
  unfolding file_entries_def release_mutation_def Let_def fst_conv with_entries_simps bucket_entries_drop_empty
  by (rule bucket_entries_update) (rule fades_filter)

lemma update_fades:
  assumes "\<And>r. wr_amount (f r) = wr_amount r" "\<And>r. P r \<Longrightarrow> wr_status r = Pending"
  shows "fades (window_secs k) (file_entries (fst (update_records P f wire)) k) (file_entries wire k)"
  unfolding file_entries_def update_records_def fst_conv with_entries_simps
  by (rule bucket_entries_update, rule fades_settle) (use assms in auto)

lemma confirm_fades: "fades (window_secs k) (file_entries (fst (confirm_mutation i ts wire)) k) (file_entries wire k)"
  unfolding confirm_mutation_def by (rule update_fades) auto

lemma mark_fades: "fades (window_secs k) (file_entries (fst (mark_mutation i wire)) k) (file_entries wire k)"
  unfolding mark_mutation_def by (rule update_fades) auto

section \<open>One bucket per key\<close>

primrec bucket_count :: "state_key \<Rightarrow> wire_bucket list \<Rightarrow> nat" where
  "bucket_count k [] = 0"
| "bucket_count k (b # bs) = (if bucket_matches b k then 1 else 0) + bucket_count k bs"

definition unique_for :: "state_key \<Rightarrow> wire_file \<Rightarrow> bool" where
  "unique_for k wire \<longleftrightarrow> bucket_count k (wf_entries wire) \<le> 1"

definition key_sim :: "state_key \<Rightarrow> state_key \<Rightarrow> bool" where
  "key_sim k k' \<longleftrightarrow> scope_specificity k = scope_specificity k' \<and> bucket k = bucket k' \<and> window_secs k = window_secs k'"

lemma bucket_matches_sim: "key_sim k k' \<Longrightarrow> bucket_matches b k = bucket_matches b k'"
  by (auto simp: key_sim_def bucket_matches_def)

lemma bucket_matches_other: "\<not> key_sim k k' \<Longrightarrow> bucket_matches b k \<Longrightarrow> \<not> bucket_matches b k'"
  by (auto simp: key_sim_def bucket_matches_def)

lemma bucket_entries_none: "bucket_count k bs = 0 \<Longrightarrow> bucket_entries k bs = []"
  by (induction bs) (auto split: if_splits)

lemma matches_records [simp]: "bucket_matches (b\<lparr>wb_records := rs\<rparr>) k = bucket_matches b k"
  by (simp add: bucket_matches_def)

lemma push_record_other:
  "\<not> key_sim k K \<Longrightarrow>
   bucket_entries K (push_record k r bs) = bucket_entries K bs \<and> bucket_count K (push_record k r bs) = bucket_count K bs"
  by (induction bs) (auto simp: bucket_matches_other, auto simp: bucket_matches_def key_sim_def)

lemma push_record_sim:
  "key_sim k K \<Longrightarrow> bucket_count K bs \<le> 1 \<Longrightarrow>
   bucket_entries K (push_record k r bs) = bucket_entries K bs @ [entry_of r] \<and> bucket_count K (push_record k r bs) \<le> 1"
  by (induction bs)
     (auto simp: bucket_matches_sim bucket_entries_none, auto simp: bucket_matches_def key_sim_def)

lemma push_entries_file:
  assumes "unique_for K wire"
  shows "unique_for K (push_entries mk es wire)"
    and "file_entries (push_entries mk es wire) K =
      file_entries wire K @ map (entry_of \<circ> mk) (filter (\<lambda>e. key_sim (we_key e) K) es)"
proof -
  have "bucket_count K (foldl (\<lambda>bs e. push_record (we_key e) (mk e) bs) bs es) \<le> 1 \<and>
    bucket_entries K (foldl (\<lambda>bs e. push_record (we_key e) (mk e) bs) bs es) =
      bucket_entries K bs @ map (entry_of \<circ> mk) (filter (\<lambda>e. key_sim (we_key e) K) es)"
    if "bucket_count K bs \<le> 1" for bs
    using that
  proof (induction es arbitrary: bs)
    case (Cons e es)
    then show ?case
      using push_record_other[of "we_key e" K "mk e" bs] push_record_sim[of "we_key e" K bs "mk e"] by auto
  qed simp
  then show "unique_for K (push_entries mk es wire)"
    "file_entries (push_entries mk es wire) K =
      file_entries wire K @ map (entry_of \<circ> mk) (filter (\<lambda>e. key_sim (we_key e) K) es)"
    using assms by (simp_all add: unique_for_def push_entries_def file_entries_def)
qed

lemma bucket_count_update [simp]:
  "bucket_count k (map (\<lambda>b. b\<lparr>wb_records := h (wb_records b)\<rparr>) bs) = bucket_count k bs"
  by (induction bs) auto

lemma bucket_count_filter: "bucket_count k (filter Q bs) \<le> bucket_count k bs"
  by (induction bs) auto

lemma bucket_count_drop: "bucket_count k bs \<le> n \<Longrightarrow> bucket_count k (filter Q bs) \<le> n"
  using bucket_count_filter le_trans by blast

lemma unique_mutations:
  assumes "unique_for k wire"
  shows "unique_for k (prune_stale now wire)" "unique_for k (fst (release_mutation i wire))"
    "unique_for k (fst (update_records P f wire))"
  using assms
  by (simp_all add: unique_for_def prune_stale_def release_mutation_def update_records_def Let_def bucket_count_drop)

section \<open>Reading back what was written\<close>

text \<open>
  What the store relies on of the libraries it calls: JSON parsing inverts JSON
  printing on files with at most one prepared image and on commitments, a printed
  commitment is not a decimal number, and digests and tags have 32 bytes.
\<close>

definition shallow :: "wire_file \<Rightarrow> bool" where
  "shallow wire \<longleftrightarrow> (case wf_prepared wire of None \<Rightarrow> True | Some nxt \<Rightarrow> wf_prepared nxt = None)"

definition backend_laws :: "backend \<Rightarrow> bool" where
  "backend_laws bk \<longleftrightarrow>
     (\<forall>wire. shallow wire \<longrightarrow> from_slice bk (to_vec bk wire) = Some wire) \<and>
     (\<forall>c. commitment_from_str bk (commitment_to_string bk c) = Some c) \<and>
     (\<forall>c. parse_unsigned u64_max (trim (commitment_to_string bk c)) = None) \<and>
     (\<forall>body. length (sha256 bk body) = 32) \<and>
     (\<forall>key msg. length (hmac_sha256 bk key msg) = 32)"

lemma lower_hex_nibble: "n < 16 \<Longrightarrow> lower_hex_digit (nibble_to_char n)"
  by (auto simp: lower_hex_digit_def nibble_to_char_def is_digit_def of_char_bytes)

lemma lower_hex_encode: "list_all lower_hex_digit (hex_encode bs)"
  by (induction bs) (simp_all add: hex_byte_def lower_hex_nibble less_mult_imp_div_less)

lemma body_digest_shape:
  "backend_laws bk \<Longrightarrow> length (body_digest bk x) = 64 \<and> list_all lower_hex_digit (body_digest bk x)"
  by (simp add: body_digest_def lower_hex_encode backend_laws_def)

lemma load_counter_commitment:
  assumes "backend_laws bk" "kr r = Secret (commitment_to_string bk (g, body_digest bk x))"
  shows "load_counter bk kr r = Inr (Some (g, Some (body_digest bk x)))"
  using assms body_digest_shape[OF assms(1), of x] by (simp add: load_counter_def backend_laws_def)

definition sealed :: "backend \<Rightarrow> string \<Rightarrow> wire_file \<Rightarrow> file_slot" where
  "sealed bk key x = Contents (compute_tag bk key (to_vec bk x) @ to_vec bk x)"

lemma verify_sealed:
  assumes "backend_laws bk" "shallow x" "wf_version x \<le> WIRE_VERSION_MAX"
  shows "verify_with_key bk key' (compute_tag bk key (to_vec bk x) @ to_vec bk x) =
    (if compute_tag bk key (to_vec bk x) = compute_tag bk key' (to_vec bk x) then Inr x else Inl HmacMismatch)"
proof -
  have "length (compute_tag bk key (to_vec bk x)) = HMAC_TAG_LEN"
    using assms(1) by (simp add: compute_tag_def HMAC_TAG_LEN_def backend_laws_def)
  then show ?thesis using assms by (simp add: verify_with_key_def Let_def backend_laws_def)
qed

lemma read_sealed:
  assumes "backend_laws bk" "shallow x" "wf_version x \<le> WIRE_VERSION_MAX" "w_file w = sealed bk key x"
  shows "read_verified bk key gen_entry w =
    res_bind (load_counter bk (w_keyring w) gen_entry) (select_generation bk x)"
  using assms by (simp add: read_verified_def sealed_def verify_sealed)

lemma select_generation_Inr:
  assumes "select_generation bk x counter = Inr chosen"
  obtains g digest where "counter = Some (g, digest)" "wf_generation chosen = g" "wf_prepared chosen = None"
    "\<And>d. digest = Some d \<Longrightarrow> body_digest bk chosen = d"
    "chosen = with_prepared None x \<or> wf_prepared x = Some chosen"
  using assms
  by (cases counter) (auto simp: select_generation_def res_bind_def split: if_splits option.splits sum.splits)

lemma select_committed:
  assumes "wf_prepared x = None"
  shows "select_generation bk x (Some (wf_generation x, Some (body_digest bk x))) = Inr x"
  using assms by (cases x) (simp add: select_generation_def with_prepared_def)

text \<open>
  C12. A rolled-back file is refused. Once the counter commits to a file, whatever is
  put in its place, an older snapshot, another prepared image or nothing, the store
  reads only a file of the committed generation with the committed digest.
\<close>

theorem rollback_refused:
  assumes "backend_laws bk"
    and "w_keyring w gen_entry = Secret (commitment_to_string bk (wf_generation x, body_digest bk x))"
    and "read_verified bk key gen_entry w = Inr wire"
  shows "wf_generation wire = wf_generation x \<and> body_digest bk wire = body_digest bk x"
proof -
  have c: "load_counter bk (w_keyring w) gen_entry = Inr (Some (wf_generation x, Some (body_digest bk x)))"
    by (rule load_counter_commitment[of bk "w_keyring w" gen_entry "wf_generation x" x]) (use assms in auto)
  then obtain y where "select_generation bk y (Some (wf_generation x, Some (body_digest bk x))) = Inr wire"
    using assms(3)
    by (auto simp: read_verified_def load_generation_def res_bind_Inr_iff split: file_slot.splits option.splits)
  then show ?thesis by (rule select_generation_Inr) auto
qed

section \<open>Durable writes\<close>

definition same_store :: "world \<Rightarrow> world \<Rightarrow> bool" where
  "same_store w w' \<longleftrightarrow> w_keyring w' = w_keyring w \<and> w_file w' = w_file w"

lemma same_store_simps [simp]: "same_store w w" "same_store w (w\<lparr>w_outcomes := ocs\<rparr>)"
  by (simp_all add: same_store_def)

lemma read_same: "same_store w w' \<Longrightarrow> read_verified bk key gen_entry w' = read_verified bk key gen_entry w"
  unfolding same_store_def read_verified_def by (elim conjE) (simp only:)

lemma durable_write_cases:
  assumes "durable_write err eff w = (r, w')"
  shows "\<exists>w1. same_store w w1 \<and> (w' = w1 \<and> (\<exists>e. r = Inl e) \<or> w' = eff w1)"
proof (cases "w_outcomes w")
  case Nil
  then show ?thesis using assms by (intro exI[of _ w]) (simp add: durable_write_def)
next
  case (Cons oc rest)
  then show ?thesis
    using assms by (intro exI[of _ "w\<lparr>w_outcomes := rest\<rparr>"]) (auto simp: durable_write_def Let_def split: write_outcome.splits)
qed

lemma write_atomic_cases:
  assumes "write_atomic bk key x w = (r, w')"
  shows "same_store w w' \<and> (\<exists>e. r = Inl e) \<or> w_keyring w' = w_keyring w \<and> w_file w' = sealed bk key x"
  using durable_write_cases[OF assms[unfolded write_atomic_def Let_def]] by (auto simp: same_store_def sealed_def)

lemma write_generation_cases:
  assumes "write_generation bk gen_entry x w = (r, w')"
  shows "same_store w w' \<and> (\<exists>e. r = Inl e) \<or>
    w_file w' = w_file w \<and>
    w_keyring w' = (w_keyring w)(gen_entry := Secret (commitment_to_string bk (wf_generation x, body_digest bk x)))"
  using durable_write_cases[OF assms[unfolded write_generation_def Let_def]] by (auto simp: same_store_def)

lemma wbind_cases:
  assumes "wbind m f w = (r, w')"
  obtains e where "m w = (Inl e, w')" "r = Inl e"
  | x w1 where "m w = (Inr x, w1)" "f x w1 = (r, w')"
  using assms by (auto simp: wbind_def split: prod.splits sum.splits)

lemma wbind_simps [simp]:
  "wbind (wlift (Inl e)) f w = (Inl e, w)"
  "wbind (wlift (Inr x)) f w = f x w"
  by (simp_all add: wbind_def wlift_def)

section \<open>Settling survives a crash\<close>

lemma read_counter:
  assumes "read_verified bk key gen_entry w = Inr wire" "wf_generation wire \<noteq> 0"
  obtains digest where "load_counter bk (w_keyring w) gen_entry = Inr (Some (wf_generation wire, digest))"
    "\<And>d. digest = Some d \<Longrightarrow> body_digest bk wire = d" "wf_prepared wire = None"
proof -
  obtain x counter where "load_counter bk (w_keyring w) gen_entry = Inr counter"
      "select_generation bk x counter = Inr wire"
    using assms by (auto simp: read_verified_def res_bind_Inr_iff split: file_slot.splits option.splits)
  then show ?thesis using that by (auto elim!: select_generation_Inr)
qed

definition committed :: "wire_file \<Rightarrow> wire_file \<Rightarrow> wire_file" where
  "committed original nxt0 = with_prepared None (with_generation (wf_generation original + 1) nxt0)"

definition prepared_image :: "wire_file \<Rightarrow> wire_file \<Rightarrow> wire_file" where
  "prepared_image original nxt = with_prepared (Some nxt) (with_version WIRE_VERSION original)"

lemma commit_states:
  assumes laws: "backend_laws bk" and read: "read_verified bk key gen_entry w = Inr wire"
    and v: "wf_version wire = WIRE_VERSION" "wf_version nxt0 = WIRE_VERSION"
    and g: "wf_generation wire \<noteq> 0" "wf_generation wire + 1 \<le> u64_max"
  defines "nxt \<equiv> committed wire nxt0"
  defines "commitment \<equiv> Secret (commitment_to_string bk (wf_generation nxt, body_digest bk nxt))"
  shows "w_file w' = sealed bk key (prepared_image wire nxt) \<Longrightarrow> w_keyring w' gen_entry = w_keyring w gen_entry \<Longrightarrow>
      read_verified bk key gen_entry w' = Inr wire"
    and "w_file w' = sealed bk key (prepared_image wire nxt) \<Longrightarrow> w_keyring w' gen_entry = commitment \<Longrightarrow>
      read_verified bk key gen_entry w' = Inr nxt"
    and "w_file w' = sealed bk key nxt \<Longrightarrow> w_keyring w' gen_entry = commitment \<Longrightarrow>
      read_verified bk key gen_entry w' = Inr nxt"
proof -
  let ?x = "prepared_image wire nxt"
  have nxt: "wf_version nxt = WIRE_VERSION" "wf_generation nxt = wf_generation wire + 1" "wf_prepared nxt = None"
    using v by (simp_all add: nxt_def committed_def)
  have x: "shallow ?x" "wf_version ?x = WIRE_VERSION" "wf_generation ?x = wf_generation wire" "wf_prepared ?x = Some nxt"
    using nxt by (simp_all add: prepared_image_def shallow_def)
  have ver: "WIRE_VERSION \<le> WIRE_VERSION_MAX" by (simp add: WIRE_VERSION_def WIRE_VERSION_MAX_def)
  obtain digest where c: "load_counter bk (w_keyring w) gen_entry = Inr (Some (wf_generation wire, digest))"
      "\<And>d. digest = Some d \<Longrightarrow> body_digest bk wire = d" "wf_prepared wire = None"
    using read_counter[OF read g(1)] by blast
  have restored: "with_prepared None ?x = wire"
    using v(1) c(3) by (cases wire) (simp add: prepared_image_def with_prepared_def with_version_def)
  have same: "load_counter bk (w_keyring w') gen_entry = load_counter bk (w_keyring w) gen_entry"
    if "w_keyring w' gen_entry = w_keyring w gen_entry" for w'
    using that by (simp add: load_counter_def)
  have now: "load_counter bk (w_keyring w') gen_entry = Inr (Some (wf_generation nxt, Some (body_digest bk nxt)))"
    if "w_keyring w' gen_entry = commitment" for w'
    using load_counter_commitment[OF laws, of "w_keyring w'" gen_entry] that by (simp add: commitment_def)
  show "read_verified bk key gen_entry w' = Inr wire"
    if "w_file w' = sealed bk key ?x" "w_keyring w' gen_entry = w_keyring w gen_entry" for w'
    using read_sealed[OF laws x(1) _ that(1)] x ver same[OF that(2)] c nxt g restored
    by (auto simp: select_generation_def split: option.split)
  show "read_verified bk key gen_entry w' = Inr nxt"
    if "w_file w' = sealed bk key ?x" "w_keyring w' gen_entry = commitment" for w'
    using read_sealed[OF laws x(1) _ that(1)] x ver now[OF that(2)] nxt g by (simp add: select_generation_def)
  show "read_verified bk key gen_entry w' = Inr nxt"
    if "w_file w' = sealed bk key nxt" "w_keyring w' gen_entry = commitment" for w'
    using read_sealed[OF laws _ _ that(1)] ver now[OF that(2)] nxt select_committed[OF nxt(3), of bk] by (simp add: shallow_def)
qed

lemma commit_generation_crash:
  assumes laws: "backend_laws bk" and read: "read_verified bk key gen_entry w = Inr wire"
    and v: "wf_version wire = WIRE_VERSION" "wf_version nxt0 = WIRE_VERSION"
    and g: "wf_generation wire \<noteq> 0"
    and run: "commit_generation bk key gen_entry wire nxt0 w = (r, w')"
  shows "(r = Inr () \<and> read_verified bk key gen_entry w' = Inr (committed wire nxt0) \<or>
      (\<exists>e. r = Inl e) \<and> read_verified bk key gen_entry w' \<in> {Inr wire, Inr (committed wire nxt0)}) \<and>
    (\<forall>e. e \<noteq> gen_entry \<longrightarrow> w_keyring w' e = w_keyring w e)"
proof (cases "wf_generation wire + 1 \<le> u64_max")
  case False
  then show ?thesis using run read by (auto simp: commit_generation_def wlift_def)
next
  case True
  let ?nxt = "committed wire nxt0" and ?x = "prepared_image wire (committed wire nxt0)"
  note states = commit_states[OF laws read v g True]
  obtain r1 w1 where w1: "write_atomic bk key ?x w = (r1, w1)" by fastforce
  obtain r2 w2 where w2: "write_generation bk gen_entry ?nxt w1 = (r2, w2)" by fastforce
  obtain r3 w3 where w3: "write_atomic bk key ?nxt w2 = (r3, w3)" by fastforce
  have unfold: "commit_generation bk key gen_entry wire nxt0 w =
      (case r1 of Inl e \<Rightarrow> (Inl e, w1) | Inr _ \<Rightarrow> (case r2 of Inl e \<Rightarrow> (Inl e, w2) | Inr _ \<Rightarrow> (Inr (), w3)))"
    using True g w1 w2 w3
    unfolding commit_generation_def Let_def committed_def[symmetric] prepared_image_def[symmetric]
    by (auto simp: wbind_def split: sum.split)
  note c1 = write_atomic_cases[OF w1] and c2 = write_generation_cases[OF w2] and c3 = write_atomic_cases[OF w3]
  have s1: "read_verified bk key gen_entry w1 = Inr wire" using c1 states(1)[of w1] read read_same[of w w1] by auto
  show ?thesis
  proof (cases r1)
    case (Inl e)
    then show ?thesis using unfold run s1 c1 by (auto simp: same_store_def)
  next
    case (Inr u)
    then have f1: "w_keyring w1 = w_keyring w" "w_file w1 = sealed bk key ?x" using c1 by auto
    have s2: "read_verified bk key gen_entry w2 \<in> {Inr wire, Inr ?nxt}" "r2 = Inr () \<Longrightarrow> read_verified bk key gen_entry w2 = Inr ?nxt"
      using c2 s1 f1 read_same[of w1 w2] states(2)[of w2] by auto
    have k2: "\<forall>e. e \<noteq> gen_entry \<longrightarrow> w_keyring w2 e = w_keyring w e" using c2 f1 by (auto simp: same_store_def)
    show ?thesis
    proof (cases r2)
      case (Inl e)
      then show ?thesis using unfold run s2(1) k2 \<open>r1 = Inr u\<close> by auto
    next
      case (Inr u')
      then have "w_keyring w2 gen_entry = Secret (commitment_to_string bk (wf_generation ?nxt, body_digest bk ?nxt))"
        using c2 by auto
      then have "read_verified bk key gen_entry w3 = Inr ?nxt" "w_keyring w3 = w_keyring w2"
        using c3 s2(2) Inr read_same[of w2 w3] states(3)[of w3] by (auto simp: same_store_def)
      then show ?thesis using unfold run k2 \<open>r1 = Inr u\<close> Inr by simp
    qed
  qed
qed

lemma gen_entry_neq: "generation_entry_ref p \<noteq> policy_window_state_key_id p"
  by (cases "policy_window_state_key_id p") (auto simp: generation_entry_ref_def generation_account_def Let_def)

lemma load_or_mint_loaded:
  assumes "load_or_mint_key bk env p w = (r, w')"
    and "load_hmac_key_32 (secret_codec.truncate bk) (w_keyring w) (policy_window_state_key_id p) = Inr key"
  shows "w' = w \<and> (r = Inr (key, False) \<or> (\<exists>e. r = Inl e))"
  using assms
  by (auto simp: load_or_mint_key_def Let_def wbind_def wlift_def wread_def split: sum.splits prod.splits)

lemma stored_file_key:
  assumes "stored_file bk p w = Inr wire"
  obtains key where
    "load_hmac_key_32 (secret_codec.truncate bk) (w_keyring w) (policy_window_state_key_id p) = Inr key"
    "read_verified bk key (generation_entry_ref p) w = Inr wire"
  using assms by (auto simp: stored_file_def split: sum.splits)

text \<open>How every locked operation begins: it fails on the way, or it holds a verified file.\<close>

lemma prologue_cases:
  assumes "wbind (ensure_parent_dir env) (\<lambda>_. wbind (acquire env) (\<lambda>_. wbind (load_or_mint_key bk env p) (\<lambda>(key, minted).
      wbind (wread (read_verified bk key gen_entry)) (f key minted)))) w = (r, w')"
  obtains e where "r = Inl e" "w' = w \<or> w' = snd (load_or_mint_key bk env p w)"
  | key minted w1 wire where "load_or_mint_key bk env p w = (Inr (key, minted), w1)"
      "read_verified bk key gen_entry w1 = Inr wire" "f key minted wire w1 = (r, w')"
proof -
  have stay: "ensure_parent_dir env v = (q, v') \<Longrightarrow> v' = v" "acquire env v = (q, v') \<Longrightarrow> v' = v" for v q v'
    by (simp_all add: ensure_parent_dir_def acquire_def wlift_def)
  from assms show thesis
  proof (rule wbind_cases)
    fix u w1
    assume 1: "ensure_parent_dir env w = (Inr u, w1)"
      "wbind (acquire env) (\<lambda>_. wbind (load_or_mint_key bk env p) (\<lambda>(key, minted).
        wbind (wread (read_verified bk key gen_entry)) (f key minted))) w1 = (r, w')"
    from 1(2) show thesis
    proof (rule wbind_cases)
      fix u w2
      assume 2: "acquire env w1 = (Inr u, w2)"
        "wbind (load_or_mint_key bk env p) (\<lambda>(key, minted).
          wbind (wread (read_verified bk key gen_entry)) (f key minted)) w2 = (r, w')"
      have w2: "w2 = w" using stay 1(1) 2(1) by blast
      show thesis
        using that 2(2) unfolding w2
        by (cases "load_or_mint_key bk env p w"; cases "fst (load_or_mint_key bk env p w)")
           (auto simp: wbind_def wread_def split: sum.splits)
    qed (use that stay 1(1) in blast)
  qed (use that stay in blast)
qed

text \<open>The file a settling rewrite commits.\<close>

definition settled_file :: "(wire_file \<Rightarrow> wire_file \<times> bool) \<Rightarrow> nat \<Rightarrow> wire_file \<Rightarrow> wire_file" where
  "settled_file mutate now wire = committed wire (with_version WIRE_VERSION (prune_stale now (fst (mutate wire))))"

text \<open>
  C10. Confirming, releasing and marking reservations survives a crash at any write.
  However each durable write of the rewrite ends, the store afterwards reads as the
  file before or as the settled file, never as an error and never as a mixture; and
  when the rewrite reports success, it reads as the settled file, or as before when
  nothing was to change.
\<close>

theorem settlement_survives_crashes:
  assumes laws: "backend_laws bk" and stored: "stored_file bk p w = Inr wire"
    and v: "wf_version wire = WIRE_VERSION" and g: "wf_generation wire \<noteq> 0"
    and run: "rewrite_records bk env p mutate w = (r, w')"
  shows "(\<exists>e. r = Inl e) \<and> stored_file bk p w' \<in> {Inr wire} \<union> {Inr (settled_file mutate now wire) |now. env_now_ms env = Some now} \<or>
    r = Inr () \<and> (if snd (mutate wire)
      then \<exists>now. env_now_ms env = Some now \<and> stored_file bk p w' = Inr (settled_file mutate now wire)
      else w' = w)"
proof -
  let ?ge = "generation_entry_ref p" and ?ke = "policy_window_state_key_id p"
  obtain key where key: "load_hmac_key_32 (secret_codec.truncate bk) (w_keyring w) ?ke = Inr key"
      and read: "read_verified bk key ?ge w = Inr wire"
    using stored_file_key[OF stored] by blast
  have reads: "stored_file bk p w' = read_verified bk key ?ge w'"
    if "\<forall>e. e \<noteq> ?ge \<longrightarrow> w_keyring w' e = w_keyring w e" for w'
    using that gen_entry_neq[of p] key by (simp add: stored_file_def load_hmac_key_32_def)
  have lm: "snd (load_or_mint_key bk env p w) = w" "load_or_mint_key bk env p w = (Inr (key', m), w1) \<Longrightarrow> key' = key" for key' m w1
    using load_or_mint_loaded[OF surjective_pairing key] load_or_mint_loaded[OF _ key] by auto
  consider e where "r = Inl e" "w' = w"
    | "w' = w" "r = Inr ()" "\<not> snd (mutate wire)"
    | now where "env_now_ms env = Some now" "snd (mutate wire)"
        "commit_generation bk key ?ge wire (with_version WIRE_VERSION (prune_stale now (fst (mutate wire)))) w = (r, w')"
  proof (rule prologue_cases[OF run[unfolded rewrite_records_def Let_def]])
    fix key' m w1 wire'
    assume *: "load_or_mint_key bk env p w = (Inr (key', m), w1)" "read_verified bk key' ?ge w1 = Inr wire'"
      "(case mutate wire' of (x, touched) \<Rightarrow>
          if \<not> touched then wlift (Inr ())
          else wbind (wlift (now_ms env)) (\<lambda>now. commit_generation bk key' ?ge wire'
            (with_version WIRE_VERSION (prune_stale now x)))) w1 = (r, w')"
    have "w1 = w" "key' = key" "wire' = wire" using lm * read by auto
    then show thesis
      using *(3) that
      by (cases "mutate wire"; cases "env_now_ms env") (auto simp: now_ms_def wlift_def[of "Inr ()"] split: if_splits)
  qed (use lm that in auto)
  then show ?thesis
  proof cases
    case 1
    then show ?thesis using run stored by auto
  next
    case 2
    then show ?thesis using run by auto
  next
    case (3 now)
    note commit = commit_generation_crash[OF laws read v _ g, of "with_version WIRE_VERSION (prune_stale now (fst (mutate wire)))" r w']
    show ?thesis using commit 3 run reads[of w'] by (auto simp: settled_file_def)
  qed
qed

section \<open>A reservation is counted once\<close>

lemma read_prepared_None: "read_verified bk key gen_entry w = Inr wire \<Longrightarrow> wf_prepared wire = None"
  by (auto simp: read_verified_def res_bind_Inr_iff split: file_slot.splits option.splits elim: select_generation_Inr)

lemma load_or_mint_frame:
  assumes "load_or_mint_key bk env p w = (r, w1)"
  shows "w_file w1 = w_file w" "w_keyring w1 (generation_entry_ref p) = w_keyring w (generation_entry_ref p)"
    "r = Inr (key, m) \<Longrightarrow>
     load_hmac_key_32 (secret_codec.truncate bk) (w_keyring w1) (policy_window_state_key_id p) = Inr key"
    "w_outcomes w = [] \<Longrightarrow> w_outcomes w1 = []"
proof -
  let ?load = "load_hmac_key_32 (secret_codec.truncate bk) (w_keyring w) (policy_window_state_key_id p)"
  have "w_file w1 = w_file w \<and> w_keyring w1 (generation_entry_ref p) = w_keyring w (generation_entry_ref p) \<and>
    (r = Inr (key, m) \<longrightarrow>
      load_hmac_key_32 (secret_codec.truncate bk) (w_keyring w1) (policy_window_state_key_id p) = Inr key) \<and>
    (w_outcomes w = [] \<longrightarrow> w_outcomes w1 = [])"
  proof (cases ?load)
    case (Inr key')
    then show ?thesis using load_or_mint_loaded[OF assms Inr] by auto
  next
    case (Inl e)
    then show ?thesis
      using assms gen_entry_neq[of p]
      by (auto simp: load_or_mint_key_def Let_def wbind_def wlift_def wread_def durable_write_def
          split: sum.splits list.splits write_outcome.splits)
  qed
  then show "w_file w1 = w_file w" "w_keyring w1 (generation_entry_ref p) = w_keyring w (generation_entry_ref p)"
    "r = Inr (key, m) \<Longrightarrow>
     load_hmac_key_32 (secret_codec.truncate bk) (w_keyring w1) (policy_window_state_key_id p) = Inr key"
    "w_outcomes w = [] \<Longrightarrow> w_outcomes w1 = []"
    by blast+
qed

definition recorded_file :: "nat \<Rightarrow> nat \<Rightarrow> wire_file \<Rightarrow> wire_file" where
  "recorded_file g now wire = with_generation g (with_version WIRE_VERSION (prune_stale now wire))"

lemma recorded_file_simps [simp]:
  "wf_version (recorded_file g now wire) = WIRE_VERSION" "wf_generation (recorded_file g now wire) = g"
  "wf_prepared (recorded_file g now wire) = wf_prepared wire"
  "wf_entries (recorded_file g now wire) = wf_entries (prune_stale now wire)"
  by (simp_all add: recorded_file_def prune_stale_def)

definition committed_to :: "backend \<Rightarrow> string \<Rightarrow> keyring_entry_ref \<Rightarrow> wire_file \<Rightarrow> world \<Rightarrow> bool" where
  "committed_to bk key gen_entry x w \<longleftrightarrow>
     w_file w = sealed bk key x \<and>
     w_keyring w gen_entry = Secret (commitment_to_string bk (wf_generation x, body_digest bk x))"

lemma persist_Inr:
  assumes "persist bk env key gen_entry wire w = (Inr u, w')"
  obtains now g where "env_now_ms env = Some now" "committed_to bk key gen_entry (recorded_file g now wire) w'"
    "\<forall>e. e \<noteq> gen_entry \<longrightarrow> w_keyring w' e = w_keyring w e"
proof -
  obtain now g w1 w2 where now: "env_now_ms env = Some now"
      and w1: "write_generation bk gen_entry (recorded_file g now wire) w = (Inr (), w1)"
      and w2: "write_atomic bk key (recorded_file g now wire) w1 = (Inr u, w')"
    using assms
    by (auto simp: persist_def now_ms_def wbind_def wlift_def wread_def Let_def recorded_file_def[symmetric] ok_or_def
        split: sum.splits prod.splits option.splits)
  show thesis
    using write_generation_cases[OF w1] write_atomic_cases[OF w2]
    by (intro that[OF now, of g]) (auto simp: committed_to_def)
qed

lemma read_committed:
  assumes "backend_laws bk" "committed_to bk key gen_entry x w" "wf_version x = WIRE_VERSION" "wf_prepared x = None"
  shows "read_verified bk key gen_entry w = Inr x"
    and "read_verified bk key' gen_entry w = Inr y \<Longrightarrow> y = x"
proof -
  have c: "load_counter bk (w_keyring w) gen_entry = Inr (Some (wf_generation x, Some (body_digest bk x)))"
    using load_counter_commitment[OF assms(1), of "w_keyring w" gen_entry] assms(2) by (simp add: committed_to_def)
  have x: "shallow x" "wf_version x \<le> WIRE_VERSION_MAX"
    using assms(3,4) by (simp_all add: shallow_def WIRE_VERSION_def WIRE_VERSION_MAX_def)
  have read: "read_verified bk k gen_entry w =
      res_bind (verify_with_key bk k (compute_tag bk key (to_vec bk x) @ to_vec bk x)) (\<lambda>_. Inr x)" for k
    using assms(2) c x verify_sealed[OF assms(1) x] select_committed[OF assms(4), of bk]
    by (simp add: committed_to_def read_verified_def sealed_def)
  show "read_verified bk key gen_entry w = Inr x" using read[of key] verify_sealed[OF assms(1) x] by simp
  show "read_verified bk key' gen_entry w = Inr y \<Longrightarrow> y = x" using read[of key'] by (simp add: res_bind_Inr_iff)
qed

definition holds_pending :: "string \<Rightarrow> wire_bucket list \<Rightarrow> bool" where
  "holds_pending i bs \<longleftrightarrow> (\<exists>b\<in>set bs. \<exists>r\<in>set (wb_records b). wr_id r = i \<and> wr_status r = Pending)"

lemma push_record_pending:
  "holds_pending i (push_record k r bs) \<longleftrightarrow> holds_pending i bs \<or> wr_id r = i \<and> wr_status r = Pending"
  by (induction bs) (auto simp: holds_pending_def)

lemma push_entries_pending:
  assumes "es \<noteq> []"
  shows "holds_pending (rs_id rs) (wf_entries (push_entries (pending_record rs) es wire))"
proof -
  have "holds_pending (rs_id rs) (foldl (\<lambda>bs e. push_record (we_key e) (pending_record rs e) bs) bs es)"
    if "holds_pending (rs_id rs) bs \<or> es \<noteq> []" for bs
    using that by (induction es arbitrary: bs) (auto simp: push_record_pending pending_record_def)
  then show ?thesis using assms by (simp add: push_entries_def)
qed

lemma prune_pending: "holds_pending i (wf_entries wire) \<Longrightarrow> holds_pending i (wf_entries (prune_stale now wire))"
  by (fastforce simp: holds_pending_def prune_stale_def Let_def filter_empty_conv)

lemma pending_held: "holds_pending i (wf_entries wire) \<Longrightarrow> i \<noteq> [] \<Longrightarrow> file_holds_id wire i"
  by (auto simp: holds_pending_def file_holds_id_def list_ex_iff)


section \<open>Admitted windows stay under their limit\<close>

text \<open>
  What the admission check needs of a measure: it depends on the amounts only, fewer
  amounts never measure more, and a batch entry that is not refused fits.
\<close>

locale admitted_window = capped_window usage ok
  for usage :: "state_entry list \<Rightarrow> 'm :: linorder" and ok :: "state_entry \<Rightarrow> bool" +
  fixes carries :: "window_entry \<Rightarrow> bool" and cap :: 'm
  assumes usage_amounts:
      "subseq (map amount es') (map amount es) \<Longrightarrow> list_all ok es \<Longrightarrow> list_all ok es' \<and> usage es' \<le> usage es"
    and gate: "carries e \<Longrightarrow> list_all ok (es @ bs) \<Longrightarrow> amount x = we_amount e \<Longrightarrow>
      refusal e (sat_add_i128 (fst (window_sum es)) (fst (window_sum bs)))
        (sat_add_u32 (snd (window_sum es)) (snd (window_sum bs))) = None \<Longrightarrow>
      ok x \<and> usage (es @ bs @ [x]) \<le> cap"
begin

lemma bounded_fades:
  assumes "bounded secs cap from es" "fades secs es' es"
  shows "bounded secs cap from es'"
proof -
  have ok: "list_all ok (live secs t es)" for t using assms(1) by (simp add: bounded_def live_def list_all_iff)
  have "list_all ok es'" using assms usage_amounts by (auto simp: bounded_def fades_def)
  moreover have "usage (live secs t es') \<le> usage (live secs t es)" for t
    using assms(2) usage_amounts[OF _ ok] by (simp add: fades_def)
  ultimately show ?thesis using assms(1) by (auto simp: bounded_def intro: order_trans)
qed

definition file_bounded :: "state_key \<Rightarrow> nat \<Rightarrow> wire_file \<Rightarrow> bool" where
  "file_bounded k from wire \<longleftrightarrow> unique_for k wire \<and> bounded (window_secs k) cap from (file_entries wire k)"

lemma admit_bounded:
  assumes "admit_loop wire batch es = Inr ()" "batch k = window_sum bs"
    and "bounded (window_secs k) cap now (file_entries wire k @ bs)" "\<forall>x\<in>set bs. keep (window_secs k) now x"
    and "\<And>e. e \<in> set es \<Longrightarrow> key_sim (we_key e) k \<Longrightarrow> we_key e = k \<and> we_timestamp_ms e = now \<and> carries e"
    and mk: "\<And>e. amount (entry_of (mk e)) = we_amount e" "\<And>e. timestamp_ms (entry_of (mk e)) = we_timestamp_ms e"
  shows "bounded (window_secs k) cap now
    (file_entries wire k @ bs @ map (entry_of \<circ> mk) (filter (\<lambda>e. key_sim (we_key e) k) es))"
  using assms(1-5)
proof (induction es arbitrary: batch bs)
  case (Cons e es)
  obtain fs fc where w: "window_in_file wire (we_key e) (we_timestamp_ms e) = Inr (fs, fc)"
      and ref: "refusal e (sat_add_i128 fs (fst (batch (we_key e)))) (sat_add_u32 fc (snd (batch (we_key e)))) = None"
      and rest: "admit_loop wire (batch(we_key e := (sat_add_i128 (fst (batch (we_key e))) (we_amount e),
          sat_add_u32 (snd (batch (we_key e))) 1))) es = Inr ()"
    using Cons.prems(1) by (auto simp: Let_def split: sum.splits option.splits prod.splits)
  show ?case
  proof (cases "key_sim (we_key e) k")
    case False
    then have "we_key e \<noteq> k" by (auto simp: key_sim_def)
    then show ?thesis using Cons.IH[OF rest, of bs] Cons.prems False by simp
  next
    case True
    let ?x = "entry_of (mk e)" and ?es = "file_entries wire k"
    have e: "we_key e = k" "we_timestamp_ms e = now" "carries e" using Cons.prems(5)[of e] True by auto
    have kept: "keep (window_secs k) now ?x" using mk(2)[of e] e(2) by (simp add: keep_def window_cutoff_def)
    have sum: "(fs, fc) = window_sum (live (window_secs k) now ?es)"
      using w e by (auto simp: window_in_file_eq split: option.splits)
    have live: "live (window_secs k) now (?es @ bs) = live (window_secs k) now ?es @ bs"
      using Cons.prems(4) by (simp add: live_def)
    have okes: "list_all ok (live (window_secs k) now ?es @ bs)"
      using Cons.prems(3) by (auto simp: bounded_def live_def list_all_iff)
    have "ok ?x \<and> usage (live (window_secs k) now ?es @ bs @ [?x]) \<le> cap"
    proof (rule gate[OF e(3) okes mk(1)])
      show "refusal e
          (sat_add_i128 (fst (window_sum (live (window_secs k) now ?es))) (fst (window_sum bs)))
          (sat_add_u32 (snd (window_sum (live (window_secs k) now ?es))) (snd (window_sum bs))) = None"
        using ref unfolding sum[symmetric] Cons.prems(2)[symmetric] e(1) by simp
    qed
    then have b: "bounded (window_secs k) cap now (?es @ (bs @ [?x]))"
      using bounded_append[OF Cons.prems(3), of ?x now now] live by simp
    have step: "window_sum (bs @ [?x]) = (sat_add_i128 (fst (batch k)) (we_amount e), sat_add_u32 (snd (batch k)) 1)"
      using Cons.prems(2) mk(1)[of e] by (simp add: window_sum_def split: prod.split)
    have "bounded (window_secs k) cap now
        (?es @ (bs @ [?x]) @ map (entry_of \<circ> mk) (filter (\<lambda>e. key_sim (we_key e) k) es))"
    proof (rule Cons.IH[OF rest])
      show "(batch(we_key e := (sat_add_i128 (fst (batch (we_key e))) (we_amount e),
          sat_add_u32 (snd (batch (we_key e))) 1))) k = window_sum (bs @ [?x])"
        unfolding step e(1) by simp
      show "\<forall>y\<in>set (bs @ [?x]). keep (window_secs k) now y" using Cons.prems(4) kept by simp
      show "\<And>e'. e' \<in> set es \<Longrightarrow> key_sim (we_key e') k \<Longrightarrow>
          we_key e' = k \<and> we_timestamp_ms e' = now \<and> carries e'"
        using Cons.prems(5) by (meson list.set_intros(2))
    qed (rule b)
    then show ?thesis using True by (simp add: comp_def)
  qed
qed simp

end

text \<open>
  Runs of the store: any sequence of reservations, authorizations, confirmations,
  releases and operator marks, each with its own environment, each allowed to be
  refused.  A batch for the bucket is dated by the clock of the run, which does not
  go back, and carries the limit under consideration.
\<close>

datatype window_op =
    Reserve window_env "window_entry list" window_reservation
  | Authorize window_env "window_entry list"
  | Confirm window_env string "int option"
  | Release window_env string
  | MarkOperator window_env string

primrec apply_op :: "backend \<Rightarrow> keyed_profile \<Rightarrow> window_op \<Rightarrow> world \<Rightarrow> world" where
  "apply_op bk p (Reserve env es rs) w = snd (record_pending bk env p es rs w)"
| "apply_op bk p (Authorize env es) w = snd (record_authorized bk env p es w)"
| "apply_op bk p (Confirm env i created_at) w = snd (confirm_reservation bk env p i created_at w)"
| "apply_op bk p (Release env i) w = snd (release_reservation bk env p i w)"
| "apply_op bk p (MarkOperator env i) w = snd (mark_operator_required bk env p i w)"

primrec op_batch :: "window_op \<Rightarrow> window_entry list" where
  "op_batch (Reserve env es rs) = es"
| "op_batch (Authorize env es) = es"
| "op_batch (Confirm env i created_at) = []"
| "op_batch (Release env i) = []"
| "op_batch (MarkOperator env i) = []"

definition batch_ok :: "state_key \<Rightarrow> (window_entry \<Rightarrow> bool) \<Rightarrow> nat \<Rightarrow> window_entry list \<Rightarrow> bool" where
  "batch_ok k carries now es \<longleftrightarrow>
     list_all (\<lambda>e. key_sim (we_key e) k \<longrightarrow> we_key e = k \<and> we_timestamp_ms e = now \<and> carries e) es"

inductive window_run :: "backend \<Rightarrow> keyed_profile \<Rightarrow> state_key \<Rightarrow> (window_entry \<Rightarrow> bool) \<Rightarrow> nat \<Rightarrow> world \<Rightarrow> bool"
  for bk p k carries where
  first_run: "window_run bk p k carries 0 w"
    if "w_file w = Missing" and "w_keyring w (generation_entry_ref p) = NoEntry" and "w_outcomes w = []"
| step: "window_run bk p k carries now' (apply_op bk p op w)"
    if "window_run bk p k carries now w" and "now \<le> now'" and "batch_ok k carries now' (op_batch op)"

lemma read_frame:
  assumes "w_file w' = w_file w" "w_keyring w' gen_entry = w_keyring w gen_entry"
  shows "read_verified bk key gen_entry w' = read_verified bk key gen_entry w"
proof -
  have "load_counter bk (w_keyring w') gen_entry = load_counter bk (w_keyring w) gen_entry"
    unfolding load_counter_def assms(2) by (rule refl)
  then show ?thesis unfolding read_verified_def load_generation_def assms(1) by (simp only:)
qed

lemma write_effects:
  assumes "w_outcomes w = []"
  shows "write_atomic bk key x w = (Inr (), w\<lparr>w_file := sealed bk key x\<rparr>)"
    and "write_generation bk gen_entry x w =
      (Inr (), w\<lparr>w_keyring := (w_keyring w)(gen_entry := Secret (commitment_to_string bk (wf_generation x, body_digest bk x)))\<rparr>)"
  using assms by (simp_all add: write_atomic_def write_generation_def durable_write_def Let_def sealed_def)

lemma persist_effect:
  assumes "w_outcomes w = []"
  shows "(\<exists>e. persist bk env key gen_entry wire w = (Inl e, w)) \<or>
    (\<exists>now g w'. persist bk env key gen_entry wire w = (Inr (), w') \<and> w_outcomes w' = [] \<and>
      committed_to bk key gen_entry (recorded_file g now wire) w')"
  using assms
  by (cases "now_ms env"; cases "next_generation bk (w_keyring w) gen_entry")
     (auto simp: persist_def wbind_def wlift_def wread_def Let_def recorded_file_def[symmetric] write_effects committed_to_def)

lemma commit_effect:
  assumes "w_outcomes w = []"
  shows "(\<exists>e. commit_generation bk key gen_entry wire nxt0 w = (Inl e, w)) \<or>
    (\<exists>w'. commit_generation bk key gen_entry wire nxt0 w = (Inr (), w') \<and> w_outcomes w' = [] \<and>
      committed_to bk key gen_entry (committed wire nxt0) w')"
  using assms
  by (auto simp: commit_generation_def wbind_def wlift_def Let_def committed_def write_effects committed_to_def)

context admitted_window
begin

definition store_bounded :: "backend \<Rightarrow> keyed_profile \<Rightarrow> state_key \<Rightarrow> nat \<Rightarrow> world \<Rightarrow> bool" where
  "store_bounded bk p k from w \<longleftrightarrow>
     w_outcomes w = [] \<and>
     (\<forall>key wire. read_verified bk key (generation_entry_ref p) w = Inr wire \<longrightarrow> file_bounded k from wire)"

lemma file_bounded_later: "file_bounded k from wire \<Longrightarrow> from \<le> from' \<Longrightarrow> file_bounded k from' wire"
  unfolding file_bounded_def by (blast intro: bounded_later)

lemma store_bounded_frame:
  assumes "store_bounded bk p k from w" "from \<le> from'" "w_file w' = w_file w" "w_outcomes w' = []"
    and "w_keyring w' (generation_entry_ref p) = w_keyring w (generation_entry_ref p)"
  shows "store_bounded bk p k from' w'"
  using assms(1,2,4) unfolding store_bounded_def read_frame[OF assms(3,5)] by (blast intro: file_bounded_later)

lemma store_bounded_committed:
  assumes "backend_laws bk" "committed_to bk key (generation_entry_ref p) x w" "w_outcomes w = []"
    and "wf_version x = WIRE_VERSION" "wf_prepared x = None" "file_bounded k from x"
  shows "store_bounded bk p k from w"
  using read_committed(2)[OF assms(1,2,4,5)] assms(3,6) by (auto simp: store_bounded_def)

lemma file_bounded_fades:
  assumes "file_bounded k from wire" "unique_for k wire'" "fades (window_secs k) (file_entries wire' k) (file_entries wire k)"
  shows "file_bounded k from wire'"
  using assms unfolding file_bounded_def by (blast intro: bounded_fades)

lemma store_bounded_prologue:
  assumes run: "wbind (ensure_parent_dir env) (\<lambda>_. wbind (acquire env) (\<lambda>_. wbind (load_or_mint_key bk env p) (\<lambda>(key, minted).
      wbind (wread (read_verified bk key (generation_entry_ref p))) (f key minted)))) w = (r, w')"
    and inv: "store_bounded bk p k from w" "from \<le> from'"
    and body: "\<And>key minted w1 wire r w'. w_outcomes w1 = [] \<Longrightarrow> store_bounded bk p k from w1 \<Longrightarrow>
      read_verified bk key (generation_entry_ref p) w1 = Inr wire \<Longrightarrow> file_bounded k from wire \<Longrightarrow>
      f key minted wire w1 = (r, w') \<Longrightarrow> store_bounded bk p k from' w'"
  shows "store_bounded bk p k from' w'"
proof -
  have out: "w_outcomes w = []" using inv(1) by (simp add: store_bounded_def)
  have minted: "store_bounded bk p k from w1" "w_outcomes w1 = []" if "load_or_mint_key bk env p w = (q, w1)" for q w1
    using store_bounded_frame[OF inv(1), of "from" w1] load_or_mint_frame[OF that] out by auto
  have later: "store_bounded bk p k from' v" if "store_bounded bk p k from v" for v
    using store_bounded_frame[OF that inv(2), of v] that by (simp add: store_bounded_def)
  show ?thesis
  proof (rule prologue_cases[OF run])
    fix e
    assume "w' = w \<or> w' = snd (load_or_mint_key bk env p w)"
    then show ?thesis using later inv(1) minted(1)[OF surjective_pairing] by auto
  next
    fix key m w1 wire
    assume *: "load_or_mint_key bk env p w = (Inr (key, m), w1)"
      "read_verified bk key (generation_entry_ref p) w1 = Inr wire" "f key m wire w1 = (r, w')"
    have "file_bounded k from wire" using minted(1)[OF *(1)] *(2) by (simp add: store_bounded_def)
    then show ?thesis using body minted *  by blast
  qed
qed

end

lemma recorded_unique: "unique_for k wire \<Longrightarrow> unique_for k (recorded_file g now wire)"
  using unique_mutations(1)[of k wire now] by (simp add: unique_for_def)

lemma recorded_fades:
  "fades (window_secs k) (file_entries (recorded_file g now wire) k) (file_entries wire k)"
  using prune_fades[of k now wire] by (simp add: file_entries_def)

lemma batch_okD:
  "batch_ok k carries now es \<Longrightarrow> e \<in> set es \<Longrightarrow> key_sim (we_key e) k \<Longrightarrow>
   we_key e = k \<and> we_timestamp_ms e = now \<and> carries e"
  by (simp add: batch_ok_def list_all_iff)

context admitted_window
begin

lemma store_bounded_persist:
  assumes laws: "backend_laws bk" and out: "w_outcomes w = []" and inv: "store_bounded bk p k from w" "from \<le> now"
    and read: "read_verified bk key (generation_entry_ref p) w = Inr wire" and wire: "file_bounded k from wire"
    and admit: "admit wire es = Inr ()" and batch: "batch_ok k carries now es"
    and mk: "\<And>e. amount (entry_of (mk e)) = we_amount e" "\<And>e. timestamp_ms (entry_of (mk e)) = we_timestamp_ms e"
    and run: "persist bk env key (generation_entry_ref p) (push_entries mk es wire) w = (r, w')"
  shows "store_bounded bk p k now w'"
proof -
  have start: "unique_for k wire" "bounded (window_secs k) cap now (file_entries wire k)"
    using file_bounded_later[OF wire inv(2)] unfolding file_bounded_def by auto
  have "bounded (window_secs k) cap now (file_entries wire k @ [] @ map (entry_of \<circ> mk) (filter (\<lambda>e. key_sim (we_key e) k) es))"
    by (rule admit_bounded[where batch = "\<lambda>_. (0, 0)"])
       (use admit batch start mk in \<open>auto simp: admit_def window_sum_def dest: batch_okD\<close>)
  then have pushed: "file_bounded k now (push_entries mk es wire)"
    using push_entries_file[OF start(1), of mk es] unfolding file_bounded_def by simp
  have rec: "file_bounded k now (recorded_file g c (push_entries mk es wire))" for g c
    using file_bounded_fades[OF pushed] recorded_unique recorded_fades pushed unfolding file_bounded_def by blast
  have none: "wf_prepared (push_entries mk es wire) = None"
    using read_prepared_None[OF read] by (simp add: push_entries_def)
  show ?thesis
    using persist_effect[OF out, of bk env key "generation_entry_ref p" "push_entries mk es wire"] run
      store_bounded_frame[OF inv, of w] out store_bounded_committed[OF laws _ _ _ _ rec] none
    by fastforce
qed

text \<open>Both recording operations: a check that implies admission, then the common tail.\<close>

lemma store_bounded_record:
  assumes laws: "backend_laws bk" and inv: "store_bounded bk p k from w" "from \<le> now"
    and check: "\<And>wire. check wire = Inr () \<Longrightarrow> admit wire es = Inr ()" and batch: "batch_ok k carries now es"
    and mk: "\<And>e. amount (entry_of (mk e)) = we_amount e" "\<And>e. timestamp_ms (entry_of (mk e)) = we_timestamp_ms e"
  shows "store_bounded bk p k now (snd (
    wbind (ensure_parent_dir env) (\<lambda>_. wbind (acquire env) (\<lambda>_. wbind (load_or_mint_key bk env p) (\<lambda>(key, minted).
      wbind (wread (read_verified bk key (generation_entry_ref p))) (\<lambda>wire.
      wbind (wlift (check wire)) (\<lambda>_.
      wbind (persist bk env key (generation_entry_ref p) (push_entries mk es wire)) (\<lambda>_.
      wlift (Inr minted))))))) w))"
proof (rule store_bounded_prologue[OF surjective_pairing inv])
  fix key minted w1 wire r w'
  assume *: "w_outcomes w1 = []" "store_bounded bk p k from w1"
    "read_verified bk key (generation_entry_ref p) w1 = Inr wire" "file_bounded k from wire"
    "wbind (wlift (check wire)) (\<lambda>_. wbind (persist bk env key (generation_entry_ref p) (push_entries mk es wire)) (\<lambda>_.
      wlift (Inr minted))) w1 = (r, w')"
  have stay: "store_bounded bk p k now w1" using store_bounded_frame[OF *(2) inv(2), of w1] *(1) by simp
  have "store_bounded bk p k now v" if "check wire = Inr ()"
      "persist bk env key (generation_entry_ref p) (push_entries mk es wire) w1 = (q, v)" for q v
    by (rule store_bounded_persist[OF laws *(1,2) inv(2) *(3,4) check[OF that(1)] batch mk that(2)])
  then show "store_bounded bk p k now w'"
    using *(5) stay by (auto simp: wbind_def wlift_def split: sum.splits prod.splits)
qed

lemma store_bounded_rewrite:
  assumes laws: "backend_laws bk" and inv: "store_bounded bk p k from w"
    and mut: "\<And>wire. unique_for k wire \<Longrightarrow> unique_for k (fst (mutate wire))"
      "\<And>wire. fades (window_secs k) (file_entries (fst (mutate wire)) k) (file_entries wire k)"
  shows "store_bounded bk p k from (snd (rewrite_records bk env p mutate w))"
proof -
  obtain r w' where run: "rewrite_records bk env p mutate w = (r, w')" by fastforce
  have "store_bounded bk p k from w'"
  proof (rule store_bounded_prologue[OF run[unfolded rewrite_records_def Let_def] inv order_refl])
    fix key minted w1 wire r w'
    assume out: "w_outcomes w1 = []" and inv1: "store_bounded bk p k from w1" and wire: "file_bounded k from wire"
      and body: "(case mutate wire of (x, touched) \<Rightarrow>
          if \<not> touched then wlift (Inr ())
          else wbind (wlift (now_ms env)) (\<lambda>now. commit_generation bk key (generation_entry_ref p) wire
            (with_version WIRE_VERSION (prune_stale now x)))) w1 = (r, w')"
    have bounded: "file_bounded k from (committed wire (with_version WIRE_VERSION (prune_stale now (fst (mutate wire)))))" for now
    proof (rule file_bounded_fades[OF wire])
      show "unique_for k (committed wire (with_version WIRE_VERSION (prune_stale now (fst (mutate wire)))))"
        using mut(1) unique_mutations(1) wire unfolding file_bounded_def by (simp add: unique_for_def committed_def)
      show "fades (window_secs k) (file_entries (committed wire (with_version WIRE_VERSION (prune_stale now (fst (mutate wire))))) k)
          (file_entries wire k)"
        using fades_trans[OF prune_fades mut(2)] by (simp add: file_entries_def committed_def)
    qed
    have commit: "store_bounded bk p k from v"
      if "commit_generation bk key (generation_entry_ref p) wire (with_version WIRE_VERSION (prune_stale now (fst (mutate wire)))) w1 = (q, v)"
      for now q v
      using commit_effect[OF out, of bk key "generation_entry_ref p" wire
          "with_version WIRE_VERSION (prune_stale now (fst (mutate wire)))"] that inv1
        store_bounded_committed[OF laws _ _ _ _ bounded[of now]]
      by (fastforce simp: committed_def)
    show "store_bounded bk p k from w'"
      using body inv1 commit
      by (cases "mutate wire"; cases "now_ms env") (auto simp: wlift_def[of "Inr ()"] split: if_splits)
  qed
  then show ?thesis using run by simp
qed

lemma run_bounded:
  assumes laws: "backend_laws bk" and run: "window_run bk p k carries now w" and none: "usage [] \<le> cap"
  shows "store_bounded bk p k now w"
  using run
proof induction
  case (first_run w)
  have "usage (live secs t []) \<le> cap" for secs t using none by (simp add: live_def)
  then have "file_bounded k 0 (WireFile WIRE_VERSION 0 [] None)"
    unfolding file_bounded_def bounded_def by (simp add: unique_for_def file_entries_def)
  then show ?case
    using first_run by (auto simp: store_bounded_def read_verified_def load_generation_def load_counter_def)
next
  case (step now w now' op)
  have later: "store_bounded bk p k now' w"
    using store_bounded_frame[OF step.IH step.hyps(2), of w] step.IH by (simp add: store_bounded_def)
  have rewrite: "store_bounded bk p k now' (snd (rewrite_records bk env p mutate w))"
    if "\<And>wire. unique_for k wire \<Longrightarrow> unique_for k (fst (mutate wire))"
      "\<And>wire. fades (window_secs k) (file_entries (fst (mutate wire)) k) (file_entries wire k)" for env mutate
    using store_bounded_rewrite[OF laws later that] by blast
  show ?case
  proof (cases op)
    case (Reserve env es rs)
    have "store_bounded bk p k now' (snd (record_pending bk env p es rs w))"
      unfolding record_pending_def Let_def
      by (rule store_bounded_record[OF laws step.IH step.hyps(2)])
         (use step.hyps(3) Reserve in \<open>simp_all add: pending_record_def split: if_splits\<close>)
    then show ?thesis using Reserve by simp
  next
    case (Authorize env es)
    have "store_bounded bk p k now' (snd (record_authorized bk env p es w))"
      unfolding record_authorized_def record_settled_def Let_def
      by (rule store_bounded_record[OF laws step.IH step.hyps(2)])
         (use step.hyps(3) Authorize in \<open>simp_all add: settled_record_def\<close>)
    then show ?thesis using Authorize by simp
  next
    case (Confirm env i created_at)
    then show ?thesis
      using rewrite[of "confirm_mutation i ts" env for ts] later confirm_fades
      by (auto simp: confirm_reservation_def confirm_mutation_def unique_mutations wlift_def split: option.splits)
  next
    case (Release env i)
    then show ?thesis using rewrite[of "release_mutation i" env] release_fades by (simp add: release_reservation_def unique_mutations)
  next
    case (MarkOperator env i)
    then show ?thesis
      using rewrite[of "mark_mutation i" env] mark_fades by (simp add: mark_operator_required_def mark_mutation_def unique_mutations)
  qed
qed

end

section \<open>The two limits\<close>

definition carries_amount :: "int \<Rightarrow> window_entry \<Rightarrow> bool" where
  "carries_amount cap e \<longleftrightarrow> 0 \<le> we_amount e \<and> (case we_limit e of AmountLimit _ _ m \<Rightarrow> m = cap | _ \<Rightarrow> False)"

definition carries_count :: "nat \<Rightarrow> window_entry \<Rightarrow> bool" where
  "carries_count cap e \<longleftrightarrow> (case we_limit e of CountLimit _ m \<Rightarrow> m = cap | _ \<Rightarrow> False)"

lemma subseq_sum_list:
  fixes xs :: "int list"
  assumes "subseq xs ys" "\<forall>y\<in>set ys. 0 \<le> y"
  shows "(\<forall>x\<in>set xs. 0 \<le> x) \<and> sum_list xs \<le> sum_list ys"
  using assms by (induction rule: list_emb.induct) (auto intro: sum_list_nonneg)

lemma nonneg_amounts: "list_all nonneg_entry es \<longleftrightarrow> (\<forall>x\<in>set (map amount es). 0 \<le> x)"
  by (auto simp: list_all_iff nonneg_entry_def)

lemma clamp_sums:
  assumes "0 \<le> a" "0 \<le> b" "0 \<le> c"
  shows "sat_add_i128 (sat_add_i128 (clamp i128_min i128_max a) (clamp i128_min i128_max b)) c = clamp i128_min i128_max (a + b + c)"
proof -
  have "clamp i128_min i128_max (clamp i128_min i128_max a + clamp i128_min i128_max b) = clamp i128_min i128_max (a + b)"
    using mi128.clamp_add_right[of b a] mi128.clamp_add_right[of a "clamp i128_min i128_max b"] mi128.clamp_nonneg[of b] assms
    by (simp add: add.commute)
  then show ?thesis using mi128.clamp_add_right[of "a + b" c] assms by (simp add: sat_add_i128_def)
qed

interpretation amount_store: admitted_window "\<lambda>es. fst (window_sum es)" nonneg_entry "carries_amount cap" cap for cap
proof
  fix es es' :: "state_entry list"
  assume *: "subseq (map amount es') (map amount es)" "list_all nonneg_entry es"
  then have "list_all nonneg_entry es'" "sum_list (map amount es') \<le> sum_list (map amount es)"
    using subseq_sum_list[OF *(1)] by (simp_all add: nonneg_amounts)
  then show "list_all nonneg_entry es' \<and> fst (window_sum es') \<le> fst (window_sum es)"
    using *(2) by (simp add: window_amount_eq mi128.clamp_mono)
next
  fix e es bs and x :: state_entry
  assume *: "carries_amount cap e" "list_all nonneg_entry (es @ bs)" "amount x = we_amount e"
    "refusal e (sat_add_i128 (fst (window_sum es)) (fst (window_sum bs)))
      (sat_add_u32 (snd (window_sum es)) (snd (window_sum bs))) = None"
  have nn: "list_all nonneg_entry es" "list_all nonneg_entry bs" "0 \<le> we_amount e" "nonneg_entry x"
    using * by (simp_all add: carries_amount_def nonneg_entry_def)
  have le: "sat_add_i128 (sat_add_i128 (fst (window_sum es)) (fst (window_sum bs))) (we_amount e) \<le> cap"
    using *(1,4) by (auto simp: refusal_def carries_amount_def Let_def split: window_limit.splits if_splits)
  have sums: "0 \<le> sum_list (map amount es)" "0 \<le> sum_list (map amount bs)"
    using nn by (auto simp: nonneg_amounts intro!: sum_list_nonneg)
  have "fst (window_sum (es @ bs @ [x])) = clamp i128_min i128_max (sum_list (map amount es) + sum_list (map amount bs) + we_amount e)"
    using window_amount_eq[of "es @ bs @ [x]"] nn *(3) by (simp add: add.assoc)
  then show "nonneg_entry x \<and> fst (window_sum (es @ bs @ [x])) \<le> cap"
    using le nn clamp_sums[OF sums nn(3)] by (simp add: window_amount_eq)
qed

interpretation count_store: admitted_window "\<lambda>es. snd (window_sum es)" "\<lambda>_. True" "carries_count cap" cap for cap
proof
  fix es es' :: "state_entry list"
  assume "subseq (map amount es') (map amount es)"
  then show "list_all (\<lambda>_. True) es' \<and> snd (window_sum es') \<le> snd (window_sum es)"
    using list_emb_length by (fastforce simp: window_sum_eq to_u32_def list_all_iff)
next
  fix e es bs and x :: state_entry
  assume "carries_count cap e"
    "refusal e (sat_add_i128 (fst (window_sum es)) (fst (window_sum bs)))
      (sat_add_u32 (snd (window_sum es)) (snd (window_sum bs))) = None"
  then have "sat_add_u32 (snd (window_sum es)) (snd (window_sum bs)) < cap"
    by (auto simp: refusal_def carries_count_def split: window_limit.splits if_splits)
  then show "True \<and> snd (window_sum (es @ bs @ [x])) \<le> cap"
    by (auto simp: window_sum_eq to_u32_def sat_add_u32_def)
qed

text \<open>
  C8. The durable per-period cap. Through any run of reservations, authorizations,
  confirmations, releases and operator marks, whichever of them are refused, the
  amounts of a bucket that the verified file counts at any later time add up to at
  most the cap its entries carry.
\<close>

theorem durable_period_cap:
  assumes "backend_laws bk" "window_run bk p k (carries_amount cap) now w" "stored_file bk p w = Inr wire"
    and "0 \<le> cap" "cap < i128_max" "now \<le> t"
  shows "sum_list (map amount (live (window_secs k) t (file_entries wire k))) \<le> cap"
proof -
  have "amount_store.store_bounded cap bk p k now w"
    by (rule amount_store.run_bounded[OF assms(1,2)]) (simp add: window_sum_def assms(4))
  then have "amount_store.file_bounded cap k now wire"
    using stored_file_key[OF assms(3)] unfolding amount_store.store_bounded_def by metis
  then have b: "list_all nonneg_entry (file_entries wire k)" "fst (window_sum (live (window_secs k) t (file_entries wire k))) \<le> cap"
    using assms(6) unfolding amount_store.file_bounded_def amount_window.bounded_def by auto
  let ?es = "live (window_secs k) t (file_entries wire k)"
  have nn: "list_all nonneg_entry ?es" using b(1) by (simp add: live_def list_all_iff)
  then have "clamp i128_min i128_max (sum_list (map amount ?es)) < i128_max" "0 \<le> sum_list (map amount ?es)"
    using b(2) assms(5) by (auto simp: window_amount_eq nonneg_amounts intro!: sum_list_nonneg)
  from mi128.clamp_below_hi[OF this] show ?thesis using b(2) nn by (simp add: window_amount_eq)
qed


section \<open>The reservations a pass works through\<close>

definition pending_ids :: "wire_record list \<Rightarrow> string set" where
  "pending_ids rs = {wr_id r |r. r \<in> set rs \<and> wr_status r = Pending \<and> wr_id r \<noteq> []}"

lemma pending_ids_simps [simp]:
  "pending_ids [] = {}"
  "pending_ids (r # rs) = (if wr_status r = Pending \<and> wr_id r \<noteq> [] then insert (wr_id r) (pending_ids rs) else pending_ids rs)"
  "pending_ids (rs @ rs') = pending_ids rs \<union> pending_ids rs'"
  by (auto simp: pending_ids_def)

lemma rs_id_reservation [simp]: "rs_id (reservation_of_record r) = wr_id r"
  by (simp add: reservation_of_record_def)

lemma collect_records_ids:
  "distinct (map rs_id seen) \<Longrightarrow>
   distinct (map rs_id (collect_records seen rs)) \<and>
   rs_id ` set (collect_records seen rs) = rs_id ` set seen \<union> pending_ids rs"
proof (induction rs arbitrary: seen)
  case (Cons r rs)
  have "list_ex (\<lambda>s. rs_id s = wr_id r) seen \<longleftrightarrow> wr_id r \<in> rs_id ` set seen"
    by (auto simp: list_ex_iff image_iff eq_commute)
  then show ?case
    using Cons.IH[of seen] Cons.IH[of "seen @ [reservation_of_record r]"] Cons.prems by auto
qed simp

text \<open>
  The reservations a reconciliation pass sees are exactly the pending records
  that carry an identifier, each identifier once, oldest first and by identifier
  among equally old ones.
\<close>

theorem collect_pending_exact:
  "distinct (map rs_id (collect_pending wire)) \<and>
   rs_id ` set (collect_pending wire) = pending_ids (concat (map wb_records (wf_entries wire))) \<and>
   sorted (map reservation_key (collect_pending wire))"
proof -
  let ?go = "foldl (\<lambda>seen b. collect_records seen (wb_records b))"
  have "distinct (map rs_id (?go seen bs)) \<and>
      rs_id ` set (?go seen bs) = rs_id ` set seen \<union> pending_ids (concat (map wb_records bs))"
    if "distinct (map rs_id seen)" for seen bs
    using that
  proof (induction bs arbitrary: seen)
    case (Cons b bs)
    show ?case using Cons.IH[of "collect_records seen (wb_records b)"] collect_records_ids[OF Cons.prems, of "wb_records b"]
      by auto
  qed simp
  from this[of "[]" "wf_entries wire"] show ?thesis
    by (simp add: collect_pending_def distinct_map inj_on_def)
qed

end
