(* ===== verification/Window_Witness.thy ===== *)
theory Window_Witness
  imports Window_Durability
begin

text \<open>
  A concrete backend that satisfies the laws the window store relies on, with a
  self-delimiting text codec for the file, and the store's properties applied to a
  small run on it.
\<close>

section \<open>A self-delimiting codec\<close>

definition codes :: "('a \<Rightarrow> string) \<Rightarrow> (string \<Rightarrow> ('a \<times> string) option) \<Rightarrow> bool" where
  "codes enc dec \<longleftrightarrow> (\<forall>x rest. dec (enc x @ rest) = Some (x, rest))"

definition enc_nat :: "nat \<Rightarrow> string" where
  "enc_nat n = replicate n (CHR ''1'') @ ''0''"

definition dec_nat :: "string \<Rightarrow> (nat \<times> string) option" where
  "dec_nat s =
     (case dropWhile (\<lambda>c. c = CHR ''1'') s of
        [] \<Rightarrow> None
      | _ # rest \<Rightarrow> Some (length (takeWhile (\<lambda>c. c = CHR ''1'') s), rest))"

lemma codes_nat: "codes enc_nat dec_nat"
proof -
  have "takeWhile (\<lambda>c. c = CHR ''1'') (replicate n (CHR ''1'') @ CHR ''0'' # rest) = replicate n (CHR ''1'')"
    "dropWhile (\<lambda>c. c = CHR ''1'') (replicate n (CHR ''1'') @ CHR ''0'' # rest) = CHR ''0'' # rest" for n rest
    by (induction n) simp_all
  then show ?thesis by (simp add: codes_def enc_nat_def dec_nat_def)
qed

definition enc_pair :: "('a \<Rightarrow> string) \<Rightarrow> ('b \<Rightarrow> string) \<Rightarrow> 'a \<times> 'b \<Rightarrow> string" where
  "enc_pair ea eb p = ea (fst p) @ eb (snd p)"

definition dec_pair ::
  "(string \<Rightarrow> ('a \<times> string) option) \<Rightarrow> (string \<Rightarrow> ('b \<times> string) option) \<Rightarrow> string \<Rightarrow> (('a \<times> 'b) \<times> string) option" where
  "dec_pair da db s =
     (case da s of None \<Rightarrow> None | Some (a, s1) \<Rightarrow>
       (case db s1 of None \<Rightarrow> None | Some (b, s2) \<Rightarrow> Some ((a, b), s2)))"

lemma codes_pair: "codes ea da \<Longrightarrow> codes eb db \<Longrightarrow> codes (enc_pair ea eb) (dec_pair da db)"
  by (simp add: codes_def enc_pair_def dec_pair_def)

definition dec_map :: "('a \<Rightarrow> 'b) \<Rightarrow> (string \<Rightarrow> ('a \<times> string) option) \<Rightarrow> string \<Rightarrow> ('b \<times> string) option" where
  "dec_map f da s = map_option (map_prod f id) (da s)"

lemma codes_map: "codes ea da \<Longrightarrow> (\<And>x. f (g x) = x) \<Longrightarrow> codes (ea \<circ> g) (dec_map f da)"
  by (simp add: codes_def dec_map_def)

primrec dec_many :: "(string \<Rightarrow> ('a \<times> string) option) \<Rightarrow> nat \<Rightarrow> string \<Rightarrow> ('a list \<times> string) option" where
  "dec_many da 0 s = Some ([], s)"
| "dec_many da (Suc n) s =
     (case da s of None \<Rightarrow> None | Some (x, s1) \<Rightarrow>
       (case dec_many da n s1 of None \<Rightarrow> None | Some (xs, s2) \<Rightarrow> Some (x # xs, s2)))"

definition enc_list :: "('a \<Rightarrow> string) \<Rightarrow> 'a list \<Rightarrow> string" where
  "enc_list ea xs = enc_nat (length xs) @ concat (map ea xs)"

definition dec_list :: "(string \<Rightarrow> ('a \<times> string) option) \<Rightarrow> string \<Rightarrow> ('a list \<times> string) option" where
  "dec_list da s = (case dec_nat s of None \<Rightarrow> None | Some (n, s1) \<Rightarrow> dec_many da n s1)"

lemma codes_list: "codes ea da \<Longrightarrow> codes (enc_list ea) (dec_list da)"
proof -
  assume c: "codes ea da"
  have "dec_many da (length xs) (concat (map ea xs) @ rest) = Some (xs, rest)" for xs rest
    using c by (induction xs) (simp_all add: codes_def)
  then show ?thesis using codes_nat by (simp add: codes_def enc_list_def dec_list_def)
qed

definition enc_char :: "char \<Rightarrow> string" where "enc_char c = [c]"
definition dec_char :: "string \<Rightarrow> (char \<times> string) option" where
  "dec_char s = (case s of [] \<Rightarrow> None | c # rest \<Rightarrow> Some (c, rest))"

lemma codes_char: "codes enc_char dec_char"
  by (simp add: codes_def enc_char_def dec_char_def)

definition int_parts :: "int \<Rightarrow> nat \<times> nat" where "int_parts i = (nat i, nat (- i))"
definition int_join :: "nat \<times> nat \<Rightarrow> int" where "int_join p = int (fst p) - int (snd p)"

lemma int_join_parts [simp]: "int_join (int_parts i) = i"
  by (simp add: int_join_def int_parts_def)

section \<open>The file codec\<close>

definition enc_string :: "string \<Rightarrow> string" where "enc_string = enc_list enc_char"
definition dec_string :: "string \<Rightarrow> (string \<times> string) option" where "dec_string = dec_list dec_char"

lemma codes_string: "codes enc_string dec_string"
  unfolding enc_string_def dec_string_def by (rule codes_list[OF codes_char])

type_synonym record_parts =
  "nat \<times> (nat \<times> nat) \<times> string \<times> nat \<times> string \<times> string \<times> (nat \<times> nat) \<times> nat \<times> nat \<times> nat \<times> nat"

definition record_parts :: "wire_record \<Rightarrow> record_parts" where
  "record_parts r =
     (wr_ts_ms r, int_parts (wr_amount r), wr_id r, (if wr_status r = Pending then 1 else 0), wr_tx_hash r, wr_source r,
      int_parts (wr_sequence r), wr_max_time r, wr_pending_since_ms r, wr_submission_ledger r,
      (if wr_operator_required r then 1 else 0))"

definition record_join :: "record_parts \<Rightarrow> wire_record" where
  "record_join t =
     (case t of (ts, a, i, st, tx, src, sq, mt, ps, sl, opr) \<Rightarrow>
        \<lparr>wr_ts_ms = ts, wr_amount = int_join a, wr_id = i, wr_status = (if st = 1 then Pending else Confirmed),
         wr_tx_hash = tx, wr_source = src, wr_sequence = int_join sq, wr_max_time = mt, wr_pending_since_ms = ps,
         wr_submission_ledger = sl, wr_operator_required = (opr = 1)\<rparr>)"

lemma record_join_parts [simp]: "record_join (record_parts r) = r"
  by (cases "wr_status r") (auto simp: record_join_def record_parts_def)

definition enc_record :: "wire_record \<Rightarrow> string" where
  "enc_record =
     enc_pair enc_nat (enc_pair (enc_pair enc_nat enc_nat) (enc_pair enc_string (enc_pair enc_nat (enc_pair enc_string
       (enc_pair enc_string (enc_pair (enc_pair enc_nat enc_nat) (enc_pair enc_nat (enc_pair enc_nat
       (enc_pair enc_nat enc_nat))))))))) \<circ> record_parts"

definition dec_record :: "string \<Rightarrow> (wire_record \<times> string) option" where
  "dec_record =
     dec_map record_join
       (dec_pair dec_nat (dec_pair (dec_pair dec_nat dec_nat) (dec_pair dec_string (dec_pair dec_nat (dec_pair dec_string
         (dec_pair dec_string (dec_pair (dec_pair dec_nat dec_nat) (dec_pair dec_nat (dec_pair dec_nat
         (dec_pair dec_nat dec_nat))))))))))"

lemma codes_record: "codes enc_record dec_record"
  unfolding enc_record_def dec_record_def
  by (rule codes_map) (intro codes_pair codes_nat codes_string, simp)

definition bucket_parts :: "wire_bucket \<Rightarrow> nat \<times> string \<times> nat \<times> wire_record list" where
  "bucket_parts b = (wb_scope_specificity b, wb_bucket b, wb_window_secs b, wb_records b)"

definition bucket_join :: "nat \<times> string \<times> nat \<times> wire_record list \<Rightarrow> wire_bucket" where
  "bucket_join t =
     (case t of (sp, b, ws, rs) \<Rightarrow>
        \<lparr>wb_scope_specificity = sp, wb_bucket = b, wb_window_secs = ws, wb_records = rs\<rparr>)"

lemma bucket_join_parts [simp]: "bucket_join (bucket_parts b) = b"
  by (simp add: bucket_join_def bucket_parts_def)

definition enc_bucket :: "wire_bucket \<Rightarrow> string" where
  "enc_bucket = enc_pair enc_nat (enc_pair enc_string (enc_pair enc_nat (enc_list enc_record))) \<circ> bucket_parts"

definition dec_bucket :: "string \<Rightarrow> (wire_bucket \<times> string) option" where
  "dec_bucket = dec_map bucket_join (dec_pair dec_nat (dec_pair dec_string (dec_pair dec_nat (dec_list dec_record))))"

lemma codes_bucket: "codes enc_bucket dec_bucket"
  unfolding enc_bucket_def dec_bucket_def
  by (rule codes_map) (intro codes_pair codes_list codes_nat codes_string codes_record, simp)

type_synonym flat_file = "nat \<times> nat \<times> wire_bucket list"

definition flat_parts :: "wire_file \<Rightarrow> flat_file" where
  "flat_parts w = (wf_version w, wf_generation w, wf_entries w)"

definition flat_join :: "flat_file \<Rightarrow> wire_file option \<Rightarrow> wire_file" where
  "flat_join t nxt = (case t of (v, g, es) \<Rightarrow> WireFile v g es nxt)"

definition enc_flat :: "flat_file \<Rightarrow> string" where
  "enc_flat = enc_pair enc_nat (enc_pair enc_nat (enc_list enc_bucket))"

definition dec_flat :: "string \<Rightarrow> (flat_file \<times> string) option" where
  "dec_flat = dec_pair dec_nat (dec_pair dec_nat (dec_list dec_bucket))"

lemma codes_flat: "codes enc_flat dec_flat"
  unfolding enc_flat_def dec_flat_def by (intro codes_pair codes_list codes_nat codes_bucket)

definition sample_to_vec :: "wire_file \<Rightarrow> string" where
  "sample_to_vec w =
     enc_pair enc_flat (enc_list enc_flat)
       (flat_parts w, case wf_prepared w of None \<Rightarrow> [] | Some nxt \<Rightarrow> [flat_parts nxt])"

definition sample_from_slice :: "string \<Rightarrow> wire_file option" where
  "sample_from_slice s =
     (case dec_pair dec_flat (dec_list dec_flat) s of
        Some ((t, ns), []) \<Rightarrow>
          (case ns of [] \<Rightarrow> Some (flat_join t None) | [n] \<Rightarrow> Some (flat_join t (Some (flat_join n None))) | _ \<Rightarrow> None)
      | _ \<Rightarrow> None)"

lemma sample_slice_vec: "shallow w \<Longrightarrow> sample_from_slice (sample_to_vec w) = Some w"
proof -
  assume sh: "shallow w"
  have "dec_pair dec_flat (dec_list dec_flat) (enc_pair enc_flat (enc_list enc_flat) x @ []) = Some (x, [])" for x
    using codes_pair[OF codes_flat codes_list[OF codes_flat]] unfolding codes_def by blast
  moreover have "flat_join (flat_parts v) (wf_prepared v) = v" for v
    by (cases v) (simp add: flat_join_def flat_parts_def)
  from this[of w] have "\<And>n. wf_prepared w = n \<Longrightarrow> flat_join (flat_parts w) n = w"
    "\<And>n. wf_prepared w = Some n \<Longrightarrow> flat_join (flat_parts n) None = n"
    using sh \<open>\<And>v. flat_join (flat_parts v) (wf_prepared v) = v\<close> by (auto simp: shallow_def) (metis)
  ultimately show ?thesis
    by (auto simp: sample_from_slice_def sample_to_vec_def split: option.split)
qed

section \<open>A backend with its laws\<close>

definition sample_commitment :: "nat \<times> string \<Rightarrow> string" where
  "sample_commitment c = CHR 0x7B # enc_pair enc_nat enc_string c"

definition sample_parse_commitment :: "string \<Rightarrow> (nat \<times> string) option" where
  "sample_parse_commitment s =
     (case dec_pair dec_nat dec_string (tl s) of Some (c, []) \<Rightarrow> Some c | _ \<Rightarrow> None)"

definition pad32 :: "string \<Rightarrow> string" where
  "pad32 s = take 32 (s @ replicate 32 (CHR ''0''))"

lemma pad32_length [simp]: "length (pad32 s) = 32"
  by (simp add: pad32_def)

definition sample_backend :: backend where
  "sample_backend =
     \<lparr>b64_encode = id, b64_decode = Some,
      sc_strkey = \<lparr>g_decode = (\<lambda>_. None), g_encode = id, c_decode = (\<lambda>_. None), c_encode = id\<rparr>,
      to_vec = sample_to_vec, from_slice = sample_from_slice, commitment_to_string = sample_commitment,
      commitment_from_str = sample_parse_commitment, hmac_sha256 = (\<lambda>key msg. pad32 (key @ msg)), sha256 = pad32\<rparr>"

lemma trim_keeps_brace: "CHR 0x7B \<in> set s \<Longrightarrow> CHR 0x7B \<in> set (trim s)"
proof -
  have "\<forall>w\<in>set white_space. CHR 0x7B \<notin> set w" by code_simp
  then show "CHR 0x7B \<in> set s \<Longrightarrow> CHR 0x7B \<in> set (trim s)"
    unfolding trim_def by (auto intro!: trim_with_keeps)
qed

lemma parse_unsigned_brace: "CHR 0x7B \<in> set s \<Longrightarrow> parse_unsigned hi s = None"
proof -
  assume brace: "CHR 0x7B \<in> set s"
  have "\<not> is_digit (CHR 0x7B)" by code_simp
  then have "list_all is_digit t \<Longrightarrow> CHR 0x7B \<notin> set t" for t by (auto simp: list_all_iff)
  then show ?thesis using brace by (auto simp: parse_unsigned_def Let_def split: list.split)
qed

lemma sample_backend_laws: "backend_laws sample_backend"
proof -
  have "codes (enc_pair enc_nat enc_string) (dec_pair dec_nat dec_string)"
    by (rule codes_pair[OF codes_nat codes_string])
  then have "dec_pair dec_nat dec_string (enc_pair enc_nat enc_string c @ []) = Some (c, [])" for c
    unfolding codes_def by blast
  then have "sample_parse_commitment (sample_commitment c) = Some c" for c
    by (simp add: sample_parse_commitment_def sample_commitment_def)
  moreover have "parse_unsigned u64_max (trim (sample_commitment c)) = None" for c
    by (rule parse_unsigned_brace, rule trim_keeps_brace) (simp add: sample_commitment_def)
  ultimately show ?thesis
    by (simp add: backend_laws_def sample_backend_def sample_slice_vec)
qed

section \<open>A small run\<close>

definition sample_world :: world where
  "sample_world =
     \<lparr>w_keyring = (\<lambda>r. if r = policy_window_state_key_id sample_keyed_profile then Secret (replicate 32 (CHR ''k'')) else NoEntry),
      w_file = Missing, w_outcomes = []\<rparr>"

definition sample_env :: window_env where
  "sample_env = \<lparr>env_dir_fault = None, env_lock = LockFree, env_now_ms = Some 1000, env_random = replicate 32 (CHR ''r'')\<rparr>"

definition sample_key :: state_key where
  "sample_key = state_key_new ''a'' 1 ''native'' 60"

definition sample_entry :: window_entry where
  "sample_entry = window_entry_new sample_key 1000 40 (AmountLimit ''native'' ''1m'' 100)"

definition sample_reservation :: window_reservation where
  "sample_reservation =
     \<lparr>rs_id = ''e1'', rs_tx_hash = ''h'', rs_source = ''G1'', rs_sequence = 7, rs_max_time = 0,
      rs_pending_since_ms = 1000, rs_submission_ledger = 5, rs_operator_required = False\<rparr>"

definition sample_file :: wire_file where
  "sample_file =
     WireFile 3 1 [\<lparr>wb_scope_specificity = 1, wb_bucket = ''native'', wb_window_secs = 60,
                    wb_records = [pending_record sample_reservation sample_entry]\<rparr>] None"

definition reserved_world :: world where
  "reserved_world = snd (record_pending sample_backend sample_env sample_keyed_profile [sample_entry] sample_reservation sample_world)"

lemmas sample_world_defs =
  sample_world_def sample_env_def sample_keyed_profile_def generation_entry_ref_def generation_account_def
  default_owner_key_def OWNER_KEY_SERVICE_PREFIX_def

lemma sample_load:
  "load_or_mint_key sample_backend sample_env sample_keyed_profile sample_world =
     (Inr (replicate 32 (CHR ''k''), False), sample_world)"
  by (simp add: load_or_mint_key_def Let_def wbind_def wlift_def wread_def refuse_owner_coordinate_def
      refuse_owner_key_coordinate_def starts_with_def load_hmac_key_32_def secret_codec.defs sample_backend_def
      refuse_owner_key_def context_for_loaded_profile_def context_for_profile_def context_for_profile_name_def
      sample_world_defs)

lemma sample_read:
  "read_verified sample_backend key (generation_entry_ref sample_keyed_profile) sample_world = Inr (WireFile 3 0 [] None)"
  by (simp add: read_verified_def load_generation_def load_counter_def sample_world_defs WIRE_VERSION_def)

lemma sample_admit: "admit (WireFile 3 0 [] None) [sample_entry] = Inr ()"
  by (simp add: admit_def window_in_file_def sample_entry_def window_entry_new_def sample_key_def refusal_def
      sat_add_i128_def sat_add_u32_def clamp_def machine_bounds)

lemma sample_recorded:
  "recorded_file 1 1000 (push_entries (pending_record sample_reservation) [sample_entry] (WireFile 3 0 [] None)) = sample_file"
  by (simp add: recorded_file_def push_entries_def with_entries_def with_version_def with_generation_def prune_stale_def
      sample_file_def WIRE_VERSION_def sample_entry_def window_entry_new_def sample_key_def state_key_new_def pending_record_def)

lemma sample_record:
  "record_pending sample_backend sample_env sample_keyed_profile [sample_entry] sample_reservation sample_world =
     (Inr False, reserved_world)"
  and reserved_committed:
  "committed_to sample_backend (replicate 32 (CHR ''k'')) (generation_entry_ref sample_keyed_profile) sample_file reserved_world"
  and reserved_outcomes: "w_outcomes reserved_world = []"
  and reserved_key: "w_keyring reserved_world (policy_window_state_key_id sample_keyed_profile) = Secret (replicate 32 (CHR ''k''))"
proof -
  let ?ge = "generation_entry_ref sample_keyed_profile"
  let ?file = "sealed sample_backend (replicate 32 (CHR ''k'')) sample_file"
  let ?c = "Secret (commitment_to_string sample_backend (wf_generation sample_file, body_digest sample_backend sample_file))"
  let ?w = "sample_world\<lparr>w_keyring := (w_keyring sample_world)(?ge := ?c), w_file := ?file\<rparr>"
  have out: "w_outcomes sample_world = []" by (simp add: sample_world_def)
  have gen: "next_generation sample_backend (w_keyring sample_world) ?ge = Inr 1"
    by (simp add: next_generation_def load_generation_def load_counter_def increment_generation_def machine_bounds sample_world_defs)
  have "persist sample_backend sample_env (replicate 32 (CHR ''k'')) ?ge
      (push_entries (pending_record sample_reservation) [sample_entry] (WireFile 3 0 [] None)) sample_world = (Inr (), ?w)"
    using out gen sample_recorded
    by (simp add: persist_def now_ms_def sample_env_def wbind_def wlift_def wread_def Let_def recorded_file_def write_effects)
  then have run: "record_pending sample_backend sample_env sample_keyed_profile [sample_entry] sample_reservation sample_world =
      (Inr False, ?w)"
    using sample_load sample_read sample_admit
    by (simp add: record_pending_def Let_def wbind_def wlift_def wread_def ensure_parent_dir_def acquire_def file_holds_id_def
        sample_env_def[THEN arg_cong[of _ _ env_dir_fault]] sample_env_def[THEN arg_cong[of _ _ env_lock]])
  then have w: "reserved_world = ?w" by (simp add: reserved_world_def)
  show "record_pending sample_backend sample_env sample_keyed_profile [sample_entry] sample_reservation sample_world =
     (Inr False, reserved_world)" using run w by simp
  show "committed_to sample_backend (replicate 32 (CHR ''k'')) ?ge sample_file reserved_world"
    by (simp add: w committed_to_def)
  show "w_outcomes reserved_world = []" by (simp add: w out)
  show "w_keyring reserved_world (policy_window_state_key_id sample_keyed_profile) = Secret (replicate 32 (CHR ''k''))"
    using gen_entry_neq[of sample_keyed_profile] by (simp add: w sample_world_def)
qed

lemma reserved_stored: "stored_file sample_backend sample_keyed_profile reserved_world = Inr sample_file"
proof -
  have "load_hmac_key_32 (secret_codec.truncate sample_backend) (w_keyring reserved_world)
      (policy_window_state_key_id sample_keyed_profile) = Inr (replicate 32 (CHR ''k''))"
    by (simp add: load_hmac_key_32_def reserved_key secret_codec.defs sample_backend_def)
  then show ?thesis
    using read_committed(1)[OF sample_backend_laws reserved_committed] by (simp add: stored_file_def sample_file_def WIRE_VERSION_def)
qed

lemma reserved_file: "w_file reserved_world = sealed sample_backend (replicate 32 (CHR ''k'')) sample_file"
  using reserved_committed by (simp add: committed_to_def)

lemma sample_owner_slots:
  "w_keyring reserved_world (default_owner_key ''a'') = NoEntry"
proof -
  have "reserved_world = sample_world\<lparr>w_keyring := w_keyring reserved_world, w_file := w_file reserved_world\<rparr>"
    using reserved_outcomes by (simp add: sample_world_def)
  moreover have "\<forall>e. e \<noteq> generation_entry_ref sample_keyed_profile \<longrightarrow> w_keyring reserved_world e = w_keyring sample_world e"
  proof -
    have "\<exists>u. persist sample_backend sample_env (replicate 32 (CHR ''k'')) (generation_entry_ref sample_keyed_profile)
        (push_entries (pending_record sample_reservation) [sample_entry] (WireFile 3 0 [] None)) sample_world = (Inr u, reserved_world)"
      using sample_record sample_load sample_read sample_admit
      by (auto simp: record_pending_def Let_def wbind_def wlift_def wread_def ensure_parent_dir_def acquire_def file_holds_id_def
          sample_env_def[THEN arg_cong[of _ _ env_dir_fault]] sample_env_def[THEN arg_cong[of _ _ env_lock]]
          split: sum.splits prod.splits)
    then show ?thesis by (auto elim!: persist_Inr)
  qed
  ultimately show ?thesis by (simp add: sample_world_defs)
qed

theorem hydrated_windows_match_file_witness:
  "\<exists>s. load_into sample_backend ''a'' sample_keyed_profile reserved_world store_new = (Inr (), s) \<and>
     map_sum (\<lambda>e. EvaluationError (clock_skew_text (skew_entry_ts_ms e) (skew_now_ms e))) id (fst (query_window s sample_key 1000)) =
       window_in_file sample_file sample_key 1000"
proof -
  let ?k = "replicate 32 (CHR ''k'')" and ?p = sample_keyed_profile and ?b = "to_vec sample_backend sample_file"
  have key: "load_hmac_key_32 (secret_codec.truncate sample_backend) (w_keyring reserved_world)
      (policy_window_state_key_id ?p) = Inr ?k"
    by (simp add: load_hmac_key_32_def reserved_key secret_codec.defs sample_backend_def)
  have read: "res_bind (verify_with_key sample_backend ?k (compute_tag sample_backend ?k ?b @ ?b)) (\<lambda>wire.
      res_bind (load_counter sample_backend (w_keyring reserved_world) (generation_entry_ref ?p)) (select_generation sample_backend wire)) =
    Inr sample_file"
    using reserved_stored key by (simp add: stored_file_def read_verified_def reserved_file sealed_def)
  have owner: "refuse_owner_key (secret_codec.truncate sample_backend) (w_keyring reserved_world) ?k (context_for_profile ''a'' ?p) = Inr ()"
    "refuse_owner_coordinate ?p = Inr ()"
    using sample_owner_slots
    by (simp_all add: refuse_owner_key_def context_for_profile_def context_for_profile_name_def refuse_owner_coordinate_def
        refuse_owner_key_coordinate_def starts_with_def sample_keyed_profile_def OWNER_KEY_SERVICE_PREFIX_def)
  obtain s where app: "append_buckets ''a'' (wf_entries sample_file) store_new = (Inr (), s)"
    using append_buckets_effect[of store_new "''a''" "wf_entries sample_file"]
    by (cases "append_buckets ''a'' (wf_entries sample_file) store_new") (simp add: store_new_def)
  have load: "load_into sample_backend ''a'' ?p reserved_world store_new = (Inr (), s)"
    using key read owner app by (simp add: load_into_def Let_def reserved_file sealed_def)
  show ?thesis
    using hydrated_windows_match_file[OF load reserved_stored, of sample_key 1000] load
    by (simp add: reserved_file sealed_def sample_key_def state_key_new_def)
qed

theorem rollback_refused_witness:
  "read_verified sample_backend (replicate 32 (CHR ''k'')) (generation_entry_ref sample_keyed_profile) reserved_world = Inr sample_file \<and>
   body_digest sample_backend sample_file = body_digest sample_backend sample_file"
proof -
  have read: "read_verified sample_backend (replicate 32 (CHR ''k'')) (generation_entry_ref sample_keyed_profile) reserved_world = Inr sample_file"
    using read_committed(1)[OF sample_backend_laws reserved_committed] by (simp add: sample_file_def WIRE_VERSION_def)
  show ?thesis
    using rollback_refused[OF sample_backend_laws _ read, of sample_file] reserved_committed read by (simp add: committed_to_def)
qed

theorem settlement_survives_crashes_witness:
  "\<exists>r w'. rewrite_records sample_backend sample_env sample_keyed_profile (release_mutation ''e1'')
       (reserved_world\<lparr>w_outcomes := [Done, LostBefore ''keyring locked'']\<rparr>) = (r, w') \<and>
     stored_file sample_backend sample_keyed_profile w' \<in>
       {Inr sample_file, Inr (settled_file (release_mutation ''e1'') 1000 sample_file)}"
proof -
  let ?w = "reserved_world\<lparr>w_outcomes := [Done, LostBefore ''keyring locked'']\<rparr>"
  have "stored_file sample_backend sample_keyed_profile ?w = stored_file sample_backend sample_keyed_profile reserved_world"
    unfolding stored_file_def by (simp add: read_frame[of ?w reserved_world] split: sum.split)
  then have st: "stored_file sample_backend sample_keyed_profile ?w = Inr sample_file" using reserved_stored by simp
  obtain r w' where run: "rewrite_records sample_backend sample_env sample_keyed_profile (release_mutation ''e1'') ?w = (r, w')"
    by fastforce
  have touched: "snd (release_mutation ''e1'' sample_file)"
    by (simp add: release_mutation_def record_count_def sample_file_def with_entries_def pending_record_def sample_reservation_def)
  have "stored_file sample_backend sample_keyed_profile w' \<in>
       {Inr sample_file, Inr (settled_file (release_mutation ''e1'') 1000 sample_file)}"
    using settlement_survives_crashes[OF sample_backend_laws st _ _ run] touched
    by (auto simp: sample_file_def WIRE_VERSION_def sample_env_def)
  then show ?thesis using run by blast
qed


lemma sample_window_run:
  assumes "batch_ok sample_key carries 1000 [e]" "w_outcomes w = []" "w_file w = Missing"
    "w_keyring w (generation_entry_ref p) = NoEntry"
  shows "window_run bk p sample_key carries 1000 (apply_op bk p (Reserve env [e] rs) w)"
  by (rule window_run.step[OF window_run.first_run]) (use assms in simp_all)

lemma sample_world_start:
  "w_outcomes sample_world = []" "w_file sample_world = Missing"
  "w_keyring sample_world (generation_entry_ref sample_keyed_profile) = NoEntry"
  by (simp_all add: sample_world_defs)

theorem durable_period_cap_witness:
  "sum_list (map amount (live 60 1000 (file_entries sample_file sample_key))) \<le> 100"
proof -
  have "window_run sample_backend sample_keyed_profile sample_key (carries_amount 100) 1000 reserved_world"
    using sample_window_run[of "carries_amount 100" sample_entry sample_world sample_keyed_profile sample_backend sample_env sample_reservation]
      sample_world_start
    by (simp add: reserved_world_def batch_ok_def carries_amount_def sample_entry_def window_entry_new_def)
  from durable_period_cap[OF sample_backend_laws this reserved_stored, of 1000] show ?thesis
    by (simp add: machine_bounds sample_key_def state_key_new_def)
qed


end
