(* ===== verification/Spec2Isabelle.thy ===== *)
theory Spec2Isabelle
  imports Amount Nonce Audit_Witness Policy_Signing Approval_Witness Spending_Limits Bundle_Limits Hex Profile_Name Keyring Window_Store Window_Durability Window_Witness
begin

text \<open>
  A verification development of the Stellar agent wallet, the Rust workspace under
  \<^verbatim>\<open>src/crates\<close>.  The wallet lets an agent build and submit Stellar transactions under a
  policy of its operator.  The parts modelled here are the ones its guarantees rest on: the
  amounts, the policy engine with its spending windows, the durable file behind the windows,
  the nonces that tie an approved envelope to its commit, the store of the approvals that an
  operator gives, the names under which secrets are stored, and the audit log.

  \<^bold>\<open>How the parts interact.\<close>  A tool call arrives with JSON arguments.  Its value effects are
  resolved (\<^verbatim>\<open>policy/v1/value.rs\<close>), the engine takes the first matching rule and runs its
  criteria (\<^verbatim>\<open>policy/v1/mod.rs\<close>, \<^verbatim>\<open>policy/v1/criteria\<close>), some of which query a sliding window
  of earlier spending (\<^verbatim>\<open>criteria/state_store.rs\<close>).  The window is hydrated from, and
  reservations are made in, a tagged and generation-counted file
  (\<^verbatim>\<open>stellar-agent-network/src/policy_state/store.rs\<close>) whose key and counter are in the
  credential store.  A permitted call gives the caller an envelope and a nonce
  (\<^verbatim>\<open>stellar-agent-nonce\<close>); the commit step accepts the nonce once.  Where the policy asks for
  approval, the simulating tool stores a pending entry (\<^verbatim>\<open>stellar-agent-core/src/approval\<close>); the
  operator attests it, and the commit tool passes only with that attestation and then marks the
  entry consumed.  Every call is appended to
  the audit log (\<^verbatim>\<open>stellar-agent-core/src/audit_log\<close>), which an offline verifier checks.

  \<^bold>\<open>Theories and the code they model.\<close>
    \<^item> \<^verbatim>\<open>Wallet_Prelude\<close>: results as sums with the error on the left, Rust's checked and
      saturating integer arithmetic (locale \<^verbatim>\<open>machine_int\<close>, interpreted for \<^verbatim>\<open>i64\<close> and \<^verbatim>\<open>i128\<close>),
      decimal rendering and parsing, trimming and splitting of strings.
    \<^item> \<^verbatim>\<open>Amount\<close>: \<^verbatim>\<open>amount.rs\<close>, stroop amounts with units and the anchor amount pattern.
    \<^item> \<^verbatim>\<open>Hex\<close>: \<^verbatim>\<open>hex.rs\<close>.  \<^verbatim>\<open>Profile_Name\<close>: \<^verbatim>\<open>profile/name.rs\<close> and the keyring coordinates of a
      profile.  \<^verbatim>\<open>Keyring\<close>: HMAC keys in the credential store and the owner-key guard.
    \<^item> \<^verbatim>\<open>Policy_Types\<close>, \<^verbatim>\<open>Value\<close>: the vocabulary of the engine and the resolution of value
      effects.  \<^verbatim>\<open>State_Store\<close>: the in-memory sliding windows (locale \<^verbatim>\<open>capped_window\<close>,
      interpreted for amounts and for call counts).  \<^verbatim>\<open>Criteria\<close>: one definition per criterion
      of \<^verbatim>\<open>policy/v1/criteria\<close>.  \<^verbatim>\<open>Policy_Engine\<close>: rule matching, the criteria loop, bundles and
      the recording of confirmed submissions.
    \<^item> \<^verbatim>\<open>Policy_Loader\<close>: \<^verbatim>\<open>policy/v1/loader.rs\<close>, \<^verbatim>\<open>canonical.rs\<close>, \<^verbatim>\<open>schema.rs\<close> and \<^verbatim>\<open>signature.rs\<close>, from
      the TOML document to rules, with the canonical bytes the owner signs; every refusal
      carries its message.  \<^verbatim>\<open>Policy_Signing\<close>: what a loaded file guarantees.
    \<^item> \<^verbatim>\<open>Spending_Limits\<close>, \<^verbatim>\<open>Bundle_Limits\<close>: the guarantees of the engine for single calls, along
      runs of evaluations and confirmations (\<^verbatim>\<open>spend_run\<close>), and for bundles.
    \<^item> \<^verbatim>\<open>Window_Store\<close>: the durable store.  An operation maps a \<^verbatim>\<open>world\<close> (file, credential
      store, the outcomes of the coming durable writes) to a result and the next world, so that
      a failing or interrupted write is a branch of the model.  \<^verbatim>\<open>Window_Durability\<close>: its
      guarantees along runs of operations (\<^verbatim>\<open>window_run\<close>) and under crashes, through the locale
      \<^verbatim>\<open>admitted_window\<close>, which extends \<^verbatim>\<open>capped_window\<close>.  \<^verbatim>\<open>Window_Witness\<close>: a concrete backend.
    \<^item> \<^verbatim>\<open>Nonce\<close>: minting, checking and committing nonces, and the replay window.
    \<^item> \<^verbatim>\<open>Approval_Entry\<close>: the kinds of approval, the checks of their fields, the constructors and
      the file form of an entry (locale \<^verbatim>\<open>entry_codec\<close>, interpreted for that form).
      \<^verbatim>\<open>Approval_Store\<close>: the store of \<^verbatim>\<open>approval/store.rs\<close> with its lock, every operation on it,
      the attestation of \<^verbatim>\<open>approval/attestation.rs\<close> and the gate of the commit tools.
      \<^verbatim>\<open>Approval_Pay\<close>: how the simulating tools of the MCP server store their requests.
      \<^verbatim>\<open>Approval_Lifecycle\<close>: runs of all operations as a labelled step relation \<^verbatim>\<open>system_step\<close>,
      with the invariants of the file through the locale \<^verbatim>\<open>approval_invariant\<close>.
      \<^verbatim>\<open>Approval_Safety\<close>: what holds along these runs.  \<^verbatim>\<open>Approval_Witness\<close>: a concrete library
      of codecs and a payment from request to commit.
    \<^item> \<^verbatim>\<open>Timefmt\<close>: the timestamp formatter of \<^verbatim>\<open>timefmt.rs\<close> and the parser of \<^verbatim>\<open>audit_log/verify.rs\<close>.
    \<^item> \<^verbatim>\<open>Audit_Log\<close>: entries, hash chain, verifier, tip anchor, the backward line scan and the
      pruning of archives.  \<^verbatim>\<open>Audit_Chain\<close>: what the verifier establishes.  \<^verbatim>\<open>Audit_Witness\<close>: a
      concrete codec with concrete logs.

  \<^bold>\<open>What the lemmas show.\<close>  The engine never lets the spending in a window, the debits of a
  call, the transfers of a bundle or the number of calls exceed the configured limits, and it
  refuses effects it cannot size; a policy file is loaded only with the owner's signature on
  its canonical bytes, the signature fixes the rules, and every loaded rule is well-formed; the
  durable store keeps these limits across processes,
  crashes and replaced files, and the in-memory windows agree with it; a nonce commits once and
  only for its request; the commit gate accepts only what an operator attested, with the audit
  row of the consent written first, and never again once the entry is consumed or rejected; the
  approval file stays within its bound and every file the operations write can be opened, and
  opening gives up after its retries; printing and parsing of amounts, timestamps and hex strings are inverse
  to each other; a verified audit log is one hash chain, its tip fixes every entry, and an
  anchored entry cannot disappear.  Some theorems state where the code falls short of its
  documentation: a nonce with a changed salt commits again, pruning an archive breaks
  verification, and a payment whose memo is not printable leaves an approval file that no
  operation can open.

  \<^bold>\<open>Parameters and assumptions.\<close>  SHA-256, HMAC, BLAKE3, Ed25519, base64, strkeys and the JSON and
  TOML codecs are third-party code and are arguments (\<^verbatim>\<open>backend\<close>, \<^verbatim>\<open>nonce_crypto\<close>,
  \<^verbatim>\<open>audit_codec\<close>, \<^verbatim>\<open>policy_lib\<close>, \<^verbatim>\<open>approval_lib\<close>, \<^verbatim>\<open>strkey\<close>).
  What is relied on is a named predicate: \<^verbatim>\<open>backend_laws\<close> (the file codec inverts itself and
  digests have 32 bytes), \<^verbatim>\<open>json_laws\<close> (an accepted text has an opening brace, and no proper
  prefix of an accepted text is another entry), and for the approvals \<^verbatim>\<open>toml_law\<close>, \<^verbatim>\<open>b64_law\<close>
  (the TOML and base64 codecs invert themselves) and \<^verbatim>\<open>digest_law\<close> (digests have 32 bytes); the witness theories satisfy them.  Nothing is
  assumed of the hash functions: the theorems conclude the property or name two distinct
  messages of the run on which the function collides.

  \<^bold>\<open>Integers, loops, fuel.\<close>  Machine integers are \<^typ>\<open>int\<close> or \<^typ>\<open>nat\<close> with the saturating, checked
  or wrapping operation of the source written out.  Every loop is a terminating recursion:
  structural, or with a measure (the year and month loops of the calendar, the backward line
  scan, trimming, the retries of opening the approval store, bounded by the number of attempts
  the caller asks for); no definition takes fuel.

  \<^bold>\<open>Not modelled.\<close>  Locks and threads (an operation is one step; where an interleaving matters
  the steps are stated separately, as in the nonce commit); the writing half of the audit log;
  the display views and the operator credentials of the approvals; network clients and RPC; key derivation
  and signing; the MCP server, command line and web surfaces, which are I/O around the modelled
  parts; DeFi, SEP, x402 and toolset crates; the operating-system specific parts.
\<close>

end
